(* ===== verification/WM_Prelude.thy ===== *)
theory WM_Prelude
  imports Complex_Main "HOL-Library.AList" "HOL-Library.List_Lexorder" "HOL-Library.Char_ord" "HOL-Library.Multiset"
begin

text \<open>
  Shared vocabulary of the weathermap development.  A JavaScript \<open>number\<close> is
  modelled as an exact \<open>real\<close> (the IEEE rounding of the source is not
  modelled, and neither is NaN); an identifier or a message is a \<open>string\<close>; a
  JavaScript object used as a dictionary (\<open>Record<string, T>\<close>, whose
  \<open>Object.values\<close> follow insertion order) is an association list updated in
  place by \<open>AList.update\<close>.  The prelude also holds \<open>hypot\<close>, the model of
  \<open>Math.hypot\<close> on two arguments, with the lemmas on it that the geometry
  uses, and the collection \<open>wm_simps\<close> of the evaluation rules the
  component theories share.
\<close>

named_theorems wm_simps "evaluation rules shared by the weathermap components"

type_synonym number = real
type_synonym ident = string
type_synonym 'v js_object = "(string \<times> 'v) list"

definition hypot :: "real \<Rightarrow> real \<Rightarrow> real" where
  "hypot a b = sqrt (a\<^sup>2 + b\<^sup>2)"

abbreviation obj_get :: "'v js_object \<Rightarrow> string \<Rightarrow> 'v option" where
  "obj_get m k \<equiv> map_of m k"

abbreviation obj_set :: "string \<Rightarrow> 'v \<Rightarrow> 'v js_object \<Rightarrow> 'v js_object" where
  "obj_set k v m \<equiv> AList.update k v m"

abbreviation obj_values :: "'v js_object \<Rightarrow> 'v list" where
  "obj_values m \<equiv> map snd m"

subsection \<open>Math.hypot\<close>

lemma hypot_nonneg [simp]: "0 \<le> hypot a b"
  by (simp add: hypot_def)

lemma hypot_eq_0_iff [simp]: "hypot a b = 0 \<longleftrightarrow> a = 0 \<and> b = 0"
  by (simp add: hypot_def)

lemma hypot_pos_iff: "0 < hypot a b \<longleftrightarrow> a \<noteq> 0 \<or> b \<noteq> 0"
  using hypot_nonneg [of a b] hypot_eq_0_iff [of a b] by linarith

lemma hypot_scale: "hypot (t * a) (t * b) = \<bar>t\<bar> * hypot a b"
proof -
  have "(t * a)\<^sup>2 + (t * b)\<^sup>2 = t\<^sup>2 * (a\<^sup>2 + b\<^sup>2)"
    by (simp add: power_mult_distrib algebra_simps)
  then show ?thesis
    by (simp add: hypot_def real_sqrt_mult)
qed

lemma hypot_sq: "(hypot a b)\<^sup>2 = a\<^sup>2 + b\<^sup>2"
  by (simp add: hypot_def)

lemma hypot_uminus [simp]: "hypot (- a) (- b) = hypot a b"
  by (simp add: hypot_def)

lemma hypot_swap: "hypot a b = hypot b a"
  by (simp add: hypot_def add.commute)

lemma hypot_ge_abs1: "\<bar>a\<bar> \<le> hypot a b"
  by (simp add: hypot_def real_sqrt_ge_abs1)

lemma hypot_axis [simp]: "hypot a 0 = \<bar>a\<bar>" "hypot 0 b = \<bar>b\<bar>"
  by (simp_all add: hypot_def)

lemma hypot_of_square:
  assumes "a\<^sup>2 + b\<^sup>2 = c\<^sup>2" "0 \<le> c"
  shows "hypot a b = c"
  using assms by (simp add: hypot_def)

subsection \<open>Lists and options\<close>

text \<open>\<open>Array.prototype.indexOf\<close>: the first index of an element, \<open>-1\<close> when absent.\<close>

fun indexOf :: "'a list \<Rightarrow> 'a \<Rightarrow> int" where
  "indexOf [] x = -1"
| "indexOf (y # ys) x = (if x = y then 0 else (let i = indexOf ys x in if i < 0 then -1 else i + 1))"

lemma indexOf_ge: "-1 \<le> indexOf xs x"
  by (induction xs) (auto simp: Let_def)

lemma indexOf_nonneg_iff: "0 \<le> indexOf xs x \<longleftrightarrow> x \<in> set xs"
  by (induction xs) (auto simp: Let_def)

text \<open>\<open>Array.prototype.join\<close> with a separator.\<close>

fun join :: "'a list \<Rightarrow> 'a list list \<Rightarrow> 'a list" where
  "join sep [] = []"
| "join sep [w] = w"
| "join sep (w # ws) = w @ sep @ join sep ws"

lemma join_Cons_Cons [simp]: "ws \<noteq> [] \<Longrightarrow> join sep (w # ws) = w @ sep @ join sep ws"
  by (cases ws) simp_all

lemma map_of_update_same [wm_simps]: "map_of (AList.update k v m) k = Some v"
  by (simp add: update_conv')

lemma map_of_update_other [wm_simps]: "k' \<noteq> k \<Longrightarrow> map_of (AList.update k v m) k' = map_of m k'"
  by (simp add: update_conv')

lemma set_update_values:
  "set (map snd (AList.update k v m)) \<subseteq> insert v (set (map snd m))"
  by (induction m) auto

lemma update_keys [wm_simps]: "map fst (AList.update k v m) = (if k \<in> set (map fst m) then map fst m else map fst m @ [k])"
  by (induction m) auto

lemma update_keys_present: "map_of m k = Some v \<Longrightarrow> map fst (AList.update k v' m) = map fst m"
  by (auto simp: update_keys dest: map_of_SomeD intro: rev_image_eqI)

subsection \<open>Objects built by a loop\<close>

lemma foldl_obj_set_keys:
  "fst ` set (foldl (\<lambda>acc x. obj_set (k x) (f acc x) acc) m xs) = fst ` set m \<union> k ` set xs"
  by (induction xs arbitrary: m) (auto simp: dom_update)

lemma foldl_obj_set_lookup:
  "map_of (foldl (\<lambda>acc x. obj_set (k x) (f x) acc) m xs) key =
     (case filter (\<lambda>x. k x = key) (rev xs) of [] \<Rightarrow> map_of m key | x # _ \<Rightarrow> Some (f x))"
  by (induction xs arbitrary: m) (auto simp: map_of_update_same map_of_update_other split: list.splits)

lemma foldl_obj_set_values:
  "set (map snd (foldl (\<lambda>acc x. obj_set (k x) (f x) acc) m xs)) \<subseteq> set (map snd m) \<union> f ` set xs"
proof (induction xs arbitrary: m)
  case Nil then show ?case by simp
next
  case (Cons x xs)
  have "set (map snd (obj_set (k x) (f x) m)) \<subseteq> set (map snd m) \<union> f ` set (x # xs)"
    using set_update_values [of "k x" "f x" m] by auto
  with Cons.IH [of "obj_set (k x) (f x) m"] show ?case by auto
qed

lemma filter_key_singleton:
  "distinct (map k xs) \<Longrightarrow> x \<in> set xs \<Longrightarrow> filter (\<lambda>y. k y = k x) xs = [x]"
  by (induction xs) (auto simp: filter_empty_conv rev_image_eqI)
lemma foldl_obj_set_distinct:
  assumes "distinct (map k xs)" "x \<in> set xs"
  shows "map_of (foldl (\<lambda>acc y. obj_set (k y) (f y) acc) m xs) (k x) = Some (f x)"
proof -
  have "filter (\<lambda>y. k y = k x) (rev xs) = [x]"
    using assms by (simp add: filter_key_singleton rev_map [symmetric])
  then show ?thesis by (simp add: foldl_obj_set_lookup)
qed

subsection \<open>A map that throws\<close>

text \<open>\<open>xs.map(f)\<close> where \<open>f\<close> may throw: the first error aborts the map.\<close>

fun map_sum :: "('a \<Rightarrow> 'e + 'b) \<Rightarrow> 'a list \<Rightarrow> 'e + 'b list" where
  "map_sum f [] = Inr []"
| "map_sum f (x # xs) =
     (case f x of Inl e \<Rightarrow> Inl e | Inr y \<Rightarrow> (case map_sum f xs of Inl e \<Rightarrow> Inl e | Inr ys \<Rightarrow> Inr (y # ys)))"

lemma map_sum_Inr_iff: "map_sum f xs = Inr ys \<longleftrightarrow> list_all2 (\<lambda>x y. f x = Inr y) xs ys"
proof (induction xs arbitrary: ys)
  case (Cons x xs)
  then show ?case
    by (cases "f x"; cases "map_sum f xs") (auto simp: list_all2_Cons1)
qed auto

lemma map_sum_Inr_map: "(\<And>x. x \<in> set xs \<Longrightarrow> f x = Inr (g x)) \<Longrightarrow> map_sum f xs = Inr (map g xs)"
  by (induction xs) simp_all

lemma map_sum_cong: "(\<And>x. x \<in> set xs \<Longrightarrow> f x = g x) \<Longrightarrow> map_sum f xs = map_sum g xs"
  by (induction xs) (auto split: sum.splits)

lemma map_sum_map_Inr:
  "(\<And>x. x \<in> set xs \<Longrightarrow> f (g x) = (case f' x of Inl e \<Rightarrow> Inl e | Inr y \<Rightarrow> Inr (h y))) \<Longrightarrow>
     map_sum f (map g xs) = (case map_sum f' xs of Inl e \<Rightarrow> Inl e | Inr ys \<Rightarrow> Inr (map h ys))"
proof (induction xs)
  case (Cons x xs)
  then show ?case by (cases "f' x"; cases "map_sum f' xs") simp_all
qed simp

lemma map_sum_Inl: "map_sum f xs = Inl e \<Longrightarrow> \<exists>x \<in> set xs. f x = Inl e"
  by (induction xs) (auto split: sum.splits)

subsection \<open>Sorting with a comparator\<close>

text \<open>\<open>Array.prototype.sort(compare)\<close>: the sort is stable, so for a comparator
  that is a total preorder its result is the insertion sort below, which puts
  each element after the elements it does not precede.\<close>

fun insort_cmp :: "('a \<Rightarrow> 'a \<Rightarrow> int) \<Rightarrow> 'a \<Rightarrow> 'a list \<Rightarrow> 'a list" where
  "insort_cmp c x [] = [x]"
| "insort_cmp c x (y # ys) = (if c x y < 0 then x # y # ys else y # insort_cmp c x ys)"

definition sort_by_cmp :: "('a \<Rightarrow> 'a \<Rightarrow> int) \<Rightarrow> 'a list \<Rightarrow> 'a list" where
  "sort_by_cmp c xs = foldl (\<lambda>acc x. insort_cmp c x acc) [] xs"

lemma mset_insort_cmp [simp]: "mset (insort_cmp c x xs) = add_mset x (mset xs)"
  by (induction xs) auto

lemma mset_sort_by_cmp [simp]: "mset (sort_by_cmp c xs) = mset xs"
proof -
  have "mset (foldl (\<lambda>acc x. insort_cmp c x acc) a xs) = mset a + mset xs" for a
    by (induction xs arbitrary: a) simp_all
  then show ?thesis by (simp add: sort_by_cmp_def)
qed

lemma length_sort_by_cmp [simp]: "length (sort_by_cmp c xs) = length xs"
  by (metis mset_sort_by_cmp size_mset)

lemma set_sort_by_cmp [simp]: "set (sort_by_cmp c xs) = set xs"
  by (metis mset_sort_by_cmp set_mset_mset)

text \<open>A comparator that orders by a key, largest first (\<open>(a, b) => key(b) - key(a)\<close>),
  sorts by that key.\<close>

lemma sorted_insort_cmp_key:
  fixes k :: "'a \<Rightarrow> 'b::linorder"
  assumes c: "\<And>x y. c x y < 0 \<longleftrightarrow> k y < k x"
  shows "sorted_wrt (\<lambda>x y. k y \<le> k x) xs \<Longrightarrow> sorted_wrt (\<lambda>x y. k y \<le> k x) (insort_cmp c x xs)"
proof (induction xs)
  case (Cons y ys)
  show ?case
  proof (cases "c x y < 0")
    case True
    then show ?thesis using Cons.prems c [of x y] by (auto intro: order.trans less_imp_le)
  next
    case False
    then have "k x \<le> k y" using c [of x y] by simp
    moreover have "set (insort_cmp c x ys) = insert x (set ys)" by (simp flip: set_mset_mset)
    ultimately show ?thesis using False Cons by auto
  qed
qed simp

lemma sorted_sort_by_cmp_key:
  fixes k :: "'a \<Rightarrow> 'b::linorder"
  shows "(\<And>x y. c x y < 0 \<longleftrightarrow> k y < k x) \<Longrightarrow> sorted_wrt (\<lambda>x y. k y \<le> k x) (sort_by_cmp c xs)"
proof -
  assume c: "\<And>x y. c x y < 0 \<longleftrightarrow> k y < k x"
  have "sorted_wrt (\<lambda>x y. k y \<le> k x) acc \<Longrightarrow>
          sorted_wrt (\<lambda>x y. k y \<le> k x) (foldl (\<lambda>acc x. insort_cmp c x acc) acc xs)" for acc
    by (induction xs arbitrary: acc) (simp_all add: sorted_insort_cmp_key [OF c])
  then show ?thesis by (simp add: sort_by_cmp_def)
qed

text \<open>Default \<open>Array.prototype.sort()\<close> on strings and \<open>String.prototype.localeCompare\<close>
  restricted to code-unit order: \<open>-1\<close>, \<open>0\<close> or \<open>1\<close> by the lexicographic order
  of the characters.\<close>

definition code_unit_compare :: "string \<Rightarrow> string \<Rightarrow> int" where
  "code_unit_compare a b = (if a < b then -1 else if a = b then 0 else 1)"

subsection \<open>Decimal numerals\<close>

text \<open>\<open>String(n)\<close> for a natural number \<open>n\<close>, as template literals print an index.\<close>

fun string_of_nat :: "nat \<Rightarrow> string" where
  "string_of_nat n = (if n < 10 then [char_of (48 + n)] else string_of_nat (n div 10) @ [char_of (48 + n mod 10)])"

declare string_of_nat.simps [simp del]

lemma string_of_nat_nonempty: "string_of_nat n \<noteq> []"
  by (subst string_of_nat.simps) simp

text \<open>The last \<open>k\<close> decimal digits of \<open>n\<close>, most significant first: what
  \<open>String(n)\<close> prints for an \<open>n\<close> of exactly \<open>k\<close> digits, and what
  \<open>padStart(k, "0")\<close> makes of a shorter one.\<close>

fun digits_fixed :: "nat \<Rightarrow> nat \<Rightarrow> string" where
  "digits_fixed 0 n = []"
| "digits_fixed (Suc k) n = digits_fixed k (n div 10) @ [char_of (48 + n mod 10)]"

lemma length_digits_fixed [simp]: "length (digits_fixed k n) = k"
  by (induction k arbitrary: n) simp_all

lemma less_append_same_length:
  "length xs = length ys \<Longrightarrow> (xs @ us < ys @ vs) \<longleftrightarrow> xs < ys \<or> (xs = ys \<and> us < vs)"
  for xs ys us vs :: "'a::linorder list"
  by (induction xs ys rule: list_induct2) (auto simp: Cons_less_Cons)

lemma digit_char_less:
  "a < 10 \<Longrightarrow> b < 10 \<Longrightarrow> (char_of (48 + a) < (char_of (48 + b) :: char)) \<longleftrightarrow> a < b"
  for a b :: nat
  by (simp add: less_char_def of_char_of)

lemma digit_char_eq:
  "a < 10 \<Longrightarrow> b < 10 \<Longrightarrow> (char_of (48 + a) = (char_of (48 + b) :: char)) \<longleftrightarrow> a = b"
  for a b :: nat
  by (metis digit_char_less less_irrefl nat_neq_iff)

lemma div_mod_eq_iff: "n div d = m div d \<Longrightarrow> n mod d = m mod d \<Longrightarrow> n = m" for n m d :: nat
  by (metis div_mult_mod_eq)

lemma decimal_less:
  "r < 10 \<Longrightarrow> s < 10 \<Longrightarrow> (10 * a + r < 10 * b + s) \<longleftrightarrow> a < b \<or> (a = b \<and> r < s)"
  for a b r s :: nat
  by arith

lemma digits_fixed_order:
  "n < 10 ^ k \<Longrightarrow> m < 10 ^ k \<Longrightarrow>
     (digits_fixed k n < digits_fixed k m \<longleftrightarrow> n < m) \<and> (digits_fixed k n = digits_fixed k m \<longleftrightarrow> n = m)"
proof (induction k arbitrary: n m)
  case (Suc k)
  have q: "n div 10 < 10 ^ k" "m div 10 < 10 ^ k" using Suc.prems by (simp_all add: less_mult_imp_div_less mult.commute)
  note IH = Suc.IH [OF q]
  have "n < m \<longleftrightarrow> n div 10 < m div 10 \<or> (n div 10 = m div 10 \<and> n mod 10 < m mod 10)"
    using decimal_less [of "n mod 10" "m mod 10" "n div 10" "m div 10"] by simp
  then show ?case
    using IH div_mod_eq_iff [where n = n and m = m and d = 10]
    by (auto simp: less_append_same_length Cons_less_Cons digit_char_less digit_char_eq)
qed simp

lemma string_of_nat_digit: "n < 10 \<Longrightarrow> string_of_nat n = [char_of (48 + n)]"
  by (simp add: string_of_nat.simps)

lemma string_of_nat_step: "10 \<le> n \<Longrightarrow> string_of_nat n = string_of_nat (n div 10) @ [char_of (48 + n mod 10)]"
  by (subst string_of_nat.simps) simp

lemma string_of_nat_fixed: "10 ^ k \<le> n \<Longrightarrow> n < 10 ^ Suc k \<Longrightarrow> string_of_nat n = digits_fixed (Suc k) n"
proof (induction k arbitrary: n)
  case 0
  then show ?case by (simp add: string_of_nat_digit)
next
  case (Suc k)
  have "10 ^ k \<le> n div 10" "n div 10 < 10 ^ Suc k"
    using Suc.prems by (simp_all add: div_le_mono [of "10 ^ Suc k" n 10, simplified] less_mult_imp_div_less mult.commute)
  moreover have "10 \<le> n"
  proof -
    have "(10::nat) \<le> 10 * 10 ^ k" by simp
    then show ?thesis using Suc.prems(1) by (simp only: power_Suc)
  qed
  ultimately show ?case using Suc.IH [of "n div 10"] by (simp add: string_of_nat_step [of n])
qed

lemma digits_fixed_add: "digits_fixed (m + k) n = digits_fixed m (n div 10 ^ k) @ digits_fixed k n"
  by (induction k arbitrary: n) (simp_all add: div_mult2_eq mult.commute)

lemma digits_fixed_2: "digits_fixed 2 n = [char_of (48 + n div 10 mod 10), char_of (48 + n mod 10)]"
  by (simp add: numeral_2_eq_2)

lemma digits_fixed_4: "digits_fixed 4 n = digits_fixed 2 (n div 100) @ digits_fixed 2 n"
  using digits_fixed_add [of 2 2 n] by simp

lemma char_zero: "CHR ''0'' = char_of (48::nat)"
proof -
  have "of_char (CHR ''0'') = (48::nat)" by simp
  then show ?thesis by (metis char_of_char)
qed

end
