(* ===== verification/WM_Types.thy ===== *)
theory WM_Types
  imports WM_Prelude
begin

text \<open>
  The data model shared by the back end and both renderers, from
  \<open>src/shared/types.ts\<close> (staged at the end of
  \<open>src/src/shared/path-utils.ts\<close>): positions, the topology definitions the
  configuration loader produces, the metric status and the metrics payload one
  poll cycle publishes.  Optional TypeScript fields (\<open>x?: T\<close>, \<open>T | null\<close>)
  are \<open>option\<close>s.  Record fields carry a short prefix where the source reuses a
  field name across interfaces (\<open>id\<close>, \<open>label\<close>, \<open>status\<close>, \<open>error\<close>).
  \<open>metric_status\<close> is ordered by the sampler's \<open>STATUS_ORDER\<close>
  (\<open>src/src/snmp.ts\<close>), so that the library's \<open>linorder\<close> automation
  (\<open>max\<close>, \<open>Max\<close>) applies to it.
\<close>

record position =
  pos_x :: number
  pos_y :: number

record interface_definition =
  if_name :: string
  if_displayName :: "string option"
  if_maxBandwidth :: "number option"
  if_speedOid :: "string option"

record router_definition =
  rd_id :: ident
  rd_label :: string
  rd_position :: position
  rd_interfaces :: "interface_definition list"

record link_definition =
  ld_id :: ident
  ld_from :: ident
  ld_to :: ident
  ld_ifaceFrom :: string
  ld_ifaceTo :: string
  ld_label :: "string option"
  ld_path :: "position list option"

record map_size =
  ms_width :: number
  ms_height :: number

record topology_definition =
  title :: "string option"
  backgroundImage :: string
  mapSize :: "map_size option"
  pollIntervalMs :: number
  routers :: "router_definition list"
  links :: "link_definition list"

datatype metric_status = Ok | Warning | Critical | Error

record interface_metrics =
  im_name :: string
  inBps :: number
  outBps :: number
  inUtilization :: number
  outUtilization :: number
  im_status :: metric_status
  maxBandwidth :: number
  fresh :: bool
  im_error :: "string option"

record router_metrics =
  rm_id :: ident
  rm_label :: string
  rm_status :: metric_status
  rm_interfaces :: "interface_metrics js_object"
  rm_error :: "string option"

record link_metrics =
  lm_id :: ident
  lm_label :: "string option"
  lm_from :: ident
  lm_to :: ident
  forward :: "interface_metrics option"
  reverse :: "interface_metrics option"
  aggregateUtilization :: "number option"

record metrics_payload =
  mp_timestamp :: string
  mp_routers :: "router_metrics js_object"
  mp_links :: "link_metrics list"

datatype server_message =
    MetricsMsg metrics_payload
  | TopologyMsg topology_definition

subsection \<open>The severity order of statuses\<close>

text \<open>\<open>STATUS_ORDER = ["ok", "warning", "critical", "error"]\<close>: the rank of a
  status is its index there (\<open>STATUS_ORDER.indexOf\<close>).\<close>

definition STATUS_ORDER :: "metric_status list" where
  "STATUS_ORDER = [Ok, Warning, Critical, Error]"

primrec status_index :: "metric_status \<Rightarrow> nat" where
  "status_index Ok = 0"
| "status_index Warning = 1"
| "status_index Critical = 2"
| "status_index Error = 3"

lemma status_index_is_indexOf: "int (status_index s) = indexOf STATUS_ORDER s"
  by (cases s) (simp_all add: STATUS_ORDER_def)

lemma status_index_inj: "status_index a = status_index b \<longleftrightarrow> a = b"
  by (cases a; cases b) simp_all

lemma status_index_le_3 [simp]: "status_index s \<le> 3"
  by (cases s) simp_all

instantiation metric_status :: linorder
begin

definition less_eq_metric_status :: "metric_status \<Rightarrow> metric_status \<Rightarrow> bool" where
  "less_eq_metric_status a b \<longleftrightarrow> status_index a \<le> status_index b"

definition less_metric_status :: "metric_status \<Rightarrow> metric_status \<Rightarrow> bool" where
  "less_metric_status a b \<longleftrightarrow> status_index a < status_index b"

instance
proof
  fix a b c :: metric_status
  show "a < b \<longleftrightarrow> a \<le> b \<and> \<not> b \<le> a"
    by (auto simp: less_eq_metric_status_def less_metric_status_def)
  show "a \<le> a" by (simp add: less_eq_metric_status_def)
  show "a \<le> b \<Longrightarrow> b \<le> c \<Longrightarrow> a \<le> c" by (simp add: less_eq_metric_status_def)
  show "a \<le> b \<Longrightarrow> b \<le> a \<Longrightarrow> a = b"
    by (simp add: less_eq_metric_status_def status_index_inj [symmetric])
  show "a \<le> b \<or> b \<le> a" by (auto simp: less_eq_metric_status_def)
qed

end

lemma status_le_Error [simp]: "s \<le> Error"
  by (cases s) (simp_all add: less_eq_metric_status_def)

lemma Ok_le_status [simp]: "Ok \<le> s"
  by (simp add: less_eq_metric_status_def)

lemma Error_le_iff [simp]: "Error \<le> s \<longleftrightarrow> s = Error"
  by (cases s) (simp_all add: less_eq_metric_status_def)

lemma status_less_iff_index: "a < b \<longleftrightarrow> status_index a < status_index b"
  by (simp add: less_metric_status_def)

lemma status_chain: "Ok < Warning" "Warning < Critical" "Critical < Error"
  by (simp_all add: less_metric_status_def)

end
