(* ===== verification/Geometry.thy ===== *)
theory Geometry
  imports WM_Types
begin

text \<open>
  The geometry engine: \<open>splitPathAtHalf\<close> (\<open>src/src/shared/path-utils.ts\<close>),
  which bisects a polyline by arc length so that a link can be drawn as two
  independently coloured halves, and the fan-out of parallel links
  (\<open>computeAutoPath\<close>, \<open>computeLinkPaths\<close>) with the stroke width
  \<open>capacityToWidth\<close> of the offline renderer (\<open>src/src/map-renderer.ts\<close>).
  Points are exact reals; \<open>Math.hypot\<close> is \<^const>\<open>hypot\<close>.  The lemmas show
  that both halves of a path of positive length have exactly half its length
  and together retrace it, the degenerate cases, the fan-out offsets of a
  group, and the bounds and monotonicity of the stroke width.
\<close>

subsection \<open>splitPathAtHalf\<close>

record split_path_result =
  sp_midpoint :: position
  sp_firstHalf :: "position list"
  sp_secondHalf :: "position list"

definition origin :: position where
  "origin = \<lparr>pos_x = 0, pos_y = 0\<rparr>"

text \<open>\<open>Math.hypot(end.x - start.x, end.y - start.y)\<close>\<close>

definition seg_length :: "position \<Rightarrow> position \<Rightarrow> number" where
  "seg_length s e = hypot (pos_x e - pos_x s) (pos_y e - pos_y s)"

definition segmentLengths :: "position list \<Rightarrow> number list" where
  "segmentLengths path = map (\<lambda>i. seg_length (path ! i) (path ! Suc i)) [0..<length path - 1]"

text \<open>\<open>{ x: start.x + (end.x - start.x) * ratio, y: ... }\<close>\<close>

definition lerp_point :: "position \<Rightarrow> position \<Rightarrow> number \<Rightarrow> position" where
  "lerp_point s e ratio =
     \<lparr>pos_x = pos_x s + (pos_x e - pos_x s) * ratio, pos_y = pos_y s + (pos_y e - pos_y s) * ratio\<rparr>"

text \<open>The walk over the segments, the loop index \<open>i\<close> and \<open>accumulated\<close>
  carried along; the empty remainder is the fallback after the loop.\<close>

fun split_walk :: "position list \<Rightarrow> number \<Rightarrow> number \<Rightarrow> nat \<Rightarrow> number list \<Rightarrow> split_path_result" where
  "split_walk path halfway accumulated i [] =
     (let p = last path in \<lparr>sp_midpoint = p, sp_firstHalf = path, sp_secondHalf = [p]\<rparr>)"
| "split_walk path halfway accumulated i (len # lens) =
     (if accumulated + len \<ge> halfway then
        (let remaining = halfway - accumulated;
             ratio = (if len = 0 then 0 else remaining / len);
             mid = lerp_point (path ! i) (path ! Suc i) ratio
         in \<lparr>sp_midpoint = mid, sp_firstHalf = take (Suc i) path @ [mid], sp_secondHalf = mid # drop (Suc i) path\<rparr>)
      else split_walk path halfway (accumulated + len) (Suc i) lens)"

definition splitPathAtHalf :: "position list \<Rightarrow> split_path_result" where
  "splitPathAtHalf path =
     (if path = [] then \<lparr>sp_midpoint = origin, sp_firstHalf = [origin], sp_secondHalf = [origin]\<rparr>
      else if length path = 1 then
        (let p = hd path in \<lparr>sp_midpoint = p, sp_firstHalf = [p], sp_secondHalf = [p]\<rparr>)
      else
        (let lens = segmentLengths path;
             totalLength = foldl (+) 0 lens
         in if totalLength = 0 then
              (let mid = path ! (length path div 2)
               in \<lparr>sp_midpoint = mid, sp_firstHalf = [hd path, mid], sp_secondHalf = [mid, last path]\<rparr>)
            else split_walk path (totalLength / 2) 0 0 lens))"

subsection \<open>computeAutoPath\<close>

text \<open>\<open>Math.hypot(dx, dy) || 1\<close>: a zero length (coincident endpoints) is replaced by 1.\<close>

definition auto_length :: "position \<Rightarrow> position \<Rightarrow> number" where
  "auto_length p_from p_to =
     (let h = hypot (pos_x p_to - pos_x p_from) (pos_y p_to - pos_y p_from) in if h = 0 then 1 else h)"

definition auto_spacing :: "position \<Rightarrow> position \<Rightarrow> number" where
  "auto_spacing p_from p_to = min 160 (max 40 (auto_length p_from p_to / 3))"

definition auto_offset :: "position \<Rightarrow> position \<Rightarrow> number \<Rightarrow> number \<Rightarrow> number" where
  "auto_offset p_from p_to groupSize index = (index - (groupSize - 1) / 2) * auto_spacing p_from p_to"

text \<open>\<open>control = midpoint + normalizedPerp * offset\<close>\<close>

definition auto_control :: "position \<Rightarrow> position \<Rightarrow> number \<Rightarrow> position" where
  "auto_control p_from p_to offset =
     (let dx = pos_x p_to - pos_x p_from; dy = pos_y p_to - pos_y p_from; len = auto_length p_from p_to
      in \<lparr>pos_x = pos_x p_from + dx / 2 + (- dy / len) * offset, pos_y = pos_y p_from + dy / 2 + (dx / len) * offset\<rparr>)"

definition computeAutoPath :: "position \<Rightarrow> position \<Rightarrow> number \<Rightarrow> number \<Rightarrow> position list" where
  "computeAutoPath p_from p_to groupSize index =
     (let offset = auto_offset p_from p_to groupSize index
      in if groupSize = 1 \<or> \<bar>offset\<bar> < 1 then [p_from, p_to] else [p_from, auto_control p_from p_to offset, p_to])"

subsection \<open>capacityToWidth\<close>

definition MIN_LINK_WIDTH :: number where "MIN_LINK_WIDTH = 2"
definition MAX_LINK_WIDTH :: number where "MAX_LINK_WIDTH = 14"

record cap_range =
  cr_min :: number
  cr_max :: number

text \<open>\<open>!capacity\<close> holds for \<open>null\<close> and for \<open>0\<close>; \<open>Math.log\<close> is \<^const>\<open>ln\<close>.\<close>

definition capacityToWidth :: "number option \<Rightarrow> cap_range option \<Rightarrow> number" where
  "capacityToWidth capacity crange =
     (case (capacity, crange) of
        (Some c, Some r) \<Rightarrow>
          if c = 0 then MIN_LINK_WIDTH
          else if c \<le> 0 \<or> cr_min r \<le> 0 then MIN_LINK_WIDTH
          else if cr_max r = cr_min r then (MIN_LINK_WIDTH + MAX_LINK_WIDTH) / 2
          else
            (let logMin = ln (cr_min r); logMax = ln (cr_max r); logValue = ln c;
                 t = min 1 (max 0 ((logValue - logMin) / (logMax - logMin)))
             in MIN_LINK_WIDTH + (MAX_LINK_WIDTH - MIN_LINK_WIDTH) * t)
      | _ \<Rightarrow> MIN_LINK_WIDTH)"

subsection \<open>computeLinkPaths\<close>

text \<open>\<open>buildRouterMap\<close>: a \<open>Map\<close> from router id to definition, a later
  router overwriting an earlier one with the same id.\<close>

definition buildRouterMap :: "router_definition list \<Rightarrow> router_definition js_object" where
  "buildRouterMap rs = foldl (\<lambda>m r. obj_set (rd_id r) r m) [] rs"

definition manual_path_entry ::
  "router_definition js_object \<Rightarrow> position list js_object \<Rightarrow> link_definition \<Rightarrow> position list js_object" where
  "manual_path_entry routerMap acc link =
     (case ld_path link of
        None \<Rightarrow> acc
      | Some pts \<Rightarrow>
          if pts = [] then acc
          else (case (obj_get routerMap (ld_from link), obj_get routerMap (ld_to link)) of
                  (Some fr, Some tr) \<Rightarrow> obj_set (ld_id link) ([rd_position fr] @ pts @ [rd_position tr]) acc
                | _ \<Rightarrow> acc))"

text \<open>\<open>[link.from, link.to].sort().join("::")\<close>\<close>

definition group_key :: "link_definition \<Rightarrow> string" where
  "group_key link =
     join ''::'' (if ld_to link < ld_from link then [ld_to link, ld_from link] else [ld_from link, ld_to link])"

definition add_to_group :: "link_definition list js_object \<Rightarrow> link_definition \<Rightarrow> link_definition list js_object" where
  "add_to_group groupMap link =
     (let key = group_key link;
          grp = (case obj_get groupMap key of Some g \<Rightarrow> g | None \<Rightarrow> [])
      in obj_set key (grp @ [link]) groupMap)"

definition link_path_entry ::
  "router_definition js_object \<Rightarrow> position list js_object \<Rightarrow> nat \<Rightarrow> position list js_object \<Rightarrow> nat \<times> link_definition \<Rightarrow>
   position list js_object" where
  "link_path_entry routerMap manualPaths groupSize paths il =
     (case il of (index, link) \<Rightarrow>
       (case obj_get manualPaths (ld_id link) of
          Some mp \<Rightarrow> obj_set (ld_id link) mp paths
        | None \<Rightarrow>
            (case (obj_get routerMap (ld_from link), obj_get routerMap (ld_to link)) of
               (Some fr, Some tr) \<Rightarrow>
                 obj_set (ld_id link) (computeAutoPath (rd_position fr) (rd_position tr) (real groupSize) (real index)) paths
             | _ \<Rightarrow> paths)))"

text \<open>One group: sorted by \<open>a.id.localeCompare(b.id)\<close>, the comparator being
  the parameter \<open>localeCompare\<close>.\<close>

definition group_paths ::
  "(string \<Rightarrow> string \<Rightarrow> int) \<Rightarrow> router_definition js_object \<Rightarrow> position list js_object \<Rightarrow>
   position list js_object \<Rightarrow> link_definition list \<Rightarrow> position list js_object" where
  "group_paths localeCompare routerMap manualPaths paths grp =
     (let sorted = sort_by_cmp (\<lambda>a b. localeCompare (ld_id a) (ld_id b)) grp
      in foldl (link_path_entry routerMap manualPaths (length sorted)) paths (enumerate 0 sorted))"

definition computeLinkPaths :: "(string \<Rightarrow> string \<Rightarrow> int) \<Rightarrow> topology_definition \<Rightarrow> position list js_object" where
  "computeLinkPaths localeCompare topology =
     (let routerMap = buildRouterMap (routers topology);
          manualPaths = foldl (manual_path_entry routerMap) [] (links topology);
          groupMap = foldl add_to_group [] (links topology);
          paths = foldl (group_paths localeCompare routerMap manualPaths) [] (map snd groupMap)
      in foldl (\<lambda>ps (lid, pp). if lid \<in> set (map fst ps) then ps else obj_set lid pp ps) paths manualPaths)"

subsection \<open>Arc length\<close>

fun polyline_length :: "position list \<Rightarrow> number" where
  "polyline_length (a # b # rest) = seg_length a b + polyline_length (b # rest)"
| "polyline_length _ = 0"

lemma seg_length_nonneg [simp]: "0 \<le> seg_length a b"
  by (simp add: seg_length_def)

lemma seg_length_sym: "seg_length a b = seg_length b a"
proof -
  have "hypot (pos_x b - pos_x a) (pos_y b - pos_y a) = hypot (- (pos_x a - pos_x b)) (- (pos_y a - pos_y b))"
    by simp
  then show ?thesis by (simp only: seg_length_def hypot_uminus)
qed

lemma polyline_length_nonneg: "0 \<le> polyline_length xs"
  by (induction xs rule: polyline_length.induct) simp_all

lemma polyline_length_Cons: "xs \<noteq> [] \<Longrightarrow> polyline_length (x # xs) = seg_length x (hd xs) + polyline_length xs"
  by (cases xs) simp_all

lemma polyline_length_snoc: "xs \<noteq> [] \<Longrightarrow> polyline_length (xs @ [y]) = polyline_length xs + seg_length (last xs) y"
  by (induction xs rule: polyline_length.induct) auto

lemma polyline_length_split:
  "i < length xs \<Longrightarrow> polyline_length xs = polyline_length (take (Suc i) xs) + polyline_length (drop i xs)"
proof (induction xs arbitrary: i rule: polyline_length.induct)
  case (1 a b rest)
  then show ?case by (cases i) (simp_all add: polyline_length_Cons)
qed (simp_all add: less_Suc_eq_0_disj)

lemma upt_0_Suc_map: "[0..<Suc n] = 0 # map Suc [0..<n]"
  by (simp add: map_Suc_upt upt_conv_Cons del: upt_Suc)

lemma foldl_plus_sum: "foldl (+) (a::real) xs = a + sum_list xs"
  by (induction xs arbitrary: a) (simp_all add: add.assoc)

lemma segmentLengths_Cons2: "segmentLengths (a # b # rest) = seg_length a b # segmentLengths (b # rest)"
  by (simp add: segmentLengths_def upt_0_Suc_map del: upt_Suc)

lemma segmentLengths_short: "length xs < 2 \<Longrightarrow> segmentLengths xs = []"
  by (simp add: segmentLengths_def)

lemma sum_segmentLengths: "foldl (+) 0 (segmentLengths xs) = polyline_length xs"
proof (induction xs rule: polyline_length.induct)
  case (1 a b rest)
  then show ?case by (simp add: segmentLengths_Cons2 foldl_plus_sum)
qed (simp_all add: segmentLengths_short)

lemma length_segmentLengths [simp]: "length (segmentLengths xs) = length xs - 1"
  by (simp add: segmentLengths_def)

lemma segmentLengths_nth: "i < length xs - 1 \<Longrightarrow> segmentLengths xs ! i = seg_length (xs ! i) (xs ! Suc i)"
  by (simp add: segmentLengths_def)

lemma take_Suc_Suc_length:
  "Suc i < length xs \<Longrightarrow> polyline_length (take (Suc (Suc i)) xs) = polyline_length (take (Suc i) xs) + seg_length (xs ! i) (xs ! Suc i)"
proof -
  assume i: "Suc i < length xs"
  then have "take (Suc (Suc i)) xs = take (Suc i) xs @ [xs ! Suc i]"
    by (simp add: take_Suc_conv_app_nth)
  moreover have "last (take (Suc i) xs) = xs ! i"
    using i by (subst last_conv_nth) (auto simp: min_def)
  moreover have "take (Suc i) xs \<noteq> []"
    using i by auto
  ultimately show ?thesis
    by (simp add: polyline_length_snoc)
qed

lemma seg_length_lerp_start: "0 \<le> r \<Longrightarrow> seg_length s (lerp_point s e r) = r * seg_length s e"
  using hypot_scale [of r "pos_x e - pos_x s" "pos_y e - pos_y s"]
  by (simp add: seg_length_def lerp_point_def mult.commute)

lemma seg_length_lerp_end: "r \<le> 1 \<Longrightarrow> seg_length (lerp_point s e r) e = (1 - r) * seg_length s e"
proof -
  assume r: "r \<le> 1"
  have "pos_x e - (pos_x s + (pos_x e - pos_x s) * r) = (1 - r) * (pos_x e - pos_x s)"
       "pos_y e - (pos_y s + (pos_y e - pos_y s) * r) = (1 - r) * (pos_y e - pos_y s)"
    by (simp_all add: algebra_simps)
  then show ?thesis
    using r hypot_scale [of "1 - r" "pos_x e - pos_x s" "pos_y e - pos_y s"]
    by (simp add: seg_length_def lerp_point_def)
qed

lemma split_walk_halves:
  assumes "lens = drop i (segmentLengths path)" "acc = polyline_length (take (Suc i) path)"
    and "acc < h" "h \<le> polyline_length path"
  shows "\<exists>k mid. split_walk path h acc i lens =
             \<lparr>sp_midpoint = mid, sp_firstHalf = take (Suc k) path @ [mid], sp_secondHalf = mid # drop (Suc k) path\<rparr> \<and>
           Suc k < length path \<and>
           polyline_length (take (Suc k) path @ [mid]) = h \<and>
           polyline_length (mid # drop (Suc k) path) = polyline_length path - h"
  using assms
proof (induction lens arbitrary: acc i)
  case Nil
  then have "length path - 1 \<le> i" by simp
  then have "take (Suc i) path = path" by simp
  with Nil show ?case by simp
next
  case (Cons len lens)
  have i: "i < length path - 1"
    using Cons.prems(1) by (metis Cons_nth_drop_Suc drop_all leI length_segmentLengths list.distinct(1))
  have len: "len = seg_length (path ! i) (path ! Suc i)"
    using Cons.prems(1) i by (metis Cons_nth_drop_Suc length_segmentLengths list.inject segmentLengths_nth)
  have lens: "lens = drop (Suc i) (segmentLengths path)"
    using Cons.prems(1) i by (metis Cons_nth_drop_Suc length_segmentLengths list.inject)
  have acc2: "acc + len = polyline_length (take (Suc (Suc i)) path)"
    using Cons.prems(2) i len take_Suc_Suc_length [of i path] by simp
  show ?case
  proof (cases "acc + len \<ge> h")
    case True
    define r where "r = (h - acc) / len"
    have len_pos: "0 < len" using True Cons.prems(3) by linarith
    then have r0: "0 \<le> r" and r1: "r \<le> 1" and rlen: "r * len = h - acc"
      using True Cons.prems(3) by (simp_all add: r_def field_simps)
    define mid where "mid = lerp_point (path ! i) (path ! Suc i) r"
    have res: "split_walk path h acc i (len # lens) =
       \<lparr>sp_midpoint = mid, sp_firstHalf = take (Suc i) path @ [mid], sp_secondHalf = mid # drop (Suc i) path\<rparr>"
      using True len_pos by (simp add: Let_def r_def mid_def)
    have ne: "take (Suc i) path \<noteq> []" using i by auto
    have lst: "last (take (Suc i) path) = path ! i"
      using i by (subst last_conv_nth) (auto simp: min_def)
    have first: "polyline_length (take (Suc i) path @ [mid]) = h"
      using Cons.prems(2) rlen len r0
      by (simp add: polyline_length_snoc [OF ne] lst mid_def seg_length_lerp_start)
    have dr: "drop (Suc i) path = path ! Suc i # drop (Suc (Suc i)) path"
      using i by (simp add: Cons_nth_drop_Suc)
    have split: "polyline_length path = polyline_length (take (Suc (Suc i)) path) + polyline_length (drop (Suc i) path)"
      using i by (intro polyline_length_split) simp
    have second: "polyline_length (mid # drop (Suc i) path) = polyline_length path - h"
    proof -
      have "polyline_length (mid # drop (Suc i) path) = (1 - r) * len + polyline_length (drop (Suc i) path)"
        using r1 len by (simp add: dr mid_def seg_length_lerp_end)
      also have "\<dots> = polyline_length path - h"
        using split acc2 rlen by (simp add: algebra_simps)
      finally show ?thesis .
    qed
    show ?thesis
      using res first second i by (intro exI [of _ i] exI [of _ mid]) simp
  next
    case False
    then have "split_walk path h acc i (len # lens) = split_walk path h (acc + len) (Suc i) lens" by simp
    moreover have "\<exists>k mid. split_walk path h (acc + len) (Suc i) lens =
             \<lparr>sp_midpoint = mid, sp_firstHalf = take (Suc k) path @ [mid], sp_secondHalf = mid # drop (Suc k) path\<rparr> \<and>
           Suc k < length path \<and>
           polyline_length (take (Suc k) path @ [mid]) = h \<and>
           polyline_length (mid # drop (Suc k) path) = polyline_length path - h"
      using False Cons.prems(4) by (intro Cons.IH [OF lens acc2]) simp_all
    ultimately show ?thesis by simp
  qed
qed

lemma splitPathAtHalf_walk:
  "2 \<le> length path \<Longrightarrow> polyline_length path \<noteq> 0 \<Longrightarrow>
   splitPathAtHalf path = split_walk path (polyline_length path / 2) 0 0 (segmentLengths path)"
proof -
  assume "2 \<le> length path" "polyline_length path \<noteq> 0"
  moreover have "path \<noteq> []" "length path \<noteq> 1" using \<open>2 \<le> length path\<close> by auto
  ultimately show ?thesis by (simp add: splitPathAtHalf_def sum_segmentLengths Let_def)
qed

lemma splitPathAtHalf_shape:
  assumes "2 \<le> length path" "polyline_length path \<noteq> 0"
  shows "\<exists>k mid. splitPathAtHalf path =
             \<lparr>sp_midpoint = mid, sp_firstHalf = take (Suc k) path @ [mid], sp_secondHalf = mid # drop (Suc k) path\<rparr> \<and>
           Suc k < length path \<and>
           polyline_length (take (Suc k) path @ [mid]) = polyline_length path / 2 \<and>
           polyline_length (mid # drop (Suc k) path) = polyline_length path / 2"
proof -
  have pos: "0 < polyline_length path"
    using assms(2) polyline_length_nonneg [of path] by linarith
  have take1: "polyline_length (take (Suc 0) path) = 0"
    by (cases path) simp_all
  show ?thesis
    using split_walk_halves [of "segmentLengths path" 0 path 0 "polyline_length path / 2"] pos take1
    by (simp add: splitPathAtHalf_walk [OF assms])
qed

lemma polyline_length_replicate: "polyline_length (replicate n p) = 0"
proof (induction n)
  case (Suc n)
  then show ?case by (cases n) (simp_all add: seg_length_def)
qed simp

lemma splitPathAtHalf_single: "splitPathAtHalf [p] = \<lparr>sp_midpoint = p, sp_firstHalf = [p], sp_secondHalf = [p]\<rparr>"
  by (simp add: splitPathAtHalf_def)

subsection \<open>Claims on splitPathAtHalf\<close>

text \<open>C17 (functional): For a path of at least two points and positive length, both halves returned by splitPathAtHalf have exactly half the arc length, the first ends and the second starts at the midpoint, and dropping the duplicated midpoint the two halves retrace the path.\<close>

theorem splitPathAtHalf_bisects:
  assumes "2 \<le> length path" "polyline_length path \<noteq> 0"
  shows "polyline_length (sp_firstHalf (splitPathAtHalf path)) = polyline_length path / 2 \<and>
         polyline_length (sp_secondHalf (splitPathAtHalf path)) = polyline_length path / 2 \<and>
         butlast (sp_firstHalf (splitPathAtHalf path)) @ tl (sp_secondHalf (splitPathAtHalf path)) = path \<and>
         last (sp_firstHalf (splitPathAtHalf path)) = sp_midpoint (splitPathAtHalf path) \<and>
         hd (sp_secondHalf (splitPathAtHalf path)) = sp_midpoint (splitPathAtHalf path)"
  using splitPathAtHalf_shape [OF assms] by auto

text \<open>On a straight two-point path [a, b] with a distinct from b, the midpoint is the point halfway along, at distance L/2 from each end, with firstHalf = [a, mid] and secondHalf = [mid, b].\<close>

theorem splitPathAtHalf_straight:
  assumes "a \<noteq> b"
  shows "splitPathAtHalf [a, b] =
           \<lparr>sp_midpoint = lerp_point a b (1 / 2), sp_firstHalf = [a, lerp_point a b (1 / 2)],
            sp_secondHalf = [lerp_point a b (1 / 2), b]\<rparr> \<and>
         seg_length a (lerp_point a b (1 / 2)) = seg_length a b / 2 \<and>
         seg_length (lerp_point a b (1 / 2)) b = seg_length a b / 2"
proof -
  have "pos_x a \<noteq> pos_x b \<or> pos_y a \<noteq> pos_y b"
    using assms by (cases a, cases b) auto
  then have L: "seg_length a b \<noteq> 0"
    by (auto simp: seg_length_def)
  then have "splitPathAtHalf [a, b] =
           \<lparr>sp_midpoint = lerp_point a b (1 / 2), sp_firstHalf = [a, lerp_point a b (1 / 2)],
            sp_secondHalf = [lerp_point a b (1 / 2), b]\<rparr>"
    by (simp add: splitPathAtHalf_def segmentLengths_Cons2 segmentLengths_short Let_def)
  then show ?thesis
    by (simp add: seg_length_lerp_start seg_length_lerp_end)
qed

text \<open>On a path of n >= 2 coincident points p, splitPathAtHalf returns p as the midpoint and the two-point halves [p, p] and [p, p] (endpoint to structural midpoint), not single-point halves.\<close>

theorem splitPathAtHalf_coincident:
  assumes "2 \<le> n"
  shows "splitPathAtHalf (replicate n p) = \<lparr>sp_midpoint = p, sp_firstHalf = [p, p], sp_secondHalf = [p, p]\<rparr>"
  using assms by (simp add: splitPathAtHalf_def sum_segmentLengths polyline_length_replicate Let_def)

subsection \<open>Fan-out\<close>

lemma auto_length_sym: "auto_length a b = auto_length b a"
  using seg_length_sym [of a b] by (simp add: auto_length_def seg_length_def)

lemma auto_spacing_sym: "auto_spacing a b = auto_spacing b a"
  by (simp add: auto_spacing_def auto_length_sym)

lemma auto_spacing_ge: "40 \<le> auto_spacing a b"
  by (simp add: auto_spacing_def)

text \<open>computeAutoPath with group size 1 always returns the straight 2-point path [from, to].\<close>

theorem computeAutoPath_single: "computeAutoPath a b 1 index = [a, b]"
  by (simp add: computeAutoPath_def)

text \<open>In a group of three the offsets of indices 0, 1, 2 are -spacing, 0, +spacing; index 1 is the straight path and indices 0 and 2 are 3-point curves through the control points on either side.\<close>

theorem computeAutoPath_group3:
  "auto_offset a b 3 0 = - auto_spacing a b \<and> auto_offset a b 3 1 = 0 \<and> auto_offset a b 3 2 = auto_spacing a b \<and>
   computeAutoPath a b 3 1 = [a, b] \<and>
   computeAutoPath a b 3 0 = [a, auto_control a b (- auto_spacing a b), b] \<and>
   computeAutoPath a b 3 2 = [a, auto_control a b (auto_spacing a b), b]"
  using auto_spacing_ge [of a b] by (simp add: computeAutoPath_def auto_offset_def Let_def)

theorem computeAutoPath_pair_opposite:
  "auto_offset a b 2 1 = - auto_offset a b 2 0 \<and> \<bar>auto_offset a b 2 0\<bar> = auto_spacing a b / 2 \<and>
   computeAutoPath a b 2 0 = [a, auto_control a b (- auto_spacing a b / 2), b] \<and>
   computeAutoPath a b 2 1 = [a, auto_control a b (auto_spacing a b / 2), b]"
  using auto_spacing_ge [of a b] by (simp add: computeAutoPath_def auto_offset_def Let_def)

text \<open>C18 (safety): Two links of one group declared in opposite directions (A to B at index 0, B to A at index 1) get the same control point: their offsets have opposite signs but so do their perpendiculars, so the two curves coincide instead of fanning out.\<close>

theorem computeAutoPath_reversed_pair_overlap:
  "\<exists>c. computeAutoPath a b 2 0 = [a, c, b] \<and> computeAutoPath b a 2 1 = [b, c, a]"
proof -
  have "auto_control b a (auto_offset b a 2 1) = auto_control a b (auto_offset a b 2 0)"
    by (simp add: auto_control_def auto_offset_def auto_spacing_sym auto_length_sym [of b a] Let_def
        algebra_simps divide_simps)
  then show ?thesis
    using auto_spacing_ge [of a b] auto_spacing_ge [of b a]
    by (simp add: computeAutoPath_def auto_offset_def Let_def)
qed

subsection \<open>Stroke width\<close>

text \<open>C19 (bounds): For every capacity and range the stroke width lies between MIN_LINK_WIDTH = 2 and MAX_LINK_WIDTH = 14.\<close>

lemma capacityToWidth_bounds: "MIN_LINK_WIDTH \<le> capacityToWidth c r \<and> capacityToWidth c r \<le> MAX_LINK_WIDTH"
  by (auto simp: capacityToWidth_def MIN_LINK_WIDTH_def MAX_LINK_WIDTH_def Let_def split: option.splits)

lemma capacityToWidth_range:
  assumes "0 < cr_min r" "cr_min r < cr_max r" "0 < c"
  shows "capacityToWidth (Some c) (Some r) =
           MIN_LINK_WIDTH + (MAX_LINK_WIDTH - MIN_LINK_WIDTH) *
             min 1 (max 0 ((ln c - ln (cr_min r)) / (ln (cr_max r) - ln (cr_min r))))"
  using assms by (simp add: capacityToWidth_def Let_def)

text \<open>For a range 0 < min < max, capacityToWidth gives 2 at the minimum capacity, 14 at the maximum, and is monotonically non-decreasing in positive capacity.\<close>

theorem capacityToWidth_endpoints_mono:
  assumes "0 < cr_min r" "cr_min r < cr_max r"
  shows "capacityToWidth (Some (cr_min r)) (Some r) = MIN_LINK_WIDTH \<and>
         capacityToWidth (Some (cr_max r)) (Some r) = MAX_LINK_WIDTH \<and>
         (\<forall>c1 c2. 0 < c1 \<and> c1 \<le> c2 \<longrightarrow> capacityToWidth (Some c1) (Some r) \<le> capacityToWidth (Some c2) (Some r))"
proof -
  have d: "0 < ln (cr_max r) - ln (cr_min r)"
    using assms by simp
  have mono: "capacityToWidth (Some c1) (Some r) \<le> capacityToWidth (Some c2) (Some r)"
    if "0 < c1" "c1 \<le> c2" for c1 c2
  proof -
    have "ln c1 \<le> ln c2" using that by simp
    then have "(ln c1 - ln (cr_min r)) / (ln (cr_max r) - ln (cr_min r)) \<le>
               (ln c2 - ln (cr_min r)) / (ln (cr_max r) - ln (cr_min r))"
      using d by (simp add: divide_right_mono)
    then show ?thesis
      using that assms by (simp add: capacityToWidth_range MIN_LINK_WIDTH_def MAX_LINK_WIDTH_def)
  qed
  show ?thesis
    using assms d mono by (simp add: capacityToWidth_range MIN_LINK_WIDTH_def MAX_LINK_WIDTH_def)
qed

text \<open>A missing capacity, a missing range or a non-positive range minimum yields the minimum width 2, and a range collapsed to one value yields the midpoint width 8.\<close>

theorem capacityToWidth_degenerate:
  "capacityToWidth None r = MIN_LINK_WIDTH \<and> capacityToWidth c None = MIN_LINK_WIDTH \<and>
   (cr_min rg \<le> 0 \<longrightarrow> capacityToWidth c (Some rg) = MIN_LINK_WIDTH) \<and>
   (0 < cap \<and> 0 < cr_min rg \<and> cr_max rg = cr_min rg \<longrightarrow>
      capacityToWidth (Some cap) (Some rg) = (MIN_LINK_WIDTH + MAX_LINK_WIDTH) / 2)"
  by (auto simp: capacityToWidth_def split: option.splits)

definition ex_path :: "position list" where
  "ex_path = [\<lparr>pos_x = 0, pos_y = 0\<rparr>, \<lparr>pos_x = 2, pos_y = 0\<rparr>, \<lparr>pos_x = 2, pos_y = 2\<rparr>]"

lemma ex_path_length: "polyline_length ex_path = 4"
  by (simp add: ex_path_def seg_length_def)

theorem splitPathAtHalf_bisects_witness:
  "polyline_length (sp_firstHalf (splitPathAtHalf ex_path)) = 2 \<and>
   sp_midpoint (splitPathAtHalf ex_path) = \<lparr>pos_x = 2, pos_y = 0\<rparr>"
proof -
  have "polyline_length (sp_firstHalf (splitPathAtHalf ex_path)) = polyline_length ex_path / 2"
    using splitPathAtHalf_bisects [of ex_path] by (simp add: ex_path_length) (simp add: ex_path_def)
  moreover have "sp_midpoint (splitPathAtHalf ex_path) = \<lparr>pos_x = 2, pos_y = 0\<rparr>"
    by (simp add: splitPathAtHalf_def ex_path_def segmentLengths_def seg_length_def lerp_point_def Let_def)
  ultimately show ?thesis by (simp add: ex_path_length)
qed

theorem splitPathAtHalf_straight_witness:
  "sp_midpoint (splitPathAtHalf [\<lparr>pos_x = 0, pos_y = 0\<rparr>, \<lparr>pos_x = 4, pos_y = 0\<rparr>]) = \<lparr>pos_x = 2, pos_y = 0\<rparr>"
  using splitPathAtHalf_straight [of "\<lparr>pos_x = 0, pos_y = 0\<rparr>" "\<lparr>pos_x = 4, pos_y = 0\<rparr>"]
  by (simp add: lerp_point_def)

theorem splitPathAtHalf_coincident_witness:
  "sp_firstHalf (splitPathAtHalf (replicate 3 \<lparr>pos_x = 5, pos_y = 7\<rparr>)) =
     [\<lparr>pos_x = 5, pos_y = 7\<rparr>, \<lparr>pos_x = 5, pos_y = 7\<rparr>]"
  using splitPathAtHalf_coincident [of 3 "\<lparr>pos_x = 5, pos_y = 7\<rparr>"] by simp

definition ex_router_at :: "ident \<Rightarrow> number \<Rightarrow> number \<Rightarrow> router_definition" where
  "ex_router_at rid x y = \<lparr>rd_id = rid, rd_label = rid, rd_position = \<lparr>pos_x = x, pos_y = y\<rparr>, rd_interfaces = []\<rparr>"

definition ex_link_between :: "ident \<Rightarrow> ident \<Rightarrow> ident \<Rightarrow> link_definition" where
  "ex_link_between lid a b = \<lparr>ld_id = lid, ld_from = a, ld_to = b, ld_ifaceFrom = ''ge0'', ld_ifaceTo = ''ge0'',
     ld_label = None, ld_path = None\<rparr>"

definition ex_pair_topology :: topology_definition where
  "ex_pair_topology = \<lparr>title = None, backgroundImage = ''/background.png'', mapSize = None, pollIntervalMs = 5000,
     routers = [ex_router_at ''A'' 0 0, ex_router_at ''B'' 300 0],
     links = [ex_link_between ''b2'' ''A'' ''B'', ex_link_between ''a1'' ''A'' ''B'']\<rparr>"

lemma ex_pair_paths:
  "computeLinkPaths code_unit_compare ex_pair_topology =
     [(''a1'', computeAutoPath \<lparr>pos_x = 0, pos_y = 0\<rparr> \<lparr>pos_x = 300, pos_y = 0\<rparr> 2 0),
      (''b2'', computeAutoPath \<lparr>pos_x = 0, pos_y = 0\<rparr> \<lparr>pos_x = 300, pos_y = 0\<rparr> 2 1)]"
  by (simp add: computeLinkPaths_def ex_pair_topology_def buildRouterMap_def manual_path_entry_def
      add_to_group_def group_key_def group_paths_def sort_by_cmp_def code_unit_compare_def
      link_path_entry_def ex_router_at_def ex_link_between_def)

text \<open>End to end: two links a1 and b2 from A = (0, 0) to B = (300, 0), declared b2 first, are sorted by id and fan out with control points (150, -50) and (150, 50): offsets of equal magnitude and opposite sign in id order.\<close>

theorem computeLinkPaths_pair_fanout:
  "computeLinkPaths code_unit_compare ex_pair_topology =
     [(''a1'', [\<lparr>pos_x = 0, pos_y = 0\<rparr>, \<lparr>pos_x = 150, pos_y = -50\<rparr>, \<lparr>pos_x = 300, pos_y = 0\<rparr>]),
      (''b2'', [\<lparr>pos_x = 0, pos_y = 0\<rparr>, \<lparr>pos_x = 150, pos_y = 50\<rparr>, \<lparr>pos_x = 300, pos_y = 0\<rparr>])]"
proof -
  have "auto_length \<lparr>pos_x = 0, pos_y = 0\<rparr> \<lparr>pos_x = 300, pos_y = 0\<rparr> = 300"
    by (simp add: auto_length_def)
  then show ?thesis
    by (simp add: ex_pair_paths computeAutoPath_def auto_offset_def auto_spacing_def auto_control_def Let_def)
qed

theorem capacityToWidth_endpoints_mono_witness:
  "capacityToWidth (Some 1) (Some \<lparr>cr_min = 1, cr_max = 2\<rparr>) = 2 \<and>
   capacityToWidth (Some 2) (Some \<lparr>cr_min = 1, cr_max = 2\<rparr>) = 14"
  using capacityToWidth_endpoints_mono [of "\<lparr>cr_min = 1, cr_max = 2\<rparr>"]
  by (simp add: MIN_LINK_WIDTH_def MAX_LINK_WIDTH_def)

theorem capacityToWidth_degenerate_witness:
  "capacityToWidth (Some 5) (Some \<lparr>cr_min = 3, cr_max = 3\<rparr>) = 8 \<and>
   capacityToWidth (Some 5) (Some \<lparr>cr_min = 0, cr_max = 3\<rparr>) = 2"
  using capacityToWidth_degenerate [of _ _ "\<lparr>cr_min = 3, cr_max = 3\<rparr>" 5]
    capacityToWidth_degenerate [of _ _ "\<lparr>cr_min = 0, cr_max = 3\<rparr>" 5]
  by (simp_all add: MIN_LINK_WIDTH_def MAX_LINK_WIDTH_def)

end
