(* ===== verification/Status.thy ===== *)
theory Status
  imports WM_Types
begin

text \<open>
  Status derivation of the sampler (\<open>src/src/snmp.ts\<close>, identical in the newer
  sampler \<open>src/unnamed/part_000\<close>): \<open>metricStatus\<close> maps a utilization and
  an error flag to a status by the thresholds 0.9 and 0.75, and
  \<open>combineStatuses\<close> folds a list of statuses to the most severe one by the
  rank \<open>STATUS_ORDER.indexOf\<close>.  The lemmas show the thresholds on every
  branch, that the fold computes the maximum in the severity order
  (a refinement of the abstract \<open>Max\<close>), and that an error anywhere dominates.
\<close>

definition metricStatus :: "number \<Rightarrow> bool \<Rightarrow> metric_status" where
  "metricStatus utilization hasError =
     (if hasError then Error
      else if utilization \<ge> 0.9 then Critical
      else if utilization \<ge> 0.75 then Warning
      else Ok)"

text \<open>\<open>statuses.reduce((highest, current) => indexOf(current) > indexOf(highest)
  ? current : highest, "ok")\<close>\<close>

definition combine_step :: "metric_status \<Rightarrow> metric_status \<Rightarrow> metric_status" where
  "combine_step highest current =
     (if indexOf STATUS_ORDER current > indexOf STATUS_ORDER highest then current else highest)"

definition combineStatuses :: "metric_status list \<Rightarrow> metric_status" where
  "combineStatuses statuses = foldl combine_step Ok statuses"

subsection \<open>The fold is the maximum\<close>

lemma combine_step_max: "combine_step = max"
proof (intro ext)
  fix h c :: metric_status
  have "indexOf STATUS_ORDER c > indexOf STATUS_ORDER h \<longleftrightarrow> h < c"
    by (simp add: status_index_is_indexOf [symmetric] status_less_iff_index)
  then show "combine_step h c = max h c"
    by (auto simp: combine_step_def max_def)
qed

lemma foldl_max_Max: "foldl max (a::'a::linorder) xs = Max (insert a (set xs))"
proof (induction xs arbitrary: a)
  case Nil
  then show ?case by simp
next
  case (Cons x xs)
  have "foldl max a (x # xs) = Max (insert (max a x) (set xs))"
    by (simp add: Cons.IH)
  also have "\<dots> = Max (insert a (insert x (set xs)))"
    by (cases "xs = []") (simp_all add: Max.insert max.assoc)
  finally show ?case by simp
qed

lemma combineStatuses_Max: "combineStatuses xs = Max (insert Ok (set xs))"
  by (simp add: combineStatuses_def combine_step_max foldl_max_Max)

lemma combineStatuses_Nil [simp]: "combineStatuses [] = Ok"
  by (simp add: combineStatuses_Max)

lemma combineStatuses_Cons [simp]: "combineStatuses (x # xs) = max x (combineStatuses xs)"
proof -
  have "insert Ok (set (x # xs)) = insert x (insert Ok (set xs))" by auto
  then show ?thesis by (simp add: combineStatuses_Max)
qed

lemma combineStatuses_ge: "s \<in> set xs \<Longrightarrow> s \<le> combineStatuses xs"
  by (induction xs) (auto simp: le_max_iff_disj)

lemma combineStatuses_in: "combineStatuses xs \<in> insert Ok (set xs)"
  by (induction xs) (auto simp: max_def)

lemma combineStatuses_Error_iff: "combineStatuses xs = Error \<longleftrightarrow> Error \<in> set xs"
proof
  assume "combineStatuses xs = Error"
  with combineStatuses_in [of xs] have "Error \<in> insert Ok (set xs)" by simp
  then show "Error \<in> set xs" by simp
next
  assume "Error \<in> set xs"
  then have "Error \<le> combineStatuses xs" by (rule combineStatuses_ge)
  then show "combineStatuses xs = Error" by simp
qed

lemma combineStatuses_set: "set xs = set ys \<Longrightarrow> combineStatuses xs = combineStatuses ys"
  by (simp add: combineStatuses_Max)

lemma combineStatuses_append: "combineStatuses (xs @ ys) = max (combineStatuses xs) (combineStatuses ys)"
  by (induction xs) (simp_all add: max.assoc)

subsection \<open>Thresholds\<close>

lemma metricStatus_cases:
  "metricStatus u e =
     (if e then Error else if 0.9 \<le> u then Critical else if 0.75 \<le> u then Warning else Ok)"
  by (simp add: metricStatus_def)

lemma metricStatus_Error_iff: "metricStatus u e = Error \<longleftrightarrow> e"
  by (simp add: metricStatus_def)

lemma metricStatus_mono: "u \<le> v \<Longrightarrow> metricStatus u e \<le> metricStatus v e"
  by (simp add: metricStatus_def less_eq_metric_status_def)

subsection \<open>Claims\<close>

text \<open>C4 (refinement): combineStatuses is the maximum of ok and the given statuses in the order ok < warning < critical < error, and it is error exactly when some status is error.\<close>

theorem combineStatuses_max_severity:
  "combineStatuses xs = Max (insert Ok (set xs)) \<and> (combineStatuses xs = Error \<longleftrightarrow> Error \<in> set xs)"
  by (rule conjI [OF combineStatuses_Max combineStatuses_Error_iff])

text \<open>C5 (functional): metricStatus is error when the error flag is set, and otherwise critical from utilization 0.9, warning from 0.75 below 0.9, and ok below 0.75.\<close>

theorem metricStatus_thresholds:
  "metricStatus u True = Error \<and>
   (0.9 \<le> u \<longrightarrow> metricStatus u False = Critical) \<and>
   (0.75 \<le> u \<and> u < 0.9 \<longrightarrow> metricStatus u False = Warning) \<and>
   (u < 0.75 \<longrightarrow> metricStatus u False = Ok)"
  by (simp add: metricStatus_def)

theorem metricStatus_thresholds_witness:
  "metricStatus 0.95 False = Critical \<and> metricStatus 0.1 True = Error \<and> metricStatus 0.8 False = Warning"
  using metricStatus_thresholds [of "0.95"] metricStatus_thresholds [of "0.1"] metricStatus_thresholds [of "0.8"]
  by simp

end
