(* ===== verification/Sampler.thy ===== *)
theory Sampler
  imports Status
begin

text \<open>
  The counter sampler (\<open>src/unnamed/part_000\<close>, the current \<open>snmp.ts\<close>; its
  helpers are unchanged from \<open>src/src/snmp.ts\<close>).  One call of
  \<open>pollRouter\<close> turns the raw cumulative octet counters of one router's
  interfaces into rates, utilizations and statuses.  The module-level
  \<open>sampleCache\<close> is passed explicitly as a map from cache keys to entries and
  returned updated; the SNMP session is an agent function from the OID list of a
  GET to either the transport's error message or the answered varbinds; the
  clock \<open>Date.now()\<close> is the argument \<open>now\<close>.
  The theory holds the data of the module, the OID sanitiser with its
  canonical-form lemmas, the throughput computation with every branch, and the
  four phases of \<open>pollRouter\<close> (prepare, query, finalise, combine) with the
  lemmas on each.
\<close>

subsection \<open>Data\<close>

record interface_config =
  ic_name :: string
  oid_in :: string
  oid_out :: string
  max_bandwidth :: "number option"
  oid_speed :: "string option"
  oid_speed_scale :: "number option"
  display_name :: "string option"

record router_config =
  ip :: string
  community :: string
  rc_label :: "string option"
  rc_interfaces :: "interface_config list"

text \<open>\<open>InterfaceSample\<close> is \<open>InterfaceMetrics\<close> with the two raw counters.\<close>

record interface_sample = interface_metrics +
  inOctets :: "number option"
  outOctets :: "number option"

record router_sample =
  rs_status :: metric_status
  rs_interfaces :: "interface_sample js_object"
  rs_error :: "string option"

type_synonym poll_snapshot = "router_sample js_object"

record sample_cache_entry =
  ce_inOctets :: number
  ce_outOctets :: number
  ce_timestamp :: number

type_synonym sample_cache = "string \<Rightarrow> sample_cache_entry option"

datatype direction = DirIn | DirOut

datatype oid_kind = KindIn | KindOut | KindSpeed

text \<open>What the agent answers for one OID: \<open>snmp.isVarbindError\<close> holds (with
  the text \<open>snmp.varbindError\<close> gives), a numeric value, or a value of another
  JavaScript type, which \<open>parseNumericValue\<close> maps to \<open>null\<close>.\<close>

datatype varbind = VbError string | VbNumber number | VbOther

type_synonym snmp_agent = "string list \<Rightarrow> string + varbind list"

subsection \<open>OID sanitising\<close>

text \<open>\<open>String.prototype.trim\<close> on the ASCII white space (tab, line feed,
  vertical tab, form feed, carriage return, space).\<close>

definition is_js_space :: "char \<Rightarrow> bool" where
  "is_js_space c \<longleftrightarrow> of_char c \<in> {9, 10, 11, 12, 13, 32 :: nat}"

definition js_trim :: "string \<Rightarrow> string" where
  "js_trim s = rev (dropWhile is_js_space (rev (dropWhile is_js_space s)))"

text \<open>\<open>String.prototype.split\<close> with a one-character separator: every
  separator ends a piece, empty pieces included (\<open>"".split(".") = [""]\<close>).\<close>

fun split_on :: "char \<Rightarrow> string \<Rightarrow> string list" where
  "split_on c [] = [[]]"
| "split_on c (x # xs) =
     (if x = c then [] # split_on c xs
      else (case split_on c xs of w # ws \<Rightarrow> (x # w) # ws | [] \<Rightarrow> [[x]]))"

text \<open>\<open>/^\d+$/.test(segment)\<close>: one or more ASCII digits.\<close>

definition is_digit :: "char \<Rightarrow> bool" where
  "is_digit c \<longleftrightarrow> (48::nat) \<le> of_char c \<and> of_char c \<le> (57::nat)"

definition all_digits :: "string \<Rightarrow> bool" where
  "all_digits s \<longleftrightarrow> s \<noteq> [] \<and> list_all is_digit s"

definition sanitizeOid :: "string \<Rightarrow> string + string" where
  \<open>sanitizeOid raw =
     (let trimmed = js_trim raw in
      if trimmed = [] then Inl ''OID is required''
      else
        (let segments = filter (\<lambda>s. s \<noteq> []) (split_on (CHR ''.'') trimmed) in
         if segments = [] then Inl (''OID "'' @ raw @ ''" is not a dotted numeric string'')
         else
           (case find (\<lambda>segment. \<not> all_digits segment) segments of
              Some segment \<Rightarrow> Inl (''OID "'' @ raw @ ''" contains invalid segment "'' @ segment @ ''"'')
            | None \<Rightarrow> Inr (join ''.'' segments))))\<close>

subsection \<open>Throughput\<close>

record throughput =
  tp_bps :: number
  tp_fresh :: bool

definition stale :: throughput where
  "stale = \<lparr>tp_bps = 0, tp_fresh = False\<rparr>"

definition computeThroughput ::
  "number option \<Rightarrow> sample_cache_entry option \<Rightarrow> number \<Rightarrow> direction \<Rightarrow> throughput" where
  "computeThroughput current previous deltaMs dir =
     (case (current, previous) of
        (Some cur, Some prev) \<Rightarrow>
          if deltaMs \<le> 0 then stale
          else
            (let previousValue = (if dir = DirIn then ce_inOctets prev else ce_outOctets prev) in
             if cur < previousValue then stale
             else
               (let octetDelta = cur - previousValue;
                    bits = octetDelta * 8;
                    seconds = deltaMs / 1000 in
                if seconds = 0 then stale
                else \<lparr>tp_bps = bits / seconds, tp_fresh = True\<rparr>))
      | _ \<Rightarrow> stale)"

subsection \<open>Interface samples and cache keys\<close>

definition makeInterfaceSample :: "interface_config \<Rightarrow> interface_sample" where
  "makeInterfaceSample iface =
     \<lparr>im_name = ic_name iface, inBps = 0, outBps = 0, inUtilization = 0, outUtilization = 0,
      im_status = Ok,
      maxBandwidth = (case max_bandwidth iface of Some b \<Rightarrow> if b > 0 then b else 0 | None \<Rightarrow> 0),
      fresh = False, im_error = None, inOctets = None, outOctets = None\<rparr>"

definition cacheKey :: "ident \<Rightarrow> string \<Rightarrow> string" where
  "cacheKey routerId ifaceName = routerId @ '':'' @ ifaceName"

subsection \<open>pollRouter, phase 1: prepare the samples and the OID lists\<close>

record interface_target =
  it_iface :: interface_config
  it_entries :: "(string \<times> oid_kind) list"
  hasCounters :: bool

definition record_error :: "string \<Rightarrow> interface_sample \<Rightarrow> interface_sample" where
  "record_error msg s = s\<lparr>im_error := Some msg, im_status := Error\<rparr>"

definition add_entry :: "string \<Rightarrow> oid_kind \<Rightarrow> bool \<Rightarrow> interface_target \<Rightarrow> interface_target" where
  "add_entry oid kind counter t =
     t\<lparr>it_entries := it_entries t @ [(oid, kind)], hasCounters := (hasCounters t \<or> counter)\<rparr>"

text \<open>One counter OID (\<open>oid_in\<close> or \<open>oid_out\<close>): a valid one is queued and
  marks the target as having counters; an invalid one records its error.\<close>

definition prepare_counter ::
  "string \<Rightarrow> oid_kind \<Rightarrow> interface_sample \<times> interface_target \<Rightarrow> interface_sample \<times> interface_target" where
  "prepare_counter raw kind st =
     (case sanitizeOid raw of
        Inr oid \<Rightarrow> (fst st, add_entry oid kind True (snd st))
      | Inl e \<Rightarrow> (record_error e (fst st), snd st))"

text \<open>\<open>if (iface.oid_speed)\<close>: the speed OID is looked at only when it is a
  non-empty string.\<close>

definition prepare_speed ::
  "string option \<Rightarrow> interface_sample \<times> interface_target \<Rightarrow> interface_sample \<times> interface_target" where
  "prepare_speed speed st =
     (case speed of
        Some sp \<Rightarrow>
          if sp = [] then st
          else (case sanitizeOid sp of
                  Inr oid \<Rightarrow> (fst st, add_entry oid KindSpeed False (snd st))
                | Inl e \<Rightarrow> (record_error e (fst st), snd st))
      | None \<Rightarrow> st)"

definition prepare_interface :: "interface_config \<Rightarrow> interface_sample \<times> interface_target" where
  "prepare_interface iface =
     prepare_speed (oid_speed iface)
       (prepare_counter (oid_out iface) KindOut
         (prepare_counter (oid_in iface) KindIn
           (makeInterfaceSample iface, \<lparr>it_iface = iface, it_entries = [], hasCounters = False\<rparr>)))"

text \<open>The loop over \<open>router.interfaces\<close>: \<open>sample.interfaces[iface.name]\<close> is
  set (in place, keeping the first insertion position) and the target appended.\<close>

fun prepare_interfaces ::
  "interface_config list \<Rightarrow> interface_sample js_object \<Rightarrow> interface_target list
     \<Rightarrow> interface_sample js_object \<times> interface_target list" where
  "prepare_interfaces [] smp ts = (smp, ts)"
| "prepare_interfaces (iface # ifaces) smp ts =
     (let (s, t) = prepare_interface iface
      in prepare_interfaces ifaces (obj_set (ic_name iface) s smp) (ts @ [t]))"

subsection \<open>pollRouter, phase 2: one GET per interface with counters\<close>

definition kind_label :: "oid_kind \<Rightarrow> string" where
  "kind_label k = (case k of KindSpeed \<Rightarrow> ''speed'' | KindIn \<Rightarrow> ''input'' | KindOut \<Rightarrow> ''output'')"

definition speed_scale :: "interface_config \<Rightarrow> number" where
  "speed_scale iface = (case oid_speed_scale iface of Some sc \<Rightarrow> if sc > 0 then sc else 1 | None \<Rightarrow> 1)"

definition apply_varbind :: "number \<Rightarrow> oid_kind \<Rightarrow> varbind \<Rightarrow> interface_sample \<Rightarrow> interface_sample" where
  "apply_varbind scale kind vb s =
     (case vb of
        VbError msg \<Rightarrow> record_error msg s
      | VbOther \<Rightarrow> record_error (''Unexpected value type for '' @ kind_label kind @ '' OID'') s
      | VbNumber v \<Rightarrow>
          (case kind of
             KindSpeed \<Rightarrow> if v > 0 then s\<lparr>maxBandwidth := v * scale\<rparr> else s
           | KindIn \<Rightarrow> s\<lparr>inOctets := Some v\<rparr>
           | KindOut \<Rightarrow> s\<lparr>outOctets := Some v\<rparr>))"

text \<open>\<open>varbinds.forEach((varbind, index) => ...)\<close> with \<open>meta = entries[index]\<close>:
  varbinds past the last entry are skipped.\<close>

fun apply_varbinds ::
  "number \<Rightarrow> (string \<times> oid_kind) list \<Rightarrow> varbind list \<Rightarrow> interface_sample \<Rightarrow> interface_sample" where
  "apply_varbinds scale [] vbs s = s"
| "apply_varbinds scale (e # es) [] s = s"
| "apply_varbinds scale (e # es) (vb # vbs) s = apply_varbinds scale es vbs (apply_varbind scale (snd e) vb s)"

definition query_target ::
  "snmp_agent \<Rightarrow> interface_target \<Rightarrow> interface_sample js_object \<Rightarrow> interface_sample js_object" where
  "query_target agent t smp =
     (if \<not> hasCounters t then smp
      else
        (let name = ic_name (it_iface t) in
         case obj_get smp name of
           None \<Rightarrow> smp
         | Some s \<Rightarrow>
             (let oidList = map fst (it_entries t) in
              if oidList = [] then smp
              else
                (case agent oidList of
                   Inl msg \<Rightarrow> obj_set name (record_error msg s) smp
                 | Inr varbinds \<Rightarrow>
                     obj_set name (apply_varbinds (speed_scale (it_iface t)) (it_entries t) varbinds s) smp))))"

fun query_targets ::
  "snmp_agent \<Rightarrow> interface_target list \<Rightarrow> interface_sample js_object \<Rightarrow> interface_sample js_object" where
  "query_targets agent [] smp = smp"
| "query_targets agent (t # ts) smp = query_targets agent ts (query_target agent t smp)"

subsection \<open>pollRouter, phase 3: rates, utilizations, statuses and the cache\<close>

text \<open>\<open>Boolean(ifaceSample.error)\<close>: an empty message is falsy.\<close>

definition has_error :: "interface_sample \<Rightarrow> bool" where
  "has_error s = (case im_error s of None \<Rightarrow> False | Some e \<Rightarrow> e \<noteq> [])"

definition finalize_sample ::
  "sample_cache_entry option \<Rightarrow> number \<Rightarrow> interface_sample \<Rightarrow> interface_sample" where
  "finalize_sample previous now s =
     (let deltaMs = (case previous of Some p \<Rightarrow> now - ce_timestamp p | None \<Rightarrow> 0);
          inResult = computeThroughput (inOctets s) previous deltaMs DirIn;
          outResult = computeThroughput (outOctets s) previous deltaMs DirOut;
          bw = (if maxBandwidth s > 0 then maxBandwidth s else 1);
          inU = tp_bps inResult / bw;
          outU = tp_bps outResult / bw
      in s\<lparr>inBps := tp_bps inResult, outBps := tp_bps outResult,
           inUtilization := inU, outUtilization := outU,
           im_status := metricStatus (max inU outU) (has_error s),
           fresh := (tp_fresh inResult \<and> tp_fresh outResult)\<rparr>)"

definition cache_update ::
  "string \<Rightarrow> number \<Rightarrow> interface_sample \<Rightarrow> sample_cache \<Rightarrow> sample_cache" where
  "cache_update key now s cache =
     (case (inOctets s, outOctets s) of
        (Some i, Some ou) \<Rightarrow> cache(key \<mapsto> \<lparr>ce_inOctets = i, ce_outOctets = ou, ce_timestamp = now\<rparr>)
      | _ \<Rightarrow> cache)"

definition finalize_interface ::
  "ident \<Rightarrow> number \<Rightarrow> interface_config \<Rightarrow> interface_sample js_object \<times> sample_cache
     \<Rightarrow> interface_sample js_object \<times> sample_cache" where
  "finalize_interface routerId now iface st =
     (let (smp, cache) = st; name = ic_name iface in
      case obj_get smp name of
        None \<Rightarrow> st
      | Some s \<Rightarrow>
          (let key = cacheKey routerId name;
               s' = finalize_sample (cache key) now s
           in (obj_set name s' smp, cache_update key now s' cache)))"

subsection \<open>pollRouter\<close>

definition sample_status :: "interface_sample js_object \<Rightarrow> metric_status" where
  "sample_status smp = combineStatuses (map im_status (obj_values smp))"

definition pollRouter ::
  "ident \<Rightarrow> router_config \<Rightarrow> snmp_agent \<Rightarrow> number \<Rightarrow> sample_cache \<Rightarrow> router_sample \<times> sample_cache" where
  "pollRouter routerId router agent now cache =
     (if rc_interfaces router = []
      then (\<lparr>rs_status = Error, rs_interfaces = [], rs_error = Some ''No interfaces configured''\<rparr>, cache)
      else
        (let (smp, targets) = prepare_interfaces (rc_interfaces router) [] [] in
         if \<not> list_ex hasCounters targets
         then (\<lparr>rs_status = sample_status smp, rs_interfaces = smp, rs_error = None\<rparr>, cache)
         else
           (let smp1 = query_targets agent targets smp;
                (smp2, cache2) = fold (finalize_interface routerId now) (rc_interfaces router) (smp1, cache)
            in (\<lparr>rs_status = sample_status smp2, rs_interfaces = smp2, rs_error = None\<rparr>, cache2))))"

text \<open>\<open>pollRouters\<close>: every configured router, under its id, with its own
  agent and clock reading.  The routers' final phases touch disjoint parts of
  the cache when their keys are distinct; here they run in the order of the
  entries.\<close>

fun pollRouters ::
  "(ident \<Rightarrow> snmp_agent) \<Rightarrow> (ident \<Rightarrow> number) \<Rightarrow> (ident \<times> router_config) list \<Rightarrow> sample_cache
     \<Rightarrow> poll_snapshot \<times> sample_cache" where
  "pollRouters agents clock [] cache = ([], cache)"
| "pollRouters agents clock ((rid, r) # rs) cache =
     (let (smp, cache1) = pollRouter rid r (agents rid) (clock rid) cache;
          (snap, cache2) = pollRouters agents clock rs cache1
      in ((rid, smp) # snap, cache2))"

subsection \<open>The OID sanitiser returns canonical dotted numeric OIDs\<close>

lemma split_on_no_sep: "c \<notin> set w \<Longrightarrow> split_on c w = [w]"
  by (induction w) auto

lemma split_on_append_sep: "c \<notin> set w \<Longrightarrow> split_on c (w @ c # r) = w # split_on c r"
  by (induction w) auto

lemma split_on_join:
  "ws \<noteq> [] \<Longrightarrow> \<forall>w\<in>set ws. c \<notin> set w \<Longrightarrow> split_on c (join [c] ws) = ws"
  by (induction "[c]" ws rule: join.induct) (simp_all add: split_on_no_sep split_on_append_sep)

lemma set_join: "set (join sep ws) \<subseteq> set sep \<union> \<Union> (set ` set ws)"
  by (induction sep ws rule: join.induct) auto

lemma dropWhile_none: "\<forall>c\<in>set s. \<not> P c \<Longrightarrow> dropWhile P s = s"
  by (induction s) auto

lemma js_trim_id: "\<forall>c\<in>set s. \<not> is_js_space c \<Longrightarrow> js_trim s = s"
  by (simp add: js_trim_def dropWhile_none)

lemma digit_not_space: "is_digit c \<Longrightarrow> \<not> is_js_space c"
  by (auto simp: is_digit_def is_js_space_def)

lemma dot_not_space: "\<not> is_js_space (CHR ''.'')"
  by (simp add: is_js_space_def)

lemma dot_not_digit: "\<not> is_digit (CHR ''.'')"
  by (simp add: is_digit_def)

lemma join_nonempty: "ws \<noteq> [] \<Longrightarrow> hd ws \<noteq> [] \<Longrightarrow> join sep ws \<noteq> []"
  by (induction sep ws rule: join.induct) auto

definition canonical_oid :: "string list \<Rightarrow> bool" where
  "canonical_oid segs \<longleftrightarrow> segs \<noteq> [] \<and> (\<forall>seg\<in>set segs. all_digits seg)"

lemma sanitizeOid_Inr_canonical:
  assumes "sanitizeOid raw = Inr oid"
  shows "\<exists>segs. canonical_oid segs \<and> oid = join ''.'' segs"
proof -
  let ?segs = "filter (\<lambda>s. s \<noteq> []) (split_on (CHR ''.'') (js_trim raw))"
  from assms have "canonical_oid ?segs \<and> oid = join ''.'' ?segs"
    by (auto simp: sanitizeOid_def Let_def canonical_oid_def find_None_iff split: if_splits option.splits)
  then show ?thesis by blast
qed

lemma canonical_join_trim:
  assumes "canonical_oid segs"
  shows "js_trim (join ''.'' segs) = join ''.'' segs"
proof -
  have "\<forall>seg\<in>set segs. seg \<noteq> [] \<and> list_all is_digit seg"
    using assms by (auto simp: canonical_oid_def all_digits_def)
  then have "\<forall>c\<in>set (join ''.'' segs). \<not> is_js_space c"
    using set_join [of "''.''" segs] dot_not_space digit_not_space
    by (fastforce simp: list_all_iff)
  then show ?thesis by (rule js_trim_id)
qed

lemma sanitizeOid_join:
  assumes "canonical_oid segs"
  shows "sanitizeOid (join ''.'' segs) = Inr (join ''.'' segs)"
proof -
  have digits: "\<forall>seg\<in>set segs. seg \<noteq> [] \<and> list_all is_digit seg" and ne: "segs \<noteq> []"
    using assms by (auto simp: canonical_oid_def all_digits_def)
  have nodot: "\<forall>w\<in>set segs. CHR ''.'' \<notin> set w"
    using digits dot_not_digit by (fastforce simp: list_all_iff)
  have trim: "js_trim (join ''.'' segs) = join ''.'' segs"
    using assms by (rule canonical_join_trim)
  have nonempty: "join ''.'' segs \<noteq> []"
    using ne digits by (intro join_nonempty) (auto simp: neq_Nil_conv)
  have split: "split_on (CHR ''.'') (join ''.'' segs) = segs"
    using split_on_join [OF ne nodot] by simp
  have filt: "filter (\<lambda>s. s \<noteq> []) segs = segs"
    using digits by (simp add: filter_id_conv)
  have find: "find (\<lambda>segment. \<not> all_digits segment) segs = None"
    using assms by (simp add: canonical_oid_def find_None_iff)
  show ?thesis
    by (simp add: sanitizeOid_def Let_def trim nonempty split filt find ne)
qed

text \<open>An OID accepted by sanitizeOid is in canonical dotted numeric form: sanitizing the result again returns it unchanged.\<close>

lemma sanitizeOid_idem: "sanitizeOid raw = Inr oid \<Longrightarrow> sanitizeOid oid = Inr oid"
  using sanitizeOid_Inr_canonical sanitizeOid_join by blast
subsection \<open>Throughput on every branch\<close>

text \<open>With a previous entry, positive elapsed milliseconds and a counter not below the previous value, the rate is (current - previous) * 8 / (elapsed / 1000) and fresh.\<close>

lemma computeThroughput_rate:
  assumes "previous = Some prev" "0 < deltaMs"
    and "prevValue = (if dir = DirIn then ce_inOctets prev else ce_outOctets prev)"
    and "prevValue \<le> cur"
  shows "computeThroughput (Some cur) previous deltaMs dir =
           \<lparr>tp_bps = (cur - prevValue) * 8 / (deltaMs / 1000), tp_fresh = True\<rparr>"
  using assms by (auto simp: computeThroughput_def Let_def)

text \<open>A counter that is below its cached previous value (wrap or device reset) yields rate 0 and freshness false, for either direction.\<close>

lemma computeThroughput_wrap:
  assumes "cur < (if dir = DirIn then ce_inOctets prev else ce_outOctets prev)"
  shows "computeThroughput (Some cur) (Some prev) deltaMs dir = stale"
  using assms by (auto simp: computeThroughput_def Let_def)

text \<open>With no current reading, no previous cache entry, or a non-positive elapsed time, the throughput is rate 0 and not fresh.\<close>

lemma computeThroughput_no_baseline:
  "current = None \<or> previous = None \<or> deltaMs \<le> 0 \<Longrightarrow>
     computeThroughput current previous deltaMs dir = stale"
  by (auto simp: computeThroughput_def split: option.splits)

text \<open>The throughput computed for any inputs is never negative.\<close>

lemma computeThroughput_nonneg: "0 \<le> tp_bps (computeThroughput current previous deltaMs dir)"
  by (auto simp: computeThroughput_def Let_def stale_def split: option.splits)

lemma computeThroughput_fresh_iff:
  "tp_fresh (computeThroughput current previous deltaMs dir) \<longleftrightarrow>
     (\<exists>cur prev. current = Some cur \<and> previous = Some prev \<and> 0 < deltaMs \<and>
        (if dir = DirIn then ce_inOctets prev else ce_outOctets prev) \<le> cur)"
  by (auto simp: computeThroughput_def Let_def stale_def split: option.splits)

subsection \<open>The interfaces a poll reports\<close>

lemma prepare_interfaces_keys:
  "set (map fst (fst (prepare_interfaces ifs smp ts))) = set (map fst smp) \<union> set (map ic_name ifs)
   \<and> (distinct (map fst smp) \<longrightarrow> distinct (map fst (fst (prepare_interfaces ifs smp ts))))"
proof (induction ifs arbitrary: smp ts)
  case Nil
  then show ?case by simp
next
  case (Cons iface ifs)
  then show ?case
    by (auto simp: dom_update distinct_update split: prod.splits)
qed

lemma prepare_interfaces_targets:
  "snd (prepare_interfaces ifs smp ts) = ts @ map (snd \<circ> prepare_interface) ifs"
  by (induction ifs arbitrary: smp ts) (auto split: prod.splits)

lemma prepare_interfaces_values:
  "s \<in> set (map snd (fst (prepare_interfaces ifs smp ts))) \<Longrightarrow>
     s \<in> set (map snd smp) \<or> (\<exists>iface\<in>set ifs. s = fst (prepare_interface iface))"
proof (induction ifs arbitrary: smp ts)
  case Nil
  then show ?case by simp
next
  case (Cons iface ifs)
  obtain s0 t0 where p: "prepare_interface iface = (s0, t0)" by fastforce
  from Cons.prems p have "s \<in> set (map snd (fst (prepare_interfaces ifs (AList.update (ic_name iface) s0 smp) (ts @ [t0]))))"
    by simp
  from Cons.IH [OF this] show ?case
    using set_update_values [of "ic_name iface" s0 smp] p by auto
qed

lemma query_target_keys: "map fst (query_target agent t smp) = map fst smp"
  by (auto simp: query_target_def Let_def update_keys_present split: option.splits sum.splits)

lemma query_targets_keys: "map fst (query_targets agent ts smp) = map fst smp"
  by (induction ts arbitrary: smp) (simp_all add: query_target_keys)

lemma finalize_interface_keys:
  "map fst (fst (finalize_interface rid now iface st)) = map fst (fst st)"
  by (auto simp: finalize_interface_def Let_def update_keys_present split: option.splits prod.splits)

lemma fold_finalize_keys:
  "map fst (fst (fold (finalize_interface rid now) ifs st)) = map fst (fst st)"
  by (induction ifs arbitrary: st) (simp_all add: finalize_interface_keys)

lemma finalize_interface_lookup:
  "map_of (fst (finalize_interface rid now iface st)) k =
     (if k = ic_name iface then map_option (finalize_sample (snd st (cacheKey rid k)) now) (map_of (fst st) k)
      else map_of (fst st) k)"
  by (auto simp: finalize_interface_def Let_def map_of_update_same map_of_update_other split: option.splits prod.splits)

lemma finalize_interface_cache:
  "snd (finalize_interface rid now iface st) =
     (case map_of (fst st) (ic_name iface) of
        None \<Rightarrow> snd st
      | Some s \<Rightarrow> cache_update (cacheKey rid (ic_name iface)) now
                   (finalize_sample (snd st (cacheKey rid (ic_name iface))) now s) (snd st))"
  by (auto simp: finalize_interface_def Let_def split: option.splits prod.splits)

lemma fold_finalize_keys_eq:
  "fold (finalize_interface rid now) ifs st = (smp', c') \<Longrightarrow> map fst smp' = map fst (fst st)"
  using fold_finalize_keys [of rid now ifs st] by simp

lemma pollRouter_keys_prepared:
  assumes "rc_interfaces router \<noteq> []" "prepare_interfaces (rc_interfaces router) [] [] = (smp, ts)"
  shows "map fst (rs_interfaces (fst (pollRouter rid router agent now cache))) = map fst smp"
  using assms
  by (auto simp: pollRouter_def Let_def query_targets_keys split: prod.splits dest!: fold_finalize_keys_eq)

text \<open>C3 (invariant): For a router with at least one interface, the sample has one entry for every configured interface name and no two entries with the same name: no interface is silently omitted.\<close>

lemma pollRouter_keys:
  assumes "rc_interfaces router \<noteq> []"
  shows "set (map fst (rs_interfaces (fst (pollRouter rid router agent now cache)))) = set (map ic_name (rc_interfaces router))
         \<and> distinct (map fst (rs_interfaces (fst (pollRouter rid router agent now cache))))"
proof -
  obtain smp ts where p: "prepare_interfaces (rc_interfaces router) [] [] = (smp, ts)" by fastforce
  with prepare_interfaces_keys [of "rc_interfaces router" "[]" "[]"]
  have "set (map fst smp) = set (map ic_name (rc_interfaces router))" "distinct (map fst smp)" by simp_all
  with pollRouter_keys_prepared [OF assms p] show ?thesis by simp
qed

subsection \<open>Status and error agree after a poll\<close>

definition status_consistent :: "interface_sample \<Rightarrow> bool" where
  "status_consistent s \<longleftrightarrow> (im_status s = Error \<longleftrightarrow> has_error s)"

lemma finalize_sample_fields [simp]:
  "im_error (finalize_sample p now s) = im_error s"
  "im_name (finalize_sample p now s) = im_name s"
  "inOctets (finalize_sample p now s) = inOctets s"
  "outOctets (finalize_sample p now s) = outOctets s"
  "maxBandwidth (finalize_sample p now s) = maxBandwidth s"
  by (simp_all add: finalize_sample_def Let_def)

lemma has_error_finalize [simp]: "has_error (finalize_sample p now s) = has_error s"
  by (simp add: has_error_def)

lemma finalize_sample_consistent: "status_consistent (finalize_sample p now s)"
  by (simp add: status_consistent_def finalize_sample_def Let_def metricStatus_Error_iff has_error_def)

lemma fold_finalize_consistent:
  assumes "\<forall>k\<in>K. \<forall>s. map_of (fst st) k = Some s \<longrightarrow> status_consistent s"
  shows "\<forall>k\<in>K \<union> set (map ic_name ifs). \<forall>s. map_of (fst (fold (finalize_interface rid now) ifs st)) k = Some s \<longrightarrow> status_consistent s"
  using assms
proof (induction ifs arbitrary: st K)
  case Nil
  then show ?case by simp
next
  case (Cons iface ifs)
  let ?st' = "finalize_interface rid now iface st"
  have "\<forall>k\<in>insert (ic_name iface) K. \<forall>s. map_of (fst ?st') k = Some s \<longrightarrow> status_consistent s"
    using Cons.prems by (auto simp: finalize_interface_lookup finalize_sample_consistent)
  from Cons.IH [OF this] show ?case by simp
qed

lemma sanitizeOid_Inl_nonempty: "sanitizeOid raw = Inl e \<Longrightarrow> e \<noteq> []"
  by (auto simp: sanitizeOid_def Let_def split: if_splits option.splits)

lemma record_error_consistent: "e \<noteq> [] \<Longrightarrow> status_consistent (record_error e s)"
  by (simp add: status_consistent_def record_error_def has_error_def)

text \<open>A prepared interface without counters had both counter OIDs rejected.\<close>

lemma prepare_counter_cases:
  "prepare_counter raw kind st = (s', t') \<Longrightarrow>
     (\<exists>oid. sanitizeOid raw = Inr oid \<and> s' = fst st \<and> hasCounters t') \<or>
     (\<exists>e. sanitizeOid raw = Inl e \<and> s' = record_error e (fst st) \<and> t' = snd st)"
  by (auto simp: prepare_counter_def add_entry_def split: sum.splits)

lemma prepare_speed_cases:
  "prepare_speed sp st = (s', t') \<Longrightarrow>
     (s' = fst st \<or> (\<exists>e. e \<noteq> [] \<and> s' = record_error e (fst st))) \<and> (hasCounters t' \<longleftrightarrow> hasCounters (snd st))"
  by (fastforce simp: prepare_speed_def add_entry_def split: option.splits sum.splits if_splits
      dest: sanitizeOid_Inl_nonempty)

lemma add_entry_hasCounters: "hasCounters t \<Longrightarrow> hasCounters (add_entry oid k c t)"
  by (simp add: add_entry_def)

lemma prepare_counter_keeps: "hasCounters (snd st) \<Longrightarrow> hasCounters (snd (prepare_counter raw kind st))"
  by (auto simp: prepare_counter_def add_entry_hasCounters split: sum.splits)

lemma record_error_consistent_again:
  "e \<noteq> [] \<Longrightarrow> status_consistent s \<Longrightarrow> has_error s \<Longrightarrow> status_consistent (record_error e s)"
  by (simp add: record_error_consistent)

lemma prepare_interface_no_counters:
  assumes "\<not> hasCounters (snd (prepare_interface iface))"
  shows "status_consistent (fst (prepare_interface iface)) \<and> has_error (fst (prepare_interface iface))"
proof -
  let ?st0 = "(makeInterfaceSample iface, \<lparr>it_iface = iface, it_entries = [], hasCounters = False\<rparr>)"
  obtain s1 t1 where p1: "prepare_counter (oid_in iface) KindIn ?st0 = (s1, t1)" by fastforce
  obtain s2 t2 where p2: "prepare_counter (oid_out iface) KindOut (s1, t1) = (s2, t2)" by fastforce
  obtain s3 t3 where p3: "prepare_speed (oid_speed iface) (s2, t2) = (s3, t3)" by fastforce
  have pi: "prepare_interface iface = (s3, t3)"
    using p1 p2 p3 by (simp add: prepare_interface_def)
  from assms pi p3 prepare_speed_cases [OF p3] have nc2: "\<not> hasCounters t2" by simp
  from prepare_counter_cases [OF p2] nc2 obtain e2 where
    "sanitizeOid (oid_out iface) = Inl e2" "s2 = record_error e2 s1" by auto
  then have c2: "status_consistent s2 \<and> has_error s2"
    using sanitizeOid_Inl_nonempty [of "oid_out iface" e2]
    by (simp add: status_consistent_def record_error_def has_error_def)
  from prepare_speed_cases [OF p3] c2 have "status_consistent s3 \<and> has_error s3"
    by (auto simp: status_consistent_def record_error_def has_error_def)
  with pi show ?thesis by simp
qed

lemma values_lookup:
  assumes "distinct (map fst m)" "s \<in> set (map snd m)"
  shows "\<exists>k\<in>set (map fst m). map_of m k = Some s"
proof -
  from assms(2) obtain k where ks: "(k, s) \<in> set m" by auto
  then have "map_of m k = Some s" using assms(1) by (rule map_of_is_SomeI [rotated])
  moreover from ks have "k \<in> set (map fst m)" by force
  ultimately show ?thesis by blast
qed

lemma status_consistent_Error_iff:
  "\<forall>s\<in>set xs. status_consistent s \<Longrightarrow>
     combineStatuses (map im_status xs) = Error \<longleftrightarrow> (\<exists>s\<in>set xs. has_error s)"
  unfolding combineStatuses_Error_iff status_consistent_def by (auto simp: image_iff) metis

lemma pollRouter_consistent:
  assumes ne: "rc_interfaces router \<noteq> []"
  shows "\<forall>s\<in>set (map snd (rs_interfaces (fst (pollRouter rid router agent now cache)))). status_consistent s"
proof -
  let ?ifs = "rc_interfaces router"
  obtain smp ts where p: "prepare_interfaces ?ifs [] [] = (smp, ts)" by fastforce
  have keys: "set (map fst smp) = set (map ic_name ?ifs)" "distinct (map fst smp)"
    using prepare_interfaces_keys [of ?ifs "[]" "[]"] p by simp_all
  have ts: "ts = map (snd \<circ> prepare_interface) ?ifs"
    using prepare_interfaces_targets [of ?ifs "[]" "[]"] p by simp
  show ?thesis
  proof (cases "list_ex hasCounters ts")
    case False
    have "status_consistent s" if "s \<in> set (map snd smp)" for s
    proof -
      from prepare_interfaces_values [of s ?ifs "[]" "[]"] that p
      obtain iface where "iface \<in> set ?ifs" "s = fst (prepare_interface iface)" by auto
      moreover from False ts this(1) have "\<not> hasCounters (snd (prepare_interface iface))"
        by (auto simp: list_ex_iff)
      ultimately show ?thesis using prepare_interface_no_counters by blast
    qed
    with ne p False show ?thesis by (simp add: pollRouter_def)
  next
    case True
    let ?smp1 = "query_targets agent ts smp"
    obtain smp2 cache2 where f: "fold (finalize_interface rid now) ?ifs (?smp1, cache) = (smp2, cache2)"
      by fastforce
    have k2: "map fst smp2 = map fst smp"
      using fold_finalize_keys_eq [OF f] by (simp add: query_targets_keys)
    have all: "\<forall>k\<in>set (map ic_name ?ifs). \<forall>s. map_of smp2 k = Some s \<longrightarrow> status_consistent s"
      using fold_finalize_consistent [of "{}" "(?smp1, cache)" ?ifs rid now] f by simp
    have "status_consistent s" if "s \<in> set (map snd smp2)" for s
    proof -
      from values_lookup [of smp2 s] that k2 keys(2) obtain k
        where k: "k \<in> set (map fst smp2)" "map_of smp2 k = Some s" by auto
      then have "k \<in> set (map ic_name ?ifs)" using k2 keys(1) by simp
      with all k(2) show ?thesis by blast
    qed
    with ne p True f show ?thesis by (simp add: pollRouter_def)
  qed
qed

lemma pollRouter_status:
  "rc_interfaces router \<noteq> [] \<Longrightarrow>
     rs_status (fst (pollRouter rid router agent now cache)) =
       combineStatuses (map im_status (map snd (rs_interfaces (fst (pollRouter rid router agent now cache)))))"
  by (auto simp: pollRouter_def Let_def sample_status_def split: prod.splits)

text \<open>C2 (invariant): For a router with at least one interface, the router sample is Error exactly when some interface sample carries a non-empty error message.\<close>

theorem pollRouter_status_error_iff:
  assumes "rc_interfaces router \<noteq> []"
  shows "rs_status (fst (pollRouter rid router agent now cache)) = Error \<longleftrightarrow>
           (\<exists>s\<in>set (map snd (rs_interfaces (fst (pollRouter rid router agent now cache)))). has_error s)"
proof -
  let ?xs = "map snd (rs_interfaces (fst (pollRouter rid router agent now cache)))"
  have st: "rs_status (fst (pollRouter rid router agent now cache)) = combineStatuses (map im_status ?xs)"
    using pollRouter_status [OF assms] .
  have "\<forall>s\<in>set ?xs. status_consistent s" using pollRouter_consistent [OF assms] .
  then have "combineStatuses (map im_status ?xs) = Error \<longleftrightarrow> (\<exists>s\<in>set ?xs. has_error s)"
    by (rule status_consistent_Error_iff)
  then show ?thesis unfolding st .
qed

subsection \<open>The sample cache\<close>

lemma cacheKey_inj: "cacheKey rid m = cacheKey rid n \<longleftrightarrow> m = n"
  by (simp add: cacheKey_def)

lemma cache_update_other: "k \<noteq> key \<Longrightarrow> cache_update key now s cache k = cache k"
  by (simp add: cache_update_def split: option.splits)

lemma fold_finalize_cache_frame:
  "k \<notin> (\<lambda>i. cacheKey rid (ic_name i)) ` set ifs \<Longrightarrow>
     snd (fold (finalize_interface rid now) ifs st) k = snd st k"
  by (induction ifs arbitrary: st)
     (auto simp: finalize_interface_cache cache_update_other split: option.splits)

text \<open>C6 (safety): A poll of router rid changes the sample cache only at the keys cacheKey rid name of its own configured interfaces.\<close>

lemma pollRouter_cache_frame:
  assumes "k \<notin> (\<lambda>i. cacheKey rid (ic_name i)) ` set (rc_interfaces router)"
  shows "snd (pollRouter rid router agent now cache) k = cache k"
  by (simp add: pollRouter_def Let_def prod.case_eq_if fold_finalize_cache_frame [OF assms])

definition cache_agrees :: "ident \<Rightarrow> number \<Rightarrow> interface_sample js_object \<Rightarrow> sample_cache \<Rightarrow> string \<Rightarrow> bool" where
  "cache_agrees rid now smp cache n \<longleftrightarrow>
     (\<forall>s a b. map_of smp n = Some s \<longrightarrow> inOctets s = Some a \<longrightarrow> outOctets s = Some b \<longrightarrow>
        cache (cacheKey rid n) = Some \<lparr>ce_inOctets = a, ce_outOctets = b, ce_timestamp = now\<rparr>)"

lemma finalize_interface_agrees_same:
  "cache_agrees rid now (fst (finalize_interface rid now iface st)) (snd (finalize_interface rid now iface st)) (ic_name iface)"
  by (auto simp: cache_agrees_def finalize_interface_lookup finalize_interface_cache cache_update_def
      split: option.splits)

lemma finalize_interface_agrees_other:
  "n \<noteq> ic_name iface \<Longrightarrow> cache_agrees rid now (fst st) (snd st) n \<Longrightarrow>
     cache_agrees rid now (fst (finalize_interface rid now iface st)) (snd (finalize_interface rid now iface st)) n"
  by (auto simp: cache_agrees_def finalize_interface_lookup finalize_interface_cache cache_update_other cacheKey_inj
      split: option.splits)

lemma fold_finalize_agrees:
  "\<forall>n\<in>K. cache_agrees rid now (fst st) (snd st) n \<Longrightarrow>
     \<forall>n\<in>K \<union> set (map ic_name ifs).
       cache_agrees rid now (fst (fold (finalize_interface rid now) ifs st)) (snd (fold (finalize_interface rid now) ifs st)) n"
proof (induction ifs arbitrary: st K)
  case Nil
  then show ?case by simp
next
  case (Cons iface ifs)
  have "cache_agrees rid now (fst (finalize_interface rid now iface st)) (snd (finalize_interface rid now iface st)) n"
    if "n \<in> insert (ic_name iface) K" for n
  proof (cases "n = ic_name iface")
    case True
    then show ?thesis using finalize_interface_agrees_same by simp
  next
    case False
    with that Cons.prems have "cache_agrees rid now (fst st) (snd st) n" by simp
    with False show ?thesis by (rule finalize_interface_agrees_other)
  qed
  then have "\<forall>n\<in>insert (ic_name iface) K.
      cache_agrees rid now (fst (finalize_interface rid now iface st)) (snd (finalize_interface rid now iface st)) n"
    by blast
  from Cons.IH [OF this] show ?case by simp
qed

lemma prepare_interface_octets:
  "inOctets (fst (prepare_interface iface)) = None \<and> outOctets (fst (prepare_interface iface)) = None"
  by (simp add: prepare_interface_def prepare_speed_def prepare_counter_def record_error_def
      makeInterfaceSample_def split: option.splits sum.splits)

lemma prepared_value_octets:
  assumes "prepare_interfaces ifs [] [] = (smp, ts)" "map_of smp n = Some s"
  shows "inOctets s = None"
proof -
  from assms(2) have "s \<in> set (map snd smp)" by (force dest: map_of_SomeD)
  with prepare_interfaces_values [of s ifs "[]" "[]"] assms(1)
  obtain iface where "s = fst (prepare_interface iface)" by auto
  then show ?thesis using prepare_interface_octets by simp
qed

theorem pollRouter_cache_roundtrip:
  assumes "map_of (rs_interfaces (fst (pollRouter rid router agent now cache))) n = Some s"
    and "inOctets s = Some a" "outOctets s = Some b"
  shows "snd (pollRouter rid router agent now cache) (cacheKey rid n) =
           Some \<lparr>ce_inOctets = a, ce_outOctets = b, ce_timestamp = now\<rparr>"
proof -
  let ?ifs = "rc_interfaces router"
  obtain smp ts where p: "prepare_interfaces ?ifs [] [] = (smp, ts)" by fastforce
  have ne: "?ifs \<noteq> []" using assms(1) by (auto simp: pollRouter_def)
  show ?thesis
  proof (cases "list_ex hasCounters ts")
    case False
    with ne p assms(1) have "map_of smp n = Some s" by (simp add: pollRouter_def)
    with prepared_value_octets [OF p] assms(2) show ?thesis by simp
  next
    case True
    obtain smp2 cache2 where f: "fold (finalize_interface rid now) ?ifs (query_targets agent ts smp, cache) = (smp2, cache2)"
      by fastforce
    have res: "rs_interfaces (fst (pollRouter rid router agent now cache)) = smp2"
              "snd (pollRouter rid router agent now cache) = cache2"
      using ne p True f by (simp_all add: pollRouter_def)
    have keys: "n \<in> set (map fst smp2)" using assms(1) res by (force dest: map_of_SomeD)
    have "map fst smp2 = map fst smp"
      using fold_finalize_keys_eq [OF f] by (simp add: query_targets_keys)
    then have "n \<in> set (map ic_name ?ifs)"
      using keys prepare_interfaces_keys [of ?ifs "[]" "[]"] p by simp
    with fold_finalize_agrees [of "{}" rid now "(query_targets agent ts smp, cache)" ?ifs] f
    have "cache_agrees rid now smp2 cache2 n" by auto
    with assms res show ?thesis by (simp add: cache_agrees_def)
  qed
qed

subsection \<open>Two consecutive polls\<close>

lemma fold_finalize_value:
  assumes "distinct (map ic_name ifs)"
  shows "map_of (fst (fold (finalize_interface rid now) ifs st)) n =
           (if n \<in> set (map ic_name ifs)
            then map_option (finalize_sample (snd st (cacheKey rid n)) now) (map_of (fst st) n)
            else map_of (fst st) n)"
  using assms
proof (induction ifs arbitrary: st)
  case Nil
  then show ?case by simp
next
  case (Cons iface ifs)
  let ?st' = "finalize_interface rid now iface st"
  have cache_n: "snd ?st' (cacheKey rid n) = snd st (cacheKey rid n)" if "n \<noteq> ic_name iface"
    using that by (auto simp: finalize_interface_cache cache_update_other cacheKey_inj split: option.splits)
  show ?case
  proof (cases "n = ic_name iface")
    case True
    with Cons.prems have "n \<notin> set (map ic_name ifs)" by simp
    with Cons.IH [of ?st'] Cons.prems True show ?thesis
      by (simp add: finalize_interface_lookup)
  next
    case False
    with Cons.IH [of ?st'] Cons.prems cache_n show ?thesis
      by (simp add: finalize_interface_lookup)
  qed
qed

lemma pollRouter_value:
  assumes "distinct (map ic_name (rc_interfaces router))"
    and "map_of (rs_interfaces (fst (pollRouter rid router agent now cache))) n = Some s"
    and "inOctets s \<noteq> None"
  shows "\<exists>sq. s = finalize_sample (cache (cacheKey rid n)) now sq"
proof -
  let ?ifs = "rc_interfaces router"
  obtain smp ts where p: "prepare_interfaces ?ifs [] [] = (smp, ts)" by fastforce
  have ne: "?ifs \<noteq> []" using assms(2) by (auto simp: pollRouter_def)
  show ?thesis
  proof (cases "list_ex hasCounters ts")
    case False
    with ne p assms(2) have "map_of smp n = Some s" by (simp add: pollRouter_def)
    with prepared_value_octets [OF p] assms(3) show ?thesis by simp
  next
    case True
    let ?smp1 = "query_targets agent ts smp"
    have res: "rs_interfaces (fst (pollRouter rid router agent now cache)) =
                 fst (fold (finalize_interface rid now) ?ifs (?smp1, cache))"
      using ne p True by (simp add: pollRouter_def prod.case_eq_if Let_def)
    have keys: "set (map fst ?smp1) = set (map ic_name ?ifs)"
      using prepare_interfaces_keys [of ?ifs "[]" "[]"] p by (simp add: query_targets_keys)
    have "n \<in> set (map ic_name ?ifs)"
    proof (rule ccontr)
      assume out: "n \<notin> set (map ic_name ?ifs)"
      with assms(2) res fold_finalize_value [OF assms(1), of rid now "(?smp1, cache)" n]
      have "map_of ?smp1 n = Some s" by simp
      then have "n \<in> set (map fst ?smp1)" by (force dest: map_of_SomeD)
      with keys out show False by simp
    qed
    with assms(2) res fold_finalize_value [OF assms(1), of rid now "(?smp1, cache)" n]
    show ?thesis by auto
  qed
qed

text \<open>C1 (functional): Across two consecutive polls of a router whose interface names are distinct, an interface whose inbound counter grew from a1 to a2 between times t1 < t2 is reported at exactly (a2 - a1) * 8 / ((t2 - t1) / 1000) bps, the first poll having left its counters and time in the cache.\<close>

theorem pollRouter_two_cycles_rate:
  assumes names: "distinct (map ic_name (rc_interfaces router))"
    and first: "pollRouter rid router agent1 t1 cache0 = (r1, cache1)"
    and second: "pollRouter rid router agent2 t2 cache1 = (r2, cache2)"
    and s1: "map_of (rs_interfaces r1) n = Some s1" "inOctets s1 = Some a1" "outOctets s1 = Some b1"
    and s2: "map_of (rs_interfaces r2) n = Some s2" "inOctets s2 = Some a2"
    and mono: "a1 \<le> a2" and time: "t1 < t2"
  shows "inBps s2 = (a2 - a1) * 8 / ((t2 - t1) / 1000) \<and> tp_fresh (computeThroughput (Some a2) (cache1 (cacheKey rid n)) (t2 - t1) DirIn)"
proof -
  have c1: "cache1 (cacheKey rid n) = Some \<lparr>ce_inOctets = a1, ce_outOctets = b1, ce_timestamp = t1\<rparr>"
    using pollRouter_cache_roundtrip [of rid router agent1 t1 cache0 n s1 a1 b1] first s1 by simp
  obtain sq where sq: "s2 = finalize_sample (cache1 (cacheKey rid n)) t2 sq"
    using pollRouter_value [OF names, of rid agent2 t2 cache1 n s2] second s2 by auto
  have "inOctets sq = Some a2" using sq s2(2) by simp
  then show ?thesis
    using sq c1 mono time by (simp add: finalize_sample_def computeThroughput_def Let_def)
qed

subsection \<open>Concrete polls\<close>

text \<open>A one-interface router and an agent that answers fixed counter values;
  the bundle \<open>sampler_eval\<close> evaluates a whole \<open>pollRouter\<close> call by \<open>simp\<close>.\<close>

lemmas sampler_eval =
  pollRouter_def prepare_interface_def prepare_counter_def prepare_speed_def sanitizeOid_def
  js_trim_def is_js_space_def all_digits_def is_digit_def makeInterfaceSample_def add_entry_def
  record_error_def query_target_def speed_scale_def apply_varbind_def finalize_interface_def
  finalize_sample_def cacheKey_def computeThroughput_def cache_update_def sample_status_def
  has_error_def metricStatus_def stale_def kind_label_def Let_def

definition ex_iface :: interface_config where
  "ex_iface = \<lparr>ic_name = ''ge0'', oid_in = ''1.1'', oid_out = ''1.2'', max_bandwidth = Some 1000,
     oid_speed = None, oid_speed_scale = None, display_name = None\<rparr>"

definition ex_router :: router_config where
  "ex_router = \<lparr>ip = ''10.0.0.1'', community = ''public'', rc_label = None, rc_interfaces = [ex_iface]\<rparr>"

definition ex_agent :: "number \<Rightarrow> number \<Rightarrow> snmp_agent" where
  "ex_agent a b oids = Inr (map (\<lambda>x. if x = ''1.1'' then VbNumber a else VbNumber b) oids)"

definition ex_router_dup :: router_config where
  "ex_router_dup = ex_router\<lparr>rc_interfaces := [ex_iface, ex_iface]\<rparr>"

theorem pollRouter_two_cycles_rate_witness:
  "inBps (the (map_of (rs_interfaces (fst (pollRouter ''r1'' ex_router (ex_agent 225 300) 2000
      (snd (pollRouter ''r1'' ex_router (ex_agent 100 200) 1000 Map.empty))))) ''ge0'')) = 1000"
proof -
  let ?p1 = "pollRouter ''r1'' ex_router (ex_agent 100 200) 1000 Map.empty"
  let ?p2 = "pollRouter ''r1'' ex_router (ex_agent 225 300) 2000 (snd ?p1)"
  let ?s1 = "the (map_of (rs_interfaces (fst ?p1)) ''ge0'')"
  let ?s2 = "the (map_of (rs_interfaces (fst ?p2)) ''ge0'')"
  have d: "distinct (map ic_name (rc_interfaces ex_router))" by (simp add: ex_router_def ex_iface_def)
  have p1: "?p1 = (fst ?p1, snd ?p1)" and p2: "?p2 = (fst ?p2, snd ?p2)" by simp_all
  have s1: "map_of (rs_interfaces (fst ?p1)) ''ge0'' = Some ?s1" "inOctets ?s1 = Some 100" "outOctets ?s1 = Some 200"
    by (simp_all add: sampler_eval ex_router_def ex_iface_def ex_agent_def)
  have s2: "map_of (rs_interfaces (fst ?p2)) ''ge0'' = Some ?s2" "inOctets ?s2 = Some 225"
    by (simp_all add: sampler_eval ex_router_def ex_iface_def ex_agent_def)
  have "inBps ?s2 = (225 - 100) * 8 / ((2000 - 1000) / 1000) \<and>
        tp_fresh (computeThroughput (Some 225) (snd ?p1 (cacheKey ''r1'' ''ge0'')) (2000 - 1000) DirIn)"
    by (rule pollRouter_two_cycles_rate [OF d p1 p2 s1 s2]) simp_all
  then show ?thesis by simp
qed
theorem computeThroughput_rate_witness:
  "computeThroughput (Some 225) (Some \<lparr>ce_inOctets = 100, ce_outOctets = 200, ce_timestamp = 0\<rparr>) 1000 DirIn
     = \<lparr>tp_bps = 1000, tp_fresh = True\<rparr>"
  using computeThroughput_rate [of "Some \<lparr>ce_inOctets = 100, ce_outOctets = 200, ce_timestamp = 0\<rparr>"
      "\<lparr>ce_inOctets = 100, ce_outOctets = 200, ce_timestamp = 0\<rparr>" 1000 100 DirIn 225]
  by simp

theorem computeThroughput_wrap_witness:
  "computeThroughput (Some 50) (Some \<lparr>ce_inOctets = 100, ce_outOctets = 200, ce_timestamp = 0\<rparr>) 1000 DirIn = stale"
  using computeThroughput_wrap [of 50 DirIn "\<lparr>ce_inOctets = 100, ce_outOctets = 200, ce_timestamp = 0\<rparr>" 1000]
  by simp

theorem computeThroughput_no_baseline_witness:
  "computeThroughput (Some 50) None 1000 DirOut = stale"
  using computeThroughput_no_baseline [of "Some 50" None 1000 DirOut] by simp

theorem pollRouter_status_error_iff_witness:
  "rs_status (fst (pollRouter ''r1'' ex_router (\<lambda>_. Inl ''timeout'') 1000 Map.empty)) = Error"
proof -
  have ne: "rc_interfaces ex_router \<noteq> []" by (simp add: ex_router_def)
  have "\<exists>s\<in>set (map snd (rs_interfaces (fst (pollRouter ''r1'' ex_router (\<lambda>_. Inl ''timeout'') 1000 Map.empty)))).
          has_error s"
    by (simp add: sampler_eval ex_router_def ex_iface_def)
  with pollRouter_status_error_iff [OF ne, of "''r1''" "\<lambda>_. Inl ''timeout''" 1000 Map.empty]
  show ?thesis by blast
qed

theorem pollRouter_keys_witness:
  "set (map fst (rs_interfaces (fst (pollRouter ''r1'' ex_router (ex_agent 1 2) 1000 Map.empty)))) = {''ge0''}"
proof -
  have ne: "rc_interfaces ex_router \<noteq> []" by (simp add: ex_router_def)
  from pollRouter_keys [OF ne, of "''r1''" "ex_agent 1 2" 1000 Map.empty]
  show ?thesis by (simp add: ex_router_def ex_iface_def)
qed

theorem sanitizeOid_idem_witness:
  "sanitizeOid '' .1.3.6.1 '' = Inr ''1.3.6.1'' \<and> sanitizeOid ''1.3.6.1'' = Inr ''1.3.6.1''"
proof -
  have h: "sanitizeOid '' .1.3.6.1 '' = Inr ''1.3.6.1''"
    by (simp add: sanitizeOid_def js_trim_def is_js_space_def all_digits_def is_digit_def)
  with sanitizeOid_idem [OF h] show ?thesis by simp
qed

theorem pollRouter_cache_frame_witness:
  "snd (pollRouter ''r1'' ex_router (ex_agent 1 2) 1000 [''r2:ge0'' \<mapsto> \<lparr>ce_inOctets = 5, ce_outOctets = 6, ce_timestamp = 7\<rparr>]) ''r2:ge0''
     = Some \<lparr>ce_inOctets = 5, ce_outOctets = 6, ce_timestamp = 7\<rparr>"
proof -
  have "''r2:ge0'' \<notin> (\<lambda>i. cacheKey ''r1'' (ic_name i)) ` set (rc_interfaces ex_router)"
    by (simp add: ex_router_def ex_iface_def cacheKey_def)
  from pollRouter_cache_frame [OF this] show ?thesis by simp
qed

text \<open>The cache key router:interface is not injective: router "a" with interface "b:c" and router "a:b" with interface "c" share one cache entry.\<close>

theorem cacheKey_collision:
  "cacheKey ''a'' ''b:c'' = cacheKey ''a:b'' ''c'' \<and> (''a'', ''b:c'') \<noteq> (''a:b'', ''c'')"
  by (simp add: cacheKey_def)

text \<open>When a router lists the same interface name twice, the second pass of the final loop reads the entry the first pass just wrote (elapsed time 0) and reports rate 0, where a single listing reports 1000 bps for the same counters.\<close>

theorem pollRouter_duplicate_name_zero_rate:
  "inBps (the (map_of (rs_interfaces (fst (pollRouter ''r1'' ex_router_dup (ex_agent 225 300) 2000
        [''r1:ge0'' \<mapsto> \<lparr>ce_inOctets = 100, ce_outOctets = 200, ce_timestamp = 1000\<rparr>]))) ''ge0'')) = 0
   \<and> inBps (the (map_of (rs_interfaces (fst (pollRouter ''r1'' ex_router (ex_agent 225 300) 2000
        [''r1:ge0'' \<mapsto> \<lparr>ce_inOctets = 100, ce_outOctets = 200, ce_timestamp = 1000\<rparr>]))) ''ge0'')) = 1000"
  by (simp add: sampler_eval ex_router_dup_def ex_router_def ex_iface_def ex_agent_def)

text \<open>A transport error whose message is the empty string is recorded as the interface error but is falsy for Boolean(error), so the interface and the router end with status ok instead of error.\<close>

theorem pollRouter_empty_error_message_lost:
  "rs_status (fst (pollRouter ''r1'' ex_router (\<lambda>_. Inl []) 1000 Map.empty)) = Ok
   \<and> im_error (the (map_of (rs_interfaces (fst (pollRouter ''r1'' ex_router (\<lambda>_. Inl []) 1000 Map.empty))) ''ge0'')) = Some []"
  by (simp add: sampler_eval ex_router_def ex_iface_def)
end
