(* ===== verification/Resolver.thy ===== *)
theory Resolver
  imports Sampler
begin

text \<open>
  The topology resolver of the back end (\<open>src/src/backend.ts\<close>, the current
  version from line 418): \<open>toRouterMetrics\<close> turns the sampler's snapshot into
  the published per-router metrics, treating a router or an interface absent
  from the snapshot as an error with an explicit "no data" message, and
  \<open>toLinkMetrics\<close> attaches to every declared link the metrics of its two
  endpoint interfaces and their aggregate utilization.  The lemmas show that
  every declared router and interface is published, what a missing sample
  becomes, that a published interface carries the sampler's values unchanged,
  and that the aggregate utilization is the larger of the two directions.
\<close>

subsection \<open>toRouterMetrics\<close>

text \<open>The metrics of an interface the snapshot does not cover
  (\<open>maxBandwidth: iface.maxBandwidth ?? 0\<close>).\<close>

definition missing_interface :: "string \<Rightarrow> interface_definition \<Rightarrow> interface_metrics" where
  "missing_interface msg iface =
     \<lparr>im_name = if_name iface, inBps = 0, outBps = 0, inUtilization = 0, outUtilization = 0,
      im_status = Error,
      maxBandwidth = (case if_maxBandwidth iface of Some b \<Rightarrow> b | None \<Rightarrow> 0),
      fresh = False, im_error = Some msg\<rparr>"

text \<open>The copy of a sampled interface: every field but the raw counters.\<close>

definition sample_metrics :: "interface_sample \<Rightarrow> interface_metrics" where
  "sample_metrics s =
     \<lparr>im_name = im_name s, inBps = inBps s, outBps = outBps s,
      inUtilization = inUtilization s, outUtilization = outUtilization s,
      im_status = im_status s, maxBandwidth = maxBandwidth s, fresh = fresh s,
      im_error = im_error s\<rparr>"

definition interface_entry ::
  "router_sample \<Rightarrow> interface_metrics js_object \<Rightarrow> interface_definition \<Rightarrow> interface_metrics js_object" where
  "interface_entry sample acc iface =
     (case obj_get (rs_interfaces sample) (if_name iface) of
        None \<Rightarrow> obj_set (if_name iface) (missing_interface ''Interface missing from SNMP poll'' iface) acc
      | Some s \<Rightarrow> obj_set (if_name iface) (sample_metrics s) acc)"

text \<open>\<open>...(sample.error ? { error: sample.error } : {})\<close>: an empty message is
  dropped.\<close>

definition truthy_error :: "string option \<Rightarrow> string option" where
  "truthy_error e = (case e of Some m \<Rightarrow> if m = [] then None else Some m | None \<Rightarrow> None)"

definition router_entry :: "poll_snapshot \<Rightarrow> router_definition \<Rightarrow> router_metrics" where
  "router_entry snapshot router =
     (case obj_get snapshot (rd_id router) of
        None \<Rightarrow>
          \<lparr>rm_id = rd_id router, rm_label = rd_label router, rm_status = Error,
           rm_interfaces = foldl (\<lambda>acc iface. obj_set (if_name iface) (missing_interface ''No SNMP data'' iface) acc)
                             [] (rd_interfaces router),
           rm_error = Some ''No SNMP data''\<rparr>
      | Some sample \<Rightarrow>
          \<lparr>rm_id = rd_id router, rm_label = rd_label router, rm_status = rs_status sample,
           rm_interfaces = foldl (interface_entry sample) [] (rd_interfaces router),
           rm_error = truthy_error (rs_error sample)\<rparr>)"

definition toRouterMetrics :: "poll_snapshot \<Rightarrow> topology_definition \<Rightarrow> router_metrics js_object" where
  "toRouterMetrics snapshot topology =
     foldl (\<lambda>metrics router. obj_set (rd_id router) (router_entry snapshot router) metrics) [] (routers topology)"

subsection \<open>toLinkMetrics\<close>

definition utilisationForInterface :: "interface_metrics option \<Rightarrow> number option" where
  "utilisationForInterface iface =
     (case iface of None \<Rightarrow> None | Some i \<Rightarrow> Some (max (inUtilization i) (outUtilization i)))"

text \<open>\<open>routers[id]?.interfaces[name] ?? null\<close>\<close>

definition endpoint_metrics :: "router_metrics js_object \<Rightarrow> ident \<Rightarrow> string \<Rightarrow> interface_metrics option" where
  "endpoint_metrics rms rid name =
     (case obj_get rms rid of None \<Rightarrow> None | Some rm \<Rightarrow> obj_get (rm_interfaces rm) name)"

definition aggregate_utilization :: "number option \<Rightarrow> number option \<Rightarrow> number option" where
  "aggregate_utilization fu ru =
     (if fu \<noteq> None \<or> ru \<noteq> None
      then Some (max (case fu of Some u \<Rightarrow> u | None \<Rightarrow> 0) (case ru of Some u \<Rightarrow> u | None \<Rightarrow> 0))
      else None)"

definition link_entry :: "router_metrics js_object \<Rightarrow> link_definition \<Rightarrow> link_metrics" where
  "link_entry rms link =
     (let fwd = endpoint_metrics rms (ld_from link) (ld_ifaceFrom link);
          rev = endpoint_metrics rms (ld_to link) (ld_ifaceTo link)
      in \<lparr>lm_id = ld_id link, lm_label = ld_label link, lm_from = ld_from link, lm_to = ld_to link,
          forward = fwd, reverse = rev,
          aggregateUtilization = aggregate_utilization (utilisationForInterface fwd) (utilisationForInterface rev)\<rparr>)"

definition toLinkMetrics :: "router_metrics js_object \<Rightarrow> link_definition list \<Rightarrow> link_metrics list" where
  "toLinkMetrics rms ls = map (link_entry rms) ls"

subsection \<open>Every declared router and interface is published\<close>

lemma interface_entry_fold:
  "foldl (interface_entry sample) m ifaces =
     foldl (\<lambda>acc iface. obj_set (if_name iface)
              (case obj_get (rs_interfaces sample) (if_name iface) of
                 None \<Rightarrow> missing_interface ''Interface missing from SNMP poll'' iface
               | Some s \<Rightarrow> sample_metrics s) acc) m ifaces"
  by (induction ifaces arbitrary: m) (simp_all add: interface_entry_def split: option.splits)

lemma router_entry_keys:
  "fst ` set (rm_interfaces (router_entry snapshot router)) = if_name ` set (rd_interfaces router)"
  by (simp add: router_entry_def interface_entry_fold foldl_obj_set_keys split: option.splits)

lemma toRouterMetrics_keys:
  "fst ` set (toRouterMetrics snapshot topology) = rd_id ` set (routers topology)"
  by (simp add: toRouterMetrics_def foldl_obj_set_keys)

text \<open>A router id found in the published metrics maps to the entry of the last
  declared router with that id.\<close>

lemma toRouterMetrics_lookup:
  "obj_get (toRouterMetrics snapshot topology) rid =
     (case filter (\<lambda>r. rd_id r = rid) (rev (routers topology)) of
        [] \<Rightarrow> None
      | r # _ \<Rightarrow> Some (router_entry snapshot r))"
  unfolding toRouterMetrics_def by (simp add: foldl_obj_set_lookup split: list.split)

lemma router_entry_missing:
  assumes "obj_get snapshot (rd_id r) = None"
  shows "rm_status (router_entry snapshot r) = Error \<and> rm_error (router_entry snapshot r) = Some ''No SNMP data'' \<and>
         (\<forall>im \<in> set (obj_values (rm_interfaces (router_entry snapshot r))).
            im_status im = Error \<and> im_error im = Some ''No SNMP data'' \<and> \<not> fresh im)"
proof -
  have "set (obj_values (rm_interfaces (router_entry snapshot r))) \<subseteq>
          missing_interface ''No SNMP data'' ` set (rd_interfaces r)"
    using assms foldl_obj_set_values [of if_name "missing_interface ''No SNMP data''" "[]" "rd_interfaces r"]
    by (simp add: router_entry_def)
  then show ?thesis
    using assms by (auto simp: router_entry_def missing_interface_def)
qed

lemma router_entry_interface:
  assumes "obj_get snapshot (rd_id r) = Some sample"
    and "filter (\<lambda>i. if_name i = n) (rev (rd_interfaces r)) = iface # rest"
  shows "obj_get (rm_interfaces (router_entry snapshot r)) n =
           Some (case obj_get (rs_interfaces sample) n of
                   None \<Rightarrow> missing_interface ''Interface missing from SNMP poll'' iface
                 | Some s \<Rightarrow> sample_metrics s)"
proof -
  have "if_name iface = n"
    using assms(2) by (metis (mono_tags, lifting) filter_eq_ConsD)
  then show ?thesis
    using assms by (simp add: router_entry_def interface_entry_fold foldl_obj_set_lookup)
qed

lemma toRouterMetrics_entry:
  assumes "distinct (map rd_id (routers topology))" "r \<in> set (routers topology)"
  shows "obj_get (toRouterMetrics snapshot topology) (rd_id r) = Some (router_entry snapshot r)"
proof -
  have "filter (\<lambda>x. rd_id x = rd_id r) (rev (routers topology)) = [r]"
    using assms by (simp add: filter_key_singleton rev_map [symmetric])
  then show ?thesis by (simp add: toRouterMetrics_lookup)
qed

subsection \<open>Link utilization\<close>

definition endpoint_utils :: "link_metrics \<Rightarrow> number set" where
  "endpoint_utils lm = (\<lambda>i. max (inUtilization i) (outUtilization i)) ` (set_option (forward lm) \<union> set_option (reverse lm))"

lemma link_entry_endpoints:
  "forward (link_entry rms link) = endpoint_metrics rms (ld_from link) (ld_ifaceFrom link) \<and>
   reverse (link_entry rms link) = endpoint_metrics rms (ld_to link) (ld_ifaceTo link)"
  by (simp add: link_entry_def Let_def)

lemma link_entry_aggregate:
  assumes "\<forall>u \<in> endpoint_utils (link_entry rms link). 0 \<le> u"
  shows "aggregateUtilization (link_entry rms link) =
           (if endpoint_utils (link_entry rms link) = {} then None else Some (Max (endpoint_utils (link_entry rms link))))"
  using assms
  by (auto simp: link_entry_def Let_def endpoint_utils_def aggregate_utilization_def utilisationForInterface_def
      split: option.splits)

subsection \<open>Claims\<close>

text \<open>C9 (error): A declared router absent from the poll snapshot is still published, with status error and message "No SNMP data", one entry per declared interface, each of them error, not fresh and carrying the same message.\<close>

theorem toRouterMetrics_missing_router:
  assumes "distinct (map rd_id (routers topology))" "r \<in> set (routers topology)"
    and "obj_get snapshot (rd_id r) = None"
  shows "\<exists>rm. obj_get (toRouterMetrics snapshot topology) (rd_id r) = Some rm \<and>
           rm_status rm = Error \<and> rm_error rm = Some ''No SNMP data'' \<and>
           fst ` set (rm_interfaces rm) = if_name ` set (rd_interfaces r) \<and>
           (\<forall>im \<in> set (obj_values (rm_interfaces rm)).
              im_status im = Error \<and> im_error im = Some ''No SNMP data'' \<and> \<not> fresh im)"
  using toRouterMetrics_entry [OF assms(1,2)] router_entry_missing [OF assms(3)] router_entry_keys
  by blast

text \<open>For a sampled router, the published router status is the sampled status, and each declared interface is published as the sampled interface without its raw counters, or as an error "Interface missing from SNMP poll" when the sample lacks it.\<close>

theorem toRouterMetrics_interface:
  assumes "distinct (map rd_id (routers topology))" "r \<in> set (routers topology)"
    and "obj_get snapshot (rd_id r) = Some sample"
    and "distinct (map if_name (rd_interfaces r))" "iface \<in> set (rd_interfaces r)"
  shows "\<exists>rm. obj_get (toRouterMetrics snapshot topology) (rd_id r) = Some rm \<and>
           rm_status rm = rs_status sample \<and>
           obj_get (rm_interfaces rm) (if_name iface) =
             Some (case obj_get (rs_interfaces sample) (if_name iface) of
                     None \<Rightarrow> missing_interface ''Interface missing from SNMP poll'' iface
                   | Some s \<Rightarrow> sample_metrics s)"
proof -
  have "filter (\<lambda>i. if_name i = if_name iface) (rev (rd_interfaces r)) = [iface]"
    using assms(4,5) by (simp add: filter_key_singleton rev_map [symmetric])
  then show ?thesis
    using toRouterMetrics_entry [OF assms(1,2)] router_entry_interface [OF assms(3)] assms(3)
    by (simp add: router_entry_def)
qed

text \<open>C10 (refinement): The aggregate utilization of every published link is the maximum of max(in, out) utilization over the endpoint interfaces that exist, and null when neither exists (given non-negative utilizations, for which the ?? 0 default is harmless).\<close>

theorem toLinkMetrics_aggregate_max:
  "\<forall>lm \<in> set (toLinkMetrics rms ls). (\<forall>u \<in> endpoint_utils lm. 0 \<le> u) \<longrightarrow>
     aggregateUtilization lm = (if endpoint_utils lm = {} then None else Some (Max (endpoint_utils lm)))"
proof (intro ballI impI)
  fix lm
  assume "lm \<in> set (toLinkMetrics rms ls)" and "\<forall>u \<in> endpoint_utils lm. 0 \<le> u"
  then obtain link where "lm = link_entry rms link" and "\<forall>u \<in> endpoint_utils (link_entry rms link). 0 \<le> u"
    by (auto simp: toLinkMetrics_def)
  then show "aggregateUtilization lm = (if endpoint_utils lm = {} then None else Some (Max (endpoint_utils lm)))"
    using link_entry_aggregate by blast
qed

subsection \<open>Concrete resolutions\<close>

definition ex_if_def :: interface_definition where
  "ex_if_def = \<lparr>if_name = ''ge0'', if_displayName = None, if_maxBandwidth = Some 1000, if_speedOid = None\<rparr>"

definition ex_router_def :: router_definition where
  "ex_router_def = \<lparr>rd_id = ''r1'', rd_label = ''R1'', rd_position = \<lparr>pos_x = 0, pos_y = 0\<rparr>,
     rd_interfaces = [ex_if_def]\<rparr>"

definition ex_topology :: topology_definition where
  "ex_topology = \<lparr>title = None, backgroundImage = ''bg.png'', mapSize = None, pollIntervalMs = 5000,
     routers = [ex_router_def], links = []\<rparr>"

definition ex_sample :: interface_sample where
  "ex_sample = \<lparr>im_name = ''ge0'', inBps = 800, outBps = 100, inUtilization = 0.8, outUtilization = 0.1,
     im_status = Warning, maxBandwidth = 1000, fresh = True, im_error = None,
     inOctets = Some 5, outOctets = Some 7\<rparr>"

definition ex_snapshot :: poll_snapshot where
  "ex_snapshot = [(''r1'', \<lparr>rs_status = Warning, rs_interfaces = [(''ge0'', ex_sample)], rs_error = None\<rparr>)]"

lemmas resolver_eval = toRouterMetrics_def router_entry_def interface_entry_def missing_interface_def
  sample_metrics_def truthy_error_def ex_topology_def ex_router_def_def ex_if_def_def ex_snapshot_def ex_sample_def

theorem toRouterMetrics_missing_router_witness:
  "rm_status (the (obj_get (toRouterMetrics [] ex_topology) ''r1'')) = Error"
proof -
  have "\<exists>rm. obj_get (toRouterMetrics [] ex_topology) (rd_id ex_router_def) = Some rm \<and> rm_status rm = Error"
    using toRouterMetrics_missing_router [of ex_topology ex_router_def "[]"]
    by (simp add: ex_topology_def) blast
  then show ?thesis by (auto simp: ex_router_def_def)
qed

theorem toRouterMetrics_interface_witness:
  "obj_get (rm_interfaces (the (obj_get (toRouterMetrics ex_snapshot ex_topology) ''r1''))) ''ge0'' =
     Some (sample_metrics ex_sample)"
proof -
  have "\<exists>rm. obj_get (toRouterMetrics ex_snapshot ex_topology) ''r1'' = Some rm \<and>
          obj_get (rm_interfaces rm) ''ge0'' = Some (sample_metrics ex_sample)"
    using toRouterMetrics_interface [of ex_topology ex_router_def ex_snapshot
        "\<lparr>rs_status = Warning, rs_interfaces = [(''ge0'', ex_sample)], rs_error = None\<rparr>" ex_if_def]
    by (simp add: ex_topology_def ex_router_def_def ex_if_def_def ex_snapshot_def) blast
  then show ?thesis by auto
qed

definition ex_link :: link_definition where
  "ex_link = \<lparr>ld_id = ''l1'', ld_from = ''r1'', ld_to = ''r2'', ld_ifaceFrom = ''ge0'', ld_ifaceTo = ''ge1'',
     ld_label = None, ld_path = None\<rparr>"

definition ex_rms :: "router_metrics js_object" where
  "ex_rms = [(''r1'', \<lparr>rm_id = ''r1'', rm_label = ''R1'', rm_status = Warning,
     rm_interfaces = [(''ge0'', sample_metrics ex_sample)], rm_error = None\<rparr>)]"

theorem toLinkMetrics_aggregate_max_witness:
  "aggregateUtilization (hd (toLinkMetrics ex_rms [ex_link])) = Some (4 / 5)"
proof -
  have lm: "hd (toLinkMetrics ex_rms [ex_link]) \<in> set (toLinkMetrics ex_rms [ex_link])"
    by (simp add: toLinkMetrics_def)
  have u: "endpoint_utils (hd (toLinkMetrics ex_rms [ex_link])) = {4 / 5}"
    by (simp add: toLinkMetrics_def link_entry_def Let_def endpoint_metrics_def endpoint_utils_def ex_rms_def ex_link_def
        sample_metrics_def ex_sample_def)
  show ?thesis
    using toLinkMetrics_aggregate_max [of ex_rms "[ex_link]"] lm u by simp
qed

end
