(* ===== verification/Renderer.thy ===== *)
theory Renderer
  imports Geometry Resolver
begin

text \<open>
  The offline renderer (\<open>src/src/map-renderer.ts\<close>).  A canvas is modelled by
  the list of drawing commands issued to it (\<open>canvas_cmd\<close>), the abstract
  drawing surface of the design (move-to, line/curve-to, fill, stroke,
  measure-text); text measurement is the parameter \<open>measureText\<close> (the width of a
  label in the fixed 12px font).  Each drawing routine returns the commands it
  issues, so two renderers are equivalent exactly when they issue the same
  list.  The background is the configured image when it exists and loads
  (\<open>DrawImage\<close>; whether it does is the parameter \<open>imageLoads\<close>) and a
  gradient otherwise; the PNG file written at the end is I/O.  The lemmas show the colour buckets, the link capacities and
  their range, and the shape of what \<open>drawLink\<close> issues.
\<close>

datatype canvas_cmd =
    Save | Restore
  | SetStrokeStyle string | SetFillStyle string | SetLineWidth real | SetLineCap string | SetLineJoin string
  | SetFont string | SetShadowColor string | SetShadowBlur real | SetLineDash "real list"
  | BeginPath | ClosePath | MoveTo real real | LineTo real real | QuadraticCurveTo real real real real
  | Arc real real real real real
  | Stroke | Fill | FillText string real real | FillRect real real real real | StrokeRect real real real real
  | SetTransform real real real real real real | ClearRect real real real real
  | DrawImage real real real real | SetFillGradient real real real real "(real \<times> string) list"

subsection \<open>Utilization colours\<close>

record util_bucket =
  b_min :: number
  b_max :: number
  b_color :: string
  b_label :: string

definition UTILIZATION_BUCKETS :: "util_bucket list" where
  "UTILIZATION_BUCKETS =
     [\<lparr>b_min = 0, b_max = 0.01, b_color = ''#0ea5e9'', b_label = ''0-1%''\<rparr>,
      \<lparr>b_min = 0.01, b_max = 0.2, b_color = ''#22c55e'', b_label = ''1-20%''\<rparr>,
      \<lparr>b_min = 0.2, b_max = 0.4, b_color = ''#84cc16'', b_label = ''20-40%''\<rparr>,
      \<lparr>b_min = 0.4, b_max = 0.6, b_color = ''#facc15'', b_label = ''40-60%''\<rparr>,
      \<lparr>b_min = 0.6, b_max = 0.8, b_color = ''#f97316'', b_label = ''60-80%''\<rparr>,
      \<lparr>b_min = 0.8, b_max = 0.9, b_color = ''#ea580c'', b_label = ''80-90%''\<rparr>,
      \<lparr>b_min = 0.9, b_max = 0.99, b_color = ''#ef4444'', b_label = ''90-99%''\<rparr>,
      \<lparr>b_min = 0.99, b_max = 1.01, b_color = ''#991b1b'', b_label = ''99-100%''\<rparr>]"

definition UNKNOWN_COLOR :: string where
  "UNKNOWN_COLOR = ''#5a646d''"

text \<open>\<open>find(range => u >= range.min && u < range.max) ?? last bucket\<close>;
  \<open>null\<close> is the unknown colour (NaN is not modelled).\<close>

definition utilToColor :: "number option \<Rightarrow> string" where
  "utilToColor utilization =
     (case utilization of
        None \<Rightarrow> UNKNOWN_COLOR
      | Some u \<Rightarrow>
          b_color (case find (\<lambda>r. u \<ge> b_min r \<and> u < b_max r) UTILIZATION_BUCKETS of
                     Some b \<Rightarrow> b
                   | None \<Rightarrow> last UTILIZATION_BUCKETS))"

definition interfaceUtilization :: "interface_metrics option \<Rightarrow> number option" where
  "interfaceUtilization iface =
     (case iface of None \<Rightarrow> None | Some i \<Rightarrow> Some (max (inUtilization i) (outUtilization i)))"

subsection \<open>Link capacities\<close>

definition getInterfaceCapacity :: "router_definition option \<Rightarrow> string \<Rightarrow> number option" where
  "getInterfaceCapacity router ifaceName =
     (case router of
        None \<Rightarrow> None
      | Some r \<Rightarrow> (case find (\<lambda>c. if_name c = ifaceName) (rd_interfaces r) of
                    None \<Rightarrow> None
                  | Some i \<Rightarrow> if_maxBandwidth i))"

text \<open>\<open>[a, b].filter(v => typeof v === "number" && v > 0)\<close>\<close>

definition positive_candidates :: "number option list \<Rightarrow> number list" where
  "positive_candidates vs = [v. Some v \<leftarrow> vs, v > 0]"

definition min_candidate :: "number list \<Rightarrow> number option" where
  "min_candidate cs = (if cs = [] then None else Some (Min (set cs)))"

record link_capacities =
  lc_capacities :: "number list"
  lc_map :: "number option js_object"

definition capacity_entry ::
  "router_definition js_object \<Rightarrow> link_capacities \<Rightarrow> link_definition \<Rightarrow> link_capacities" where
  "capacity_entry routerMap acc link =
     (let fwd = getInterfaceCapacity (obj_get routerMap (ld_from link)) (ld_ifaceFrom link);
          rev = getInterfaceCapacity (obj_get routerMap (ld_to link)) (ld_ifaceTo link);
          capacity = min_candidate (positive_candidates [fwd, rev])
      in \<lparr>lc_capacities = lc_capacities acc @ (case capacity of Some c \<Rightarrow> [c] | None \<Rightarrow> []),
          lc_map = obj_set (ld_id link) capacity (lc_map acc)\<rparr>)"

definition computeLinkCapacities :: "router_definition list \<Rightarrow> link_definition list \<Rightarrow> link_capacities" where
  "computeLinkCapacities rs ls =
     foldl (capacity_entry (buildRouterMap rs)) \<lparr>lc_capacities = [], lc_map = []\<rparr> ls"

definition capacity_range :: "number list \<Rightarrow> cap_range option" where
  "capacity_range cs = (if cs = [] then None else Some \<lparr>cr_min = Min (set cs), cr_max = Max (set cs)\<rparr>)"

subsection \<open>Drawing routines\<close>

definition LABEL_FONT :: string where
  "LABEL_FONT = ''12px 'Inter', 'Segoe UI', sans-serif''"

definition drawPathStroke :: "position list \<Rightarrow> canvas_cmd list" where
  "drawPathStroke pts =
     (if length pts < 2 then []
      else [BeginPath, MoveTo (pos_x (pts ! 0)) (pos_y (pts ! 0))] @
           (if length pts = 2 then [LineTo (pos_x (pts ! 1)) (pos_y (pts ! 1))]
            else map (\<lambda>i. let cur = pts ! i; nxt = pts ! Suc i
                          in QuadraticCurveTo (pos_x cur) (pos_y cur) ((pos_x cur + pos_x nxt) / 2) ((pos_y cur + pos_y nxt) / 2))
                   [1..<length pts - 1] @
                 [LineTo (pos_x (last pts)) (pos_y (last pts))]) @
           [Stroke])"

definition drawHalfStroke :: "position list \<Rightarrow> string \<Rightarrow> number \<Rightarrow> canvas_cmd list" where
  "drawHalfStroke pts color width =
     (if length pts < 2 then []
      else [Save, SetStrokeStyle color, SetLineWidth width, SetLineCap ''round'', SetLineJoin ''round''] @
           drawPathStroke pts @ [Restore])"

text \<open>The rounded box the renderer traces inline, corner radius \<open>r\<close> (4 for
  labels, 18 for the legend panel).\<close>

definition inline_rounded_rect :: "number \<Rightarrow> number \<Rightarrow> number \<Rightarrow> number \<Rightarrow> number \<Rightarrow> canvas_cmd list" where
  "inline_rounded_rect r x y w h =
     [BeginPath, MoveTo (x + r) y, LineTo (x + w - r) y, QuadraticCurveTo (x + w) y (x + w) (y + r),
      LineTo (x + w) (y + h - r), QuadraticCurveTo (x + w) (y + h) (x + w - r) (y + h),
      LineTo (x + r) (y + h), QuadraticCurveTo x (y + h) x (y + h - r),
      LineTo x (y + r), QuadraticCurveTo x y (x + r) y, ClosePath]"

definition link_label_cmds :: "(string \<Rightarrow> number) \<Rightarrow> position \<Rightarrow> string \<Rightarrow> canvas_cmd list" where
  "link_label_cmds measureText midpoint label =
     (let padding = 6; tw = measureText label; boxWidth = tw + padding * 2; boxHeight = 18;
          x = pos_x midpoint - boxWidth / 2; y = pos_y midpoint - boxHeight / 2
      in [Save, SetFillStyle ''rgba(15, 23, 42, 0.85)'', SetStrokeStyle ''rgba(148, 163, 184, 0.7)'',
          SetLineWidth 1, SetFont LABEL_FONT] @
         inline_rounded_rect 4 x y boxWidth boxHeight @
         [Fill, Stroke, SetFillStyle ''#e2e8f0'', FillText label (pos_x midpoint - tw / 2) (pos_y midpoint + 4), Restore])"

definition drawLink ::
  "(string \<Rightarrow> number) \<Rightarrow> position list \<Rightarrow> number option \<Rightarrow> number option \<Rightarrow> number option \<Rightarrow> string option \<Rightarrow>
   cap_range option \<Rightarrow> canvas_cmd list" where
  "drawLink measureText pts forwardUtilization reverseUtilization capacity label crange =
     (if length pts < 2 then []
      else
        (let width = capacityToWidth capacity crange;
             sp = splitPathAtHalf pts;
             forwardPath = sp_firstHalf sp;
             reversePath = sp_secondHalf sp
         in (if length forwardPath \<ge> 2 then drawHalfStroke forwardPath (utilToColor forwardUtilization) width else []) @
            (if length reversePath \<ge> 2 then drawHalfStroke reversePath (utilToColor reverseUtilization) width else []) @
            (case label of Some l \<Rightarrow> if l \<noteq> [] then link_label_cmds measureText (sp_midpoint sp) l else [] | None \<Rightarrow> [])))"

text \<open>\<open>colorMap[status] ?? "#f87171"\<close>\<close>

primrec status_color :: "metric_status \<Rightarrow> string" where
  "status_color Ok = ''#22c55e''"
| "status_color Warning = ''#f97316''"
| "status_color Critical = ''#ef4444''"
| "status_color Error = ''#f87171''"

definition router_label_cmds :: "(string \<Rightarrow> number) \<Rightarrow> router_definition \<Rightarrow> canvas_cmd list" where
  "router_label_cmds measureText router =
     (let label = rd_label router; padding = 6; tw = measureText label; boxWidth = tw + padding * 2; boxHeight = 20;
          x = pos_x (rd_position router) - boxWidth / 2; y = pos_y (rd_position router) + 18
      in [Save, SetFillStyle ''rgba(15, 23, 42, 0.85)'', SetStrokeStyle ''rgba(148, 163, 184, 0.6)'',
          SetLineWidth 1, SetFont LABEL_FONT] @
         inline_rounded_rect 4 x y boxWidth boxHeight @
         [Fill, Stroke, SetFillStyle ''#e2e8f0'', FillText label (pos_x (rd_position router) - tw / 2) (y + 14), Restore])"

definition router_marker_cmds :: "router_definition \<Rightarrow> metric_status \<Rightarrow> canvas_cmd list" where
  "router_marker_cmds router status =
     [Save, SetShadowColor ''rgba(30, 64, 175, 0.25)'', SetShadowBlur 12, SetFillStyle (status_color status),
      BeginPath, Arc (pos_x (rd_position router)) (pos_y (rd_position router)) 12 0 (pi * 2), Fill, Restore]"

definition drawRouter :: "(string \<Rightarrow> number) \<Rightarrow> router_definition \<Rightarrow> metric_status \<Rightarrow> canvas_cmd list" where
  "drawRouter measureText router status = router_marker_cmds router status @ router_label_cmds measureText router"

definition legend_item_cmds :: "number \<Rightarrow> number \<Rightarrow> nat \<times> util_bucket \<Rightarrow> canvas_cmd list" where
  "legend_item_cmds x legendStartY ib =
     (case ib of (index, bucket) \<Rightarrow>
        (let itemY = legendStartY + real index * 18
         in [SetFillStyle (b_color bucket), FillRect (x + 20) itemY 18 18,
             SetStrokeStyle ''rgba(15, 23, 42, 0.4)'', SetLineWidth 1, StrokeRect (x + 20) itemY 18 18,
             SetFillStyle ''rgba(226, 232, 240, 0.85)'', FillText (b_label bucket) (x + 48) (itemY + 14)]))"

definition drawLegendOverlay :: "string \<Rightarrow> string \<Rightarrow> number \<Rightarrow> canvas_cmd list" where
  "drawLegendOverlay legendTitle timestampLabel width =
     (let panelWidth = 280; panelHeight = 250; padding = 16; x = width - panelWidth - padding; y = padding
      in [Save, SetFillStyle ''rgba(15, 23, 42, 0.82)'', SetStrokeStyle ''rgba(59, 130, 246, 0.35)'', SetLineWidth 1.2] @
         inline_rounded_rect 18 x y panelWidth panelHeight @
         [Fill, Stroke, SetFillStyle ''#e2e8f0'', SetFont ''16px 'Inter', 'Segoe UI', sans-serif'',
          FillText legendTitle (x + 20) (y + 32), SetFont LABEL_FONT, SetFillStyle ''rgba(226, 232, 240, 0.8)'',
          FillText (''Last updated '' @ timestampLabel) (x + 20) (y + 52)] @
         concat (map (legend_item_cmds x (y + 72)) (enumerate 0 UTILIZATION_BUCKETS)) @
         [Restore])"

subsection \<open>renderMapSnapshot\<close>

text \<open>The timestamps.  A \<open>Date\<close> is read through its local-time getters
  (\<open>getMonth\<close> counts from 0); which local time a timestamp string or the clock
  denotes is a parameter, since it depends on the time zone.  \<open>pad\<close> is
  \<open>value.toString().padStart(2, "0")\<close>.\<close>

record local_time =
  lt_year :: nat
  lt_month :: nat
  lt_date :: nat
  lt_hours :: nat
  lt_minutes :: nat
  lt_seconds :: nat

definition pad2 :: "nat \<Rightarrow> string" where
  "pad2 value = (let s = string_of_nat value in replicate (2 - length s) (CHR ''0'') @ s)"

definition formatFileTimestamp :: "local_time \<Rightarrow> string" where
  "formatFileTimestamp date =
     string_of_nat (lt_year date) @ ''-'' @ pad2 (lt_month date + 1) @ ''-'' @ pad2 (lt_date date) @ ''-'' @
     pad2 (lt_hours date) @ ''-'' @ pad2 (lt_minutes date) @ ''-'' @ pad2 (lt_seconds date)"

definition formatLabelTimestamp :: "local_time \<Rightarrow> string" where
  "formatLabelTimestamp date =
     string_of_nat (lt_year date) @ ''-'' @ pad2 (lt_month date + 1) @ ''-'' @ pad2 (lt_date date) @ '' '' @
     pad2 (lt_hours date) @ '':'' @ pad2 (lt_minutes date) @ '':'' @ pad2 (lt_seconds date)"

text \<open>The name of the file a snapshot is written to (line 423).\<close>

definition snapshot_file_name :: "local_time \<Rightarrow> string" where
  "snapshot_file_name now = formatFileTimestamp now @ ''.png''"


definition DEFAULT_WIDTH :: number where "DEFAULT_WIDTH = 1600"
definition DEFAULT_HEIGHT :: number where "DEFAULT_HEIGHT = 900"

text \<open>\<open>topology.mapSize?.width ?? DEFAULT_SIZE.width\<close> and the height alike.\<close>

definition map_width :: "topology_definition \<Rightarrow> number" where
  "map_width topology = (case mapSize topology of Some s \<Rightarrow> ms_width s | None \<Rightarrow> DEFAULT_WIDTH)"

definition map_height :: "topology_definition \<Rightarrow> number" where
  "map_height topology = (case mapSize topology of Some s \<Rightarrow> ms_height s | None \<Rightarrow> DEFAULT_HEIGHT)"

text \<open>\<open>drawBackground\<close>: the image scaled to the canvas, or, when the file is
  missing or \<open>loadImage\<close> throws, a diagonal gradient (\<open>SetFillGradient\<close>
  sets the fill style to \<open>createLinearGradient\<close> with its colour stops).\<close>

definition BACKGROUND_GRADIENT :: "(real \<times> string) list" where
  "BACKGROUND_GRADIENT = [(0, ''#0b1120''), (1, ''#111827'')]"

definition gradient_fill :: "number \<Rightarrow> number \<Rightarrow> canvas_cmd list" where
  "gradient_fill width height = [SetFillGradient 0 0 width height BACKGROUND_GRADIENT, FillRect 0 0 width height]"

definition drawBackground :: "(string \<Rightarrow> bool) \<Rightarrow> number \<Rightarrow> number \<Rightarrow> string \<Rightarrow> canvas_cmd list" where
  "drawBackground imageLoads width height backgroundPath =
     (if backgroundPath \<noteq> [] \<and> imageLoads backgroundPath then [DrawImage 0 0 width height]
      else gradient_fill width height)"

definition link_draw_cmds ::
  "(string \<Rightarrow> number) \<Rightarrow> router_definition js_object \<Rightarrow> link_metrics js_object \<Rightarrow> number option js_object \<Rightarrow>
   cap_range option \<Rightarrow> position list js_object \<Rightarrow> link_definition \<Rightarrow> canvas_cmd list" where
  "link_draw_cmds measureText routerMap linkMetricsMap capacityMap crange linkPaths link =
     (case (obj_get routerMap (ld_from link), obj_get routerMap (ld_to link)) of
        (Some fr, Some tr) \<Rightarrow>
          (let lm = obj_get linkMetricsMap (ld_id link);
               forwardUtil = interfaceUtilization (case lm of None \<Rightarrow> None | Some l \<Rightarrow> forward l);
               reverseUtil = interfaceUtilization (case lm of None \<Rightarrow> None | Some l \<Rightarrow> reverse l);
               pathPoints = (case obj_get linkPaths (ld_id link) of Some p \<Rightarrow> p | None \<Rightarrow> [rd_position fr, rd_position tr]);
               capacity = (case obj_get capacityMap (ld_id link) of Some c \<Rightarrow> c | None \<Rightarrow> None);
               label = (case lm of Some l \<Rightarrow> (case lm_label l of Some x \<Rightarrow> Some x | None \<Rightarrow> ld_label link) | None \<Rightarrow> ld_label link)
           in drawLink measureText pathPoints forwardUtil reverseUtil capacity label crange)
      | _ \<Rightarrow> [])"

definition renderMapSnapshot ::
  "(string \<Rightarrow> string \<Rightarrow> int) \<Rightarrow> (string \<Rightarrow> number) \<Rightarrow> (string \<Rightarrow> bool) \<Rightarrow> string \<Rightarrow>
   (string \<Rightarrow> local_time) \<Rightarrow> local_time \<Rightarrow> topology_definition \<Rightarrow> metrics_payload \<Rightarrow>
   (number \<times> number) \<times> canvas_cmd list" where
  "renderMapSnapshot localeCompare measureText imageLoads backgroundPath toLocalTime now topology metrics =
     (let width = map_width topology;
          height = map_height topology;
          routerMap = buildRouterMap (routers topology);
          linkMetricsMap = foldl (\<lambda>m l. obj_set (lm_id l) l m) [] (mp_links metrics);
          caps = computeLinkCapacities (routers topology) (links topology);
          crange = capacity_range (lc_capacities caps);
          linkPaths = computeLinkPaths localeCompare topology;
          timestamp = (if mp_timestamp metrics \<noteq> [] then toLocalTime (mp_timestamp metrics) else now)
      in ((width, height),
          drawBackground imageLoads width height backgroundPath @
          concat (map (link_draw_cmds measureText routerMap linkMetricsMap (lc_map caps) crange linkPaths) (links topology)) @
          concat (map (\<lambda>r. drawRouter measureText r
                              (case obj_get (mp_routers metrics) (rd_id r) of Some rm \<Rightarrow> rm_status rm | None \<Rightarrow> Error))
                   (routers topology)) @
          drawLegendOverlay (case title topology of Some t \<Rightarrow> t | None \<Rightarrow> ''TS Weathermap'') (formatLabelTimestamp timestamp) width))"

subsection \<open>What a command list paints\<close>

text \<open>The part of the canvas state that decides how a stroke looks: the stroke
  style and the line width, with the stack of \<open>save\<close>/\<open>restore\<close>.  Every
  \<open>stroke\<close> paints the current path with the current style and width.\<close>

record canvas_state =
  cs_style :: string
  cs_width :: real
  cs_stack :: "(string \<times> real) list"

definition canvas_init :: canvas_state where
  "canvas_init = \<lparr>cs_style = ''#000000'', cs_width = 1, cs_stack = []\<rparr>"

fun canvas_step :: "canvas_state \<Rightarrow> canvas_cmd \<Rightarrow> canvas_state" where
  "canvas_step st Save = st\<lparr>cs_stack := (cs_style st, cs_width st) # cs_stack st\<rparr>"
| "canvas_step st Restore =
     (case cs_stack st of [] \<Rightarrow> st | (s, w) # rest \<Rightarrow> \<lparr>cs_style = s, cs_width = w, cs_stack = rest\<rparr>)"
| "canvas_step st (SetStrokeStyle s) = st\<lparr>cs_style := s\<rparr>"
| "canvas_step st (SetLineWidth w) = st\<lparr>cs_width := w\<rparr>"
| "canvas_step st _ = st"

fun strokes_from :: "canvas_state \<Rightarrow> canvas_cmd list \<Rightarrow> (string \<times> real) list" where
  "strokes_from st [] = []"
| "strokes_from st (c # cs) =
     (if c = Stroke then (cs_style st, cs_width st) # strokes_from st cs else strokes_from (canvas_step st c) cs)"

definition strokes :: "canvas_cmd list \<Rightarrow> (string \<times> real) list" where
  "strokes cs = strokes_from canvas_init cs"

subsection \<open>Colours\<close>

lemma utilToColor_Some:
  "utilToColor (Some u) =
     (if 0 \<le> u \<and> u < 0.01 then ''#0ea5e9''
      else if 0.01 \<le> u \<and> u < 0.2 then ''#22c55e''
      else if 0.2 \<le> u \<and> u < 0.4 then ''#84cc16''
      else if 0.4 \<le> u \<and> u < 0.6 then ''#facc15''
      else if 0.6 \<le> u \<and> u < 0.8 then ''#f97316''
      else if 0.8 \<le> u \<and> u < 0.9 then ''#ea580c''
      else if 0.9 \<le> u \<and> u < 0.99 then ''#ef4444''
      else ''#991b1b'')"
  by (simp add: utilToColor_def UTILIZATION_BUCKETS_def)

lemma utilToColor_bucket:
  assumes "i < length UTILIZATION_BUCKETS" "b_min (UTILIZATION_BUCKETS ! i) \<le> u" "u < b_max (UTILIZATION_BUCKETS ! i)"
  shows "utilToColor (Some u) = b_color (UTILIZATION_BUCKETS ! i)"
proof -
  have "i < 8" using assms(1) by (simp add: UTILIZATION_BUCKETS_def)
  then consider "i = 0" | "i = 1" | "i = 2" | "i = 3" | "i = 4" | "i = 5" | "i = 6" | "i = 7" by linarith
  then show ?thesis
    using assms(2,3) by cases (simp_all add: utilToColor_Some UTILIZATION_BUCKETS_def)
qed

subsection \<open>Capacities\<close>

lemma positive_candidates_set: "set (positive_candidates vs) = {v. Some v \<in> set vs \<and> 0 < v}"
  by (induction vs) (auto simp: positive_candidates_def split: option.splits)

lemma min_candidate_spec:
  "(min_candidate cs = None \<longleftrightarrow> cs = []) \<and>
   (\<forall>c. min_candidate cs = Some c \<longrightarrow> c \<in> set cs \<and> (\<forall>d \<in> set cs. c \<le> d))"
  by (auto simp: min_candidate_def)

lemma capacity_entry_fold:
  "lc_map (foldl (capacity_entry rm) acc ls) =
     foldl (\<lambda>m link. obj_set (ld_id link)
        (min_candidate (positive_candidates [getInterfaceCapacity (obj_get rm (ld_from link)) (ld_ifaceFrom link),
                                             getInterfaceCapacity (obj_get rm (ld_to link)) (ld_ifaceTo link)])) m)
       (lc_map acc) ls"
  by (induction ls arbitrary: acc) (simp_all add: capacity_entry_def Let_def)

lemma capacity_entry_capacities:
  "lc_capacities (foldl (capacity_entry rm) acc ls) =
     lc_capacities acc @ [c. Some c \<leftarrow> map (\<lambda>link.
        min_candidate (positive_candidates [getInterfaceCapacity (obj_get rm (ld_from link)) (ld_ifaceFrom link),
                                            getInterfaceCapacity (obj_get rm (ld_to link)) (ld_ifaceTo link)])) ls]"
  by (induction ls arbitrary: acc) (simp_all add: capacity_entry_def Let_def split: option.splits)

lemma capacity_range_bounds:
  "capacity_range cs = Some r \<Longrightarrow> c \<in> set cs \<Longrightarrow> cr_min r \<le> c \<and> c \<le> cr_max r"
  by (auto simp: capacity_range_def split: if_splits)

subsection \<open>Strokes\<close>

definition style_neutral :: "canvas_cmd \<Rightarrow> bool" where
  "style_neutral c = (case c of Save \<Rightarrow> False | Restore \<Rightarrow> False | SetStrokeStyle _ \<Rightarrow> False
                       | SetLineWidth _ \<Rightarrow> False | _ \<Rightarrow> True)"

lemma strokes_from_append_neutral:
  "list_all style_neutral cs \<Longrightarrow>
   strokes_from st (cs @ rest) = replicate (count_list cs Stroke) (cs_style st, cs_width st) @ strokes_from st rest"
proof (induction cs)
  case (Cons c cs)
  then have "canvas_step st c = st"
    by (cases c) (simp_all add: style_neutral_def)
  with Cons show ?case by auto
qed simp

lemma drawPathStroke_neutral: "list_all style_neutral (drawPathStroke pts)"
  by (auto simp: drawPathStroke_def style_neutral_def list_all_iff Let_def)

lemma drawPathStroke_count: "2 \<le> length pts \<Longrightarrow> count_list (drawPathStroke pts) Stroke = 1"
  by (auto simp: drawPathStroke_def count_list_0_iff Let_def)

lemma drawHalfStroke_strokes:
  assumes "2 \<le> length pts"
  shows "strokes_from st (drawHalfStroke pts color w @ rest) = (color, w) # strokes_from st rest"
proof -
  let ?st = "st\<lparr>cs_stack := (cs_style st, cs_width st) # cs_stack st, cs_style := color, cs_width := w\<rparr>"
  have "strokes_from st (drawHalfStroke pts color w @ rest) = strokes_from ?st (drawPathStroke pts @ Restore # rest)"
    using assms by (simp add: drawHalfStroke_def)
  also have "\<dots> = (color, w) # strokes_from ?st (Restore # rest)"
    using assms by (simp add: strokes_from_append_neutral drawPathStroke_neutral drawPathStroke_count)
  also have "\<dots> = (color, w) # strokes_from st rest"
    by (cases st) simp
  finally show ?thesis .
qed

lemma splitPathAtHalf_half_lengths:
  assumes "2 \<le> length pts"
  shows "2 \<le> length (sp_firstHalf (splitPathAtHalf pts)) \<and> 2 \<le> length (sp_secondHalf (splitPathAtHalf pts))"
proof (cases "polyline_length pts = 0")
  case True
  with assms show ?thesis by (auto simp: splitPathAtHalf_def sum_segmentLengths Let_def)
next
  case False
  with splitPathAtHalf_shape [OF assms] show ?thesis by auto
qed

lemma link_label_strokes:
  "strokes_from st (link_label_cmds m p l) = [(''rgba(148, 163, 184, 0.7)'', 1)]"
  by (simp add: link_label_cmds_def inline_rounded_rect_def Let_def)

lemma capacity_lookup:
  assumes "distinct (map ld_id ls)" "l \<in> set ls"
  shows "obj_get (lc_map (computeLinkCapacities rs ls)) (ld_id l) =
           Some (min_candidate (positive_candidates
              [getInterfaceCapacity (obj_get (buildRouterMap rs) (ld_from l)) (ld_ifaceFrom l),
               getInterfaceCapacity (obj_get (buildRouterMap rs) (ld_to l)) (ld_ifaceTo l)]))"
  using foldl_obj_set_distinct [OF assms] by (simp add: computeLinkCapacities_def capacity_entry_fold)

subsection \<open>Snapshot file names\<close>

lemma pad2_fixed: "n < 100 \<Longrightarrow> pad2 n = digits_fixed 2 n"
proof (cases "n < 10")
  case True
  then show ?thesis by (simp add: pad2_def string_of_nat_digit numeral_2_eq_2 char_zero)
next
  case False
  assume "n < 100"
  then have "string_of_nat n = digits_fixed 2 n"
    using False string_of_nat_fixed [of 1 n] by (simp add: numeral_2_eq_2)
  then show ?thesis by (simp add: pad2_def)
qed

definition time_fields :: "local_time \<Rightarrow> nat list" where
  "time_fields d = [lt_year d, lt_month d, lt_date d, lt_hours d, lt_minutes d, lt_seconds d]"

definition getter_ranges :: "local_time \<Rightarrow> bool" where
  "getter_ranges d \<longleftrightarrow> 1000 \<le> lt_year d \<and> lt_year d < 10000 \<and> lt_month d < 12 \<and> lt_date d \<le> 31 \<and>
     lt_hours d < 24 \<and> lt_minutes d < 60 \<and> lt_seconds d < 60"

lemma formatFileTimestamp_digits:
  "getter_ranges d \<Longrightarrow> formatFileTimestamp d =
     digits_fixed 4 (lt_year d) @ CHR ''-'' # digits_fixed 2 (lt_month d + 1) @ CHR ''-'' # digits_fixed 2 (lt_date d) @
     CHR ''-'' # digits_fixed 2 (lt_hours d) @ CHR ''-'' # digits_fixed 2 (lt_minutes d) @ CHR ''-'' # digits_fixed 2 (lt_seconds d)"
proof -
  assume r: "getter_ranges d"
  then have "string_of_nat (lt_year d) = digits_fixed 4 (lt_year d)"
    using string_of_nat_fixed [of 3 "lt_year d"] by (simp add: getter_ranges_def)
  then show ?thesis using r by (simp add: formatFileTimestamp_def getter_ranges_def pad2_fixed)
qed

lemma digits_fixed_less2: "n < 100 \<Longrightarrow> m < 100 \<Longrightarrow> digits_fixed 2 n < digits_fixed 2 m \<longleftrightarrow> n < m"
  using digits_fixed_order [of n 2 m] by simp
lemma digits_fixed_eq2: "n < 100 \<Longrightarrow> m < 100 \<Longrightarrow> digits_fixed 2 n = digits_fixed 2 m \<longleftrightarrow> n = m"
  using digits_fixed_order [of n 2 m] by simp
lemma digits_fixed_less4: "n < 10000 \<Longrightarrow> m < 10000 \<Longrightarrow> digits_fixed 4 n < digits_fixed 4 m \<longleftrightarrow> n < m"
  using digits_fixed_order [of n 4 m] by simp
lemma digits_fixed_eq4: "n < 10000 \<Longrightarrow> m < 10000 \<Longrightarrow> digits_fixed 4 n = digits_fixed 4 m \<longleftrightarrow> n = m"
  using digits_fixed_order [of n 4 m] by simp

text \<open>Within the ranges of the getters and for a four-digit year, the file
  names of two snapshots compare as their times do, field by field from the
  year down to the second; two snapshots of the same second get the same name.\<close>

theorem formatFileTimestamp_order:
  assumes "getter_ranges a" "getter_ranges b"
  shows "(formatFileTimestamp a < formatFileTimestamp b \<longleftrightarrow> time_fields a < time_fields b) \<and>
         (formatFileTimestamp a = formatFileTimestamp b \<longleftrightarrow> time_fields a = time_fields b)"
  using assms
  by (simp add: formatFileTimestamp_digits less_append_same_length Cons_less_Cons time_fields_def getter_ranges_def
      digits_fixed_less2 digits_fixed_eq2 digits_fixed_less4 digits_fixed_eq4 del: digits_fixed.simps)

subsection \<open>Claims\<close>

text \<open>C20 (functional): utilToColor maps null to the unknown colour, a utilization in [min, max) of one of the eight buckets (boundaries 0, 0.01, 0.2, 0.4, 0.6, 0.8, 0.9, 0.99, 1.01) to that bucket's colour, and every utilization from 0.99 up, also above 1.01, to the last bucket.\<close>

theorem utilToColor_spec_buckets:
  "utilToColor None = UNKNOWN_COLOR \<and>
   (\<forall>i < length UTILIZATION_BUCKETS. b_min (UTILIZATION_BUCKETS ! i) \<le> u \<and> u < b_max (UTILIZATION_BUCKETS ! i) \<longrightarrow>
      utilToColor (Some u) = b_color (UTILIZATION_BUCKETS ! i)) \<and>
   (0.99 \<le> u \<longrightarrow> utilToColor (Some u) = b_color (last UTILIZATION_BUCKETS))"
  by (auto simp: utilToColor_bucket) (simp_all add: utilToColor_def utilToColor_Some UTILIZATION_BUCKETS_def)

text \<open>A negative utilization matches no bucket and falls through to the last (99-100%) colour, not to the neutral unknown colour.\<close>

theorem utilToColor_negative:
  "u < 0 \<Longrightarrow> utilToColor (Some u) = b_color (last UTILIZATION_BUCKETS) \<and> utilToColor (Some u) \<noteq> UNKNOWN_COLOR"
  by (simp add: utilToColor_Some UTILIZATION_BUCKETS_def UNKNOWN_COLOR_def)

text \<open>C21 (invariant): For distinct link ids, the offline renderer records for each link the minimum of the positive configured capacities of its two endpoint interfaces, or null when neither is positive.\<close>

theorem computeLinkCapacities_min:
  assumes "distinct (map ld_id ls)" "l \<in> set ls"
  shows "\<exists>cap. obj_get (lc_map (computeLinkCapacities rs ls)) (ld_id l) = Some cap \<and>
           (let cands = {v. (Some v = getInterfaceCapacity (obj_get (buildRouterMap rs) (ld_from l)) (ld_ifaceFrom l) \<or>
                             Some v = getInterfaceCapacity (obj_get (buildRouterMap rs) (ld_to l)) (ld_ifaceTo l)) \<and> 0 < v}
            in (cap = None \<longleftrightarrow> cands = {}) \<and> (\<forall>c. cap = Some c \<longrightarrow> c \<in> cands \<and> (\<forall>d \<in> cands. c \<le> d)))"
proof -
  let ?vs = "[getInterfaceCapacity (obj_get (buildRouterMap rs) (ld_from l)) (ld_ifaceFrom l),
              getInterfaceCapacity (obj_get (buildRouterMap rs) (ld_to l)) (ld_ifaceTo l)]"
  have set_eq: "set (positive_candidates ?vs) =
      {v. (Some v = getInterfaceCapacity (obj_get (buildRouterMap rs) (ld_from l)) (ld_ifaceFrom l) \<or>
           Some v = getInterfaceCapacity (obj_get (buildRouterMap rs) (ld_to l)) (ld_ifaceTo l)) \<and> 0 < v}"
    by (auto simp: positive_candidates_set)
  show ?thesis
    using capacity_lookup [OF assms, of rs] min_candidate_spec [of "positive_candidates ?vs"]
    unfolding Let_def set_eq [symmetric] by auto
qed

text \<open>C22 (functional): For a path of at least two points drawLink paints exactly two strokes of the capacity width, the first half in the forward utilization colour and the second half in the reverse colour, followed by the label box outline when the label is non-empty.\<close>

theorem drawLink_strokes:
  assumes "2 \<le> length pts"
  shows "strokes (drawLink m pts fu ru cap label cr) =
           [(utilToColor fu, capacityToWidth cap cr), (utilToColor ru, capacityToWidth cap cr)] @
           (if label = None \<or> label = Some [] then [] else [(''rgba(148, 163, 184, 0.7)'', 1)])"
proof -
  have h: "2 \<le> length (sp_firstHalf (splitPathAtHalf pts))" "2 \<le> length (sp_secondHalf (splitPathAtHalf pts))"
    using splitPathAtHalf_half_lengths [OF assms] by simp_all
  show ?thesis
    using assms h
    by (auto simp: drawLink_def strokes_def Let_def drawHalfStroke_strokes [simplified] link_label_strokes
        split: option.splits)
qed

definition ex_points :: "position list" where
  "ex_points = [\<lparr>pos_x = 0, pos_y = 0\<rparr>, \<lparr>pos_x = 100, pos_y = 0\<rparr>]"

theorem drawLink_strokes_witness:
  "strokes (drawLink (\<lambda>_. 30) ex_points (Some 0.5) (Some 0.95) None None None) = [(''#facc15'', 2), (''#ef4444'', 2)]"
  using drawLink_strokes [of ex_points "\<lambda>_. 30" "Some 0.5" "Some 0.95" None None None]
  by (simp add: ex_points_def utilToColor_Some capacityToWidth_def MIN_LINK_WIDTH_def)

theorem utilToColor_spec_buckets_witness:
  "utilToColor (Some 0.5) = ''#facc15'' \<and> utilToColor (Some 1.5) = ''#991b1b''"
proof -
  have a: "\<forall>i < length UTILIZATION_BUCKETS. b_min (UTILIZATION_BUCKETS ! i) \<le> 0.5 \<and> 0.5 < b_max (UTILIZATION_BUCKETS ! i) \<longrightarrow>
      utilToColor (Some 0.5) = b_color (UTILIZATION_BUCKETS ! i)"
    using utilToColor_spec_buckets [of "0.5"] by blast
  have "utilToColor (Some 0.5) = b_color (UTILIZATION_BUCKETS ! 3)"
    using a [rule_format, of 3] by (simp add: UTILIZATION_BUCKETS_def)
  moreover have "utilToColor (Some 1.5) = b_color (last UTILIZATION_BUCKETS)"
    using utilToColor_spec_buckets [of "1.5"] by simp
  ultimately show ?thesis by (simp add: UTILIZATION_BUCKETS_def)
qed

theorem utilToColor_negative_witness: "utilToColor (Some (-0.2)) = ''#991b1b''"
  using utilToColor_negative [of "-0.2"] by (simp add: UTILIZATION_BUCKETS_def)

definition ex_cap_router :: "ident \<Rightarrow> string \<Rightarrow> number option \<Rightarrow> router_definition" where
  "ex_cap_router rid iname bw = \<lparr>rd_id = rid, rd_label = rid, rd_position = \<lparr>pos_x = 0, pos_y = 0\<rparr>,
     rd_interfaces = [\<lparr>if_name = iname, if_displayName = None, if_maxBandwidth = bw, if_speedOid = None\<rparr>]\<rparr>"

definition ex_cap_link :: link_definition where
  "ex_cap_link = \<lparr>ld_id = ''l1'', ld_from = ''r1'', ld_to = ''r2'', ld_ifaceFrom = ''ge0'', ld_ifaceTo = ''ge1'',
     ld_label = None, ld_path = None\<rparr>"

theorem computeLinkCapacities_min_witness:
  "obj_get (lc_map (computeLinkCapacities [ex_cap_router ''r1'' ''ge0'' (Some 1000), ex_cap_router ''r2'' ''ge1'' (Some 400)]
     [ex_cap_link])) ''l1'' = Some (Some 400)"
proof -
  let ?rs = "[ex_cap_router ''r1'' ''ge0'' (Some 1000), ex_cap_router ''r2'' ''ge1'' (Some 400)]"
  have g: "getInterfaceCapacity (obj_get (buildRouterMap ?rs) ''r1'') ''ge0'' = Some 1000"
          "getInterfaceCapacity (obj_get (buildRouterMap ?rs) ''r2'') ''ge1'' = Some 400"
    by (simp_all add: buildRouterMap_def getInterfaceCapacity_def ex_cap_router_def)
  obtain cap where "obj_get (lc_map (computeLinkCapacities ?rs [ex_cap_link])) ''l1'' = Some cap"
    and "cap = None \<longleftrightarrow> {v. (Some v = Some (1000::real) \<or> Some v = Some 400) \<and> 0 < v} = {}"
    and "\<forall>c. cap = Some c \<longrightarrow> c \<in> {v. (Some v = Some (1000::real) \<or> Some v = Some 400) \<and> 0 < v} \<and>
           (\<forall>d \<in> {v. (Some v = Some (1000::real) \<or> Some v = Some 400) \<and> 0 < v}. c \<le> d)"
    using computeLinkCapacities_min [of "[ex_cap_link]" ex_cap_link ?rs] g
    by (auto simp: ex_cap_link_def Let_def)
  moreover from this have "cap = Some 400" by (cases cap) force+
  ultimately show ?thesis by simp
qed

end
