(* ===== verification/Frontend.thy ===== *)
theory Frontend
  imports Renderer
begin

text \<open>
  The interactive renderer of the browser front end
  (\<open>src/src/frontend/main.ts\<close>, the first of the three copies in that file,
  lines 1--912).  It repeats the colour buckets, the path geometry and the
  drawing routines of the offline renderer; each copy here is translated from
  its own lines, and the lemmas relate it to the offline definition of
  \<open>Renderer\<close> and \<open>Geometry\<close>: equal where the code is equal, and the
  divergences where it is not (the link capacities).  The drawing state of the
  module (\<open>topology\<close>, \<open>metrics\<close>, \<open>linkCapacityMap\<close>, \<open>capacityRange\<close>,
  \<open>linkPathMap\<close>, \<open>layoutMode\<close>) is the record \<open>fe_state\<close>; \<open>draw\<close> is
  the list of commands a frame issues, background included (whether the image
  has loaded is its argument, kept in the page state of \<open>FrontendUI\<close>).
\<close>

subsection \<open>State of the module\<close>

record fe_state =
  fe_topology :: "topology_definition option"
  fe_metrics :: "metrics_payload option"
  fe_linkCapacityMap :: "number option js_object"
  fe_capacityRange :: "cap_range option"
  fe_linkPathMap :: "position list js_object"
  fe_layoutMode :: bool
  fe_dragging :: bool
  fe_routerId :: "ident option"
  fe_pointerId :: "int option"
  fe_offset :: "position option"

record render_state =
  baseWidth :: number
  baseHeight :: number
  scale :: number
  dpr :: number

subsection \<open>Colours and capacities\<close>

definition utilToColor_fe :: "number option \<Rightarrow> string" where
  "utilToColor_fe utilization =
     (case utilization of
        None \<Rightarrow> ''#5a646d''
      | Some u \<Rightarrow>
          b_color (case find (\<lambda>r. u \<ge> b_min r \<and> u < b_max r) UTILIZATION_BUCKETS of
                     Some b \<Rightarrow> b
                   | None \<Rightarrow> UTILIZATION_BUCKETS ! (length UTILIZATION_BUCKETS - 1)))"

definition interfaceUtilization_fe :: "interface_metrics option \<Rightarrow> number option" where
  "interfaceUtilization_fe iface =
     (case iface of None \<Rightarrow> None | Some i \<Rightarrow> Some (max (inUtilization i) (outUtilization i)))"

text \<open>\<open>topology.routers.find(id)?.interfaces.find(name)?.maxBandwidth ?? null\<close>:
  the first router with the id.\<close>

definition interfaceDefinitionCapacity :: "topology_definition option \<Rightarrow> ident \<Rightarrow> string \<Rightarrow> number option" where
  "interfaceDefinitionCapacity topo routerId ifaceName =
     (case topo of
        None \<Rightarrow> None
      | Some t \<Rightarrow>
          (case find (\<lambda>r. rd_id r = routerId) (routers t) of
             None \<Rightarrow> None
           | Some r \<Rightarrow> (case find (\<lambda>i. if_name i = ifaceName) (rd_interfaces r) of
                         None \<Rightarrow> None
                       | Some i \<Rightarrow> if_maxBandwidth i)))"

text \<open>\<open>metrics?.routers[routerId]?.interfaces[ifaceName]?.maxBandwidth ?? null\<close>\<close>

definition interfaceMetricCapacity :: "metrics_payload option \<Rightarrow> ident \<Rightarrow> string \<Rightarrow> number option" where
  "interfaceMetricCapacity mets routerId ifaceName =
     (case mets of
        None \<Rightarrow> None
      | Some m \<Rightarrow> (case obj_get (mp_routers m) routerId of
                    None \<Rightarrow> None
                  | Some rm \<Rightarrow> (case obj_get (rm_interfaces rm) ifaceName of
                                None \<Rightarrow> None
                              | Some im \<Rightarrow> Some (maxBandwidth im))))"

text \<open>The capacity of one link: the positive capacities reported in the
  metrics, and the configured ones only when the metrics report none.\<close>

definition link_capacity_fe :: "topology_definition option \<Rightarrow> metrics_payload option \<Rightarrow> link_definition \<Rightarrow> number option" where
  "link_capacity_fe topo mets link =
     (let forwardMetric = interfaceMetricCapacity mets (ld_from link) (ld_ifaceFrom link);
          reverseMetric = interfaceMetricCapacity mets (ld_to link) (ld_ifaceTo link);
          candidates = positive_candidates [forwardMetric, reverseMetric];
          candidates' = (if candidates = []
                         then positive_candidates [interfaceDefinitionCapacity topo (ld_from link) (ld_ifaceFrom link),
                                                   interfaceDefinitionCapacity topo (ld_to link) (ld_ifaceTo link)]
                         else candidates)
      in min_candidate candidates')"

definition rebuildLinkCapacities :: "fe_state \<Rightarrow> fe_state" where
  "rebuildLinkCapacities st =
     (case fe_topology st of
        None \<Rightarrow> st
      | Some t \<Rightarrow>
          (let step = (\<lambda>(caps, m) link.
                  let capacity = link_capacity_fe (fe_topology st) (fe_metrics st) link
                  in (caps @ (case capacity of Some c \<Rightarrow> if c \<noteq> 0 then [c] else [] | None \<Rightarrow> []),
                      obj_set (ld_id link) capacity m));
               (capacities, cmap) = foldl step ([], []) (links t)
           in st\<lparr>fe_linkCapacityMap := cmap, fe_capacityRange := capacity_range capacities\<rparr>))"

subsection \<open>Geometry copies\<close>

definition computeAutoPath_fe :: "position \<Rightarrow> position \<Rightarrow> number \<Rightarrow> number \<Rightarrow> position list" where
  "computeAutoPath_fe p_from p_to groupSize index =
     (let dx = pos_x p_to - pos_x p_from;
          dy = pos_y p_to - pos_y p_from;
          len = (let h = hypot dx dy in if h = 0 then 1 else h);
          midpoint = \<lparr>pos_x = pos_x p_from + dx / 2, pos_y = pos_y p_from + dy / 2\<rparr>;
          normalizedPerp = \<lparr>pos_x = - dy / len, pos_y = dx / len\<rparr>;
          spacing = min 160 (max 40 (len / 3));
          offset = (index - (groupSize - 1) / 2) * spacing;
          control = \<lparr>pos_x = pos_x midpoint + pos_x normalizedPerp * offset,
                     pos_y = pos_y midpoint + pos_y normalizedPerp * offset\<rparr>
      in if groupSize = 1 \<or> \<bar>offset\<bar> < 1 then [p_from, p_to] else [p_from, control, p_to])"

text \<open>\<open>rebuildLinkPaths\<close> runs, line for line, the body of the offline
  \<open>computeLinkPaths\<close> on the current topology and stores the result.\<close>

definition rebuildLinkPaths :: "(string \<Rightarrow> string \<Rightarrow> int) \<Rightarrow> fe_state \<Rightarrow> fe_state" where
  "rebuildLinkPaths localeCompare st =
     (case fe_topology st of
        None \<Rightarrow> st
      | Some t \<Rightarrow> st\<lparr>fe_linkPathMap := computeLinkPaths localeCompare t\<rparr>)"

definition capacityToWidth_fe :: "cap_range option \<Rightarrow> number option \<Rightarrow> number" where
  "capacityToWidth_fe capacityRange capacity =
     (if capacity = None \<or> capacity = Some 0 \<or> capacityRange = None then 2
      else
        (let c = the capacity; mn = cr_min (the capacityRange); mx = cr_max (the capacityRange)
         in if c \<le> 0 \<or> mn \<le> 0 then 2
            else if mx = mn then (2 + 14) / 2
            else (let logMin = ln mn; logMax = ln mx; logValue = ln c;
                      t = min 1 (max 0 ((logValue - logMin) / (logMax - logMin)))
                  in 2 + (14 - 2) * t)))"

subsection \<open>Drawing copies\<close>

definition roundedRect :: "number \<Rightarrow> number \<Rightarrow> number \<Rightarrow> number \<Rightarrow> number \<Rightarrow> canvas_cmd list" where
  "roundedRect x y width height radius =
     (let r = min radius (min (width / 2) (height / 2))
      in [BeginPath, MoveTo (x + r) y, LineTo (x + width - r) y, QuadraticCurveTo (x + width) y (x + width) (y + r),
          LineTo (x + width) (y + height - r), QuadraticCurveTo (x + width) (y + height) (x + width - r) (y + height),
          LineTo (x + r) (y + height), QuadraticCurveTo x (y + height) x (y + height - r),
          LineTo x (y + r), QuadraticCurveTo x y (x + r) y, ClosePath])"

definition drawPathStroke_fe :: "position list \<Rightarrow> canvas_cmd list" where
  "drawPathStroke_fe path =
     (if length path < 2 then []
      else [BeginPath, MoveTo (pos_x (path ! 0)) (pos_y (path ! 0))] @
           (if length path = 2 then [LineTo (pos_x (path ! 1)) (pos_y (path ! 1))]
            else map (\<lambda>i. let current = path ! i; next = path ! Suc i
                          in QuadraticCurveTo (pos_x current) (pos_y current)
                               ((pos_x current + pos_x next) / 2) ((pos_y current + pos_y next) / 2))
                   [1..<length path - 1] @
                 [LineTo (pos_x (path ! (length path - 1))) (pos_y (path ! (length path - 1)))]) @
           [Stroke])"

definition drawHalfStroke_fe :: "position list \<Rightarrow> string \<Rightarrow> number \<Rightarrow> canvas_cmd list" where
  "drawHalfStroke_fe path color width =
     (if length path < 2 then []
      else [Save, SetStrokeStyle color, SetLineWidth width, SetLineCap ''round'', SetLineJoin ''round''] @
           drawPathStroke_fe path @ [Restore])"

definition drawLink_fe ::
  "(string \<Rightarrow> number) \<Rightarrow> cap_range option \<Rightarrow> position list \<Rightarrow> number option \<Rightarrow> number option \<Rightarrow> number option \<Rightarrow>
   string option \<Rightarrow> canvas_cmd list" where
  "drawLink_fe measureText capacityRange path forwardUtilization reverseUtilization capacity label =
     (if length path < 2 then []
      else
        (let width = capacityToWidth_fe capacityRange capacity;
             sp = splitPathAtHalf path;
             midpoint = sp_midpoint sp
         in (if length (sp_firstHalf sp) \<ge> 2
             then drawHalfStroke_fe (sp_firstHalf sp) (utilToColor_fe forwardUtilization) width else []) @
            (if length (sp_secondHalf sp) \<ge> 2
             then drawHalfStroke_fe (sp_secondHalf sp) (utilToColor_fe reverseUtilization) width else []) @
            (case label of
               Some l \<Rightarrow>
                 if l = [] then []
                 else
                   (let padding = 6; tw = measureText l; boxWidth = tw + padding * 2; boxHeight = 18
                    in [Save, SetFillStyle ''rgba(15, 23, 42, 0.85)'', SetStrokeStyle ''rgba(148, 163, 184, 0.7)'',
                        SetLineWidth 1, SetFont ''12px 'Inter', 'Segoe UI', sans-serif''] @
                       roundedRect (pos_x midpoint - boxWidth / 2) (pos_y midpoint - boxHeight / 2) boxWidth boxHeight 4 @
                       [Fill, Stroke, SetFillStyle ''#e2e8f0'', FillText l (pos_x midpoint - tw / 2) (pos_y midpoint + 4), Restore])
             | None \<Rightarrow> [])))"

definition drawRouter_fe :: "(string \<Rightarrow> number) \<Rightarrow> router_definition \<Rightarrow> router_metrics option \<Rightarrow> canvas_cmd list" where
  "drawRouter_fe measureText router metric =
     (let status = (case metric of Some m \<Rightarrow> rm_status m | None \<Rightarrow> Error);
          label = rd_label router; padding = 6; tw = measureText label; boxWidth = tw + padding * 2; boxHeight = 20;
          x = pos_x (rd_position router) - boxWidth / 2; y = pos_y (rd_position router) + 18
      in [Save, SetShadowColor ''rgba(30, 64, 175, 0.25)'', SetShadowBlur 12, SetFillStyle (status_color status),
          BeginPath, Arc (pos_x (rd_position router)) (pos_y (rd_position router)) 12 0 (pi * 2), Fill, Restore,
          Save, SetFillStyle ''rgba(15, 23, 42, 0.85)'', SetStrokeStyle ''rgba(148, 163, 184, 0.6)'',
          SetLineWidth 1, SetFont ''12px 'Inter', 'Segoe UI', sans-serif''] @
         roundedRect x y boxWidth boxHeight 4 @
         [Fill, Stroke, SetFillStyle ''#e2e8f0'', FillText label (pos_x (rd_position router) - tw / 2) (y + 14), Restore])"

subsection \<open>draw\<close>

definition link_cmds_fe ::
  "(string \<Rightarrow> number) \<Rightarrow> fe_state \<Rightarrow> router_definition js_object \<Rightarrow> link_metrics js_object \<Rightarrow> link_definition \<Rightarrow>
   canvas_cmd list" where
  "link_cmds_fe measureText st routerMap linkMetricsMap link =
     (case (obj_get routerMap (ld_from link), obj_get routerMap (ld_to link)) of
        (Some fr, Some tr) \<Rightarrow>
          (let metric = obj_get linkMetricsMap (ld_id link);
               forwardUtil = interfaceUtilization_fe (case metric of None \<Rightarrow> None | Some l \<Rightarrow> forward l);
               reverseUtil = interfaceUtilization_fe (case metric of None \<Rightarrow> None | Some l \<Rightarrow> reverse l);
               label = (case metric of Some l \<Rightarrow> (case lm_label l of Some x \<Rightarrow> Some x | None \<Rightarrow> ld_label link) | None \<Rightarrow> ld_label link);
               capacity = (case obj_get (fe_linkCapacityMap st) (ld_id link) of Some c \<Rightarrow> c | None \<Rightarrow> None);
               path = (case obj_get (fe_linkPathMap st) (ld_id link) of Some p \<Rightarrow> p | None \<Rightarrow> [rd_position fr, rd_position tr])
           in drawLink_fe measureText (fe_capacityRange st) path forwardUtil reverseUtil capacity label)
      | _ \<Rightarrow> [])"

definition layout_ring_cmds :: "router_definition \<Rightarrow> canvas_cmd list" where
  "layout_ring_cmds router =
     [Save, SetStrokeStyle ''rgba(59, 130, 246, 0.8)'', SetLineDash [6, 6], SetLineWidth 1.5, BeginPath,
      Arc (pos_x (rd_position router)) (pos_y (rd_position router)) 20 0 (pi * 2), Stroke, Restore]"

definition scene_fe :: "(string \<Rightarrow> number) \<Rightarrow> fe_state \<Rightarrow> topology_definition \<Rightarrow> canvas_cmd list" where
  "scene_fe measureText st t =
     (let routerMap = foldl (\<lambda>m r. obj_set (rd_id r) r m) [] (routers t);
          linkMetricsMap = (case fe_metrics st of None \<Rightarrow> [] | Some m \<Rightarrow> foldl (\<lambda>mm l. obj_set (lm_id l) l mm) [] (mp_links m))
      in concat (map (link_cmds_fe measureText st routerMap linkMetricsMap) (links t)) @
         concat (map (\<lambda>r. drawRouter_fe measureText r
                   (case fe_metrics st of None \<Rightarrow> None | Some m \<Rightarrow> obj_get (mp_routers m) (rd_id r))) (routers t)))"

text \<open>\<open>drawBackground\<close> of the page: the image once it has loaded, the gradient
  before and after a failed load.\<close>

definition drawBackground_fe :: "bool \<Rightarrow> render_state \<Rightarrow> canvas_cmd list" where
  "drawBackground_fe backgroundLoaded rs =
     (if backgroundLoaded then [DrawImage 0 0 (baseWidth rs) (baseHeight rs)]
      else [SetFillGradient 0 0 (baseWidth rs) (baseHeight rs) [(0, ''#0b1120''), (1, ''#111827'')],
            FillRect 0 0 (baseWidth rs) (baseHeight rs)])"

definition draw ::
  "render_state \<Rightarrow> bool \<Rightarrow> number \<Rightarrow> number \<Rightarrow> (string \<Rightarrow> number) \<Rightarrow> fe_state \<Rightarrow> canvas_cmd list" where
  "draw rs backgroundLoaded canvasWidth canvasHeight measureText st =
     (case fe_topology st of
        None \<Rightarrow> []
      | Some t \<Rightarrow>
          (let transformScale = dpr rs * scale rs
           in [Save, SetTransform 1 0 0 1 0 0, ClearRect 0 0 canvasWidth canvasHeight, Restore,
               Save, SetTransform transformScale 0 0 transformScale 0 0] @
              drawBackground_fe backgroundLoaded rs @
              scene_fe measureText st t @
              (if fe_layoutMode st then concat (map layout_ring_cmds (routers t)) else []) @
              [Restore]))"

subsection \<open>The copies agree with the offline renderer\<close>

lemma utilToColor_fe_eq: "utilToColor_fe = utilToColor"
  by (intro ext) (simp add: utilToColor_fe_def utilToColor_def UNKNOWN_COLOR_def last_conv_nth UTILIZATION_BUCKETS_def
      split: option.splits)

lemma interfaceUtilization_fe_eq: "interfaceUtilization_fe = interfaceUtilization"
  by (intro ext) (simp add: interfaceUtilization_fe_def interfaceUtilization_def)

lemma computeAutoPath_fe_eq: "computeAutoPath_fe = computeAutoPath"
  by (intro ext) (simp add: computeAutoPath_fe_def computeAutoPath_def auto_offset_def auto_spacing_def
      auto_length_def auto_control_def Let_def)

lemma capacityToWidth_fe_eq: "capacityToWidth_fe r c = capacityToWidth c r"
  by (cases c; cases r) (simp_all add: capacityToWidth_fe_def capacityToWidth_def MIN_LINK_WIDTH_def MAX_LINK_WIDTH_def)

lemma drawPathStroke_fe_eq: "drawPathStroke_fe = drawPathStroke"
proof (intro ext)
  fix path :: "position list"
  show "drawPathStroke_fe path = drawPathStroke path"
  proof (cases "length path < 2")
    case False
    then have "last path = path ! (length path - 1)" by (intro last_conv_nth) auto
    with False show ?thesis by (simp add: drawPathStroke_fe_def drawPathStroke_def)
  qed (simp add: drawPathStroke_fe_def drawPathStroke_def)
qed

lemma drawHalfStroke_fe_eq: "drawHalfStroke_fe = drawHalfStroke"
  by (intro ext) (simp add: drawHalfStroke_fe_def drawHalfStroke_def drawPathStroke_fe_eq)

lemma roundedRect_inline: "8 \<le> w \<Longrightarrow> 8 \<le> h \<Longrightarrow> roundedRect x y w h 4 = inline_rounded_rect 4 x y w h"
  by (simp add: roundedRect_def inline_rounded_rect_def)

lemma drawLink_fe_eq:
  assumes "\<forall>s. 0 \<le> measureText s"
  shows "drawLink_fe measureText cr path fu ru cap label = drawLink measureText path fu ru cap label cr"
  using assms
  by (simp add: drawLink_fe_def drawLink_def Let_def utilToColor_fe_eq capacityToWidth_fe_eq drawHalfStroke_fe_eq
      link_label_cmds_def LABEL_FONT_def roundedRect_inline split: option.splits)

lemma drawRouter_fe_eq:
  assumes "\<forall>s. 0 \<le> measureText s"
  shows "drawRouter_fe measureText r metric =
           drawRouter measureText r (case metric of Some m \<Rightarrow> rm_status m | None \<Rightarrow> Error)"
  using assms
  by (simp add: drawRouter_fe_def drawRouter_def router_marker_cmds_def router_label_cmds_def Let_def LABEL_FONT_def
      roundedRect_inline)

lemma link_cmds_fe_eq:
  assumes "\<forall>s. 0 \<le> measureText s" "fe_linkPathMap st = lp" "fe_capacityRange st = cr"
    and "obj_get (fe_linkCapacityMap st) = obj_get cm"
  shows "link_cmds_fe measureText st rm lmm link = link_draw_cmds measureText rm lmm cm cr lp link"
  using assms
  by (simp add: link_cmds_fe_def link_draw_cmds_def Let_def drawLink_fe_eq interfaceUtilization_fe_eq
      split: option.splits prod.splits)

text \<open>The page draws the background the offline renderer draws for a
  configured image that has (or has not) loaded, at the base size.\<close>

lemma drawBackground_fe_eq:
  "bg \<noteq> [] \<Longrightarrow> drawBackground_fe loaded rs = drawBackground (\<lambda>_. loaded) (baseWidth rs) (baseHeight rs) bg"
  by (simp add: drawBackground_fe_def drawBackground_def gradient_fill_def BACKGROUND_GRADIENT_def)

subsection \<open>Claims\<close>

text \<open>C23 (equivalence): Given the same topology, metrics, paths and link capacities (and non-negative text widths), the offline snapshot is its background (the configured image or the gradient), then command for command the links and routers the interactive renderer draws, then the legend with the label timestamp of the payload.\<close>

theorem scene_fe_matches_offline:
  assumes "\<forall>s. 0 \<le> measureText s" "fe_metrics st = Some mets"
    and "fe_linkPathMap st = computeLinkPaths localeCompare t"
    and "fe_capacityRange st = capacity_range (lc_capacities (computeLinkCapacities (routers t) (links t)))"
    and "obj_get (fe_linkCapacityMap st) = obj_get (lc_map (computeLinkCapacities (routers t) (links t)))"
  shows "snd (renderMapSnapshot localeCompare measureText imageLoads bg toLocal now t mets) =
           drawBackground imageLoads (map_width t) (map_height t) bg @
           scene_fe measureText st t @
           drawLegendOverlay (case title t of Some x \<Rightarrow> x | None \<Rightarrow> ''TS Weathermap'')
             (formatLabelTimestamp (if mp_timestamp mets \<noteq> [] then toLocal (mp_timestamp mets) else now))
             (map_width t)"
proof -
  have links: "map (link_draw_cmds measureText rm lmm (lc_map (computeLinkCapacities (routers t) (links t)))
                      (capacity_range (lc_capacities (computeLinkCapacities (routers t) (links t))))
                      (computeLinkPaths localeCompare t)) (links t) =
               map (link_cmds_fe measureText st rm lmm) (links t)" for rm lmm
    using link_cmds_fe_eq [OF assms(1) assms(3) assms(4) assms(5)] by (intro map_cong) simp_all
  show ?thesis
    using assms(1,2)
    by (simp add: renderMapSnapshot_def scene_fe_def buildRouterMap_def drawRouter_fe_eq Let_def links map_width_def
        map_height_def)
qed

definition ex_speed_router :: "ident \<Rightarrow> string \<Rightarrow> router_definition" where
  "ex_speed_router rid iname = \<lparr>rd_id = rid, rd_label = rid, rd_position = \<lparr>pos_x = 0, pos_y = 0\<rparr>,
     rd_interfaces = [\<lparr>if_name = iname, if_displayName = None, if_maxBandwidth = None, if_speedOid = Some ''1.3.6.1.2.1.31.1.1.1.15.1''\<rparr>]\<rparr>"

definition ex_speed_link :: link_definition where
  "ex_speed_link = \<lparr>ld_id = ''l1'', ld_from = ''r1'', ld_to = ''r2'', ld_ifaceFrom = ''ge0'', ld_ifaceTo = ''ge1'',
     ld_label = None, ld_path = None\<rparr>"

definition ex_speed_topology :: topology_definition where
  "ex_speed_topology = \<lparr>title = None, backgroundImage = ''/background.png'', mapSize = None, pollIntervalMs = 5000,
     routers = [ex_speed_router ''r1'' ''ge0'', ex_speed_router ''r2'' ''ge1''], links = [ex_speed_link]\<rparr>"

definition ex_probed_metrics :: "string \<Rightarrow> interface_metrics" where
  "ex_probed_metrics n = \<lparr>im_name = n, inBps = 0, outBps = 0, inUtilization = 0, outUtilization = 0, im_status = Ok,
     maxBandwidth = 10000, fresh = True, im_error = None\<rparr>"

definition ex_speed_metrics :: metrics_payload where
  "ex_speed_metrics = \<lparr>mp_timestamp = ''2024-01-01T00:00:00Z'',
     mp_routers = [(''r1'', \<lparr>rm_id = ''r1'', rm_label = ''r1'', rm_status = Ok, rm_interfaces = [(''ge0'', ex_probed_metrics ''ge0'')], rm_error = None\<rparr>),
                   (''r2'', \<lparr>rm_id = ''r2'', rm_label = ''r2'', rm_status = Ok, rm_interfaces = [(''ge1'', ex_probed_metrics ''ge1'')], rm_error = None\<rparr>)],
     mp_links = []\<rparr>"

definition fe_init :: fe_state where
  "fe_init = \<lparr>fe_topology = None, fe_metrics = None, fe_linkCapacityMap = [], fe_capacityRange = None,
     fe_linkPathMap = [], fe_layoutMode = False, fe_dragging = False, fe_routerId = None, fe_pointerId = None,
     fe_offset = None\<rparr>"

text \<open>The two renderers compute link capacity from different sources: for interfaces configured only with a speed OID whose probed bandwidth is reported in the metrics, the offline renderer has no capacity (width 2) while the interactive one uses the reported 10000 (width 8).\<close>

theorem link_capacity_backends_diverge:
  "obj_get (lc_map (computeLinkCapacities (routers ex_speed_topology) (links ex_speed_topology))) ''l1'' = Some None \<and>
   capacity_range (lc_capacities (computeLinkCapacities (routers ex_speed_topology) (links ex_speed_topology))) = None \<and>
   obj_get (fe_linkCapacityMap (rebuildLinkCapacities
      (fe_init\<lparr>fe_topology := Some ex_speed_topology, fe_metrics := Some ex_speed_metrics\<rparr>))) ''l1'' = Some (Some 10000) \<and>
   capacityToWidth None None = 2 \<and>
   capacityToWidth_fe (fe_capacityRange (rebuildLinkCapacities
      (fe_init\<lparr>fe_topology := Some ex_speed_topology, fe_metrics := Some ex_speed_metrics\<rparr>))) (Some 10000) = 8"
  by (simp add: computeLinkCapacities_def capacity_entry_def buildRouterMap_def getInterfaceCapacity_def
      positive_candidates_def min_candidate_def capacity_range_def rebuildLinkCapacities_def link_capacity_fe_def
      interfaceMetricCapacity_def interfaceDefinitionCapacity_def capacityToWidth_def capacityToWidth_fe_def
      MIN_LINK_WIDTH_def ex_speed_topology_def ex_speed_router_def ex_speed_link_def ex_speed_metrics_def
      ex_probed_metrics_def fe_init_def Let_def)

definition ex_noon :: local_time where
  "ex_noon = \<lparr>lt_year = 2025, lt_month = 0, lt_date = 1, lt_hours = 12, lt_minutes = 0, lt_seconds = 0\<rparr>"

definition ex_offline_state :: fe_state where
  "ex_offline_state = fe_init\<lparr>fe_topology := Some ex_speed_topology, fe_metrics := Some ex_speed_metrics,
     fe_linkPathMap := computeLinkPaths code_unit_compare ex_speed_topology,
     fe_capacityRange := capacity_range (lc_capacities (computeLinkCapacities (routers ex_speed_topology) (links ex_speed_topology))),
     fe_linkCapacityMap := lc_map (computeLinkCapacities (routers ex_speed_topology) (links ex_speed_topology))\<rparr>"

theorem scene_fe_matches_offline_witness:
  "snd (renderMapSnapshot code_unit_compare (\<lambda>_. 30) (\<lambda>_. False) ''/app/data/background.png'' (\<lambda>_. ex_noon) ex_noon
          ex_speed_topology ex_speed_metrics) =
     gradient_fill 1600 900 @ scene_fe (\<lambda>_. 30) ex_offline_state ex_speed_topology @
     drawLegendOverlay ''TS Weathermap'' (formatLabelTimestamp ex_noon) 1600"
proof -
  have t: "title ex_speed_topology = None" "mapSize ex_speed_topology = None"
    by (simp_all add: ex_speed_topology_def)
  show ?thesis
    using scene_fe_matches_offline [of "\<lambda>_. 30" ex_offline_state ex_speed_metrics code_unit_compare ex_speed_topology
        "\<lambda>_. False" "''/app/data/background.png''" "\<lambda>_. ex_noon" ex_noon]
    by (simp add: ex_offline_state_def fe_init_def t map_width_def map_height_def DEFAULT_WIDTH_def DEFAULT_HEIGHT_def
        drawBackground_def)
qed

end
