(* ===== verification/FrontendUI.thy ===== *)
theory FrontendUI
  imports Frontend
begin

text \<open>
  The interactive side of the browser front end (\<open>src/src/frontend/main.ts\<close>,
  first copy, lines 1--912): the text helpers of the side panel
  (\<open>escapeHtml\<close>, \<open>formatThroughput\<close>, \<open>renderUtilBar\<close>), the canvas
  sizing (\<open>resizeCanvas\<close>, \<open>screenToMap\<close>), the layout mode with its
  pointer handlers, and the handling of server messages.  The module's
  variables are the record \<open>ui_state\<close>, which holds the drawing state
  \<^typ>\<open>fe_state\<close> of \<open>Frontend\<close>; every handler is a function of the
  state and its event, and \<open>ui_step\<close> dispatches the events the page
  listens to.  The DOM output (\<open>renderHud\<close>'s markup, \<open>draw\<close>, pointer
  capture) is a function of the state and is not part of it.  The lemmas show
  the termination and the bounds of the unit loop, that escaping leaves no
  markup character and can be undone, that the cached link paths and
  capacities always match the current topology and metrics, that a drag is
  only live in layout mode, and how a drag moves a router.
\<close>

subsection \<open>Text helpers\<close>

text \<open>\<open>htmlEscapeMap\<close> and \<open>escapeHtml\<close>: the replacement callback maps each
  of the five characters of the pattern to its entity.\<close>

definition htmlEscapeMap :: "(char \<times> string) list" where
  "htmlEscapeMap =
     [(CHR ''&'', ''&amp;''), (CHR ''<'', ''&lt;''), (CHR ''>'', ''&gt;''), (CHR 0x22, ''&quot;''),
      (CHR 0x27, ''&#39;'')]"

definition escape_char :: "char \<Rightarrow> string" where
  "escape_char c = (case map_of htmlEscapeMap c of Some e \<Rightarrow> e | None \<Rightarrow> [c])"

definition escapeHtml :: "string \<Rightarrow> string" where
  "escapeHtml value = concat (map escape_char value)"

text \<open>\<open>safeText\<close>: \<open>String(value ?? "")\<close>, with the conversion of a number
  to a string as a parameter.\<close>

definition safeText :: "(number \<Rightarrow> string) \<Rightarrow> (string + number) option \<Rightarrow> string" where
  "safeText numStr value =
     escapeHtml (case value of None \<Rightarrow> [] | Some (Inl s) \<Rightarrow> s | Some (Inr n) \<Rightarrow> numStr n)"

text \<open>The error lines of an interface row and of a router card in
  \<open>renderHud\<close>: an error message that is not empty is escaped into its
  element.\<close>

definition iface_error_html :: "string option \<Rightarrow> string" where
  \<open>iface_error_html err =
     (case err of Some e \<Rightarrow> if e \<noteq> [] then ''<div class="iface-error">'' @ escapeHtml e @ ''</div>'' else [] | None \<Rightarrow> [])\<close>

definition router_error_html :: "string option \<Rightarrow> string" where
  \<open>router_error_html err =
     (case err of Some e \<Rightarrow> if e \<noteq> [] then ''<p class="router-error">'' @ escapeHtml e @ ''</p>'' else [] | None \<Rightarrow> [])\<close>

text \<open>\<open>Math.round\<close>: the nearest integer, halves rounded up.\<close>

definition js_round :: "number \<Rightarrow> number" where
  "js_round x = of_int \<lfloor>x + 1 / 2\<rfloor>"

definition THROUGHPUT_UNITS :: "string list" where
  "THROUGHPUT_UNITS = [''bps'', ''Kbps'', ''Mbps'', ''Gbps'', ''Tbps'']"

text \<open>The loop of \<open>formatThroughput\<close>: divide by 1000 while the value is at
  least 1000 and a larger unit is left.\<close>

function scale_throughput :: "number \<Rightarrow> nat \<Rightarrow> number \<times> nat" where
  "scale_throughput value unitIndex =
     (if 1000 \<le> value \<and> unitIndex < length THROUGHPUT_UNITS - 1
      then scale_throughput (value / 1000) (unitIndex + 1)
      else (value, unitIndex))"
  by pat_completeness auto
termination
  by (relation "measure (\<lambda>(v, i). length THROUGHPUT_UNITS - 1 - i)") (auto simp: THROUGHPUT_UNITS_def)

text \<open>\<open>formatThroughput\<close>, with \<open>toFixed\<close> as a parameter; \<open>None\<close> is
  \<open>null\<close> or \<open>undefined\<close>.\<close>

definition formatThroughput :: "(number \<Rightarrow> nat \<Rightarrow> string) \<Rightarrow> number option \<Rightarrow> string" where
  "formatThroughput toFixed bps =
     (case bps of
        None \<Rightarrow> ''0 bps''
      | Some b \<Rightarrow>
          if b \<le> 0 then ''0 bps''
          else (let (value, unitIndex) = scale_throughput b 0;
                    precision = (if 100 \<le> value then 0 else if 10 \<le> value then 1 else 2)
                in toFixed value precision @ '' '' @ THROUGHPUT_UNITS ! unitIndex))"

text \<open>\<open>formatPercent\<close>: \<open>Math.round(value * 1000) / 10\<close> followed by a per
  cent sign, and an em dash (its UTF-8 bytes here) for a missing value.\<close>

definition EM_DASH :: string where
  "EM_DASH = [CHR 0xE2, CHR 0x80, CHR 0x94]"

definition formatPercent :: "(number \<Rightarrow> string) \<Rightarrow> number option \<Rightarrow> string" where
  "formatPercent numStr value =
     (case value of None \<Rightarrow> EM_DASH | Some v \<Rightarrow> numStr (js_round (v * 1000) / 10) @ ''%'')"

text \<open>The width of the bar of \<open>renderUtilBar\<close>, in per cent.\<close>

definition util_bar_percent :: "number option \<Rightarrow> number" where
  "util_bar_percent utilization =
     (let clamped = (case utilization of Some u \<Rightarrow> max 0 (min 1 u) | None \<Rightarrow> 0)
      in js_round (clamped * 100))"

definition renderUtilBar :: "(number \<Rightarrow> string) \<Rightarrow> number option \<Rightarrow> string" where
  \<open>renderUtilBar numStr utilization =
     ''<div class="util-bar"><span class="util-bar-fill" style="width:'' @ numStr (util_bar_percent utilization) @
     ''%;background:'' @ utilToColor_fe utilization @ ''"></span></div>''\<close>

subsection \<open>Canvas size and coordinates\<close>

text \<open>The browser around the page: the window size, the device pixel ratio,
  and the bounding rectangle of the canvas.\<close>

record window_env =
  innerWidth :: number
  innerHeight :: number
  devicePixelRatio :: number

record client_rect =
  rect_left :: number
  rect_top :: number
  rect_width :: number
  rect_height :: number

record ui_state =
  ui_fe :: fe_state
  ui_render :: render_state
  ui_canvasWidth :: number
  ui_canvasHeight :: number
  ui_sidebarVisible :: bool
  ui_backgroundSrc :: string
  ui_backgroundLoaded :: bool

text \<open>\<open>window.devicePixelRatio || 1\<close>\<close>

definition effective_dpr :: "window_env \<Rightarrow> number" where
  "effective_dpr win = (if devicePixelRatio win = 0 then 1 else devicePixelRatio win)"

definition resizeCanvas :: "window_env \<Rightarrow> ui_state \<Rightarrow> ui_state" where
  "resizeCanvas win ui =
     (case fe_topology (ui_fe ui) of
        None \<Rightarrow> ui
      | Some t \<Rightarrow>
          (let bw = (case mapSize t of Some sz \<Rightarrow> ms_width sz | None \<Rightarrow> innerWidth win);
               bh = (case mapSize t of Some sz \<Rightarrow> ms_height sz | None \<Rightarrow> innerHeight win);
               sc = (case mapSize t of Some _ \<Rightarrow> min (innerWidth win / bw) (innerHeight win / bh) | None \<Rightarrow> 1);
               width = bw * sc;
               height = bh * sc;
               d = effective_dpr win
           in ui\<lparr>ui_canvasWidth := max 1 (of_int \<lfloor>width * d\<rfloor>),
                 ui_canvasHeight := max 1 (of_int \<lfloor>height * d\<rfloor>),
                 ui_render := \<lparr>baseWidth = bw, baseHeight = bh, scale = sc, dpr = d\<rparr>\<rparr>))"

definition screenToMap :: "client_rect \<Rightarrow> ui_state \<Rightarrow> number \<Rightarrow> number \<Rightarrow> position" where
  "screenToMap rect ui clientX clientY =
     (let scaleX = ui_canvasWidth ui / rect_width rect;
          scaleY = ui_canvasHeight ui / rect_height rect;
          xPx = (clientX - rect_left rect) * scaleX;
          yPx = (clientY - rect_top rect) * scaleY;
          transform = dpr (ui_render ui) * scale (ui_render ui)
      in \<lparr>pos_x = xPx / transform, pos_y = yPx / transform\<rparr>)"

subsection \<open>Layout mode\<close>

definition cancelDragging :: "fe_state \<Rightarrow> fe_state" where
  "cancelDragging st = st\<lparr>fe_dragging := False, fe_routerId := None, fe_pointerId := None, fe_offset := None\<rparr>"

definition setLayoutMode :: "(string \<Rightarrow> string \<Rightarrow> int) \<Rightarrow> bool \<Rightarrow> fe_state \<Rightarrow> fe_state" where
  "setLayoutMode localeCompare enabled st =
     (if fe_layoutMode st = enabled then st
      else (let st1 = st\<lparr>fe_layoutMode := enabled\<rparr>;
                st2 = (if \<not> enabled then cancelDragging st1 else st1)
            in if enabled then rebuildLinkPaths localeCompare st2 else st2))"

definition ROUTER_HIT_RADIUS :: number where "ROUTER_HIT_RADIUS = 24"

definition findRouterAtPoint :: "fe_state \<Rightarrow> position \<Rightarrow> router_definition option" where
  "findRouterAtPoint st point =
     (case fe_topology st of
        None \<Rightarrow> None
      | Some t \<Rightarrow> find (\<lambda>r. hypot (pos_x (rd_position r) - pos_x point) (pos_y (rd_position r) - pos_y point)
                             \<le> ROUTER_HIT_RADIUS) (routers t))"

record pointer_event =
  pe_clientX :: number
  pe_clientY :: number
  pe_pointerId :: int

definition handlePointerDown :: "client_rect \<Rightarrow> pointer_event \<Rightarrow> ui_state \<Rightarrow> ui_state" where
  "handlePointerDown rect ev ui =
     (let st = ui_fe ui in
      if \<not> fe_layoutMode st \<or> fe_topology st = None then ui
      else (let point = screenToMap rect ui (pe_clientX ev) (pe_clientY ev)
            in case findRouterAtPoint st point of
                 None \<Rightarrow> ui
               | Some router \<Rightarrow>
                   ui\<lparr>ui_fe := st\<lparr>fe_dragging := True, fe_routerId := Some (rd_id router),
                        fe_pointerId := Some (pe_pointerId ev),
                        fe_offset := Some \<lparr>pos_x = pos_x (rd_position router) - pos_x point,
                                           pos_y = pos_y (rd_position router) - pos_y point\<rparr>\<rparr>\<rparr>))"

text \<open>\<open>topology.routers.find(...)\<close> returns the router object itself, and
  the handler assigns its position in place: the first router with the id is
  replaced in the list.\<close>

fun update_first :: "('a \<Rightarrow> bool) \<Rightarrow> ('a \<Rightarrow> 'a) \<Rightarrow> 'a list \<Rightarrow> 'a list" where
  "update_first P f [] = []"
| "update_first P f (x # xs) = (if P x then f x # xs else x # update_first P f xs)"

definition move_router :: "ident \<Rightarrow> position \<Rightarrow> topology_definition \<Rightarrow> topology_definition" where
  "move_router rid p t = t\<lparr>routers := update_first (\<lambda>r. rd_id r = rid) (\<lambda>r. r\<lparr>rd_position := p\<rparr>) (routers t)\<rparr>"

definition handlePointerMove ::
  "(string \<Rightarrow> string \<Rightarrow> int) \<Rightarrow> client_rect \<Rightarrow> pointer_event \<Rightarrow> ui_state \<Rightarrow> ui_state" where
  "handlePointerMove localeCompare rect ev ui =
     (let st = ui_fe ui in
      case fe_topology st of
        None \<Rightarrow> ui
      | Some t \<Rightarrow>
          if \<not> fe_dragging st \<or> fe_pointerId st \<noteq> Some (pe_pointerId ev) then ui
          else (case find (\<lambda>r. Some (rd_id r) = fe_routerId st) (routers t) of
                  None \<Rightarrow> ui
                | Some router \<Rightarrow>
                    (let point = screenToMap rect ui (pe_clientX ev) (pe_clientY ev);
                         offset = (case fe_offset st of Some off \<Rightarrow> off | None \<Rightarrow> \<lparr>pos_x = 0, pos_y = 0\<rparr>);
                         p = \<lparr>pos_x = js_round (pos_x point + pos_x offset),
                              pos_y = js_round (pos_y point + pos_y offset)\<rparr>
                     in ui\<lparr>ui_fe := rebuildLinkPaths localeCompare
                                      (st\<lparr>fe_topology := Some (move_router (rd_id router) p t)\<rparr>)\<rparr>)))"

definition handlePointerUp :: "pointer_event \<Rightarrow> fe_state \<Rightarrow> fe_state" where
  "handlePointerUp ev st =
     (if \<not> fe_dragging st then st
      else if fe_pointerId st = Some (pe_pointerId ev) then cancelDragging st else st)"

definition handleKeyDown :: "(string \<Rightarrow> string \<Rightarrow> int) \<Rightarrow> string \<Rightarrow> fe_state \<Rightarrow> fe_state" where
  "handleKeyDown localeCompare key st =
     (if key = ''Escape'' \<and> fe_layoutMode st then setLayoutMode localeCompare False st else st)"

text \<open>The buttons of the side panel, by their \<open>data-action\<close>; copying the
  layout snippet only writes to the clipboard.\<close>

datatype hud_action = ToggleSidebar | ToggleLayout | ExitLayout | CopyLayout

definition handleHudClick :: "(string \<Rightarrow> string \<Rightarrow> int) \<Rightarrow> hud_action \<Rightarrow> ui_state \<Rightarrow> ui_state" where
  "handleHudClick localeCompare action ui =
     (case action of
        ToggleSidebar \<Rightarrow> ui\<lparr>ui_sidebarVisible := \<not> ui_sidebarVisible ui\<rparr>
      | ToggleLayout \<Rightarrow> ui\<lparr>ui_fe := setLayoutMode localeCompare (\<not> fe_layoutMode (ui_fe ui)) (ui_fe ui)\<rparr>
      | ExitLayout \<Rightarrow> ui\<lparr>ui_fe := setLayoutMode localeCompare False (ui_fe ui)\<rparr>
      | CopyLayout \<Rightarrow> ui)"

subsection \<open>Server messages\<close>

text \<open>\<open>applyTopology\<close>; \<open>resolveUrl\<close> is \<open>new URL(_, window.location.origin)\<close>.\<close>

definition applyTopology ::
  "(string \<Rightarrow> string \<Rightarrow> int) \<Rightarrow> (string \<Rightarrow> string) \<Rightarrow> window_env \<Rightarrow> topology_definition \<Rightarrow> ui_state \<Rightarrow> ui_state" where
  "applyTopology localeCompare resolveUrl win next ui =
     (let st = rebuildLinkPaths localeCompare (rebuildLinkCapacities ((ui_fe ui)\<lparr>fe_topology := Some next\<rparr>));
          url = resolveUrl (backgroundImage next);
          ui1 = ui\<lparr>ui_fe := st\<rparr>;
          ui2 = (if ui_backgroundSrc ui1 \<noteq> url then ui1\<lparr>ui_backgroundLoaded := False, ui_backgroundSrc := url\<rparr> else ui1)
      in resizeCanvas win ui2)"

definition handleServerMessage ::
  "(string \<Rightarrow> string \<Rightarrow> int) \<Rightarrow> (string \<Rightarrow> string) \<Rightarrow> window_env \<Rightarrow> server_message \<Rightarrow> ui_state \<Rightarrow> ui_state" where
  "handleServerMessage localeCompare resolveUrl win message ui =
     (case message of
        TopologyMsg t \<Rightarrow> applyTopology localeCompare resolveUrl win t ui
      | MetricsMsg m \<Rightarrow> ui\<lparr>ui_fe := rebuildLinkCapacities ((ui_fe ui)\<lparr>fe_metrics := Some m\<rparr>)\<rparr>)"

text \<open>\<open>fetchInitialMetrics\<close>: a 204 response and an error status (which
  throws, and the caller only logs) leave the state; a success stores the
  payload.\<close>

definition fetchInitialMetrics :: "nat \<Rightarrow> metrics_payload \<Rightarrow> ui_state \<Rightarrow> ui_state" where
  "fetchInitialMetrics status data ui =
     (if status = 204 then ui
      else if \<not> (200 \<le> status \<and> status < 300) then ui
      else ui\<lparr>ui_fe := rebuildLinkCapacities ((ui_fe ui)\<lparr>fe_metrics := Some data\<rparr>)\<rparr>)"

subsection \<open>The page as a state machine\<close>

text \<open>The events the page listens to, with what the handler reads from the
  browser at that moment.\<close>

datatype ui_event =
    PointerDown client_rect pointer_event
  | PointerMove client_rect pointer_event
  | PointerUp pointer_event
  | KeyDown string
  | HudClick hud_action
  | SidebarPeek
  | ServerMsg window_env server_message
  | InitialMetrics nat metrics_payload
  | WindowResize window_env
  | BackgroundLoaded
  | BackgroundError

fun ui_step :: "(string \<Rightarrow> string \<Rightarrow> int) \<Rightarrow> (string \<Rightarrow> string) \<Rightarrow> ui_state \<Rightarrow> ui_event \<Rightarrow> ui_state" where
  "ui_step lc ru ui (PointerDown rect ev) = handlePointerDown rect ev ui"
| "ui_step lc ru ui (PointerMove rect ev) = handlePointerMove lc rect ev ui"
| "ui_step lc ru ui (PointerUp ev) = ui\<lparr>ui_fe := handlePointerUp ev (ui_fe ui)\<rparr>"
| "ui_step lc ru ui (KeyDown key) = ui\<lparr>ui_fe := handleKeyDown lc key (ui_fe ui)\<rparr>"
| "ui_step lc ru ui (HudClick a) = handleHudClick lc a ui"
| "ui_step lc ru ui SidebarPeek = ui\<lparr>ui_sidebarVisible := \<not> ui_sidebarVisible ui\<rparr>"
| "ui_step lc ru ui (ServerMsg win m) = handleServerMessage lc ru win m ui"
| "ui_step lc ru ui (InitialMetrics status data) = fetchInitialMetrics status data ui"
| "ui_step lc ru ui (WindowResize win) = resizeCanvas win ui"
| "ui_step lc ru ui BackgroundLoaded = ui\<lparr>ui_backgroundLoaded := True\<rparr>"
| "ui_step lc ru ui BackgroundError = ui\<lparr>ui_backgroundLoaded := False\<rparr>"

text \<open>The module's initial values (\<open>renderState\<close> from the window).\<close>

definition ui_init :: "window_env \<Rightarrow> ui_state" where
  "ui_init win =
     \<lparr>ui_fe = fe_init, ui_render = \<lparr>baseWidth = innerWidth win, baseHeight = innerHeight win, scale = 1,
                                     dpr = effective_dpr win\<rparr>,
      ui_canvasWidth = 300, ui_canvasHeight = 150, ui_sidebarVisible = True, ui_backgroundSrc = [],
      ui_backgroundLoaded = False\<rparr>"

inductive ui_reachable :: "(string \<Rightarrow> string \<Rightarrow> int) \<Rightarrow> (string \<Rightarrow> string) \<Rightarrow> window_env \<Rightarrow> ui_state \<Rightarrow> bool"
  for lc ru win where
  init: "ui_reachable lc ru win (ui_init win)"
| step: "ui_reachable lc ru win ui \<Longrightarrow> ui_reachable lc ru win (ui_step lc ru ui ev)"

subsection \<open>Escaping\<close>

text \<open>A reference decoder for the five entities \<open>escapeHtml\<close> writes.\<close>

fun html_unescape :: "string \<Rightarrow> string" where
  "html_unescape [] = []"
| "html_unescape (c # cs) =
     (if c = CHR ''&'' \<and> take 4 cs = ''amp;'' then CHR ''&'' # html_unescape (drop 4 cs)
      else if c = CHR ''&'' \<and> take 3 cs = ''lt;'' then CHR ''<'' # html_unescape (drop 3 cs)
      else if c = CHR ''&'' \<and> take 3 cs = ''gt;'' then CHR ''>'' # html_unescape (drop 3 cs)
      else if c = CHR ''&'' \<and> take 5 cs = ''quot;'' then CHR 0x22 # html_unescape (drop 5 cs)
      else if c = CHR ''&'' \<and> take 4 cs = ''#39;'' then CHR 0x27 # html_unescape (drop 4 cs)
      else c # html_unescape cs)"

lemma html_unescape_escape_char: "html_unescape (escape_char c @ s) = c # html_unescape s"
  by (auto simp: escape_char_def htmlEscapeMap_def)

lemma escape_char_markup: "set (escape_char c) \<inter> {CHR ''<'', CHR ''>'', CHR 0x22, CHR 0x27} = {}"
  by (auto simp: escape_char_def htmlEscapeMap_def)

text \<open>C30 (roundtrip): escapeHtml leaves no <, >, double or single quote in its output, and decoding the five entities it writes gives back the input.\<close>

theorem escapeHtml_safe_roundtrip:
  "set (escapeHtml s) \<inter> {CHR ''<'', CHR ''>'', CHR 0x22, CHR 0x27} = {} \<and> html_unescape (escapeHtml s) = s"
proof
  show "set (escapeHtml s) \<inter> {CHR ''<'', CHR ''>'', CHR 0x22, CHR 0x27} = {}"
    using escape_char_markup by (fastforce simp: escapeHtml_def)
  show "html_unescape (escapeHtml s) = s"
    by (induction s) (simp_all add: escapeHtml_def html_unescape_escape_char)
qed

subsection \<open>The unit loop\<close>

lemma scale_throughput_spec:
  "scale_throughput v i = (v', i') \<Longrightarrow>
     i \<le> i' \<and> i' \<le> max i 4 \<and> v' * 1000 ^ (i' - i) = v \<and> (i' < 4 \<longrightarrow> v' < 1000) \<and> (i < i' \<longrightarrow> 1 \<le> v')"
proof (induction v i rule: scale_throughput.induct)
  case (1 val unitIndex)
  show ?case
  proof (cases "1000 \<le> val \<and> unitIndex < length THROUGHPUT_UNITS - 1")
    case True
    then have rec: "scale_throughput (val / 1000) (unitIndex + 1) = (v', i')"
      using "1.prems" by simp
    have ih: "unitIndex + 1 \<le> i' \<and> i' \<le> max (unitIndex + 1) 4 \<and> v' * 1000 ^ (i' - (unitIndex + 1)) = val / 1000 \<and>
              (i' < 4 \<longrightarrow> v' < 1000) \<and> (unitIndex + 1 < i' \<longrightarrow> 1 \<le> v')"
      using "1.IH" [OF True rec] .
    have u: "unitIndex < 4" using True by (simp add: THROUGHPUT_UNITS_def)
    have pow: "1000 ^ (i' - unitIndex) = (1000::real) ^ (i' - (unitIndex + 1)) * 1000"
      using ih by (simp add: power_Suc2 [symmetric] Suc_diff_Suc)
    have "v' * 1000 ^ (i' - unitIndex) = val"
      using ih by (simp add: pow)
    moreover have "1 \<le> v'"
    proof (cases "unitIndex + 1 < i'")
      case False
      then have "i' = unitIndex + 1" using ih by simp
      then show ?thesis using ih True by simp
    next
      case True
      then show ?thesis using ih by simp
    qed
    ultimately show ?thesis using ih u by simp
  next
    case False
    then show ?thesis using "1.prems" by (auto simp: THROUGHPUT_UNITS_def)
  qed
qed

text \<open>C29 (termination): The unit loop of formatThroughput stops after at most four divisions: for a positive rate it ends at one of the five units with value * 1000^unit equal to the rate, the value below 1000 unless the unit is Tbps and at least 1 unless it is bps.\<close>

theorem formatThroughput_units:
  assumes "0 < b"
  shows "case scale_throughput b 0 of (v, i) \<Rightarrow>
           i < length THROUGHPUT_UNITS \<and> v * 1000 ^ i = b \<and> (i < 4 \<longrightarrow> v < 1000) \<and> (0 < i \<longrightarrow> 1 \<le> v)"
  using scale_throughput_spec [of b 0] by (auto simp: THROUGHPUT_UNITS_def split: prod.splits)

lemma util_bar_percent_bounds: "0 \<le> util_bar_percent u \<and> util_bar_percent u \<le> 100"
proof -
  define c :: real where "c = (case u of Some a \<Rightarrow> max 0 (min 1 a) | None \<Rightarrow> 0)"
  have c: "0 \<le> c" "c \<le> 1" "util_bar_percent u = of_int \<lfloor>c * 100 + 1 / 2\<rfloor>"
    by (cases u; simp add: c_def util_bar_percent_def js_round_def)+
  have "0 \<le> \<lfloor>c * 100 + 1 / 2\<rfloor>" using c by simp
  moreover have "\<lfloor>c * 100 + 1 / 2\<rfloor> \<le> 100" using c by linarith
  ultimately show ?thesis using c(3) by simp
qed

subsection \<open>The cached link geometry and capacities\<close>

text \<open>What \<open>rebuildLinkCapacities\<close> stores for a topology and metrics.\<close>

definition capacity_cache ::
  "topology_definition option \<Rightarrow> metrics_payload option \<Rightarrow> link_definition list \<Rightarrow> number option js_object \<times> cap_range option" where
  "capacity_cache topo mets ls =
     (let step = (\<lambda>(caps, m) link.
             let capacity = link_capacity_fe topo mets link
             in (caps @ (case capacity of Some c \<Rightarrow> if c \<noteq> 0 then [c] else [] | None \<Rightarrow> []),
                 obj_set (ld_id link) capacity m));
          (capacities, cmap) = foldl step ([], []) ls
      in (cmap, capacity_range capacities))"

text \<open>The caches match the current topology and metrics.\<close>

definition caches_ok :: "(string \<Rightarrow> string \<Rightarrow> int) \<Rightarrow> fe_state \<Rightarrow> bool" where
  "caches_ok localeCompare st \<longleftrightarrow>
     (case fe_topology st of
        None \<Rightarrow> True
      | Some t \<Rightarrow> fe_linkPathMap st = computeLinkPaths localeCompare t \<and>
                  (fe_linkCapacityMap st, fe_capacityRange st) = capacity_cache (Some t) (fe_metrics st) (links t))"

lemma rebuildLinkCapacities_cache:
  "fe_topology st = Some t \<Longrightarrow>
     rebuildLinkCapacities st =
       st\<lparr>fe_linkCapacityMap := fst (capacity_cache (Some t) (fe_metrics st) (links t)),
          fe_capacityRange := snd (capacity_cache (Some t) (fe_metrics st) (links t))\<rparr>"
  by (simp add: rebuildLinkCapacities_def capacity_cache_def Let_def split: prod.splits)

lemma rebuildLinkCapacities_None: "fe_topology st = None \<Longrightarrow> rebuildLinkCapacities st = st"
  by (simp add: rebuildLinkCapacities_def)

lemma rebuildLinkPaths_Some:
  "fe_topology st = Some t \<Longrightarrow> rebuildLinkPaths lc st = st\<lparr>fe_linkPathMap := computeLinkPaths lc t\<rparr>"
  by (simp add: rebuildLinkPaths_def)

lemma rebuildLinkPaths_None: "fe_topology st = None \<Longrightarrow> rebuildLinkPaths lc st = st"
  by (simp add: rebuildLinkPaths_def)

lemmas rebuild_simps = rebuildLinkCapacities_cache rebuildLinkCapacities_None rebuildLinkPaths_Some rebuildLinkPaths_None

lemma find_update_first_proj:
  assumes "\<And>x. P (f x) = P x" "\<And>x. g (f x) = g x"
  shows "map_option g (find P (update_first Q f xs)) = map_option g (find P xs)"
  using assms by (induction xs) auto

lemma interfaceDefinitionCapacity_proj:
  "interfaceDefinitionCapacity (Some t) a b =
     (case map_option rd_interfaces (find (\<lambda>r. rd_id r = a) (routers t)) of
        None \<Rightarrow> None
      | Some ifs \<Rightarrow> (case find (\<lambda>i. if_name i = b) ifs of None \<Rightarrow> None | Some i \<Rightarrow> if_maxBandwidth i))"
  by (simp add: interfaceDefinitionCapacity_def split: option.splits)

lemma link_capacity_fe_move:
  "link_capacity_fe (Some (move_router rid p t)) = link_capacity_fe (Some t)"
proof -
  have "\<And>a b. interfaceDefinitionCapacity (Some (move_router rid p t)) a b = interfaceDefinitionCapacity (Some t) a b"
    by (simp add: interfaceDefinitionCapacity_proj move_router_def find_update_first_proj)
  then show ?thesis by (intro ext) (simp add: link_capacity_fe_def Let_def)
qed

lemma move_router_links [simp]: "links (move_router rid p t) = links t"
  by (simp add: move_router_def)

lemma ui_fe_resizeCanvas [simp]: "ui_fe (resizeCanvas win ui) = ui_fe ui"
  by (simp add: resizeCanvas_def Let_def split: option.splits)

lemma caches_ok_rebuild_all:
  "caches_ok lc (rebuildLinkPaths lc (rebuildLinkCapacities st))"
  by (cases "fe_topology st") (simp_all add: caches_ok_def rebuild_simps)

lemma caches_ok_metrics:
  "caches_ok lc st \<Longrightarrow> caches_ok lc (rebuildLinkCapacities (st\<lparr>fe_metrics := m\<rparr>))"
  by (cases "fe_topology st") (simp_all add: caches_ok_def rebuild_simps)

lemma caches_ok_setLayoutMode:
  "caches_ok lc st \<Longrightarrow> caches_ok lc (setLayoutMode lc b st)"
  by (cases "fe_topology st")
     (simp_all add: caches_ok_def setLayoutMode_def cancelDragging_def rebuild_simps Let_def)

lemma caches_ok_pointerDown:
  "caches_ok lc (ui_fe ui) \<Longrightarrow> caches_ok lc (ui_fe (handlePointerDown rect ev ui))"
  by (simp add: handlePointerDown_def caches_ok_def Let_def split: option.splits)

lemma caches_ok_pointerMove:
  assumes "caches_ok lc (ui_fe ui)"
  shows "caches_ok lc (ui_fe (handlePointerMove lc rect ev ui))"
proof (cases "fe_topology (ui_fe ui)")
  case (Some t)
  then show ?thesis
    using assms
    by (auto simp: handlePointerMove_def caches_ok_def rebuild_simps link_capacity_fe_move Let_def
        capacity_cache_def split: option.splits)
qed (simp add: handlePointerMove_def assms)

lemma caches_ok_pointerUp:
  "caches_ok lc st \<Longrightarrow> caches_ok lc (handlePointerUp ev st)"
  by (simp add: handlePointerUp_def cancelDragging_def caches_ok_def split: option.splits)

lemma ui_step_caches_ok:
  assumes "caches_ok lc (ui_fe ui)"
  shows "caches_ok lc (ui_fe (ui_step lc ru ui ev))"
proof (cases ev)
  case (HudClick a)
  then show ?thesis
    using assms by (cases a) (simp_all add: handleHudClick_def caches_ok_setLayoutMode)
qed (use assms in \<open>simp_all add: caches_ok_pointerDown caches_ok_pointerMove caches_ok_pointerUp handleKeyDown_def
       caches_ok_setLayoutMode handleServerMessage_def applyTopology_def caches_ok_rebuild_all caches_ok_metrics
       fetchInitialMetrics_def Let_def split: server_message.splits\<close>)

subsection \<open>Dragging\<close>

text \<open>The pointer state is all set during a drag, all clear otherwise, and a
  drag only exists in layout mode.\<close>

definition drag_ok :: "fe_state \<Rightarrow> bool" where
  "drag_ok st \<longleftrightarrow>
     (fe_dragging st \<longrightarrow> fe_layoutMode st \<and> fe_routerId st \<noteq> None \<and> fe_pointerId st \<noteq> None \<and> fe_offset st \<noteq> None) \<and>
     (\<not> fe_dragging st \<longrightarrow> fe_routerId st = None \<and> fe_pointerId st = None \<and> fe_offset st = None)"

lemma rebuild_pointer_fields [simp]:
  "fe_dragging (rebuildLinkPaths lc st) = fe_dragging st" "fe_layoutMode (rebuildLinkPaths lc st) = fe_layoutMode st"
  "fe_routerId (rebuildLinkPaths lc st) = fe_routerId st" "fe_pointerId (rebuildLinkPaths lc st) = fe_pointerId st"
  "fe_offset (rebuildLinkPaths lc st) = fe_offset st"
  "fe_dragging (rebuildLinkCapacities st) = fe_dragging st" "fe_layoutMode (rebuildLinkCapacities st) = fe_layoutMode st"
  "fe_routerId (rebuildLinkCapacities st) = fe_routerId st" "fe_pointerId (rebuildLinkCapacities st) = fe_pointerId st"
  "fe_offset (rebuildLinkCapacities st) = fe_offset st"
  by (simp_all add: rebuildLinkPaths_def rebuildLinkCapacities_def Let_def split: option.splits prod.splits)

lemma drag_ok_setLayoutMode: "drag_ok st \<Longrightarrow> drag_ok (setLayoutMode lc b st)"
  by (auto simp: drag_ok_def setLayoutMode_def cancelDragging_def Let_def)

lemma drag_ok_pointerDown: "drag_ok (ui_fe ui) \<Longrightarrow> drag_ok (ui_fe (handlePointerDown rect ev ui))"
  by (auto simp: handlePointerDown_def drag_ok_def Let_def split: option.splits)

lemma drag_ok_pointerMove: "drag_ok (ui_fe ui) \<Longrightarrow> drag_ok (ui_fe (handlePointerMove lc rect ev ui))"
  by (auto simp: handlePointerMove_def drag_ok_def Let_def split: option.splits)

lemma drag_ok_pointerUp: "drag_ok st \<Longrightarrow> drag_ok (handlePointerUp ev st)"
  by (auto simp: handlePointerUp_def drag_ok_def cancelDragging_def)

lemma ui_step_drag_ok:
  assumes "drag_ok (ui_fe ui)"
  shows "drag_ok (ui_fe (ui_step lc ru ui ev))"
proof (cases ev)
  case (HudClick a)
  then show ?thesis
    using assms by (cases a) (simp_all add: handleHudClick_def drag_ok_setLayoutMode)
next
  case (ServerMsg win m)
  then show ?thesis
    using assms by (cases m) (simp_all add: handleServerMessage_def applyTopology_def drag_ok_def Let_def)
next
  case (InitialMetrics status data)
  then show ?thesis
    using assms by (simp add: fetchInitialMetrics_def drag_ok_def)
qed (use assms in \<open>simp_all add: drag_ok_pointerDown drag_ok_pointerMove drag_ok_pointerUp handleKeyDown_def
       drag_ok_setLayoutMode\<close>)

lemma ui_init_ok: "caches_ok lc (ui_fe (ui_init win))" "drag_ok (ui_fe (ui_init win))"
  by (simp_all add: ui_init_def fe_init_def caches_ok_def drag_ok_def)

lemma find_distinct_id:
  "distinct (map rd_id xs) \<Longrightarrow> r \<in> set xs \<Longrightarrow> find (\<lambda>r'. Some (rd_id r') = Some (rd_id r)) xs = Some r"
  by (induction xs) auto

lemma screenToMap_fe [simp]: "screenToMap rect (ui\<lparr>ui_fe := st\<rparr>) = screenToMap rect ui"
  by (simp add: screenToMap_def fun_eq_iff)

subsection \<open>Properties of the page\<close>

text \<open>C26 (invariant): In every state the page reaches, under any sequence of pointer, key, panel, resize and server events, the cached link paths equal computeLinkPaths of the current topology and the cached link capacities and capacity range equal what rebuildLinkCapacities computes from the current topology and metrics; dragging a router rebuilds the paths and needs no capacity rebuild.\<close>

theorem ui_reachable_caches_ok:
  "ui_reachable lc ru win ui \<Longrightarrow> caches_ok lc (ui_fe ui)"
  by (induction rule: ui_reachable.induct) (simp_all add: ui_init_ok ui_step_caches_ok)

text \<open>C27 (safety): In every reachable state a drag in progress has its router, pointer and offset recorded and happens only in layout mode, and when layout mode is off no pointer move changes the state.\<close>

theorem ui_reachable_drag_safe:
  assumes "ui_reachable lc ru win ui"
  shows "drag_ok (ui_fe ui) \<and> (\<not> fe_layoutMode (ui_fe ui) \<longrightarrow> handlePointerMove lc rect ev ui = ui)"
proof -
  have "drag_ok (ui_fe ui)"
    using assms by (induction rule: ui_reachable.induct) (simp_all add: ui_init_ok ui_step_drag_ok)
  then show ?thesis
    by (auto simp: drag_ok_def handlePointerMove_def Let_def split: option.splits)
qed

text \<open>C28 (functional): In layout mode, a pointer pressed on a router r (router ids distinct) and moved with the same pointer to another point puts r at the rounded position keeping the offset between r and the pointer, and changes nothing else in the topology.\<close>

theorem drag_moves_router:
  assumes "fe_layoutMode (ui_fe ui)" "fe_topology (ui_fe ui) = Some t" "distinct (map rd_id (routers t))"
    and "findRouterAtPoint (ui_fe ui) (screenToMap rect ui (pe_clientX ev1) (pe_clientY ev1)) = Some r"
    and "pe_pointerId ev2 = pe_pointerId ev1"
  shows "let p1 = screenToMap rect ui (pe_clientX ev1) (pe_clientY ev1);
             p2 = screenToMap rect ui (pe_clientX ev2) (pe_clientY ev2)
         in fe_topology (ui_fe (handlePointerMove lc rect ev2 (handlePointerDown rect ev1 ui))) =
              Some (move_router (rd_id r)
                     \<lparr>pos_x = js_round (pos_x p2 + (pos_x (rd_position r) - pos_x p1)),
                      pos_y = js_round (pos_y p2 + (pos_y (rd_position r) - pos_y p1))\<rparr> t)"
proof -
  have "r \<in> set (routers t)"
    using assms(2,4) by (auto simp: findRouterAtPoint_def dest: find_Some_iff [THEN iffD1])
  then have "find (\<lambda>r'. Some (rd_id r') = Some (rd_id r)) (routers t) = Some r"
    by (rule find_distinct_id [OF assms(3)])
  then show ?thesis
    using assms by (simp add: handlePointerDown_def handlePointerMove_def rebuild_simps Let_def)
qed

subsection \<open>Examples\<close>

definition ex_win :: window_env where
  "ex_win = \<lparr>innerWidth = 800, innerHeight = 600, devicePixelRatio = 1\<rparr>"

text \<open>The canvas of \<^const>\<open>ui_init\<close> (300 by 150, the HTML default) at the
  top left of the page, so that client and map coordinates agree.\<close>

definition ex_rect :: client_rect where
  "ex_rect = \<lparr>rect_left = 0, rect_top = 0, rect_width = 300, rect_height = 150\<rparr>"

definition ex_ui_layout :: ui_state where
  "ex_ui_layout = (ui_init ex_win)\<lparr>ui_fe := fe_init\<lparr>fe_topology := Some ex_pair_topology, fe_layoutMode := True\<rparr>\<rparr>"

theorem ui_reachable_caches_ok_witness:
  "caches_ok code_unit_compare
     (ui_fe (ui_step code_unit_compare id (ui_init ex_win) (ServerMsg ex_win (TopologyMsg ex_pair_topology))))"
  by (rule ui_reachable_caches_ok [OF ui_reachable.step [OF ui_reachable.init]])

theorem ui_reachable_drag_safe_witness:
  "drag_ok (ui_fe (ui_step code_unit_compare id (ui_init ex_win) (HudClick ExitLayout))) \<and>
   handlePointerMove code_unit_compare ex_rect \<lparr>pe_clientX = 10, pe_clientY = 20, pe_pointerId = 1\<rparr>
     (ui_step code_unit_compare id (ui_init ex_win) (HudClick ExitLayout)) =
   ui_step code_unit_compare id (ui_init ex_win) (HudClick ExitLayout)"
proof -
  have "\<not> fe_layoutMode (ui_fe (ui_step code_unit_compare id (ui_init ex_win) (HudClick ExitLayout)))"
    by (simp add: handleHudClick_def setLayoutMode_def ui_init_def fe_init_def)
  then show ?thesis
    using ui_reachable_drag_safe [OF ui_reachable.step [OF ui_reachable.init], of code_unit_compare id ex_win
        "HudClick ExitLayout" ex_rect "\<lparr>pe_clientX = 10, pe_clientY = 20, pe_pointerId = 1\<rparr>"]
    by simp
qed

theorem drag_moves_router_witness:
  "fe_topology (ui_fe (handlePointerMove code_unit_compare ex_rect \<lparr>pe_clientX = 10, pe_clientY = 20, pe_pointerId = 1\<rparr>
      (handlePointerDown ex_rect \<lparr>pe_clientX = 0, pe_clientY = 0, pe_pointerId = 1\<rparr> ex_ui_layout))) =
   Some (move_router ''A'' \<lparr>pos_x = 10, pos_y = 20\<rparr> ex_pair_topology)"
proof -
  have s: "screenToMap ex_rect ex_ui_layout x y = \<lparr>pos_x = x, pos_y = y\<rparr>" for x y
    by (simp add: screenToMap_def ex_rect_def ex_ui_layout_def ui_init_def effective_dpr_def ex_win_def)
  have f: "findRouterAtPoint (ui_fe ex_ui_layout) \<lparr>pos_x = 0, pos_y = 0\<rparr> = Some (ex_router_at ''A'' 0 0)"
    by (simp add: findRouterAtPoint_def ex_ui_layout_def ex_pair_topology_def ex_router_at_def ROUTER_HIT_RADIUS_def)
  have r: "js_round 10 = 10" "js_round 20 = 20"
    by (simp_all add: js_round_def floor_eq_iff)
  show ?thesis
    using drag_moves_router [of ex_ui_layout ex_pair_topology ex_rect "\<lparr>pe_clientX = 0, pe_clientY = 0, pe_pointerId = 1\<rparr>"
        "ex_router_at ''A'' 0 0" "\<lparr>pe_clientX = 10, pe_clientY = 20, pe_pointerId = 1\<rparr>" code_unit_compare] s f r
    by (simp add: ex_ui_layout_def ex_pair_topology_def ex_router_at_def Let_def)
qed

theorem formatThroughput_units_witness:
  "case scale_throughput 2500000 0 of (v, i) \<Rightarrow>
     i < length THROUGHPUT_UNITS \<and> v * 1000 ^ i = 2500000 \<and> (i < 4 \<longrightarrow> v < 1000) \<and> (0 < i \<longrightarrow> 1 \<le> v)"
  using formatThroughput_units [of 2500000] by simp

end
