(* ===== verification/FrontendV2.thy ===== *)
theory FrontendV2
  imports FrontendUI
begin

text \<open>
  The older revision of the browser front end, the second TypeScript copy in
  \<open>src/src/frontend/main.ts\<close> (lines 914--1772).  It differs from the current
  copy in four places, modelled here; every other handler is textually the same
  and is the definition of \<open>FrontendUI\<close>:
  \<^item> \<open>rebuildLinkCapacities\<close> (lines 1059--1086) takes link capacities from
    the configured \<open>maxBandwidth\<close> of the topology only, through
    \<open>buildRouterMap\<close>, and is not rerun when metrics arrive
    (\<open>handleServerMessage\<close>, \<open>fetchInitialMetrics\<close>);
  \<^item> \<open>drawLink\<close> (lines 1265--1299) paints the whole path once, in the colour
    of the link's \<open>aggregateUtilization\<close>, and places the label at
    \<open>getPathMidpoint\<close> (lines 1199--1210), a vertex of the path;
  \<^item> \<open>draw\<close> (lines 1358--1409) passes the aggregate utilization.
  The lemmas show that the older page always holds exactly the link capacities
  of the offline renderer, whatever sequence of events it receives, that a link
  is painted with a single stroke in the aggregate colour, and where it departs
  from the split drawing of the offline renderer and of the current page.
\<close>

subsection \<open>Link capacities from the configuration\<close>

definition link_capacity_v2 :: "router_definition js_object \<Rightarrow> link_definition \<Rightarrow> number option" where
  "link_capacity_v2 routerMap link =
     (let forwardRouter = obj_get routerMap (ld_from link);
          reverseRouter = obj_get routerMap (ld_to link);
          forwardCapacity = (case forwardRouter of
                               None \<Rightarrow> None
                             | Some r \<Rightarrow> (case find (\<lambda>i. if_name i = ld_ifaceFrom link) (rd_interfaces r) of
                                           None \<Rightarrow> None | Some i \<Rightarrow> if_maxBandwidth i));
          reverseCapacity = (case reverseRouter of
                               None \<Rightarrow> None
                             | Some r \<Rightarrow> (case find (\<lambda>i. if_name i = ld_ifaceTo link) (rd_interfaces r) of
                                           None \<Rightarrow> None | Some i \<Rightarrow> if_maxBandwidth i));
          candidates = positive_candidates [forwardCapacity, reverseCapacity]
      in min_candidate candidates)"

definition rebuildLinkCapacities_v2 :: "fe_state \<Rightarrow> fe_state" where
  "rebuildLinkCapacities_v2 st =
     (case fe_topology st of
        None \<Rightarrow> st
      | Some t \<Rightarrow>
          (let routerMap = buildRouterMap (routers t);
               step = (\<lambda>(caps, m) link.
                  let capacity = link_capacity_v2 routerMap link
                  in (caps @ (case capacity of Some c \<Rightarrow> if c \<noteq> 0 then [c] else [] | None \<Rightarrow> []),
                      obj_set (ld_id link) capacity m));
               (capacities, cmap) = foldl step ([], []) (links t)
           in st\<lparr>fe_linkCapacityMap := cmap, fe_capacityRange := capacity_range capacities\<rparr>))"

subsection \<open>Drawing a link in one colour\<close>

definition getPathMidpoint :: "position list \<Rightarrow> position" where
  "getPathMidpoint path =
     (if path = [] then \<lparr>pos_x = 0, pos_y = 0\<rparr>
      else if length path = 2
      then \<lparr>pos_x = (pos_x (path ! 0) + pos_x (path ! 1)) / 2, pos_y = (pos_y (path ! 0) + pos_y (path ! 1)) / 2\<rparr>
      else path ! (length path div 2))"

text \<open>The stroke style is set without \<open>save\<close>: it stays in force after the
  link, until the next command that sets it.\<close>

definition drawLink_v2 ::
  "(string \<Rightarrow> number) \<Rightarrow> cap_range option \<Rightarrow> position list \<Rightarrow> number option \<Rightarrow> number option \<Rightarrow> string option
     \<Rightarrow> canvas_cmd list" where
  "drawLink_v2 measureText capacityRange path utilization capacity label =
     (if length path < 2 then []
      else
        (let color = utilToColor_fe utilization;
             width = capacityToWidth_fe capacityRange capacity
         in [SetStrokeStyle color, SetLineWidth width, SetLineCap ''round'', SetLineJoin ''round''] @
            drawPathStroke_fe path @
            (case label of
               Some l \<Rightarrow>
                 if l = [] then []
                 else
                   (let midpoint = getPathMidpoint path; padding = 6; tw = measureText l;
                        boxWidth = tw + padding * 2; boxHeight = 18
                    in [Save, SetFillStyle ''rgba(15, 23, 42, 0.85)'', SetStrokeStyle ''rgba(148, 163, 184, 0.7)'',
                        SetLineWidth 1, SetFont ''12px 'Inter', 'Segoe UI', sans-serif''] @
                       roundedRect (pos_x midpoint - boxWidth / 2) (pos_y midpoint - boxHeight / 2) boxWidth boxHeight 4 @
                       [Fill, Stroke, SetFillStyle ''#e2e8f0'', FillText l (pos_x midpoint - tw / 2) (pos_y midpoint + 4), Restore])
             | None \<Rightarrow> [])))"

definition link_cmds_v2 ::
  "(string \<Rightarrow> number) \<Rightarrow> fe_state \<Rightarrow> router_definition js_object \<Rightarrow> link_metrics js_object \<Rightarrow> link_definition \<Rightarrow>
   canvas_cmd list" where
  "link_cmds_v2 measureText st routerMap linkMetricsMap link =
     (case (obj_get routerMap (ld_from link), obj_get routerMap (ld_to link)) of
        (Some fr, Some tr) \<Rightarrow>
          (let metric = obj_get linkMetricsMap (ld_id link);
               utilization = (case metric of None \<Rightarrow> None | Some l \<Rightarrow> aggregateUtilization l);
               label = (case metric of Some l \<Rightarrow> (case lm_label l of Some x \<Rightarrow> Some x | None \<Rightarrow> ld_label link) | None \<Rightarrow> ld_label link);
               capacity = (case obj_get (fe_linkCapacityMap st) (ld_id link) of Some c \<Rightarrow> c | None \<Rightarrow> None);
               path = (case obj_get (fe_linkPathMap st) (ld_id link) of Some p \<Rightarrow> p | None \<Rightarrow> [rd_position fr, rd_position tr])
           in drawLink_v2 measureText (fe_capacityRange st) path utilization capacity label)
      | _ \<Rightarrow> [])"

definition draw_v2 ::
  "render_state \<Rightarrow> bool \<Rightarrow> number \<Rightarrow> number \<Rightarrow> (string \<Rightarrow> number) \<Rightarrow> fe_state \<Rightarrow> canvas_cmd list" where
  "draw_v2 rs backgroundLoaded canvasWidth canvasHeight measureText st =
     (case fe_topology st of
        None \<Rightarrow> []
      | Some t \<Rightarrow>
          (let transformScale = dpr rs * scale rs;
               routerMap = foldl (\<lambda>m r. obj_set (rd_id r) r m) [] (routers t);
               linkMetricsMap = (case fe_metrics st of None \<Rightarrow> [] | Some m \<Rightarrow> foldl (\<lambda>mm l. obj_set (lm_id l) l mm) [] (mp_links m))
           in [Save, SetTransform 1 0 0 1 0 0, ClearRect 0 0 canvasWidth canvasHeight, Restore,
               Save, SetTransform transformScale 0 0 transformScale 0 0] @
              drawBackground_fe backgroundLoaded rs @
              concat (map (link_cmds_v2 measureText st routerMap linkMetricsMap) (links t)) @
              concat (map (\<lambda>r. drawRouter_fe measureText r
                        (case fe_metrics st of None \<Rightarrow> None | Some m \<Rightarrow> obj_get (mp_routers m) (rd_id r))) (routers t)) @
              (if fe_layoutMode st then concat (map layout_ring_cmds (routers t)) else []) @
              [Restore]))"

subsection \<open>Error lines of the side panel\<close>

text \<open>The same lines in the older \<open>renderHud\<close> (and in the compiled
  bundle, lines 2201 and 2213): the message is interpolated as it is.\<close>

definition iface_error_html_v2 :: "string option \<Rightarrow> string" where
  \<open>iface_error_html_v2 err =
     (case err of Some e \<Rightarrow> if e \<noteq> [] then ''<div class="iface-error">'' @ e @ ''</div>'' else [] | None \<Rightarrow> [])\<close>

definition router_error_html_v2 :: "string option \<Rightarrow> string" where
  \<open>router_error_html_v2 err =
     (case err of Some e \<Rightarrow> if e \<noteq> [] then ''<p class="router-error">'' @ e @ ''</p>'' else [] | None \<Rightarrow> [])\<close>

subsection \<open>The page\<close>

definition applyTopology_v2 ::
  "(string \<Rightarrow> string \<Rightarrow> int) \<Rightarrow> (string \<Rightarrow> string) \<Rightarrow> window_env \<Rightarrow> topology_definition \<Rightarrow> ui_state \<Rightarrow> ui_state" where
  "applyTopology_v2 localeCompare resolveUrl win next ui =
     (let st = rebuildLinkPaths localeCompare (rebuildLinkCapacities_v2 ((ui_fe ui)\<lparr>fe_topology := Some next\<rparr>));
          url = resolveUrl (backgroundImage next);
          ui1 = ui\<lparr>ui_fe := st\<rparr>;
          ui2 = (if ui_backgroundSrc ui1 \<noteq> url then ui1\<lparr>ui_backgroundLoaded := False, ui_backgroundSrc := url\<rparr> else ui1)
      in resizeCanvas win ui2)"

definition handleServerMessage_v2 ::
  "(string \<Rightarrow> string \<Rightarrow> int) \<Rightarrow> (string \<Rightarrow> string) \<Rightarrow> window_env \<Rightarrow> server_message \<Rightarrow> ui_state \<Rightarrow> ui_state" where
  "handleServerMessage_v2 localeCompare resolveUrl win message ui =
     (case message of
        TopologyMsg t \<Rightarrow> applyTopology_v2 localeCompare resolveUrl win t ui
      | MetricsMsg m \<Rightarrow> ui\<lparr>ui_fe := (ui_fe ui)\<lparr>fe_metrics := Some m\<rparr>\<rparr>)"

definition fetchInitialMetrics_v2 :: "nat \<Rightarrow> metrics_payload \<Rightarrow> ui_state \<Rightarrow> ui_state" where
  "fetchInitialMetrics_v2 status data ui =
     (if status = 204 then ui
      else if \<not> (200 \<le> status \<and> status < 300) then ui
      else ui\<lparr>ui_fe := (ui_fe ui)\<lparr>fe_metrics := Some data\<rparr>\<rparr>)"

fun ui_step_v2 :: "(string \<Rightarrow> string \<Rightarrow> int) \<Rightarrow> (string \<Rightarrow> string) \<Rightarrow> ui_state \<Rightarrow> ui_event \<Rightarrow> ui_state" where
  "ui_step_v2 lc ru ui (ServerMsg win m) = handleServerMessage_v2 lc ru win m ui"
| "ui_step_v2 lc ru ui (InitialMetrics status data) = fetchInitialMetrics_v2 status data ui"
| "ui_step_v2 lc ru ui ev = ui_step lc ru ui ev"

inductive ui_reachable_v2 :: "(string \<Rightarrow> string \<Rightarrow> int) \<Rightarrow> (string \<Rightarrow> string) \<Rightarrow> window_env \<Rightarrow> ui_state \<Rightarrow> bool"
  for lc ru win where
  init: "ui_reachable_v2 lc ru win (ui_init win)"
| step: "ui_reachable_v2 lc ru win ui \<Longrightarrow> ui_reachable_v2 lc ru win (ui_step_v2 lc ru ui ev)"

subsection \<open>The capacities are the offline renderer's\<close>

lemma link_capacity_v2_eq:
  "link_capacity_v2 rm link =
     min_candidate (positive_candidates [getInterfaceCapacity (obj_get rm (ld_from link)) (ld_ifaceFrom link),
                                         getInterfaceCapacity (obj_get rm (ld_to link)) (ld_ifaceTo link)])"
  by (simp add: link_capacity_v2_def getInterfaceCapacity_def Let_def)

lemma min_candidate_positive: "min_candidate (positive_candidates vs) = Some c \<Longrightarrow> 0 < c"
  using min_candidate_spec [of "positive_candidates vs"] positive_candidates_set [of vs] by auto

lemma foldl_capacity_step_v2:
  "foldl (\<lambda>(caps, m) link. let capacity = link_capacity_v2 rm link
            in (caps @ (case capacity of Some c \<Rightarrow> if c \<noteq> 0 then [c] else [] | None \<Rightarrow> []),
                obj_set (ld_id link) capacity m)) (caps, m) ls =
   (lc_capacities (foldl (capacity_entry rm) \<lparr>lc_capacities = caps, lc_map = m\<rparr> ls),
    lc_map (foldl (capacity_entry rm) \<lparr>lc_capacities = caps, lc_map = m\<rparr> ls))"
proof (induction ls arbitrary: caps m)
  case (Cons link ls)
  have "(case link_capacity_v2 rm link of Some c \<Rightarrow> if c \<noteq> 0 then [c] else [] | None \<Rightarrow> []) =
        (case link_capacity_v2 rm link of Some c \<Rightarrow> [c] | None \<Rightarrow> [])"
    by (auto simp: link_capacity_v2_eq dest: min_candidate_positive split: option.splits)
  with Cons show ?case by (simp add: capacity_entry_def link_capacity_v2_eq Let_def)
qed simp

lemma rebuildLinkCapacities_v2_offline:
  "fe_topology st = Some t \<Longrightarrow>
     rebuildLinkCapacities_v2 st =
       st\<lparr>fe_linkCapacityMap := lc_map (computeLinkCapacities (routers t) (links t)),
          fe_capacityRange := capacity_range (lc_capacities (computeLinkCapacities (routers t) (links t)))\<rparr>"
  using foldl_capacity_step_v2 [of "buildRouterMap (routers t)" "[]" "[]" "links t"]
  by (simp add: rebuildLinkCapacities_v2_def computeLinkCapacities_def Let_def split: prod.splits)

text \<open>Moving a router changes neither its id nor its interfaces, so the
  capacities of the offline renderer do not change.\<close>

lemma buildRouterMap_lookup:
  "map_of (buildRouterMap rs) k = (case filter (\<lambda>x. rd_id x = k) (rev rs) of [] \<Rightarrow> None | x # _ \<Rightarrow> Some x)"
  using foldl_obj_set_lookup [of rd_id "\<lambda>x. x" "[]" rs k]
  by (cases "filter (\<lambda>x. rd_id x = k) (rev rs)") (simp_all add: buildRouterMap_def)

lemma filter_update_first_proj:
  assumes "\<And>x. rd_id (f x) = rd_id x" "\<And>x. rd_interfaces (f x) = rd_interfaces x"
  shows "map rd_interfaces (filter (\<lambda>x. rd_id x = k) (update_first P f rs)) =
           map rd_interfaces (filter (\<lambda>x. rd_id x = k) rs)"
  using assms by (induction rs) auto

lemma hd_option_proj:
  "map g xs = map g ys \<Longrightarrow>
     map_option g (case xs of [] \<Rightarrow> None | x # _ \<Rightarrow> Some x) = map_option g (case ys of [] \<Rightarrow> None | y # _ \<Rightarrow> Some y)"
  by (cases xs; cases ys) auto

lemma getInterfaceCapacity_proj:
  "getInterfaceCapacity r n =
     (case map_option rd_interfaces r of
        None \<Rightarrow> None
      | Some ifs \<Rightarrow> (case find (\<lambda>c. if_name c = n) ifs of None \<Rightarrow> None | Some i \<Rightarrow> if_maxBandwidth i))"
  by (simp add: getInterfaceCapacity_def split: option.splits)

lemma computeLinkCapacities_move:
  "computeLinkCapacities (routers (move_router rid p t)) ls = computeLinkCapacities (routers t) ls"
proof -
  have proj: "map_option rd_interfaces (map_of (buildRouterMap (routers (move_router rid p t))) k) =
              map_option rd_interfaces (map_of (buildRouterMap (routers t)) k)" for k
    unfolding buildRouterMap_lookup move_router_def
    by (intro hd_option_proj) (simp add: rev_filter [symmetric] rev_map [symmetric] filter_update_first_proj)
  have "capacity_entry (buildRouterMap (routers (move_router rid p t))) = capacity_entry (buildRouterMap (routers t))"
    by (intro ext) (simp add: capacity_entry_def getInterfaceCapacity_proj proj)
  then show ?thesis by (simp add: computeLinkCapacities_def)
qed

definition caps_offline :: "fe_state \<Rightarrow> bool" where
  "caps_offline st \<longleftrightarrow>
     (case fe_topology st of
        None \<Rightarrow> True
      | Some t \<Rightarrow> fe_linkCapacityMap st = lc_map (computeLinkCapacities (routers t) (links t)) \<and>
                  fe_capacityRange st = capacity_range (lc_capacities (computeLinkCapacities (routers t) (links t))))"

lemma caps_offline_rebuildLinkPaths [simp]: "caps_offline (rebuildLinkPaths lc st) = caps_offline st"
  by (cases "fe_topology st") (simp_all add: caps_offline_def rebuildLinkPaths_def)

lemma caps_offline_setLayoutMode: "caps_offline st \<Longrightarrow> caps_offline (setLayoutMode lc b st)"
  by (simp add: setLayoutMode_def cancelDragging_def caps_offline_def rebuildLinkPaths_def Let_def split: option.splits)

lemma caps_offline_move:
  "caps_offline st \<Longrightarrow> fe_topology st = Some t \<Longrightarrow> caps_offline (st\<lparr>fe_topology := Some (move_router rid p t)\<rparr>)"
  by (simp add: caps_offline_def computeLinkCapacities_move)

lemma caps_offline_pointerMove:
  "caps_offline (ui_fe ui) \<Longrightarrow> caps_offline (ui_fe (handlePointerMove lc rect ev ui))"
  by (auto simp: handlePointerMove_def caps_offline_move Let_def split: option.splits)

lemma caps_offline_metrics [simp]: "caps_offline (st\<lparr>fe_metrics := m\<rparr>) = caps_offline st"
  by (simp add: caps_offline_def split: option.splits)

lemma caps_offline_pointerDown: "caps_offline (ui_fe ui) \<Longrightarrow> caps_offline (ui_fe (handlePointerDown rect ev ui))"
  by (simp add: handlePointerDown_def caps_offline_def Let_def split: option.splits)

lemma caps_offline_pointerUp: "caps_offline st \<Longrightarrow> caps_offline (handlePointerUp ev st)"
  by (simp add: handlePointerUp_def cancelDragging_def caps_offline_def split: option.splits)

lemma ui_fe_applyTopology_v2:
  "ui_fe (applyTopology_v2 lc ru win next ui) =
     rebuildLinkPaths lc (rebuildLinkCapacities_v2 ((ui_fe ui)\<lparr>fe_topology := Some next\<rparr>))"
  by (simp add: applyTopology_v2_def Let_def)

lemma caps_offline_rebuild_v2: "caps_offline (rebuildLinkCapacities_v2 (st\<lparr>fe_topology := Some t\<rparr>))"
  by (simp add: rebuildLinkCapacities_v2_offline caps_offline_def)

lemma ui_step_v2_caps_offline:
  assumes "caps_offline (ui_fe ui)"
  shows "caps_offline (ui_fe (ui_step_v2 lc ru ui ev))"
proof (cases ev)
  case (ServerMsg win m)
  then show ?thesis
    using assms
    by (cases m) (simp_all add: handleServerMessage_v2_def ui_fe_applyTopology_v2 caps_offline_rebuild_v2)
next
  case (InitialMetrics status data)
  then show ?thesis using assms by (simp add: fetchInitialMetrics_v2_def)
next
  case (HudClick a)
  then show ?thesis
    using assms by (cases a) (simp_all add: handleHudClick_def caps_offline_setLayoutMode)
qed (use assms in \<open>simp_all add: caps_offline_pointerMove caps_offline_setLayoutMode handleKeyDown_def
       caps_offline_pointerDown caps_offline_pointerUp\<close>)

text \<open>C24 (invariant): In every state the older page (second copy of main.ts) reaches, under any sequence of pointer, key, panel, resize and server events, its link capacity map and capacity range are exactly those the offline renderer computes for the current topology: capacities come from the configuration only and metrics never change them.\<close>

theorem ui_reachable_v2_capacities_offline:
  assumes "ui_reachable_v2 lc ru win ui" "fe_topology (ui_fe ui) = Some t"
  shows "fe_linkCapacityMap (ui_fe ui) = lc_map (computeLinkCapacities (routers t) (links t)) \<and>
         fe_capacityRange (ui_fe ui) = capacity_range (lc_capacities (computeLinkCapacities (routers t) (links t)))"
proof -
  have "caps_offline (ui_fe ui)"
    using assms(1)
  proof (induction rule: ui_reachable_v2.induct)
    case init
    then show ?case by (simp add: ui_init_def fe_init_def caps_offline_def)
  next
    case (step ui ev)
    then show ?case using ui_step_v2_caps_offline by blast
  qed
  then show ?thesis using assms(2) by (simp add: caps_offline_def)
qed

subsection \<open>One stroke per link\<close>

text \<open>C25 (functional): For a path of at least two points the older drawLink paints exactly one stroke, over the whole path, in the colour of the utilization it is given (the link aggregate) at the capacity width, followed by the label box outline when the label is non-empty.\<close>

theorem drawLink_v2_single_stroke:
  assumes "2 \<le> length path"
  shows "strokes (drawLink_v2 m cr path u cap label) =
           (utilToColor u, capacityToWidth cap cr) #
           (if label = None \<or> label = Some [] then [] else [(''rgba(148, 163, 184, 0.7)'', 1)])"
  using assms
  by (auto simp: drawLink_v2_def strokes_def canvas_init_def Let_def utilToColor_fe_eq capacityToWidth_fe_eq
      drawPathStroke_fe_eq strokes_from_append_neutral drawPathStroke_neutral drawPathStroke_count roundedRect_def
      split: option.splits)

subsection \<open>Concrete pages\<close>

text \<open>The page after the topology of \<open>ex_speed_topology\<close> (interfaces with a
  speed OID and no configured bandwidth) and then metrics that report a probed
  bandwidth of 10000: the older page keeps the link without capacity, as the
  offline renderer does, where the current page takes 10000
  (\<open>link_capacity_backends_diverge\<close>).\<close>

definition ex_v2_page :: ui_state where
  "ex_v2_page = ui_step_v2 code_unit_compare id
     (ui_step_v2 code_unit_compare id (ui_init ex_win) (ServerMsg ex_win (TopologyMsg ex_speed_topology)))
     (ServerMsg ex_win (MetricsMsg ex_speed_metrics))"

theorem ui_reachable_v2_capacities_offline_witness:
  "obj_get (fe_linkCapacityMap (ui_fe ex_v2_page)) ''l1'' = Some None \<and> fe_capacityRange (ui_fe ex_v2_page) = None"
proof -
  have r: "ui_reachable_v2 code_unit_compare id ex_win ex_v2_page"
    unfolding ex_v2_page_def by (intro ui_reachable_v2.step ui_reachable_v2.init)
  have t: "fe_topology (ui_fe ex_v2_page) = Some ex_speed_topology"
    by (simp add: ex_v2_page_def handleServerMessage_v2_def ui_fe_applyTopology_v2 rebuildLinkCapacities_v2_def
        rebuildLinkPaths_def Let_def split: prod.splits)
  from ui_reachable_v2_capacities_offline [OF r t] show ?thesis
    by (simp add: computeLinkCapacities_def capacity_entry_def buildRouterMap_def getInterfaceCapacity_def
        positive_candidates_def min_candidate_def capacity_range_def ex_speed_topology_def ex_speed_router_def
        ex_speed_link_def Let_def)
qed

theorem drawLink_v2_single_stroke_witness:
  "strokes (drawLink_v2 (\<lambda>_. 30) None ex_points (Some 0.95) None None) = [(''#ef4444'', 2)]"
proof -
  have "2 \<le> length ex_points" by (simp add: ex_points_def)
  from drawLink_v2_single_stroke [OF this, of "\<lambda>_. 30" None "Some 0.95" None None] show ?thesis
    by (simp add: utilToColor_Some UTILIZATION_BUCKETS_def capacityToWidth_def MIN_LINK_WIDTH_def)
qed

text \<open>A link whose forward direction runs at 50\% and whose reverse runs at
  95\%: the resolver's aggregate is 95\%, and the older page paints the whole
  link red, where the current page (and the offline renderer) paints the
  forward half yellow and the reverse half red.\<close>

lemma drawLink_v2_hides_direction:
  "strokes (drawLink_v2 (\<lambda>_. 30) None ex_points (Some (max 0.5 0.95)) None None) = [(''#ef4444'', 2)] \<and>
   strokes (drawLink_fe (\<lambda>_. 30) None ex_points (Some 0.5) (Some 0.95) None None) = [(''#facc15'', 2), (''#ef4444'', 2)]"
proof -
  have l: "2 \<le> length ex_points" by (simp add: ex_points_def)
  have h: "2 \<le> length (sp_firstHalf (splitPathAtHalf ex_points))" "2 \<le> length (sp_secondHalf (splitPathAtHalf ex_points))"
    using splitPathAtHalf_half_lengths [OF l] by simp_all
  have "\<forall>s. 0 \<le> (\<lambda>_::string. 30::real) s" by simp
  then show ?thesis
    using l h
    by (simp add: drawLink_v2_def drawLink_fe_eq drawLink_def strokes_def canvas_init_def utilToColor_fe_eq
        capacityToWidth_fe_eq drawPathStroke_fe_eq drawPathStroke_def drawHalfStroke_strokes [simplified]
        drawHalfStroke_strokes [where rest = "[]", simplified]
        ex_points_def utilToColor_Some UTILIZATION_BUCKETS_def capacityToWidth_def MIN_LINK_WIDTH_def Let_def)
qed

subsection \<open>Markup in error messages\<close>

definition markup_chars :: "char set" where
  "markup_chars = {CHR ''<'', CHR ''>'', CHR 0x22, CHR 0x27}"

text \<open>The current side panel escapes every interface and router error message, so the message part of each error line contains no <, >, double or single quote; the older side panel (and the compiled bundle built from it) interpolates the message verbatim, so a message carrying an HTML tag is inserted as markup.\<close>

theorem hud_error_markup:
  \<open>(\<forall>e. \<exists>x. iface_error_html (Some e) = (if e = [] then [] else ''<div class="iface-error">'' @ x @ ''</div>'') \<and>
           set x \<inter> markup_chars = {}) \<and>
   (\<forall>e. \<exists>x. router_error_html (Some e) = (if e = [] then [] else ''<p class="router-error">'' @ x @ ''</p>'') \<and>
           set x \<inter> markup_chars = {}) \<and>
   iface_error_html_v2 (Some ''<img src=x onerror=alert(1)>'') =
     ''<div class="iface-error"><img src=x onerror=alert(1)></div>'' \<and>
   router_error_html_v2 (Some ''<img src=x onerror=alert(1)>'') =
     ''<p class="router-error"><img src=x onerror=alert(1)></p>''\<close>
proof -
  have esc: "set (escapeHtml e) \<inter> markup_chars = {}" for e
    using escape_char_markup by (fastforce simp: escapeHtml_def markup_chars_def)
  show ?thesis
    using esc by (auto simp: iface_error_html_def router_error_html_def iface_error_html_v2_def router_error_html_v2_def)
qed

end
