(* ===== verification/Config.thy ===== *)
theory Config
  imports Renderer
begin

text \<open>
  The configuration loader of the back end (\<open>src/src/backend.ts\<close>): the
  validation of the parsed YAML (\<open>readConfigFile\<close>), \<open>normaliseRouters\<close>,
  \<open>normalizePath\<close>, \<open>normaliseLinks\<close>, \<open>resolveDataPath\<close> and
  \<open>loadRuntimeConfig\<close> of the current version (lines 444--716), and the older
  \<open>normaliseRouters\<close> (lines 106--147) that accepted any interface.  The parsed
  document is a record whose optional keys are options; a required string key
  that is absent or empty is the empty string (both are falsy to the checks);
  the optional \<open>meta\<close> and \<open>map\<close> sections are flattened into their optional
  fields, and the \<open>speedScale\<close> that the loader adds to an interface definition
  is dropped, as \<open>InterfaceDefinition\<close> (shared types) has no such field and
  no reader uses it.
  Every \<open>throw\<close> is an \<open>Inl\<close> with the message of the source, and a
  \<open>map\<close> whose callback throws is \<^const>\<open>map_sum\<close>.  File access is not
  modelled: whether the file exists and what YAML parses it to are arguments.
  The lemmas show what the validation guarantees of an accepted configuration:
  the poll configuration and the topology describe the same routers and
  interfaces, every interface has a capacity source, every link endpoint names
  a declared router and interface (together \<open>wf_runtime_config\<close>); and what
  it does not guarantee (unique link ids).
\<close>

subsection \<open>The parsed document\<close>

record raw_point =
  rp_x :: "number option"
  rp_y :: "number option"

record raw_interface_config =
  ri_name :: string
  ri_oid_in :: string
  ri_oid_out :: string
  ri_max_bandwidth :: "number option"
  ri_oid_speed :: "string option"
  ri_oid_speed_scale :: "number option"
  ri_display_name :: "string option"

record raw_router_config =
  rr_ip :: string
  rr_community :: string
  rr_label :: "string option"
  rr_position :: "raw_point option"
  rr_interfaces :: "raw_interface_config list option"

record raw_link_config =
  rl_id :: "string option"
  rl_from :: string
  rl_to :: string
  rl_iface_from :: string
  rl_iface_to :: string
  rl_label :: "string option"
  rl_path :: "raw_point option list option"

record raw_size =
  rz_width :: "number option"
  rz_height :: "number option"

record raw_config =
  cf_title :: "string option"
  cf_poll_interval_ms :: "number option"
  cf_background :: "string option"
  cf_size :: "raw_size option"
  cf_routers :: "raw_router_config js_object option"
  cf_links :: "raw_link_config list option"

subsection \<open>normaliseRouters\<close>

text \<open>\<open>iface.oid_speed?.trim() || undefined\<close>\<close>

definition trimmed_speed_oid :: "raw_interface_config \<Rightarrow> string option" where
  "trimmed_speed_oid iface =
     (case ri_oid_speed iface of None \<Rightarrow> None | Some s \<Rightarrow> (let t = js_trim s in if t = [] then None else Some t))"

definition has_static_bandwidth :: "raw_interface_config \<Rightarrow> bool" where
  "has_static_bandwidth iface = (case ri_max_bandwidth iface of Some b \<Rightarrow> 0 < b | None \<Rightarrow> False)"

definition speed_scale_of :: "raw_interface_config \<Rightarrow> number" where
  "speed_scale_of iface =
     (case (trimmed_speed_oid iface, ri_oid_speed_scale iface) of (Some _, Some k) \<Rightarrow> if 0 < k then k else 1 | _ \<Rightarrow> 1)"

definition normalise_interface :: "ident \<Rightarrow> raw_interface_config \<Rightarrow> string + interface_config \<times> interface_definition" where
  \<open>normalise_interface routerId iface =
     (if ri_name iface = [] then Inl (''Router "'' @ routerId @ ''" has an interface without a name'')
      else if ri_oid_in iface = [] \<or> ri_oid_out iface = []
      then Inl (''Interface "'' @ ri_name iface @ ''" on router "'' @ routerId @ ''" must define both oid_in and oid_out'')
      else if \<not> has_static_bandwidth iface \<and> trimmed_speed_oid iface = None
      then Inl (''Interface "'' @ ri_name iface @ ''" on router "'' @ routerId @
                ''" must define either max_bandwidth (> 0) or oid_speed'')
      else
        (let displayName = (case ri_display_name iface of Some d \<Rightarrow> d | None \<Rightarrow> ri_name iface)
         in Inr (\<lparr>ic_name = ri_name iface, oid_in = ri_oid_in iface, oid_out = ri_oid_out iface,
                  max_bandwidth = Some (if has_static_bandwidth iface then the (ri_max_bandwidth iface) else 0),
                  oid_speed = trimmed_speed_oid iface,
                  oid_speed_scale = (if trimmed_speed_oid iface \<noteq> None then Some (speed_scale_of iface) else None),
                  display_name = Some displayName\<rparr>,
                 \<lparr>if_name = ri_name iface, if_displayName = Some displayName,
                  if_maxBandwidth = (if has_static_bandwidth iface then ri_max_bandwidth iface else None),
                  if_speedOid = trimmed_speed_oid iface\<rparr>)))\<close>

definition raw_position :: "raw_router_config \<Rightarrow> position" where
  "raw_position router =
     \<lparr>pos_x = (case rr_position router of Some p \<Rightarrow> (case rp_x p of Some x \<Rightarrow> x | None \<Rightarrow> 0) | None \<Rightarrow> 0),
      pos_y = (case rr_position router of Some p \<Rightarrow> (case rp_y p of Some y \<Rightarrow> y | None \<Rightarrow> 0) | None \<Rightarrow> 0)\<rparr>"

definition normalise_router ::
  "ident \<times> raw_router_config \<Rightarrow> string + ident \<times> router_config \<times> router_definition" where
  \<open>normalise_router entry =
     (case entry of (routerId, router) \<Rightarrow>
       if rr_ip router = [] \<or> rr_community router = []
       then Inl (''Router "'' @ routerId @ ''" must define both ip and community'')
       else (case rr_interfaces router of
               None \<Rightarrow> Inl (''Router "'' @ routerId @ ''" must define at least one interface'')
             | Some ifaces \<Rightarrow>
                 if ifaces = [] then Inl (''Router "'' @ routerId @ ''" must define at least one interface'')
                 else (case map_sum (normalise_interface routerId) ifaces of
                         Inl e \<Rightarrow> Inl e
                       | Inr normalized \<Rightarrow>
                           (let label = (case rr_label router of Some l \<Rightarrow> l | None \<Rightarrow> routerId)
                            in Inr (routerId,
                                    \<lparr>ip = rr_ip router, community = rr_community router, rc_label = Some label,
                                     rc_interfaces = map fst normalized\<rparr>,
                                    \<lparr>rd_id = routerId, rd_label = label, rd_position = raw_position router,
                                     rd_interfaces = map snd normalized\<rparr>)))))\<close>

definition normaliseRouters ::
  "raw_router_config js_object \<Rightarrow> string + router_config js_object \<times> router_definition list" where
  "normaliseRouters rs =
     (case map_sum normalise_router rs of
        Inl e \<Rightarrow> Inl e
      | Inr entries \<Rightarrow>
          Inr (foldl (\<lambda>acc (rid, pc, d). obj_set rid pc acc) [] entries, map (\<lambda>(rid, pc, d). d) entries))"

subsection \<open>normaliseLinks\<close>

definition normalizePath :: "raw_point option list option \<Rightarrow> string + position list option" where
  "normalizePath path =
     (case path of
        None \<Rightarrow> Inr None
      | Some pts \<Rightarrow>
          if pts = [] then Inr None
          else (case map_sum (\<lambda>(index, point).
                        case point of
                          Some p \<Rightarrow> (case (rp_x p, rp_y p) of
                                       (Some x, Some y) \<Rightarrow> Inr \<lparr>pos_x = x, pos_y = y\<rparr>
                                     | _ \<Rightarrow> Inl (''Link path point #'' @ string_of_nat index @ '' must declare numeric x/y coordinates''))
                        | None \<Rightarrow> Inl (''Link path point #'' @ string_of_nat index @ '' must declare numeric x/y coordinates''))
                      (enumerate 0 pts) of
                  Inl e \<Rightarrow> Inl e
                | Inr ps \<Rightarrow> Inr (Some ps)))"

text \<open>The first map: the id \<open>link.id ?? `${from}-${to}-${index}`\<close> and the path.\<close>

definition link_of_raw :: "nat \<times> raw_link_config \<Rightarrow> string + link_definition" where
  "link_of_raw il =
     (case il of (index, link) \<Rightarrow>
       (case normalizePath (rl_path link) of
          Inl e \<Rightarrow> Inl e
        | Inr p \<Rightarrow>
            Inr \<lparr>ld_id = (case rl_id link of Some i \<Rightarrow> i | None \<Rightarrow> rl_from link @ ''-'' @ rl_to link @ ''-'' @ string_of_nat index),
                 ld_from = rl_from link, ld_to = rl_to link, ld_ifaceFrom = rl_iface_from link,
                 ld_ifaceTo = rl_iface_to link, ld_label = rl_label link, ld_path = p\<rparr>))"

text \<open>The second map: both endpoints must name a router of the raw document and
  an interface of it (\<open>router.interfaces.find\<close> on a router without
  interfaces throws a \<open>TypeError\<close>; \<open>normaliseRouters\<close> has rejected such a
  router before).\<close>

definition check_link :: "raw_router_config js_object \<Rightarrow> link_definition \<Rightarrow> string + link_definition" where
  \<open>check_link rawRouters link =
     (case (obj_get rawRouters (ld_from link), obj_get rawRouters (ld_to link)) of
        (None, _) \<Rightarrow> Inl (''Link "'' @ ld_id link @ ''" references unknown router "'' @ ld_from link @ ''"'')
      | (_, None) \<Rightarrow> Inl (''Link "'' @ ld_id link @ ''" references unknown router "'' @ ld_to link @ ''"'')
      | (Some fromRouter, Some toRouter) \<Rightarrow>
          (case (rr_interfaces fromRouter, rr_interfaces toRouter) of
             (Some fromIfaces, Some toIfaces) \<Rightarrow>
               (let fromIface = find (\<lambda>i. ri_name i = ld_ifaceFrom link) fromIfaces;
                    toIface = find (\<lambda>i. ri_name i = ld_ifaceTo link) toIfaces
                in if fromIface = None
                   then Inl (''Link "'' @ ld_id link @ ''" references unknown interface "'' @ ld_ifaceFrom link @
                             ''" on router "'' @ ld_from link @ ''"'')
                   else if toIface = None
                   then Inl (''Link "'' @ ld_id link @ ''" references unknown interface "'' @ ld_ifaceTo link @
                             ''" on router "'' @ ld_to link @ ''"'')
                   else Inr link)
           | _ \<Rightarrow> Inl ''TypeError: Cannot read properties of undefined (reading 'find')''))\<close>

definition normaliseLinks ::
  "raw_link_config list option \<Rightarrow> raw_router_config js_object \<Rightarrow> string + link_definition list" where
  "normaliseLinks ls rawRouters =
     (case ls of
        None \<Rightarrow> Inr []
      | Some rawLinks \<Rightarrow>
          (case map_sum link_of_raw (enumerate 0 rawLinks) of
             Inl e \<Rightarrow> Inl e
           | Inr defs \<Rightarrow> map_sum (check_link rawRouters) defs))"

subsection \<open>File names\<close>

text \<open>\<open>path.basename\<close> (POSIX): trailing separators are dropped and the part after
  the last separator is kept.\<close>

definition basename :: "string \<Rightarrow> string" where
  "basename p =
     (let t = rev (dropWhile (\<lambda>c. c = CHR ''/'') (rev p)) in rev (takeWhile (\<lambda>c. c \<noteq> CHR ''/'') (rev t)))"

definition DATA_DIR :: string where "DATA_DIR = ''/app/data''"
definition CONFIG_PATH :: string where "CONFIG_PATH = ''/app/data/config.yaml''"
definition BACKGROUND_ROUTE :: string where "BACKGROUND_ROUTE = ''/background.png''"

text \<open>\<open>path.join\<close> (POSIX) of an absolute base: the segments are joined with
  \<open>/\<close> and normalised: empty and \<open>.\<close> segments vanish, \<open>..\<close> removes the
  segment before it (nothing above the root), a trailing separator is kept.\<close>

fun norm_segs :: "string list \<Rightarrow> string list \<Rightarrow> string list" where
  "norm_segs acc [] = rev acc"
| "norm_segs acc (s # ss) =
     (if s = [] \<or> s = ''.'' then norm_segs acc ss
      else if s = ''..'' then norm_segs (tl acc) ss
      else norm_segs (s # acc) ss)"

definition posix_normalize_abs :: "string \<Rightarrow> string" where
  "posix_normalize_abs p =
     (let segs = norm_segs [] (split_on CHR ''/'' p);
          body = ''/'' @ join ''/'' segs
      in if segs \<noteq> [] \<and> last p = CHR ''/'' then body @ ''/'' else body)"

definition posix_join :: "string \<Rightarrow> string \<Rightarrow> string" where
  "posix_join base name = posix_normalize_abs (if name = [] then base else base @ ''/'' @ name)"

definition resolveDataPath :: "string option \<Rightarrow> string" where
  "resolveDataPath maybeRelative =
     (let fallback = ''background.png'';
          trimmed = map_option js_trim maybeRelative;
          filename = (case trimmed of Some t \<Rightarrow> if t = [] then fallback else basename t | None \<Rightarrow> fallback)
      in posix_join DATA_DIR filename)"

text \<open>The older \<open>resolveDataPath\<close> (lines 99--104) with its \<open>DATA_DIR\<close>, which
  came from the environment: an absolute name is returned as it is and a
  relative one is joined, \<open>..\<close> segments included.\<close>

definition resolveDataPath_v1 :: "string \<Rightarrow> string option \<Rightarrow> string" where
  "resolveDataPath_v1 dataDir maybeRelative =
     (case maybeRelative of
        None \<Rightarrow> posix_join dataDir ''background.png''
      | Some s \<Rightarrow> if s = [] then posix_join dataDir ''background.png''
                  else if hd s = CHR ''/'' then s else posix_join dataDir s)"

subsection \<open>loadRuntimeConfig\<close>

text \<open>\<open>readConfigFile\<close>: whether the file exists, and the parsed document
  (\<open>None\<close> when YAML gives \<open>null\<close> or a non-object).\<close>

text \<open>\<open>RuntimeConfig\<close>, what \<open>loadRuntimeConfig\<close> returns.\<close>

record runtime_config =
  rt_topology :: topology_definition
  rt_routerPollConfig :: "router_config js_object"
  rt_pollIntervalMs :: number
  rt_backgroundPath :: string

text \<open>\<open>yaml.load\<close> (js-yaml, whose default rejects a mapping that repeats a
  key) throws on a \<open>routers\<close> mapping with a repeated router id; the
  parsed document is otherwise the argument \<open>parsed\<close>.\<close>

definition readConfigFile :: "string \<Rightarrow> bool \<Rightarrow> raw_config option \<Rightarrow> string + raw_config" where
  "readConfigFile filePath exists parsed =
     (if \<not> exists then Inl (''Configuration file not found at '' @ filePath)
      else (case parsed of
              None \<Rightarrow> Inl ''Invalid configuration file''
            | Some raw \<Rightarrow>
                (case cf_routers raw of
                   None \<Rightarrow> Inl ''Configuration must define at least one router''
                 | Some rs \<Rightarrow>
                     if \<not> distinct (map fst rs) then Inl ''YAMLException: duplicated mapping key''
                     else if rs = [] then Inl ''Configuration must define at least one router'' else Inr raw)))"

definition map_size_of :: "raw_config \<Rightarrow> map_size option" where
  "map_size_of raw =
     (case cf_size raw of
        Some sz \<Rightarrow> (case (rz_width sz, rz_height sz) of
                     (Some w, Some h) \<Rightarrow> Some \<lparr>ms_width = w, ms_height = h\<rparr>
                   | _ \<Rightarrow> None)
      | None \<Rightarrow> None)"

text \<open>\<open>ensureDirectory(DATA_DIR)\<close> throws when the data directory is missing
  (\<open>dataDirExists\<close>); \<open>ensureImageDirectory\<close> creates its directory and the
  warning about a missing background image has no effect on the result.\<close>

definition loadRuntimeConfig :: "bool \<Rightarrow> bool \<Rightarrow> raw_config option \<Rightarrow> string + runtime_config" where
  "loadRuntimeConfig dataDirExists exists parsed =
     (if \<not> dataDirExists then Inl (''Expected directory to exist: '' @ DATA_DIR) else
      case readConfigFile CONFIG_PATH exists parsed of
        Inl e \<Rightarrow> Inl e
      | Inr raw \<Rightarrow>
          (let rawRouters = (case cf_routers raw of Some rs \<Rightarrow> rs | None \<Rightarrow> [])
           in case normaliseRouters rawRouters of
                Inl e \<Rightarrow> Inl e
              | Inr (routerPollConfig, routerDefinitions) \<Rightarrow>
                  (case normaliseLinks (cf_links raw) rawRouters of
                     Inl e \<Rightarrow> Inl e
                   | Inr ls \<Rightarrow>
                       (let pollIntervalMs = (case cf_poll_interval_ms raw of Some n \<Rightarrow> n | None \<Rightarrow> 5000);
                            topology = \<lparr>title = Some (case cf_title raw of Some t \<Rightarrow> t | None \<Rightarrow> ''TS Weathermap''),
                                        backgroundImage = BACKGROUND_ROUTE, mapSize = map_size_of raw,
                                        pollIntervalMs = pollIntervalMs, routers = routerDefinitions, links = ls\<rparr>
                        in Inr \<lparr>rt_topology = topology, rt_routerPollConfig = routerPollConfig,
                                rt_pollIntervalMs = pollIntervalMs,
                                rt_backgroundPath = resolveDataPath (cf_background raw)\<rparr>))))"

subsection \<open>The older loader\<close>

text \<open>Lines 106--147: only the router-level checks; interfaces are copied with
  whatever \<open>max_bandwidth\<close> they have (possibly none).\<close>

definition normalise_router_v1 ::
  "ident \<times> raw_router_config \<Rightarrow> string + ident \<times> router_config \<times> router_definition" where
  \<open>normalise_router_v1 entry =
     (case entry of (routerId, router) \<Rightarrow>
       if rr_ip router = [] \<or> rr_community router = []
       then Inl (''Router "'' @ routerId @ ''" must define both ip and community'')
       else (case rr_interfaces router of
               None \<Rightarrow> Inl (''Router "'' @ routerId @ ''" must define at least one interface'')
             | Some ifaces \<Rightarrow>
                 if ifaces = [] then Inl (''Router "'' @ routerId @ ''" must define at least one interface'')
                 else
                   (let label = (case rr_label router of Some l \<Rightarrow> l | None \<Rightarrow> routerId)
                    in Inr (routerId,
                            \<lparr>ip = rr_ip router, community = rr_community router, rc_label = Some label,
                             rc_interfaces = map (\<lambda>iface. \<lparr>ic_name = ri_name iface, oid_in = ri_oid_in iface,
                                 oid_out = ri_oid_out iface, max_bandwidth = ri_max_bandwidth iface,
                                 oid_speed = None, oid_speed_scale = None,
                                 display_name = Some (case ri_display_name iface of Some d \<Rightarrow> d | None \<Rightarrow> ri_name iface)\<rparr>) ifaces\<rparr>,
                            \<lparr>rd_id = routerId, rd_label = label, rd_position = raw_position router,
                             rd_interfaces = map (\<lambda>iface. \<lparr>if_name = ri_name iface,
                                 if_displayName = Some (case ri_display_name iface of Some d \<Rightarrow> d | None \<Rightarrow> ri_name iface),
                                 if_maxBandwidth = ri_max_bandwidth iface, if_speedOid = None\<rparr>) ifaces\<rparr>))))\<close>

definition normaliseRouters_v1 ::
  "raw_router_config js_object \<Rightarrow> string + router_config js_object \<times> router_definition list" where
  "normaliseRouters_v1 rs =
     (case map_sum normalise_router_v1 rs of
        Inl e \<Rightarrow> Inl e
      | Inr entries \<Rightarrow>
          Inr (foldl (\<lambda>acc (rid, pc, d). obj_set rid pc acc) [] entries, map (\<lambda>(rid, pc, d). d) entries))"

text \<open>The older \<open>loadRuntimeConfig\<close> (lines 191--223): \<open>DATA_DIR\<close> and
  \<open>CONFIG_PATH\<close> come from the environment, no image directory is made, and
  \<open>readConfigFile\<close> (lines 84--97), \<open>normalizePath\<close> and \<open>normaliseLinks\<close>
  (lines 149--189) are the same text as in the current version, so the model
  shares them.\<close>

definition loadRuntimeConfig_v1 ::
  "string \<Rightarrow> string \<Rightarrow> bool \<Rightarrow> bool \<Rightarrow> raw_config option \<Rightarrow> string + runtime_config" where
  "loadRuntimeConfig_v1 dataDir configPath dataDirExists exists parsed =
     (if \<not> dataDirExists then Inl (''Expected directory to exist: '' @ dataDir) else
      case readConfigFile configPath exists parsed of
        Inl e \<Rightarrow> Inl e
      | Inr raw \<Rightarrow>
          (let rawRouters = (case cf_routers raw of Some rs \<Rightarrow> rs | None \<Rightarrow> [])
           in case normaliseRouters_v1 rawRouters of
                Inl e \<Rightarrow> Inl e
              | Inr (routerPollConfig, routerDefinitions) \<Rightarrow>
                  (case normaliseLinks (cf_links raw) rawRouters of
                     Inl e \<Rightarrow> Inl e
                   | Inr ls \<Rightarrow>
                       (let pollIntervalMs = (case cf_poll_interval_ms raw of Some n \<Rightarrow> n | None \<Rightarrow> 5000);
                            topology = \<lparr>title = Some (case cf_title raw of Some t \<Rightarrow> t | None \<Rightarrow> ''TS Weathermap''),
                                        backgroundImage = BACKGROUND_ROUTE, mapSize = map_size_of raw,
                                        pollIntervalMs = pollIntervalMs, routers = routerDefinitions, links = ls\<rparr>
                        in Inr \<lparr>rt_topology = topology, rt_routerPollConfig = routerPollConfig,
                                rt_pollIntervalMs = pollIntervalMs,
                                rt_backgroundPath = resolveDataPath_v1 dataDir (cf_background raw)\<rparr>))))"

subsection \<open>What the validation guarantees\<close>

definition valid_interface_config :: "interface_config \<Rightarrow> bool" where
  "valid_interface_config ic \<longleftrightarrow>
     ic_name ic \<noteq> [] \<and> oid_in ic \<noteq> [] \<and> oid_out ic \<noteq> [] \<and>
     ((case max_bandwidth ic of Some b \<Rightarrow> 0 < b | None \<Rightarrow> False) \<or> oid_speed ic \<noteq> None)"

text \<open>An endpoint of a link resolves: the router is a key of the raw document
  and declares an interface of that name.\<close>

definition endpoint_resolves :: "raw_router_config js_object \<Rightarrow> ident \<Rightarrow> string \<Rightarrow> bool" where
  "endpoint_resolves rawRouters rid iface \<longleftrightarrow>
     (\<exists>r ifs. obj_get rawRouters rid = Some r \<and> rr_interfaces r = Some ifs \<and> iface \<in> ri_name ` set ifs)"

text \<open>An interface the older loader could describe: a name, both counters and
  a positive static bandwidth, no speed OID.\<close>

definition static_interface :: "raw_interface_config \<Rightarrow> bool" where
  "static_interface i \<longleftrightarrow>
     ri_name i \<noteq> [] \<and> ri_oid_in i \<noteq> [] \<and> ri_oid_out i \<noteq> [] \<and> has_static_bandwidth i \<and> ri_oid_speed i = None"

text \<open>A background name that the older and the current \<open>resolveDataPath\<close>
  treat alike: no surrounding white space and no separator.\<close>

definition plain_file_name :: "string \<Rightarrow> bool" where
  "plain_file_name b \<longleftrightarrow> js_trim b = b \<and> CHR ''/'' \<notin> set b"

subsection \<open>Well-formed runtime configurations\<close>

text \<open>What every configuration the server runs with satisfies: the
  renderers' router map finds each endpoint interface of a link; the
  background is the data directory, its parent, or a file directly in it.\<close>

definition endpoint_declared :: "router_definition list \<Rightarrow> ident \<Rightarrow> string \<Rightarrow> bool" where
  "endpoint_declared defs rid iface =
     (case obj_get (buildRouterMap defs) rid of
        Some d \<Rightarrow> list_ex (\<lambda>c. if_name c = iface) (rd_interfaces d)
      | None \<Rightarrow> False)"

definition background_confined :: "string \<Rightarrow> bool" where
  "background_confined p \<longleftrightarrow>
     p = DATA_DIR \<or> p = ''/app'' \<or>
     (take (length DATA_DIR + 1) p = DATA_DIR @ ''/'' \<and> drop (length DATA_DIR + 1) p \<noteq> [] \<and>
      CHR ''/'' \<notin> set (drop (length DATA_DIR + 1) p))"

definition wf_runtime_config :: "runtime_config \<Rightarrow> bool" where
  "wf_runtime_config cfg \<longleftrightarrow>
     (let defs = routers (rt_topology cfg) in
      distinct (map rd_id defs) \<and>
      map fst (rt_routerPollConfig cfg) = map rd_id defs \<and>
      list_all (\<lambda>(rid, pc). rc_interfaces pc \<noteq> [] \<and> list_all valid_interface_config (rc_interfaces pc) \<and>
                  (case obj_get (buildRouterMap defs) rid of
                     Some d \<Rightarrow> map ic_name (rc_interfaces pc) = map if_name (rd_interfaces d)
                   | None \<Rightarrow> False))
        (rt_routerPollConfig cfg) \<and>
      list_all (\<lambda>l. endpoint_declared defs (ld_from l) (ld_ifaceFrom l) \<and> endpoint_declared defs (ld_to l) (ld_ifaceTo l))
        (links (rt_topology cfg)) \<and>
      pollIntervalMs (rt_topology cfg) = rt_pollIntervalMs cfg \<and>
      backgroundImage (rt_topology cfg) = BACKGROUND_ROUTE \<and>
      background_confined (rt_backgroundPath cfg))"

lemma normalise_interface_Inr:
  assumes "normalise_interface rid iface = Inr (ic, idf)"
  shows "ic_name ic = ri_name iface \<and> if_name idf = ri_name iface \<and> valid_interface_config ic \<and>
         ri_name iface \<noteq> [] \<and> ri_oid_in iface \<noteq> [] \<and> ri_oid_out iface \<noteq> [] \<and>
         (has_static_bandwidth iface \<or> trimmed_speed_oid iface \<noteq> None)"
  using assms
  by (auto simp: normalise_interface_def valid_interface_config_def has_static_bandwidth_def Let_def
      split: if_splits option.splits)

text \<open>C14 (error): An interface entry is accepted exactly when it has a name, both oid_in and oid_out, and a positive max_bandwidth or a speed OID that is not blank after trimming; every other entry is rejected with an error.\<close>

lemma normalise_interface_ok_iff:
  "(\<exists>r. normalise_interface rid iface = Inr r) \<longleftrightarrow>
     ri_name iface \<noteq> [] \<and> ri_oid_in iface \<noteq> [] \<and> ri_oid_out iface \<noteq> [] \<and>
     (has_static_bandwidth iface \<or> trimmed_speed_oid iface \<noteq> None)"
  by (auto simp: normalise_interface_def Let_def)

lemma list_all2_map_eq:
  "list_all2 (\<lambda>x y. f x = g y) xs ys \<Longrightarrow> map f xs = map g ys"
  by (induction rule: list_all2_induct) simp_all

lemma normalise_router_Inr:
  assumes "normalise_router (rid, r) = Inr (rid', pc, d)"
  shows "rid' = rid \<and> rd_id d = rid \<and> rc_interfaces pc \<noteq> [] \<and>
         (\<exists>ifs. rr_interfaces r = Some ifs \<and> map ic_name (rc_interfaces pc) = map ri_name ifs \<and>
                map if_name (rd_interfaces d) = map ri_name ifs) \<and>
         (\<forall>ic \<in> set (rc_interfaces pc). valid_interface_config ic)"
proof -
  obtain ifs where ifs: "rr_interfaces r = Some ifs" "ifs \<noteq> []"
    using assms by (cases "rr_interfaces r") (auto simp: normalise_router_def split: if_splits)
  obtain normalized where ns: "map_sum (normalise_interface rid) ifs = Inr normalized"
    using assms ifs by (cases "map_sum (normalise_interface rid) ifs") (auto simp: normalise_router_def split: if_splits)
  have res: "rid' = rid" "rc_interfaces pc = map fst normalized" "rd_id d = rid" "rd_interfaces d = map snd normalized"
    using assms ifs ns by (auto simp: normalise_router_def Let_def split: if_splits)
  have all: "list_all2 (\<lambda>x y. normalise_interface rid x = Inr y) ifs normalized"
    using ns by (simp add: map_sum_Inr_iff)
  then have a1: "list_all2 (\<lambda>x y. ri_name x = ic_name (fst y)) ifs normalized"
        and a2: "list_all2 (\<lambda>x y. ri_name x = if_name (snd y)) ifs normalized"
    by (auto elim!: list_all2_mono dest: normalise_interface_Inr)
  have "map ri_name ifs = map (\<lambda>y. ic_name (fst y)) normalized"
    using a1 by (rule list_all2_map_eq)
  moreover have "map ri_name ifs = map (\<lambda>y. if_name (snd y)) normalized"
    using a2 by (rule list_all2_map_eq)
  ultimately have names: "map ri_name ifs = map ic_name (rc_interfaces pc)" "map ri_name ifs = map if_name (rd_interfaces d)"
    using res by simp_all
  have "valid_interface_config ic" if ic_in: "ic \<in> set (rc_interfaces pc)" for ic
  proof -
    have "ic \<in> set (map fst normalized)" using ic_in res(2) by (simp only:)
    then obtain y where "y \<in> set normalized" "ic = fst y" by (auto simp only: set_map image_iff)
    then obtain j where j: "j < length normalized" "normalized ! j = y" by (auto simp: in_set_conv_nth)
    with all obtain x where "normalise_interface rid x = Inr y"
      by (auto simp: list_all2_conv_all_nth)
    then have "normalise_interface rid x = Inr (fst y, snd y)" by simp
    then show ?thesis using \<open>ic = fst y\<close> normalise_interface_Inr by blast
  qed
  moreover have "rc_interfaces pc \<noteq> []"
  proof -
    have "length normalized = length ifs" using all by (simp add: list_all2_lengthD)
    then show ?thesis using ifs(2) res(2) by auto
  qed
  moreover have "\<exists>ifs. rr_interfaces r = Some ifs \<and> map ic_name (rc_interfaces pc) = map ri_name ifs \<and>
                map if_name (rd_interfaces d) = map ri_name ifs"
    using ifs(1) names by (intro exI [of _ ifs]) simp
  ultimately show ?thesis
    using res(1,3) by blast
qed

lemma foldl_obj_set_fresh:
  "distinct (map k xs) \<Longrightarrow> set (map k xs) \<inter> fst ` set m = {} \<Longrightarrow>
   foldl (\<lambda>acc x. obj_set (k x) (f x) acc) m xs = m @ map (\<lambda>x. (k x, f x)) xs"
proof (induction xs arbitrary: m)
  case (Cons x xs)
  have "obj_set (k x) (f x) m = m @ [(k x, f x)]"
    using Cons.prems(2) by (induction m) auto
  with Cons show ?case by auto
qed simp

lemma normaliseRouters_Inr:
  assumes "normaliseRouters rs = Inr (pcfg, defs)" "distinct (map fst rs)"
  shows "map fst pcfg = map fst rs \<and> map rd_id defs = map fst rs \<and>
         (\<forall>(rid, pc) \<in> set pcfg. \<exists>d \<in> set defs. rd_id d = rid \<and> rc_interfaces pc \<noteq> [] \<and>
             map ic_name (rc_interfaces pc) = map if_name (rd_interfaces d) \<and>
             (\<forall>ic \<in> set (rc_interfaces pc). valid_interface_config ic)) \<and>
         (\<forall>(rid, r) \<in> set rs. \<exists>ifs. rr_interfaces r = Some ifs \<and>
             (\<exists>d \<in> set defs. rd_id d = rid \<and> map if_name (rd_interfaces d) = map ri_name ifs))"
proof -
  obtain entries where ms: "map_sum normalise_router rs = Inr entries"
    and pcfg: "pcfg = foldl (\<lambda>acc (rid, pc, d). obj_set rid pc acc) [] entries"
    and defs: "defs = map (\<lambda>(rid, pc, d). d) entries"
    using assms(1) by (auto simp: normaliseRouters_def split: sum.splits)
  have all: "list_all2 (\<lambda>x y. normalise_router x = Inr y) rs entries"
    using ms by (simp add: map_sum_Inr_iff)
  have ok: "\<And>j. j < length rs \<Longrightarrow> normalise_router (rs ! j) = Inr (entries ! j)"
    and len: "length entries = length rs"
    using all by (auto simp: list_all2_conv_all_nth)
  have props: "\<And>j. j < length rs \<Longrightarrow>
      fst (entries ! j) = fst (rs ! j) \<and> rd_id (snd (snd (entries ! j))) = fst (rs ! j) \<and>
      rc_interfaces (fst (snd (entries ! j))) \<noteq> [] \<and>
      (\<exists>ifs. rr_interfaces (snd (rs ! j)) = Some ifs \<and>
             map ic_name (rc_interfaces (fst (snd (entries ! j)))) = map ri_name ifs \<and>
             map if_name (rd_interfaces (snd (snd (entries ! j)))) = map ri_name ifs) \<and>
      (\<forall>ic \<in> set (rc_interfaces (fst (snd (entries ! j)))). valid_interface_config ic)"
  proof -
    fix j assume j: "j < length rs"
    obtain rid r where x: "rs ! j = (rid, r)" by fastforce
    obtain rid' pc d where y: "entries ! j = (rid', pc, d)" by (metis prod.exhaust)
    show "?thesis j" using normalise_router_Inr [of rid r rid' pc d] ok [OF j] x y by simp
  qed
  have keys: "map fst entries = map fst rs"
    using props len by (intro nth_equalityI) simp_all
  have pcfg_eq: "pcfg = map (\<lambda>x. (fst x, fst (snd x))) entries"
  proof -
    have F: "(\<lambda>acc (rid, pc, d). obj_set rid pc acc) = (\<lambda>acc x. obj_set (fst x) (fst (snd x)) acc)"
      by (auto simp: fun_eq_iff split: prod.splits)
    have G: "foldl (\<lambda>acc x. obj_set (fst x) (fst (snd x)) acc) [] entries = map (\<lambda>x. (fst x, fst (snd x))) entries"
      using foldl_obj_set_fresh [of fst entries "[]" "\<lambda>x. fst (snd x)"] keys assms(2) by simp
    show ?thesis
      using G by (simp only: pcfg F)
  qed
  have defs': "defs = map (\<lambda>x. snd (snd x)) entries"
    using defs by (simp add: case_prod_beta)
  have in_defs: "\<And>j. j < length entries \<Longrightarrow> snd (snd (entries ! j)) \<in> set defs"
    by (simp add: defs')
  have "map rd_id defs = map (\<lambda>x. rd_id (snd (snd x))) entries"
    by (simp add: defs')
  moreover have "map (\<lambda>x. rd_id (snd (snd x))) entries = map fst rs"
    using props len by (intro nth_equalityI) simp_all
  ultimately have ids: "map rd_id defs = map fst rs" by simp
  have part3: "\<forall>(rid, pc) \<in> set pcfg. \<exists>d \<in> set defs. rd_id d = rid \<and> rc_interfaces pc \<noteq> [] \<and>
             map ic_name (rc_interfaces pc) = map if_name (rd_interfaces d) \<and>
             (\<forall>ic \<in> set (rc_interfaces pc). valid_interface_config ic)"
  proof (intro ballI, clarify)
    fix rid pc assume "(rid, pc) \<in> set pcfg"
    then obtain j where j: "j < length entries" "fst (entries ! j) = rid" "fst (snd (entries ! j)) = pc"
      by (auto simp: pcfg_eq in_set_conv_nth)
    have "snd (snd (entries ! j)) \<in> set defs"
      using in_defs j(1) .
    then show "\<exists>d \<in> set defs. rd_id d = rid \<and> rc_interfaces pc \<noteq> [] \<and>
             map ic_name (rc_interfaces pc) = map if_name (rd_interfaces d) \<and>
             (\<forall>ic \<in> set (rc_interfaces pc). valid_interface_config ic)"
      using props [of j] j len by (intro bexI [of _ "snd (snd (entries ! j))"]) auto
  qed
  have part4: "\<forall>(rid, r) \<in> set rs. \<exists>ifs. rr_interfaces r = Some ifs \<and>
             (\<exists>d \<in> set defs. rd_id d = rid \<and> map if_name (rd_interfaces d) = map ri_name ifs)"
  proof (intro ballI, clarify)
    fix rid r assume "(rid, r) \<in> set rs"
    then obtain j where j: "j < length rs" "rs ! j = (rid, r)" by (auto simp: in_set_conv_nth)
    have "snd (snd (entries ! j)) \<in> set defs"
      using in_defs j(1) len by simp
    then show "\<exists>ifs. rr_interfaces r = Some ifs \<and>
             (\<exists>d \<in> set defs. rd_id d = rid \<and> map if_name (rd_interfaces d) = map ri_name ifs)"
      using props [OF j(1)] j by auto
  qed
  show ?thesis
    using keys pcfg_eq ids part3 part4 by (simp add: comp_def)
qed

lemma find_Some_name: "find (\<lambda>i. ri_name i = n) xs \<noteq> None \<Longrightarrow> n \<in> ri_name ` set xs"
  by (induction xs) (auto split: if_splits)

lemma check_link_Inr:
  assumes "check_link rawRouters link = Inr link'"
  shows "link' = link \<and> endpoint_resolves rawRouters (ld_from link) (ld_ifaceFrom link) \<and>
         endpoint_resolves rawRouters (ld_to link) (ld_ifaceTo link)"
  using assms
  by (auto simp: check_link_def endpoint_resolves_def Let_def find_Some_name
      split: option.splits if_splits)

lemma normaliseLinks_Inr:
  assumes "normaliseLinks ls rawRouters = Inr lks"
  shows "\<forall>l \<in> set lks. endpoint_resolves rawRouters (ld_from l) (ld_ifaceFrom l) \<and>
                         endpoint_resolves rawRouters (ld_to l) (ld_ifaceTo l)"
proof (cases ls)
  case (Some rawLinks)
  then obtain defs where "map_sum (check_link rawRouters) defs = Inr lks"
    using assms by (auto simp: normaliseLinks_def split: sum.splits)
  then have "list_all2 (\<lambda>x y. check_link rawRouters x = Inr y) defs lks"
    by (simp add: map_sum_Inr_iff)
  then show ?thesis
    by (induction rule: list_all2_induct) (auto dest: check_link_Inr)
qed (use assms in \<open>simp add: normaliseLinks_def\<close>)

lemma buildRouterMap_distinct:
  "distinct (map rd_id defs) \<Longrightarrow> d \<in> set defs \<Longrightarrow> obj_get (buildRouterMap defs) (rd_id d) = Some d"
  using foldl_obj_set_distinct [of rd_id defs d "\<lambda>y. y" "[]"] by (simp add: buildRouterMap_def)

lemma endpoint_in_defs:
  assumes "normaliseRouters rs = Inr (pcfg, defs)" "distinct (map fst rs)"
    and "endpoint_resolves rs rid iface"
  shows "\<exists>d \<in> set defs. rd_id d = rid \<and> iface \<in> if_name ` set (rd_interfaces d)"
proof -
  obtain r ifs where r: "map_of rs rid = Some r" "rr_interfaces r = Some ifs" "iface \<in> ri_name ` set ifs"
    using assms(3) by (auto simp: endpoint_resolves_def)
  have R: "\<forall>(rid, r) \<in> set rs. \<exists>ifs. rr_interfaces r = Some ifs \<and>
          (\<exists>d \<in> set defs. rd_id d = rid \<and> map if_name (rd_interfaces d) = map ri_name ifs)"
    using normaliseRouters_Inr [OF assms(1,2)] by blast
  have "(rid, r) \<in> set rs" using r(1) by (rule map_of_SomeD)
  then obtain d where d: "d \<in> set defs" "rd_id d = rid" "map if_name (rd_interfaces d) = map ri_name ifs"
    using R r(2) by fastforce
  have "iface \<in> if_name ` set (rd_interfaces d)"
    using r(3) d(3) by (metis list.set_map)
  then show ?thesis using d by blast
qed

lemma endpoint_in_topology:
  assumes "normaliseRouters rs = Inr (pcfg, defs)" "distinct (map fst rs)"
    and "endpoint_resolves rs rid iface"
  shows "\<exists>d i. obj_get (buildRouterMap defs) rid = Some d \<and> find (\<lambda>c. if_name c = iface) (rd_interfaces d) = Some i"
proof -
  obtain d where d: "d \<in> set defs" "rd_id d = rid" "iface \<in> if_name ` set (rd_interfaces d)"
    using endpoint_in_defs [OF assms] by blast
  then obtain i where "find (\<lambda>c. if_name c = iface) (rd_interfaces d) = Some i"
    by (metis (mono_tags, lifting) find_None_iff imageE not_Some_eq)
  moreover have "obj_get (buildRouterMap defs) rid = Some d"
    using buildRouterMap_distinct [of defs d] normaliseRouters_Inr [OF assms(1,2)] assms(2) d by simp
  ultimately show ?thesis by blast
qed

lemma loadRuntimeConfig_Inr:
  assumes "loadRuntimeConfig dd ex (Some raw) = Inr cfg" "cf_routers raw = Some rs"
  obtains pcfg defs lks where "normaliseRouters rs = Inr (pcfg, defs)"
    "normaliseLinks (cf_links raw) rs = Inr lks" "rt_routerPollConfig cfg = pcfg"
    "routers (rt_topology cfg) = defs" "links (rt_topology cfg) = lks"
  using assms
  by (fastforce simp: loadRuntimeConfig_def readConfigFile_def Let_def split: if_splits sum.splits)

text \<open>The integrity facts of an accepted configuration that other components
  rely on: distinct router ids, and both endpoints of every link declared.\<close>

lemma loadRuntimeConfig_links:
  assumes "loadRuntimeConfig dd ex (Some raw) = Inr cfg" "cf_routers raw = Some rs" "distinct (map fst rs)"
  shows "distinct (map rd_id (routers (rt_topology cfg))) \<and>
         (\<forall>l \<in> set (links (rt_topology cfg)).
            (\<exists>d \<in> set (routers (rt_topology cfg)). rd_id d = ld_from l \<and> ld_ifaceFrom l \<in> if_name ` set (rd_interfaces d)) \<and>
            (\<exists>d \<in> set (routers (rt_topology cfg)). rd_id d = ld_to l \<and> ld_ifaceTo l \<in> if_name ` set (rd_interfaces d)))"
proof -
  obtain pcfg defs lks where nr: "normaliseRouters rs = Inr (pcfg, defs)"
    and nl: "normaliseLinks (cf_links raw) rs = Inr lks"
    and c: "routers (rt_topology cfg) = defs" "links (rt_topology cfg) = lks"
    using loadRuntimeConfig_Inr [OF assms(1,2)] by blast
  have "distinct (map rd_id defs)"
    using normaliseRouters_Inr [OF nr assms(3)] assms(3) by simp
  then show ?thesis
    using normaliseLinks_Inr [OF nl] endpoint_in_defs [OF nr assms(3)] c by blast
qed

text \<open>C11 (invariant): A configuration the loader accepts (router keys distinct, as YAML mappings are) has a poll configuration and a topology listing the same routers in the same order with distinct ids, every router with at least one interface, the same interface names on both sides and every interface valid (name, both counter OIDs, a positive static bandwidth or a speed OID); and every link endpoint is found by the renderers' router map and interface lookup.\<close>

theorem loadRuntimeConfig_consistent:
  assumes "loadRuntimeConfig dd ex (Some raw) = Inr cfg" "cf_routers raw = Some rs" "distinct (map fst rs)"
  shows "map fst (rt_routerPollConfig cfg) = map rd_id (routers (rt_topology cfg)) \<and>
         distinct (map rd_id (routers (rt_topology cfg))) \<and>
         (\<forall>(rid, pc) \<in> set (rt_routerPollConfig cfg). \<exists>d \<in> set (routers (rt_topology cfg)).
             rd_id d = rid \<and> rc_interfaces pc \<noteq> [] \<and>
             map ic_name (rc_interfaces pc) = map if_name (rd_interfaces d) \<and>
             (\<forall>ic \<in> set (rc_interfaces pc). valid_interface_config ic)) \<and>
         (\<forall>l \<in> set (links (rt_topology cfg)).
            (\<exists>d i. obj_get (buildRouterMap (routers (rt_topology cfg))) (ld_from l) = Some d \<and>
                   find (\<lambda>c. if_name c = ld_ifaceFrom l) (rd_interfaces d) = Some i) \<and>
            (\<exists>d i. obj_get (buildRouterMap (routers (rt_topology cfg))) (ld_to l) = Some d \<and>
                   find (\<lambda>c. if_name c = ld_ifaceTo l) (rd_interfaces d) = Some i))"
proof -
  obtain pcfg defs lks where nr: "normaliseRouters rs = Inr (pcfg, defs)"
    and nl: "normaliseLinks (cf_links raw) rs = Inr lks" and c: "rt_routerPollConfig cfg = pcfg"
    "routers (rt_topology cfg) = defs" "links (rt_topology cfg) = lks"
    using loadRuntimeConfig_Inr [OF assms(1,2)] by blast
  note R = normaliseRouters_Inr [OF nr assms(3)]
  have "\<forall>l \<in> set lks.
            (\<exists>d i. obj_get (buildRouterMap defs) (ld_from l) = Some d \<and>
                   find (\<lambda>c. if_name c = ld_ifaceFrom l) (rd_interfaces d) = Some i) \<and>
            (\<exists>d i. obj_get (buildRouterMap defs) (ld_to l) = Some d \<and>
                   find (\<lambda>c. if_name c = ld_ifaceTo l) (rd_interfaces d) = Some i)"
    using normaliseLinks_Inr [OF nl] endpoint_in_topology [OF nr assms(3)] by blast
  then show ?thesis
    using R assms(3) c by simp
qed

lemma normalise_interface_static:
  assumes "static_interface i"
  shows "normalise_interface rid i =
           Inr (\<lparr>ic_name = ri_name i, oid_in = ri_oid_in i, oid_out = ri_oid_out i,
                 max_bandwidth = ri_max_bandwidth i, oid_speed = None, oid_speed_scale = None,
                 display_name = Some (case ri_display_name i of Some d \<Rightarrow> d | None \<Rightarrow> ri_name i)\<rparr>,
                \<lparr>if_name = ri_name i,
                 if_displayName = Some (case ri_display_name i of Some d \<Rightarrow> d | None \<Rightarrow> ri_name i),
                 if_maxBandwidth = ri_max_bandwidth i, if_speedOid = None\<rparr>)"
  using assms
  by (auto simp: static_interface_def normalise_interface_def has_static_bandwidth_def trimmed_speed_oid_def Let_def
      split: option.splits)

lemma normalise_router_static:
  assumes "\<forall>ifs. rr_interfaces (snd e) = Some ifs \<longrightarrow> (\<forall>i \<in> set ifs. static_interface i)"
  shows "normalise_router e = normalise_router_v1 e"
proof (cases e)
  case (Pair rid r)
  show ?thesis
  proof (cases "rr_interfaces r")
    case (Some ifs)
    then have "map_sum (normalise_interface rid) ifs = Inr (map (\<lambda>i. projr (normalise_interface rid i)) ifs)"
      using assms Pair by (intro map_sum_Inr_map) (simp add: normalise_interface_static)
    then show ?thesis
      using Some assms Pair
      by (simp add: normalise_router_def normalise_router_v1_def normalise_interface_static comp_def cong: map_cong)
  qed (simp add: Pair normalise_router_def normalise_router_v1_def)
qed

lemma normaliseRouters_refines_v1:
  assumes "\<forall>(rid, r) \<in> set rs. \<forall>ifs. rr_interfaces r = Some ifs \<longrightarrow> (\<forall>i \<in> set ifs. static_interface i)"
  shows "normaliseRouters rs = normaliseRouters_v1 rs"
proof -
  have "map_sum normalise_router rs = map_sum normalise_router_v1 rs"
    using assms by (intro map_sum_cong normalise_router_static) auto
  then show ?thesis
    by (simp add: normaliseRouters_def normaliseRouters_v1_def)
qed

lemma posix_join_data_dir:
  assumes "CHR ''/'' \<notin> set n"
  shows "posix_join DATA_DIR n =
           (if n = [] \<or> n = ''.'' then DATA_DIR else if n = ''..'' then ''/app'' else DATA_DIR @ ''/'' @ n)"
proof -
  have "split_on CHR ''/'' (DATA_DIR @ ''/'' @ n) = [[], ''app'', ''data'', n]"
    using assms by (simp add: DATA_DIR_def split_on_no_sep Let_def)
  moreover have "n \<noteq> [] \<Longrightarrow> last (DATA_DIR @ ''/'' @ n) \<noteq> CHR ''/''"
    using assms last_in_set by (fastforce simp: DATA_DIR_def)
  ultimately show ?thesis
    by (auto simp: posix_join_def posix_normalize_abs_def DATA_DIR_def Let_def)
qed

lemma basename_no_slash: "CHR ''/'' \<notin> set (basename p)"
  by (auto simp: basename_def Let_def dest: set_takeWhileD)

text \<open>Whatever background name the configuration gives, the resolved background path is the data directory, a file directly inside it, or (for the name "..") its parent /app; it never names a file elsewhere.\<close>

theorem resolveDataPath_confined:
  "resolveDataPath m = DATA_DIR \<or> resolveDataPath m = ''/app'' \<or>
   (\<exists>n. n \<noteq> [] \<and> CHR ''/'' \<notin> set n \<and> resolveDataPath m = DATA_DIR @ ''/'' @ n)"
  using basename_no_slash
  by (auto simp: resolveDataPath_def posix_join_data_dir Let_def split: option.splits)

lemma resolveDataPath_background_confined: "background_confined (resolveDataPath m)"
  using resolveDataPath_confined [of m] by (auto simp: background_confined_def DATA_DIR_def)

lemma loadRuntimeConfig_parsed:
  assumes "loadRuntimeConfig dd ex parsed = Inr cfg"
  obtains raw rs where "parsed = Some raw" "cf_routers raw = Some rs" "distinct (map fst rs)"
    "pollIntervalMs (rt_topology cfg) = rt_pollIntervalMs cfg" "backgroundImage (rt_topology cfg) = BACKGROUND_ROUTE"
    "rt_backgroundPath cfg = resolveDataPath (cf_background raw)"
  using assms
  by (fastforce simp: loadRuntimeConfig_def readConfigFile_def Let_def split: if_splits option.splits sum.splits prod.splits)

lemma endpoint_declared_intro:
  "distinct (map rd_id defs) \<Longrightarrow> d \<in> set defs \<Longrightarrow> iface \<in> if_name ` set (rd_interfaces d) \<Longrightarrow>
     endpoint_declared defs (rd_id d) iface"
  by (auto simp: endpoint_declared_def buildRouterMap_distinct list_ex_iff)

text \<open>Every configuration the loader returns is well-formed.\<close>

lemma loadRuntimeConfig_wf:
  assumes load: "loadRuntimeConfig dd ex parsed = Inr cfg"
  shows "wf_runtime_config cfg"
proof -
  obtain raw rs where p: "parsed = Some raw" and rs: "cf_routers raw = Some rs" "distinct (map fst rs)"
    and misc: "pollIntervalMs (rt_topology cfg) = rt_pollIntervalMs cfg" "backgroundImage (rt_topology cfg) = BACKGROUND_ROUTE"
      "rt_backgroundPath cfg = resolveDataPath (cf_background raw)"
    using loadRuntimeConfig_parsed [OF load] by blast
  have load': "loadRuntimeConfig dd ex (Some raw) = Inr cfg" using load p by simp
  obtain pcfg defs lks where nr: "normaliseRouters rs = Inr (pcfg, defs)"
    and c: "rt_routerPollConfig cfg = pcfg" "routers (rt_topology cfg) = defs" "links (rt_topology cfg) = lks"
    using loadRuntimeConfig_Inr [OF load' rs(1)] by blast
  note R = normaliseRouters_Inr [OF nr rs(2)]
  note L = loadRuntimeConfig_links [OF load' rs]
  have dd: "distinct (map rd_id defs)" using R rs(2) by simp
  let ?P = "\<lambda>(rid, pc). rc_interfaces pc \<noteq> [] \<and> list_all valid_interface_config (rc_interfaces pc) \<and>
              (case obj_get (buildRouterMap defs) rid of
                 Some d \<Rightarrow> map ic_name (rc_interfaces pc) = map if_name (rd_interfaces d)
               | None \<Rightarrow> False)"
  have "?P x" if x: "x \<in> set pcfg" for x
  proof -
    obtain rid pc where xe: "x = (rid, pc)" by fastforce
    then obtain d where "d \<in> set defs" "rd_id d = rid" "rc_interfaces pc \<noteq> []"
        "map ic_name (rc_interfaces pc) = map if_name (rd_interfaces d)" "\<forall>ic \<in> set (rc_interfaces pc). valid_interface_config ic"
      using R x by blast
    then show ?thesis
      using buildRouterMap_distinct [OF dd] xe by (auto simp: list_all_iff)
  qed
  then have routers_ok: "list_all ?P pcfg" by (simp add: list_all_iff)
  have "endpoint_declared defs (ld_from l) (ld_ifaceFrom l) \<and> endpoint_declared defs (ld_to l) (ld_ifaceTo l)"
    if l: "l \<in> set lks" for l
  proof -
    obtain d1 d2 where "d1 \<in> set defs" "rd_id d1 = ld_from l" "ld_ifaceFrom l \<in> if_name ` set (rd_interfaces d1)"
      "d2 \<in> set defs" "rd_id d2 = ld_to l" "ld_ifaceTo l \<in> if_name ` set (rd_interfaces d2)"
      using L c l by blast
    then show ?thesis using endpoint_declared_intro [OF dd] by metis
  qed
  then have links_ok: "list_all (\<lambda>l. endpoint_declared defs (ld_from l) (ld_ifaceFrom l) \<and> endpoint_declared defs (ld_to l) (ld_ifaceTo l)) lks"
    by (simp add: list_all_iff)
  show ?thesis
    unfolding wf_runtime_config_def Let_def
    using dd R c routers_ok links_ok misc resolveDataPath_background_confined by simp
qed

lemma basename_plain: "CHR ''/'' \<notin> set p \<Longrightarrow> basename p = p"
proof -
  assume "CHR ''/'' \<notin> set p"
  moreover have "rev p \<noteq> [] \<Longrightarrow> hd (rev p) \<in> set p"
    using hd_in_set [of "rev p"] by simp
  ultimately have d: "dropWhile (\<lambda>c. c = CHR ''/'') (rev p) = rev p"
    by (auto simp: dropWhile_eq_self_iff)
  have t: "takeWhile (\<lambda>c. c \<noteq> CHR ''/'') (rev p) = rev p"
    by (rule takeWhile_eq_all_conv [THEN iffD2]) (use \<open>CHR ''/'' \<notin> set p\<close> in auto)
  show ?thesis unfolding basename_def Let_def d rev_rev_ident t by simp
qed

lemma resolveDataPath_plain:
  "(\<forall>b. m = Some b \<longrightarrow> plain_file_name b) \<Longrightarrow> resolveDataPath m = resolveDataPath_v1 DATA_DIR m"
  by (cases m) (auto simp: resolveDataPath_def resolveDataPath_v1_def plain_file_name_def basename_plain
      Let_def hd_in_set dest: hd_in_set)

text \<open>C15 (refinement): On configurations the older loader could describe (every interface with a name, both OIDs, a positive max_bandwidth and no speed OID; a background name without separators or surrounding space) the current loader returns exactly what the older one returned with DATA_DIR /app/data.\<close>

theorem loadRuntimeConfig_refines_v1:
  assumes "\<forall>rs. cf_routers raw = Some rs \<longrightarrow>
             (\<forall>(rid, r) \<in> set rs. \<forall>ifs. rr_interfaces r = Some ifs \<longrightarrow> (\<forall>i \<in> set ifs. static_interface i))"
    and "\<forall>b. cf_background raw = Some b \<longrightarrow> plain_file_name b"
  shows "loadRuntimeConfig dd ex (Some raw) = loadRuntimeConfig_v1 DATA_DIR CONFIG_PATH dd ex (Some raw)"
proof -
  have "normaliseRouters (case cf_routers raw of Some rs \<Rightarrow> rs | None \<Rightarrow> []) =
        normaliseRouters_v1 (case cf_routers raw of Some rs \<Rightarrow> rs | None \<Rightarrow> [])"
    using assms(1) by (intro normaliseRouters_refines_v1) (cases "cf_routers raw"; simp)
  moreover have "resolveDataPath (cf_background raw) = resolveDataPath_v1 DATA_DIR (cf_background raw)"
    using assms(2) by (rule resolveDataPath_plain)
  moreover have "\<And>raw'. readConfigFile CONFIG_PATH ex (Some raw) = Inr raw' \<Longrightarrow> raw' = raw"
    by (simp add: readConfigFile_def split: if_splits option.splits)
  ultimately show ?thesis
    by (cases "readConfigFile CONFIG_PATH ex (Some raw)") (simp_all add: loadRuntimeConfig_def loadRuntimeConfig_v1_def Let_def split: sum.splits)
qed

subsection \<open>Examples\<close>

definition ex_raw_iface :: "string \<Rightarrow> raw_interface_config" where
  "ex_raw_iface n = \<lparr>ri_name = n, ri_oid_in = ''1.3.6.1.2.1.31.1.1.1.6.1'', ri_oid_out = ''1.3.6.1.2.1.31.1.1.1.10.1'',
                     ri_max_bandwidth = Some 1000, ri_oid_speed = None, ri_oid_speed_scale = None,
                     ri_display_name = None\<rparr>"

definition ex_raw_router :: raw_router_config where
  "ex_raw_router = \<lparr>rr_ip = ''10.0.0.1'', rr_community = ''public'', rr_label = None, rr_position = None,
                    rr_interfaces = Some [ex_raw_iface ''ge0'']\<rparr>"

definition ex_raw_link :: "string option \<Rightarrow> raw_link_config" where
  "ex_raw_link i = \<lparr>rl_id = i, rl_from = ''r1'', rl_to = ''r2'', rl_iface_from = ''ge0'', rl_iface_to = ''ge0'',
                    rl_label = None, rl_path = None\<rparr>"

definition ex_raw_routers :: "raw_router_config js_object" where
  "ex_raw_routers = [(''r1'', ex_raw_router), (''r2'', ex_raw_router)]"

definition ex_raw_config :: raw_config where
  "ex_raw_config = \<lparr>cf_title = None, cf_poll_interval_ms = None, cf_background = None, cf_size = None,
                    cf_routers = Some ex_raw_routers,
                    cf_links = Some [ex_raw_link (Some ''l1''), ex_raw_link (Some ''l1'')]\<rparr>"

lemmas config_eval = loadRuntimeConfig_def readConfigFile_def ex_raw_config_def ex_raw_routers_def
  normaliseRouters_def normalise_router_def ex_raw_router_def normalise_interface_def ex_raw_iface_def
  has_static_bandwidth_def trimmed_speed_oid_def normaliseLinks_def link_of_raw_def normalizePath_def
  check_link_def ex_raw_link_def

lemma ex_load:
  "loadRuntimeConfig True True (Some ex_raw_config) = Inr (projr (loadRuntimeConfig True True (Some ex_raw_config)))"
  by (simp add: config_eval Let_def)

lemma ex_raw_routers_ok:
  "cf_routers ex_raw_config = Some ex_raw_routers" "distinct (map fst ex_raw_routers)"
  by (simp_all add: ex_raw_config_def ex_raw_routers_def)

theorem loadRuntimeConfig_consistent_witness:
  "let cfg = projr (loadRuntimeConfig True True (Some ex_raw_config)) in
     map fst (rt_routerPollConfig cfg) = map rd_id (routers (rt_topology cfg)) \<and>
     list_all (\<lambda>l. \<exists>d i. obj_get (buildRouterMap (routers (rt_topology cfg))) (ld_from l) = Some d \<and>
                          find (\<lambda>c. if_name c = ld_ifaceFrom l) (rd_interfaces d) = Some i)
       (links (rt_topology cfg))"
  using loadRuntimeConfig_consistent [OF ex_load ex_raw_routers_ok] by (simp add: Let_def list_all_iff)

text \<open>The loader accepts a configuration with two links carrying the same explicit id and publishes both, although link ids are required to be unique.\<close>

theorem loadRuntimeConfig_duplicate_link_ids:
  "\<exists>cfg. loadRuntimeConfig True True (Some ex_raw_config) = Inr cfg \<and>
         map ld_id (links (rt_topology cfg)) = [''l1'', ''l1'']"
  by (simp add: config_eval Let_def)

theorem loadRuntimeConfig_refines_v1_witness:
  "loadRuntimeConfig True True (Some ex_raw_config) =
   loadRuntimeConfig_v1 DATA_DIR CONFIG_PATH True True (Some ex_raw_config)"
  using loadRuntimeConfig_refines_v1 [of ex_raw_config True True]
  by (simp add: ex_raw_config_def ex_raw_routers_def ex_raw_router_def ex_raw_iface_def static_interface_def
      has_static_bandwidth_def)

text \<open>The older loader accepts an interface with no capacity source, which the
  current one rejects.\<close>

theorem normaliseRouters_v1_accepts_unsized:
  "let rs = [(''r1'', ex_raw_router\<lparr>rr_interfaces := Some [ex_raw_iface ''ge0''\<lparr>ri_max_bandwidth := None\<rparr>]\<rparr>)] in
     (\<exists>r. normaliseRouters_v1 rs = Inr r) \<and> (\<exists>e. normaliseRouters rs = Inl e)"
  by (simp add: normaliseRouters_v1_def normalise_router_v1_def normaliseRouters_def normalise_router_def
      ex_raw_router_def normalise_interface_def ex_raw_iface_def has_static_bandwidth_def trimmed_speed_oid_def Let_def)

lemma resolveDataPath_parent: "resolveDataPath (Some '' ..'') = ''/app''"
  by (simp add: resolveDataPath_def posix_join_data_dir basename_def js_trim_def is_js_space_def)

theorem resolveDataPath_v1_escapes:
  "resolveDataPath_v1 DATA_DIR (Some ''../../etc/passwd'') = ''/etc/passwd'' \<and>
   resolveDataPath_v1 DATA_DIR (Some ''/etc/shadow'') = ''/etc/shadow'' \<and>
   resolveDataPath (Some ''../../etc/passwd'') = ''/app/data/passwd''"
  by (simp add: resolveDataPath_v1_def resolveDataPath_def posix_join_def posix_normalize_abs_def DATA_DIR_def
      basename_def js_trim_def is_js_space_def Let_def)

end
