(* ===== verification/Retention.thy ===== *)
theory Retention
  imports WM_Prelude
begin

text \<open>
  Retention of the saved map images (\<open>src/src/backend.ts\<close>, current version):
  \<open>collectSnapshotFiles\<close> lists the PNG files of the image directory with their
  modification times, newest first, and \<open>pruneSnapshots\<close> makes the newest the
  latest image and deletes all but the \<open>MAX_SAVED_MAP_IMAGES\<close> newest.  The
  directory listing is an argument: whether the directory exists, and each
  entry's name with its modification time, or \<open>None\<close> when \<open>statSync\<close>
  throws.  \<open>pruneSnapshots\<close> returns the new \<open>latestImagePath\<close> and the paths
  it unlinks.  The lemmas show that the listing is sorted newest first, that
  the latest image is a newest file, and that exactly the 50 newest files are
  kept.
\<close>

definition IMAGE_DIR :: string where "IMAGE_DIR = ''/app/data/image_data''"

definition MAX_SAVED_MAP_IMAGES :: nat where "MAX_SAVED_MAP_IMAGES = 50"

record snapshot_file =
  sf_fullPath :: string
  sf_mtime :: number

text \<open>\<open>String.prototype.endsWith\<close>\<close>

definition js_endsWith :: "string \<Rightarrow> string \<Rightarrow> bool" where
  "js_endsWith s suffix \<longleftrightarrow> length suffix \<le> length s \<and> drop (length s - length suffix) s = suffix"

text \<open>The comparator \<open>(a, b) => b.mtime - a.mtime\<close>, by its sign.\<close>

definition snapshot_cmp :: "snapshot_file \<Rightarrow> snapshot_file \<Rightarrow> int" where
  "snapshot_cmp a b =
     (if sf_mtime b - sf_mtime a < 0 then -1 else if 0 < sf_mtime b - sf_mtime a then 1 else 0)"

text \<open>\<open>path.join(IMAGE_DIR, file)\<close> for a name \<open>readdirSync\<close> returns (not
  empty, no separator, neither \<open>.\<close> nor \<open>..\<close>) is the plain concatenation.\<close>

type_synonym dir_listing = "bool \<times> (string \<times> number option) list"

definition collectSnapshotFiles :: "dir_listing \<Rightarrow> snapshot_file list" where
  "collectSnapshotFiles listing =
     (if \<not> fst listing then []
      else sort_by_cmp snapshot_cmp
             [\<lparr>sf_fullPath = IMAGE_DIR @ ''/'' @ file, sf_mtime = m\<rparr>.
                (file, Some m) \<leftarrow> filter (\<lambda>(file, _). js_endsWith file ''.png'') (snd listing)])"

definition pruneSnapshots :: "snapshot_file list \<Rightarrow> string option \<times> string list" where
  "pruneSnapshots files =
     (if files = [] then (None, [])
      else (Some (sf_fullPath (hd files)), map sf_fullPath (drop MAX_SAVED_MAP_IMAGES files)))"

subsection \<open>Newest first\<close>

definition newer_eq :: "snapshot_file \<Rightarrow> snapshot_file \<Rightarrow> bool" where
  "newer_eq a b \<longleftrightarrow> sf_mtime b \<le> sf_mtime a"

lemma snapshot_cmp_neg: "snapshot_cmp a b < 0 \<longleftrightarrow> sf_mtime b < sf_mtime a"
  by (simp add: snapshot_cmp_def)

lemma sorted_sort_snapshot: "sorted_wrt newer_eq (sort_by_cmp snapshot_cmp xs)"
  using sorted_sort_by_cmp_key [of snapshot_cmp sf_mtime, OF snapshot_cmp_neg]
  by (simp add: newer_eq_def [abs_def])

lemma collectSnapshotFiles_sorted: "sorted_wrt newer_eq (collectSnapshotFiles listing)"
  by (simp add: collectSnapshotFiles_def sorted_sort_snapshot)

lemma sorted_newest_hd:
  "sorted_wrt newer_eq files \<Longrightarrow> files \<noteq> [] \<Longrightarrow> g \<in> set files \<Longrightarrow> sf_mtime g \<le> sf_mtime (hd files)"
  by (cases files) (auto simp: newer_eq_def)

lemma sorted_take_drop:
  "sorted_wrt newer_eq files \<Longrightarrow> k \<in> set (take n files) \<Longrightarrow> d \<in> set (drop n files) \<Longrightarrow> sf_mtime d \<le> sf_mtime k"
  using sorted_wrt_append [of newer_eq "take n files" "drop n files"] by (auto simp: newer_eq_def)

theorem pruneSnapshots_retention:
  assumes "pruneSnapshots (collectSnapshotFiles listing) = (latest, gone)"
  shows "(latest = None \<longleftrightarrow> collectSnapshotFiles listing = []) \<and>
         (\<forall>p. latest = Some p \<longrightarrow> (\<exists>f \<in> set (collectSnapshotFiles listing). sf_fullPath f = p \<and>
                                  (\<forall>g \<in> set (collectSnapshotFiles listing). sf_mtime g \<le> sf_mtime f))) \<and>
         gone = map sf_fullPath (drop MAX_SAVED_MAP_IMAGES (collectSnapshotFiles listing)) \<and>
         length (collectSnapshotFiles listing) - length gone \<le> MAX_SAVED_MAP_IMAGES \<and>
         (\<forall>k \<in> set (take MAX_SAVED_MAP_IMAGES (collectSnapshotFiles listing)).
            \<forall>d \<in> set (drop MAX_SAVED_MAP_IMAGES (collectSnapshotFiles listing)). sf_mtime d \<le> sf_mtime k)"
proof -
  let ?fs = "collectSnapshotFiles listing"
  have s: "sorted_wrt newer_eq ?fs" by (rule collectSnapshotFiles_sorted)
  show ?thesis
  proof (cases "?fs = []")
    case True
    then show ?thesis using assms by (simp add: pruneSnapshots_def)
  next
    case False
    then have "latest = Some (sf_fullPath (hd ?fs))" "gone = map sf_fullPath (drop MAX_SAVED_MAP_IMAGES ?fs)"
      using assms by (simp_all add: pruneSnapshots_def)
    then show ?thesis
      using False sorted_newest_hd [OF s False] sorted_take_drop [OF s] by auto
  qed
qed

end
