(* ===== verification/PollLoop.thy ===== *)
theory PollLoop
  imports Config Retention
begin

text \<open>
  The poll loop and the server state of the back end (\<open>src/src/backend.ts\<close>,
  current version from line 418): \<open>pollLoop\<close> polls every configured router
  (\<open>pollRouters\<close>), resolves the snapshot against the topology
  (\<open>toRouterMetrics\<close>, \<open>toLinkMetrics\<close>), publishes the payload as
  \<open>latestMetrics\<close>, broadcasts it, renders the PNG and reschedules itself with
  \<open>setTimeout\<close>; the file watcher replaces \<open>runtime.config\<close> and broadcasts
  the new topology.  The asynchronous program is modelled as a state record and
  a step function over the events that resume it (the timer firing, the poll
  completing or throwing, the snapshot being written, the configuration file
  changing), so that any interleaving of a reload with a cycle is a sequence of
  events.  After a saved image, a reload and at start-up the server prunes the
  image directory (\<open>Retention\<close>); the directory listing it reads is carried
  by the event, and the paths it unlinks are recorded in \<open>srv_unlinked\<close>.  The SNMP answers and the clock of a completed poll are carried by its
  event.  The lemmas show, by induction over the reachable states, that the loop
  is always either running a cycle or scheduled to run one, that every published
  payload is a complete resolution of one snapshot, that the configuration in
  force is always one the loader returned and hence well-formed, that a failed
  cycle keeps the previous payload, and what a reload during a cycle does.
\<close>

subsection \<open>State\<close>

text \<open>Where the one \<open>pollLoop\<close> activation stands: scheduled by
  \<open>setTimeout\<close> with its delay, waiting for \<open>pollRouters\<close> on the poll
  configuration it read, or waiting for \<open>saveSnapshotImage\<close>.\<close>

datatype loop_phase =
    Scheduled number
  | Polling "router_config js_object"
  | Saving

record server_state =
  srv_config :: runtime_config
  srv_latestMetrics :: "metrics_payload option"
  srv_latestImagePath :: "string option"
  srv_cache :: sample_cache
  srv_phase :: loop_phase
  srv_sent :: "server_message list"
  srv_unlinked :: "string list"

datatype loop_event =
    TimerFires
  | PollCompletes "ident \<Rightarrow> snmp_agent" "ident \<Rightarrow> number" string
  | PollThrows
  | SnapshotSaved "string option" dir_listing
  | ConfigChanged bool bool "raw_config option" dir_listing

subsection \<open>pollLoop\<close>

text \<open>The body of \<open>try\<close> after \<open>await pollRouters(...)\<close>: the snapshot is
  resolved against the topology of the configuration current at that moment.\<close>

definition metrics_payload_of :: "poll_snapshot \<Rightarrow> topology_definition \<Rightarrow> string \<Rightarrow> metrics_payload" where
  "metrics_payload_of snapshot topo timestamp =
     (let routers = toRouterMetrics snapshot topo;
          links = toLinkMetrics routers (links topo)
      in \<lparr>mp_timestamp = timestamp, mp_routers = routers, mp_links = links\<rparr>)"

text \<open>\<open>broadcast(message)\<close> sends to every open client; the model records the
  message once in the broadcast log.\<close>

definition broadcast :: "server_message \<Rightarrow> server_state \<Rightarrow> server_state" where
  "broadcast msg st = st\<lparr>srv_sent := srv_sent st @ [msg]\<rparr>"

definition schedule :: "server_state \<Rightarrow> server_state" where
  "schedule st = st\<lparr>srv_phase := Scheduled (rt_pollIntervalMs (srv_config st))\<rparr>"

definition pollLoop_start :: "server_state \<Rightarrow> server_state" where
  "pollLoop_start st = st\<lparr>srv_phase := Polling (rt_routerPollConfig (srv_config st))\<rparr>"

definition poll_completed ::
  "(ident \<Rightarrow> snmp_agent) \<Rightarrow> (ident \<Rightarrow> number) \<Rightarrow> string \<Rightarrow> router_config js_object \<Rightarrow> server_state \<Rightarrow> server_state" where
  "poll_completed agents clock timestamp pollConfig st =
     (let (snapshot, cache') = pollRouters agents clock pollConfig (srv_cache st);
          payload = metrics_payload_of snapshot (rt_topology (srv_config st)) timestamp
      in broadcast (MetricsMsg payload) (st\<lparr>srv_cache := cache', srv_latestMetrics := Some payload, srv_phase := Saving\<rparr>))"

text \<open>\<open>saveSnapshotImage\<close>: a written image becomes the latest one; a failed
  rendering is caught; either way the \<open>finally\<close> reschedules.\<close>

definition prune_state :: "dir_listing \<Rightarrow> server_state \<Rightarrow> server_state" where
  "prune_state listing st =
     (case pruneSnapshots (collectSnapshotFiles listing) of
        (latest, gone) \<Rightarrow> st\<lparr>srv_latestImagePath := latest, srv_unlinked := srv_unlinked st @ gone\<rparr>)"

definition snapshot_saved :: "string option \<Rightarrow> dir_listing \<Rightarrow> server_state \<Rightarrow> server_state" where
  "snapshot_saved imagePath listing st =
     schedule (case imagePath of Some p \<Rightarrow> prune_state listing (st\<lparr>srv_latestImagePath := Some p\<rparr>) | None \<Rightarrow> st)"

text \<open>The file watcher: \<open>loadRuntimeConfig()\<close> runs on the new file (the
  event carries what it reads: whether the data directory and the file exist,
  and what the YAML parses to); a configuration that loads replaces the old one,
  the image directory is pruned and the topology is broadcast; one that throws
  is logged and changes nothing.\<close>

definition config_changed :: "bool \<Rightarrow> bool \<Rightarrow> raw_config option \<Rightarrow> dir_listing \<Rightarrow> server_state \<Rightarrow> server_state" where
  "config_changed dataDirExists exists parsed listing st =
     (case loadRuntimeConfig dataDirExists exists parsed of
        Inl _ \<Rightarrow> st
      | Inr cfg \<Rightarrow> broadcast (TopologyMsg (rt_topology cfg)) (prune_state listing (st\<lparr>srv_config := cfg\<rparr>)))"

fun loop_step :: "server_state \<Rightarrow> loop_event \<Rightarrow> server_state option" where
  "loop_step st TimerFires =
     (case srv_phase st of Scheduled _ \<Rightarrow> Some (pollLoop_start st) | _ \<Rightarrow> None)"
| "loop_step st (PollCompletes agents clock ts) =
     (case srv_phase st of Polling pc \<Rightarrow> Some (poll_completed agents clock ts pc st) | _ \<Rightarrow> None)"
| "loop_step st PollThrows =
     (case srv_phase st of Polling _ \<Rightarrow> Some (schedule st) | _ \<Rightarrow> None)"
| "loop_step st (SnapshotSaved p listing) =
     (case srv_phase st of Saving \<Rightarrow> Some (snapshot_saved p listing st) | _ \<Rightarrow> None)"
| "loop_step st (ConfigChanged dd ex parsed listing) = Some (config_changed dd ex parsed listing st)"

text \<open>Start-up: the configuration is loaded, the latest image is found on disk,
  and \<open>pollLoop()\<close> is called at once.\<close>

definition server_init :: "runtime_config \<Rightarrow> dir_listing \<Rightarrow> server_state" where
  "server_init cfg listing =
     prune_state listing
     \<lparr>srv_config = cfg, srv_latestMetrics = None, srv_latestImagePath = None, srv_cache = Map.empty,
      srv_phase = Polling (rt_routerPollConfig cfg), srv_sent = [], srv_unlinked = []\<rparr>"

text \<open>The module body: \<open>runtime = { config: loadRuntimeConfig() }\<close>; a
  configuration that throws aborts start-up, so there is no server.\<close>

definition server_start :: "bool \<Rightarrow> bool \<Rightarrow> raw_config option \<Rightarrow> dir_listing \<Rightarrow> server_state option" where
  "server_start dataDirExists exists parsed listing =
     (case loadRuntimeConfig dataDirExists exists parsed of
        Inl _ \<Rightarrow> None
      | Inr cfg \<Rightarrow> Some (server_init cfg listing))"

fun run :: "server_state \<Rightarrow> loop_event list \<Rightarrow> server_state option" where
  "run st [] = Some st"
| "run st (ev # evs) = (case loop_step st ev of None \<Rightarrow> None | Some st' \<Rightarrow> run st' evs)"

inductive reachable :: "server_state \<Rightarrow> server_state \<Rightarrow> bool" for init where
  reachable_init: "reachable init init"
| reachable_step: "reachable init st \<Longrightarrow> loop_step st ev = Some st' \<Longrightarrow> reachable init st'"

text \<open>What a client is sent when it connects, and the answer of \<open>/api/metrics\<close>
  (\<open>Inl 204\<close> for No Content).\<close>

definition on_connection :: "server_state \<Rightarrow> server_message list" where
  "on_connection st =
     TopologyMsg (rt_topology (srv_config st)) #
     (case srv_latestMetrics st of Some p \<Rightarrow> [MetricsMsg p] | None \<Rightarrow> [])"

definition api_metrics :: "server_state \<Rightarrow> nat + metrics_payload" where
  "api_metrics st = (case srv_latestMetrics st of None \<Rightarrow> Inl 204 | Some p \<Rightarrow> Inr p)"

subsection \<open>Published payloads\<close>

definition complete_payload :: "metrics_payload \<Rightarrow> bool" where
  "complete_payload p \<longleftrightarrow>
     (\<exists>snapshot topo. mp_routers p = toRouterMetrics snapshot topo \<and> mp_links p = toLinkMetrics (mp_routers p) (links topo))"

fun metrics_sent :: "server_message list \<Rightarrow> metrics_payload list" where
  "metrics_sent [] = []"
| "metrics_sent (MetricsMsg p # ms) = p # metrics_sent ms"
| "metrics_sent (TopologyMsg t # ms) = metrics_sent ms"

lemma prune_state_fields [simp]:
  "srv_config (prune_state l st) = srv_config st" "srv_latestMetrics (prune_state l st) = srv_latestMetrics st"
  "srv_cache (prune_state l st) = srv_cache st" "srv_phase (prune_state l st) = srv_phase st"
  "srv_sent (prune_state l st) = srv_sent st"
  by (simp_all add: prune_state_def split: prod.splits)

lemma metrics_sent_append [simp]: "metrics_sent (xs @ ys) = metrics_sent xs @ metrics_sent ys"
  by (induction xs rule: metrics_sent.induct) simp_all

definition publication_ok :: "server_state \<Rightarrow> bool" where
  "publication_ok st \<longleftrightarrow>
     (\<forall>p \<in> set (metrics_sent (srv_sent st)). complete_payload p) \<and>
     srv_latestMetrics st = (if metrics_sent (srv_sent st) = [] then None else Some (last (metrics_sent (srv_sent st))))"

lemma metrics_payload_of_complete: "complete_payload (metrics_payload_of snapshot topo ts)"
  by (auto simp: complete_payload_def metrics_payload_of_def Let_def)

lemma loop_step_publication:
  assumes "publication_ok st" "loop_step st ev = Some st'"
  shows "publication_ok st'"
proof (cases ev)
  case (PollCompletes agents clock ts)
  then obtain pc where "srv_phase st = Polling pc" "st' = poll_completed agents clock ts pc st"
    using assms(2) by (auto split: loop_phase.splits)
  then show ?thesis
    using assms(1)
    by (auto simp: publication_ok_def poll_completed_def broadcast_def metrics_payload_of_complete Let_def
        split: prod.splits)
next
  case (ConfigChanged dd ex parsed listing)
  then show ?thesis
    using assms by (auto simp: publication_ok_def config_changed_def broadcast_def split: sum.splits prod.splits)
qed (use assms in \<open>auto simp: publication_ok_def pollLoop_start_def schedule_def snapshot_saved_def
       split: loop_phase.splits option.splits\<close>)

lemma reachable_publication: "reachable init st \<Longrightarrow> publication_ok init \<Longrightarrow> publication_ok st"
  by (induction rule: reachable.induct) (auto intro: loop_step_publication)

lemma server_init_publication: "publication_ok (server_init cfg listing)"
  by (simp add: publication_ok_def server_init_def)

lemma run_reachable: "run st evs = Some st' \<Longrightarrow> reachable init st \<Longrightarrow> reachable init st'"
proof (induction st evs rule: run.induct)
  case (2 st ev evs)
  then show ?case by (auto intro: reachable_step split: option.splits)
qed simp

subsection \<open>The configuration in force\<close>

text \<open>Only a reload changes the configuration, and only to one the loader
  returned.\<close>

lemma loop_step_config:
  "loop_step st ev = Some st' \<Longrightarrow>
     srv_config st' = srv_config st \<or> (\<exists>dd ex parsed. loadRuntimeConfig dd ex parsed = Inr (srv_config st'))"
  by (cases ev)
     (auto simp: pollLoop_start_def poll_completed_def schedule_def snapshot_saved_def config_changed_def broadcast_def
        Let_def split: loop_phase.splits option.splits sum.splits prod.splits)

lemma reachable_config_loaded:
  assumes "reachable st0 st" "\<exists>dd ex parsed. loadRuntimeConfig dd ex parsed = Inr (srv_config st0)"
  shows "\<exists>dd ex parsed. loadRuntimeConfig dd ex parsed = Inr (srv_config st)"
  using assms by (induction rule: reachable.induct) (metis loop_step_config)+

subsection \<open>Claims\<close>

text \<open>C32 (invariant): In every state reachable from start-up, under any interleaving of cycles, failures and reloads, every payload held as latestMetrics or broadcast is the complete resolution (toRouterMetrics and toLinkMetrics) of one poll snapshot, and latestMetrics is the last payload broadcast: no partial snapshot is ever published.\<close>

theorem pollLoop_publishes_complete:
  assumes "reachable (server_init cfg listing) st"
  shows "(\<forall>p. srv_latestMetrics st = Some p \<longrightarrow> complete_payload p) \<and>
         (\<forall>p \<in> set (metrics_sent (srv_sent st)). complete_payload p) \<and>
         (srv_latestMetrics st = None \<longleftrightarrow> metrics_sent (srv_sent st) = []) \<and>
         (\<forall>p. srv_latestMetrics st = Some p \<longrightarrow> p = last (metrics_sent (srv_sent st)))"
proof -
  have "publication_ok st"
    using reachable_publication [OF assms server_init_publication] .
  then show ?thesis
    by (auto simp: publication_ok_def split: if_splits)
qed

text \<open>C13 (type): In every state reachable from a successful start-up, under any interleaving of poll cycles, snapshots and configuration reloads (each reload running the loader on whatever the file then holds), the configuration in force is well-formed: distinct router ids, a poll entry for exactly the declared routers with at least one valid interface each and the same interface names as the topology, every link endpoint found by the router map, the topology poll interval equal to the loop interval, and the background inside the data directory.\<close>

theorem server_config_wf:
  assumes "server_start dd ex parsed listing = Some st0" "reachable st0 st"
  shows "wf_runtime_config (srv_config st)"
proof -
  obtain cfg where c: "loadRuntimeConfig dd ex parsed = Inr cfg" and st0: "st0 = server_init cfg listing"
    using assms(1) by (auto simp: server_start_def split: sum.splits)
  have "srv_config st0 = cfg" by (simp add: st0 server_init_def)
  with c have "\<exists>dd ex parsed. loadRuntimeConfig dd ex parsed = Inr (srv_config st0)" by blast
  from reachable_config_loaded [OF assms(2) this] show ?thesis
    using loadRuntimeConfig_wf by blast
qed

text \<open>A cycle whose poll throws is rescheduled after the configured interval and leaves the latest payload, the counter cache and the broadcast log unchanged.\<close>

theorem pollLoop_failure_keeps_metrics:
  assumes "srv_phase st = Polling pc"
  shows "loop_step st PollThrows =
           Some (st\<lparr>srv_phase := Scheduled (rt_pollIntervalMs (srv_config st))\<rparr>) \<and>
         (\<forall>st'. loop_step st PollThrows = Some st' \<longrightarrow>
            srv_latestMetrics st' = srv_latestMetrics st \<and> srv_cache st' = srv_cache st \<and> srv_sent st' = srv_sent st)"
  using assms by (simp add: schedule_def)

text \<open>C33 (liveness): Whatever the phase of the loop and whatever the outcome of the poll or of the snapshot in flight, the loop's own events bring it back to a timer armed with the configured interval, whose firing starts a poll of the configuration then in force: the cycle never stalls.\<close>

theorem pollLoop_cycle_repolls:
  "case srv_phase st of
     Scheduled _ \<Rightarrow> run st [TimerFires] = Some (pollLoop_start st)
   | Polling _ \<Rightarrow>
       (\<exists>st'. run st [PollThrows] = Some st' \<and> srv_phase st' = Scheduled (rt_pollIntervalMs (srv_config st')) \<and>
              loop_step st' TimerFires = Some (pollLoop_start st')) \<and>
       (\<forall>agents clock ts p listing. \<exists>st'. run st [PollCompletes agents clock ts, SnapshotSaved p listing] = Some st' \<and>
              srv_phase st' = Scheduled (rt_pollIntervalMs (srv_config st')) \<and> loop_step st' TimerFires = Some (pollLoop_start st'))
   | Saving \<Rightarrow>
       (\<forall>p listing. \<exists>st'. run st [SnapshotSaved p listing] = Some st' \<and>
              srv_phase st' = Scheduled (rt_pollIntervalMs (srv_config st')) \<and> loop_step st' TimerFires = Some (pollLoop_start st'))"
  by (cases "srv_phase st")
     (auto simp: schedule_def snapshot_saved_def poll_completed_def broadcast_def Let_def split: option.splits prod.splits)

text \<open>C34 (safety): A configuration reload that arrives while a poll is in flight makes the cycle resolve the snapshot of the old poll configuration against the new topology.\<close>

theorem pollLoop_reload_mid_cycle:
  assumes "srv_phase st = Polling pc" "loadRuntimeConfig dd ex parsed = Inr cfg'"
  shows "run st [ConfigChanged dd ex parsed listing, PollCompletes agents clock ts] =
           Some (poll_completed agents clock ts pc (config_changed dd ex parsed listing st)) \<and>
         srv_latestMetrics (poll_completed agents clock ts pc (config_changed dd ex parsed listing st)) =
           Some (metrics_payload_of (fst (pollRouters agents clock pc (srv_cache st))) (rt_topology cfg') ts)"
  using assms
  by (simp add: config_changed_def broadcast_def poll_completed_def prune_state_def Let_def split: prod.splits)

text \<open>C31 (safety): Contrary to the README's statement that the application implements no pruning or cleanup of saved snapshots, saving a rendered image deletes files: the loop reschedules itself, the latest image becomes a file of greatest modification time in the image directory (not necessarily the one just written), none only when the directory holds no PNG, and every PNG beyond the 50 newest is unlinked.\<close>

theorem snapshot_saved_prunes:
  assumes "srv_phase st = Saving" "loop_step st (SnapshotSaved (Some p) listing) = Some st'"
  shows "srv_phase st' = Scheduled (rt_pollIntervalMs (srv_config st)) \<and>
         (srv_latestImagePath st' = None \<longleftrightarrow> collectSnapshotFiles listing = []) \<and>
         (\<forall>q. srv_latestImagePath st' = Some q \<longrightarrow>
            (\<exists>f \<in> set (collectSnapshotFiles listing). sf_fullPath f = q \<and>
               (\<forall>g \<in> set (collectSnapshotFiles listing). sf_mtime g \<le> sf_mtime f))) \<and>
         srv_unlinked st' = srv_unlinked st @ map sf_fullPath (drop MAX_SAVED_MAP_IMAGES (collectSnapshotFiles listing))"
proof -
  obtain latest gone where pr: "pruneSnapshots (collectSnapshotFiles listing) = (latest, gone)"
    by fastforce
  have st': "st' = schedule (st\<lparr>srv_latestImagePath := latest, srv_unlinked := srv_unlinked st @ gone\<rparr>)"
    using assms by (simp add: snapshot_saved_def prune_state_def pr)
  show ?thesis
    using pruneSnapshots_retention [OF pr] by (simp add: st' schedule_def)
qed

subsection \<open>Concrete cycles\<close>

definition ex_config :: runtime_config where
  "ex_config = \<lparr>rt_topology = ex_topology, rt_routerPollConfig = [(''r1'', ex_router)], rt_pollIntervalMs = 5000,
     rt_backgroundPath = ''/app/data/background.png''\<rparr>"

text \<open>A reloaded configuration that polls and draws only a second router \<open>r2\<close>.\<close>

definition ex_raw_config_r2 :: raw_config where
  "ex_raw_config_r2 = ex_raw_config\<lparr>cf_routers := Some [(''r2'', ex_raw_router)], cf_links := None\<rparr>"

lemma ex_load_r2:
  "loadRuntimeConfig True True (Some ex_raw_config_r2) = Inr (projr (loadRuntimeConfig True True (Some ex_raw_config_r2)))"
  by (simp add: config_eval ex_raw_config_r2_def Let_def)

definition ex_full_dir :: dir_listing where
  "ex_full_dir = (True, map (\<lambda>n. (string_of_nat n @ ''.png'', Some (real n))) [0..<51])"

definition ex_cycle :: server_state where
  "ex_cycle = poll_completed (\<lambda>_. ex_agent 100 200) (\<lambda>_. 1000) ''t1'' [(''r1'', ex_router)] (server_init ex_config (False, []))"

theorem pollLoop_publishes_complete_witness:
  "srv_latestMetrics ex_cycle \<noteq> None \<and> complete_payload (the (srv_latestMetrics ex_cycle))"
proof -
  have run: "run (server_init ex_config (False, [])) [PollCompletes (\<lambda>_. ex_agent 100 200) (\<lambda>_. 1000) ''t1''] = Some ex_cycle"
    by (simp add: server_init_def ex_config_def ex_cycle_def)
  have "reachable (server_init ex_config (False, [])) ex_cycle"
    using run_reachable [OF run reachable_init] .
  moreover have "srv_latestMetrics ex_cycle \<noteq> None"
    by (simp add: ex_cycle_def poll_completed_def broadcast_def Let_def prod.case_eq_if)
  ultimately show ?thesis
    using pollLoop_publishes_complete [of ex_config "(False, [])" ex_cycle] by auto
qed

theorem server_config_wf_witness:
  "wf_runtime_config (srv_config (the (server_start True True (Some ex_raw_config) (False, []))))"
proof -
  obtain cfg where c: "loadRuntimeConfig True True (Some ex_raw_config) = Inr cfg"
    using ex_load by blast
  have s: "server_start True True (Some ex_raw_config) (False, []) = Some (server_init cfg (False, []))"
    by (simp add: server_start_def c)
  from server_config_wf [OF s reachable_init] show ?thesis using s by simp
qed

theorem pollLoop_failure_keeps_metrics_witness:
  "srv_phase (the (loop_step (server_init ex_config (False, [])) PollThrows)) = Scheduled 5000 \<and>
   srv_latestMetrics (the (loop_step (server_init ex_config (False, [])) PollThrows)) = None"
  using pollLoop_failure_keeps_metrics [of "server_init ex_config (False, [])" "[(''r1'', ex_router)]"]
  by (simp add: server_init_def ex_config_def)

theorem pollLoop_reload_mid_cycle_witness:
  "map_option (\<lambda>st. rm_error (the (obj_get (mp_routers (the (srv_latestMetrics st))) ''r2'')))
     (run (server_init ex_config (False, [])) [ConfigChanged True True (Some ex_raw_config_r2) (False, []), PollCompletes (\<lambda>_. ex_agent 100 200) (\<lambda>_. 1000) ''t1''])
   = Some (Some ''No SNMP data'')"
proof -
  let ?st = "server_init ex_config (False, [])"
  let ?cfg = "projr (loadRuntimeConfig True True (Some ex_raw_config_r2))"
  have ph: "srv_phase ?st = Polling [(''r1'', ex_router)]" by (simp add: server_init_def ex_config_def)
  note R = pollLoop_reload_mid_cycle [OF ph ex_load_r2, of "(False, [])" "\<lambda>_. ex_agent 100 200" "\<lambda>_. 1000" "''t1''"]
  have "srv_cache ?st = Map.empty" by (simp add: server_init_def)
  then show ?thesis
    using R by (simp add: metrics_payload_of_def toRouterMetrics_def router_entry_def Let_def prod.case_eq_if
        config_eval ex_raw_config_r2_def)
qed

lemma ex_listing_tie: "collectSnapshotFiles (True, [(''a.png'', Some 7), (''b.png'', Some 7)]) =
   [\<lparr>sf_fullPath = IMAGE_DIR @ ''/a.png'', sf_mtime = 7\<rparr>, \<lparr>sf_fullPath = IMAGE_DIR @ ''/b.png'', sf_mtime = 7\<rparr>]"
  by (simp add: collectSnapshotFiles_def sort_by_cmp_def snapshot_cmp_def js_endsWith_def)

text \<open>Two images with the same modification time, the older listed first by
  the directory: the stable sort keeps that order and the older image becomes
  the latest one, although the new one was just written.\<close>

lemma snapshot_saved_tie:
  "srv_latestImagePath (snapshot_saved (Some (IMAGE_DIR @ ''/b.png'')) (True, [(''a.png'', Some 7), (''b.png'', Some 7)]) st) =
     Some (IMAGE_DIR @ ''/a.png'')"
  by (simp add: snapshot_saved_def prune_state_def ex_listing_tie pruneSnapshots_def schedule_def)

lemma endsWith_png: "js_endsWith (s @ ''.png'') ''.png''"
  by (simp add: js_endsWith_def)

lemma ex_full_dir_count: "length (collectSnapshotFiles ex_full_dir) = 51"
  by (simp add: collectSnapshotFiles_def ex_full_dir_def endsWith_png filter_map comp_def length_concat)

theorem snapshot_saved_prunes_witness:
  "length (srv_unlinked (the (loop_step ((server_init ex_config (False, []))\<lparr>srv_phase := Saving\<rparr>)
      (SnapshotSaved (Some (IMAGE_DIR @ ''/50.png'')) ex_full_dir)))) = 1"
proof -
  let ?st = "(server_init ex_config (False, []))\<lparr>srv_phase := Saving\<rparr>"
  have ph: "srv_phase ?st = Saving" by simp
  have ls: "loop_step ?st (SnapshotSaved (Some (IMAGE_DIR @ ''/50.png'')) ex_full_dir) =
            Some (snapshot_saved (Some (IMAGE_DIR @ ''/50.png'')) ex_full_dir ?st)" by simp
  have u: "srv_unlinked (the (loop_step ?st (SnapshotSaved (Some (IMAGE_DIR @ ''/50.png'')) ex_full_dir))) =
            srv_unlinked ?st @ map sf_fullPath (drop MAX_SAVED_MAP_IMAGES (collectSnapshotFiles ex_full_dir))"
    using snapshot_saved_prunes [OF ph ls] ls by simp
  have "srv_unlinked ?st = []"
    by (simp add: server_init_def prune_state_def pruneSnapshots_def collectSnapshotFiles_def)
  then show ?thesis
    using u ex_full_dir_count by (simp add: MAX_SAVED_MAP_IMAGES_def)
qed

end
