(* ===== verification/Server.thy ===== *)
theory Server
  imports PollLoop
begin

text \<open>
  The HTTP routes of the back end (\<open>src/src/backend.ts\<close>, current version,
  lines 842--888) as a function from the requested path and the server state
  to the response.  Express tries the routes in the order they are
  registered; \<open>res.sendFile\<close> answers 404 through its error callback when the
  file cannot be read, which is the parameter \<open>readable\<close>.  The static
  directory mounted at \<open>/manage\<close> serves a readable file and otherwise passes
  the request on.  The lemmas show that the two image routes agree and serve
  the image the last pruning chose, and that \<open>/api/metrics\<close> answers exactly
  the last payload broadcast, or 204 before the first.
\<close>

datatype http_response =
    SendFile string
  | TextStatus nat string
  | JsonTopology topology_definition
  | JsonMetrics metrics_payload
  | JsonHealth
  | EmptyStatus nat
  | NotFound string

definition sendLatestSnapshot :: "(string \<Rightarrow> bool) \<Rightarrow> server_state \<Rightarrow> http_response" where
  "sendLatestSnapshot readable st =
     (case srv_latestImagePath st of
        None \<Rightarrow> TextStatus 404 ''Map image not available''
      | Some p \<Rightarrow> if readable p then SendFile p else TextStatus 404 ''Map image not available'')"

definition STATIC_ROOT :: string where "STATIC_ROOT = ''src/frontend''"

definition http_get :: "(string \<Rightarrow> bool) \<Rightarrow> string \<Rightarrow> server_state \<Rightarrow> http_response" where
  "http_get readable route st =
     (if route = BACKGROUND_ROUTE
      then (let bg = rt_backgroundPath (srv_config st)
            in if readable bg then SendFile bg else TextStatus 404 ''Background not found'')
      else if route = ''/'' then sendLatestSnapshot readable st
      else if take 8 route = ''/manage/'' \<and> readable (STATIC_ROOT @ drop 7 route)
      then SendFile (STATIC_ROOT @ drop 7 route)
      else if route = ''/api/topology'' then JsonTopology (rt_topology (srv_config st))
      else if route = ''/healthz'' then JsonHealth
      else if route = ''/api/metrics''
      then (case api_metrics st of Inl code \<Rightarrow> EmptyStatus code | Inr p \<Rightarrow> JsonMetrics p)
      else if route = ''/map.png'' then sendLatestSnapshot readable st
      else NotFound route)"

lemma http_get_image_routes:
  "http_get readable ''/'' st = sendLatestSnapshot readable st"
  "http_get readable ''/map.png'' st = sendLatestSnapshot readable st"
  by (simp_all add: http_get_def BACKGROUND_ROUTE_def)

lemma http_get_metrics:
  assumes "reachable (server_init cfg listing) st"
  shows "http_get readable ''/api/metrics'' st =
           (if metrics_sent (srv_sent st) = [] then EmptyStatus 204 else JsonMetrics (last (metrics_sent (srv_sent st))))"
proof -
  have "publication_ok st"
    using reachable_publication [OF assms server_init_publication] .
  then show ?thesis
    by (simp add: http_get_def BACKGROUND_ROUTE_def api_metrics_def publication_ok_def)
qed

end
