(* ===== verification/SamplerV1.thy ===== *)
theory SamplerV1
  imports Sampler
begin

text \<open>
  The sampler of \<open>src/src/snmp.ts\<close> (\<open>pollRouter\<close>, lines 130--266, and
  \<open>pollRouters\<close>, 268--275), the version before the current one of
  \<open>src/unnamed/part_000\<close>.  It shares \<open>sanitizeOid\<close>, \<open>computeThroughput\<close>,
  \<open>metricStatus\<close> and the final loop over the interfaces with the current
  sampler (\<open>finalize_interface\<close>), but issues a single GET with the OIDs of
  every interface and matches each returned varbind to its interface through
  a JavaScript \<open>Map\<close> keyed by the normalised OID, here a map
  \<open>oid_map\<close>.  The agent therefore answers a list of
  OIDs with \<open>(oid, value)\<close> pairs.  The lemmas give the result on each branch
  of the code, show that the two samplers compute the same sample when the
  OIDs of a router are distinct (so that the \<open>Map\<close> loses nothing), and
  exhibit the loss when two interfaces share an OID.
\<close>

type_synonym snmp_agent_v1 = "string list \<Rightarrow> string + (string \<times> varbind) list"

text \<open>\<open>oid.trim().replace(/^\.+/, "")\<close>\<close>

definition normalizeOid :: "string \<Rightarrow> string" where
  "normalizeOid oid = dropWhile (\<lambda>c. c = CHR ''.'') (js_trim oid)"

text \<open>\<open>parseOctets\<close>: a varbind that is absent or not a number gives \<open>null\<close>.\<close>

definition parseOctets :: "varbind option \<Rightarrow> number option" where
  "parseOctets vb = (case vb of Some (VbNumber v) \<Rightarrow> Some v | _ \<Rightarrow> None)"

text \<open>\<open>makeInterfaceSample\<close> copies \<open>max_bandwidth\<close> unchecked.  The field is
  read only by the comparison \<open>> 0\<close>, which \<open>undefined\<close> fails as \<open>0\<close> does,
  so an absent bandwidth is written \<open>0\<close>.\<close>

definition makeInterfaceSample_v1 :: "interface_config \<Rightarrow> interface_sample" where
  "makeInterfaceSample_v1 iface =
     \<lparr>im_name = ic_name iface, inBps = 0, outBps = 0, inUtilization = 0, outUtilization = 0,
      im_status = Ok,
      maxBandwidth = (case max_bandwidth iface of Some b \<Rightarrow> b | None \<Rightarrow> 0),
      fresh = False, im_error = None, inOctets = None, outOctets = None\<rparr>"

record oid_meta =
  om_iface :: interface_config
  om_direction :: direction

type_synonym oid_map = "string \<Rightarrow> oid_meta option"

text \<open>The state of the first loop: \<open>sample.interfaces\<close>, \<open>oids\<close>, \<open>oidMap\<close>
  and \<open>hasValidOid\<close>.\<close>

type_synonym prepare_state_v1 = "interface_sample js_object \<times> string list \<times> oid_map \<times> bool"

text \<open>One counter OID of an interface: a sanitised OID is pushed and
  registered under itself (\<open>oidMap.set\<close> replaces an earlier entry); a
  rejected one records its error on the interface sample.\<close>

definition register_oid ::
  "interface_config \<Rightarrow> direction \<Rightarrow> string + string \<Rightarrow> interface_sample \<times> string list \<times> oid_map \<times> bool
     \<Rightarrow> interface_sample \<times> string list \<times> oid_map \<times> bool" where
  "register_oid iface dir sanitized st =
     (case st of (s, oids, oidMap, hasValidOid) \<Rightarrow>
        (case sanitized of
           Inr oid \<Rightarrow> (s, oids @ [oid], oidMap(oid \<mapsto> \<lparr>om_iface = iface, om_direction = dir\<rparr>), True)
         | Inl e \<Rightarrow> if e \<noteq> [] then (record_error e s, oids, oidMap, hasValidOid) else st))"

definition prepare_interface_v1 :: "interface_config \<Rightarrow> prepare_state_v1 \<Rightarrow> prepare_state_v1" where
  "prepare_interface_v1 iface st =
     (case st of (smp, oids, oidMap, hasValidOid) \<Rightarrow>
        (case register_oid iface DirOut (sanitizeOid (oid_out iface))
                (register_oid iface DirIn (sanitizeOid (oid_in iface))
                   (makeInterfaceSample_v1 iface, oids, oidMap, hasValidOid)) of
           (s, oids', oidMap', valid') \<Rightarrow> (obj_set (ic_name iface) s smp, oids', oidMap', valid')))"

definition direction_label :: "direction \<Rightarrow> string" where
  "direction_label d = (case d of DirIn \<Rightarrow> ''in'' | DirOut \<Rightarrow> ''out'')"

text \<open>One returned varbind: looked up by its normalised OID; an unknown OID
  is skipped, an error varbind or a value that is not a number records an
  error, a number sets the counter of the registered direction.\<close>

definition apply_varbind_v1 ::
  "oid_map \<Rightarrow> string \<times> varbind \<Rightarrow> interface_sample js_object \<Rightarrow> interface_sample js_object" where
  "apply_varbind_v1 oidMap vb smp =
     (case oidMap (normalizeOid (fst vb)) of
        None \<Rightarrow> smp
      | Some meta \<Rightarrow>
          (let name = ic_name (om_iface meta) in
           case obj_get smp name of
             None \<Rightarrow> smp
           | Some s \<Rightarrow>
               (case snd vb of
                  VbError msg \<Rightarrow> obj_set name (record_error msg s) smp
                | _ \<Rightarrow>
                    (case parseOctets (Some (snd vb)) of
                       None \<Rightarrow> obj_set name
                                 (record_error (''Unexpected value type for '' @ direction_label (om_direction meta) @ '' OID'') s) smp
                     | Some current \<Rightarrow>
                         obj_set name (if om_direction meta = DirIn then s\<lparr>inOctets := Some current\<rparr>
                                       else s\<lparr>outOctets := Some current\<rparr>) smp))))"

text \<open>\<open>if (err)\<close>: every configured interface gets the transport error.\<close>

definition fail_interface :: "string \<Rightarrow> interface_config \<Rightarrow> interface_sample js_object \<Rightarrow> interface_sample js_object" where
  "fail_interface msg iface smp =
     (case obj_get smp (ic_name iface) of
        None \<Rightarrow> smp
      | Some s \<Rightarrow> obj_set (ic_name iface) (record_error msg s) smp)"

definition pollRouter_v1 ::
  "ident \<Rightarrow> router_config \<Rightarrow> snmp_agent_v1 \<Rightarrow> number \<Rightarrow> sample_cache \<Rightarrow> router_sample \<times> sample_cache" where
  "pollRouter_v1 routerId router agent now cache =
     (if rc_interfaces router = []
      then (\<lparr>rs_status = Error, rs_interfaces = [], rs_error = Some ''No interfaces configured''\<rparr>, cache)
      else
        (case fold prepare_interface_v1 (rc_interfaces router) ([], [], Map.empty, False) of
           (smp, oids, oidMap, hasValidOid) \<Rightarrow>
             if \<not> hasValidOid
             then (\<lparr>rs_status = sample_status smp, rs_interfaces = smp, rs_error = None\<rparr>, cache)
             else
               (case agent oids of
                  Inl msg \<Rightarrow>
                    (\<lparr>rs_status = Error, rs_interfaces = fold (fail_interface msg) (rc_interfaces router) smp,
                      rs_error = Some msg\<rparr>, cache)
                | Inr varbinds \<Rightarrow>
                    (let smp1 = fold (apply_varbind_v1 oidMap) varbinds smp;
                         (smp2, cache2) = fold (finalize_interface routerId now) (rc_interfaces router) (smp1, cache)
                     in (\<lparr>rs_status = sample_status smp2, rs_interfaces = smp2, rs_error = None\<rparr>, cache2)))))"

fun pollRouters_v1 ::
  "(ident \<Rightarrow> snmp_agent_v1) \<Rightarrow> (ident \<Rightarrow> number) \<Rightarrow> (ident \<times> router_config) list \<Rightarrow> sample_cache
     \<Rightarrow> poll_snapshot \<times> sample_cache" where
  "pollRouters_v1 agents clock [] cache = ([], cache)"
| "pollRouters_v1 agents clock ((rid, r) # rs) cache =
     (let (smp, cache1) = pollRouter_v1 rid r (agents rid) (clock rid) cache;
          (snap, cache2) = pollRouters_v1 agents clock rs cache1
      in ((rid, smp) # snap, cache2))"

subsection \<open>A device answering every OID\<close>

text \<open>An agent of each kind for a device whose MIB answers every OID with a
  fixed varbind and no transport error: the current sampler receives the
  values in the order of the request, the older one with their OIDs, as
  \<open>net-snmp\<close> returns them.\<close>

definition mib_agent :: "(string \<Rightarrow> varbind) \<Rightarrow> snmp_agent" where
  "mib_agent mib oids = Inr (map mib oids)"

definition mib_agent_v1 :: "(string \<Rightarrow> varbind) \<Rightarrow> snmp_agent_v1" where
  "mib_agent_v1 mib oids = Inr (map (\<lambda>oid. (oid, mib oid)) oids)"

subsection \<open>Sanitised OIDs are already normal\<close>

lemma join_hd_digit:
  "canonical_oid segs \<Longrightarrow> \<exists>c rest. join ''.'' segs = c # rest \<and> is_digit c"
proof -
  assume "canonical_oid segs"
  then obtain w ws where segs: "segs = w # ws" and w: "w \<noteq> []" "list_all is_digit w"
    by (cases segs) (auto simp: canonical_oid_def all_digits_def)
  then obtain c cs where "w = c # cs" "is_digit c" by (cases w) auto
  then show ?thesis using segs by (cases ws) auto
qed

lemma normalizeOid_sanitized: "sanitizeOid raw = Inr oid \<Longrightarrow> normalizeOid oid = oid"
proof -
  assume "sanitizeOid raw = Inr oid"
  then obtain segs where c: "canonical_oid segs" and oid: "oid = join ''.'' segs"
    using sanitizeOid_Inr_canonical by blast
  obtain ch rest where j: "join ''.'' segs = ch # rest" "is_digit ch"
    using join_hd_digit [OF c] by blast
  then have "ch \<noteq> CHR ''.''" using dot_not_digit by auto
  then show ?thesis
    using canonical_join_trim [OF c] j oid by (simp add: normalizeOid_def)
qed

subsection \<open>The first loop computes the current sampler's samples and OID lists\<close>

text \<open>The registrations the first loop makes for the entries of one
  prepared interface, and their effect on \<open>oidMap\<close>.\<close>

definition kind_direction :: "oid_kind \<Rightarrow> direction" where
  "kind_direction k = (if k = KindIn then DirIn else DirOut)"

definition oid_regs :: "interface_config \<Rightarrow> (string \<times> oid_kind) list \<Rightarrow> (string \<times> oid_meta) list" where
  "oid_regs iface es = map (\<lambda>e. (fst e, \<lparr>om_iface = iface, om_direction = kind_direction (snd e)\<rparr>)) es"

definition set_all :: "(string \<times> oid_meta) list \<Rightarrow> oid_map \<Rightarrow> oid_map" where
  "set_all regs m = fold (\<lambda>r m. m(fst r \<mapsto> snd r)) regs m"

lemma set_all_append [simp]: "set_all (xs @ ys) m = set_all ys (set_all xs m)"
  by (simp add: set_all_def)

lemma set_all_distinct:
  "distinct (map fst regs) \<Longrightarrow> r \<in> set regs \<Longrightarrow> set_all regs m (fst r) = Some (snd r)"
proof (induction regs arbitrary: m)
  case (Cons x xs)
  show ?case
  proof (cases "r = x")
    case True
    have "set_all xs m' (fst x) = m' (fst x)" for m'
      using Cons.prems(1) by (induction xs arbitrary: m') (auto simp: set_all_def)
    with True show ?thesis by (simp add: set_all_def)
  next
    case False
    with Cons show ?thesis by (simp add: set_all_def)
  qed
qed simp

definition unsized_or_positive :: "interface_config \<Rightarrow> bool" where
  "unsized_or_positive iface \<longleftrightarrow> (case max_bandwidth iface of Some b \<Rightarrow> 0 < b | None \<Rightarrow> True)"

lemma makeInterfaceSample_v1_eq:
  "unsized_or_positive iface \<Longrightarrow> makeInterfaceSample_v1 iface = makeInterfaceSample iface"
  by (simp add: unsized_or_positive_def makeInterfaceSample_v1_def makeInterfaceSample_def split: option.splits)

lemma prepare_interface_v1_step:
  assumes "oid_speed iface = None" "unsized_or_positive iface"
  shows "prepare_interface_v1 iface (smp, oids, m, v) =
           (obj_set (ic_name iface) (fst (prepare_interface iface)) smp,
            oids @ map fst (it_entries (snd (prepare_interface iface))),
            set_all (oid_regs iface (it_entries (snd (prepare_interface iface)))) m,
            v \<or> hasCounters (snd (prepare_interface iface)))"
  using assms sanitizeOid_Inl_nonempty [of "oid_in iface"] sanitizeOid_Inl_nonempty [of "oid_out iface"]
  by (cases "sanitizeOid (oid_in iface)"; cases "sanitizeOid (oid_out iface)")
     (simp_all add: prepare_interface_v1_def register_oid_def makeInterfaceSample_v1_eq prepare_interface_def
       prepare_counter_def prepare_speed_def add_entry_def oid_regs_def set_all_def kind_direction_def)

lemma prepare_interface_entries:
  assumes "oid_speed iface = None"
  shows "(hasCounters (snd (prepare_interface iface)) \<longleftrightarrow> it_entries (snd (prepare_interface iface)) \<noteq> [])
         \<and> it_iface (snd (prepare_interface iface)) = iface
         \<and> (\<forall>e \<in> set (it_entries (snd (prepare_interface iface))).
              snd e \<noteq> KindSpeed \<and> (\<exists>raw. sanitizeOid raw = Inr (fst e)))"
  using assms
  by (cases "sanitizeOid (oid_in iface)"; cases "sanitizeOid (oid_out iface)")
     (auto simp: prepare_interface_def prepare_counter_def prepare_speed_def add_entry_def)

definition prepared_oids :: "interface_config list \<Rightarrow> string list" where
  "prepared_oids ifs = concat (map (\<lambda>i. map fst (it_entries (snd (prepare_interface i)))) ifs)"

definition prepared_regs :: "interface_config list \<Rightarrow> (string \<times> oid_meta) list" where
  "prepared_regs ifs = concat (map (\<lambda>i. oid_regs i (it_entries (snd (prepare_interface i)))) ifs)"

lemma prepared_regs_keys: "map fst (prepared_regs ifs) = prepared_oids ifs"
  by (induction ifs) (simp_all add: prepared_regs_def prepared_oids_def oid_regs_def comp_def)

definition speedless :: "interface_config list \<Rightarrow> bool" where
  "speedless ifs \<longleftrightarrow> list_all (\<lambda>i. oid_speed i = None \<and> unsized_or_positive i) ifs"

lemma prepare_interfaces_fst:
  "fst (prepare_interfaces ifs smp (t # ts)) = fst (prepare_interfaces ifs smp [])"
proof -
  have "fst (prepare_interfaces ifs smp us) = fst (prepare_interfaces ifs smp ws)" for us ws
    by (induction ifs arbitrary: smp us ws) (auto split: prod.splits)
  then show ?thesis by blast
qed

lemma fold_prepare_interface_v1:
  "speedless ifs \<Longrightarrow>
   fold prepare_interface_v1 ifs (smp, oids, m, v) =
     (fst (prepare_interfaces ifs smp []), oids @ prepared_oids ifs, set_all (prepared_regs ifs) m,
      v \<or> list_ex (hasCounters \<circ> snd \<circ> prepare_interface) ifs)"
proof (induction ifs arbitrary: smp oids m v)
  case (Cons iface ifs)
  then show ?case
    by (simp add: speedless_def prepare_interface_v1_step prepare_interfaces_fst comp_def prepared_oids_def prepared_regs_def split: prod.splits)
qed (simp add: prepared_oids_def prepared_regs_def set_all_def)

subsection \<open>The single GET computes what the per-interface GETs compute\<close>

lemma apply_varbind_v1_entry:
  assumes "M (fst e) = Some \<lparr>om_iface = iface, om_direction = kind_direction (snd e)\<rparr>"
    "snd e \<noteq> KindSpeed" "normalizeOid (fst e) = fst e" "mib (fst e) \<noteq> VbOther"
  shows "apply_varbind_v1 M (fst e, mib (fst e)) smp =
           (case obj_get smp (ic_name iface) of
              None \<Rightarrow> smp
            | Some s \<Rightarrow> obj_set (ic_name iface) (apply_varbind sc (snd e) (mib (fst e)) s) smp)"
  using assms
  by (cases "mib (fst e)"; cases "snd e")
     (auto simp: apply_varbind_v1_def apply_varbind_def parseOctets_def kind_direction_def split: option.splits)

lemma fold_apply_varbind_v1_entries:
  assumes "\<forall>e \<in> set es. M (fst e) = Some \<lparr>om_iface = iface, om_direction = kind_direction (snd e)\<rparr>
                 \<and> snd e \<noteq> KindSpeed \<and> normalizeOid (fst e) = fst e \<and> mib (fst e) \<noteq> VbOther"
  shows "fold (apply_varbind_v1 M) (map (\<lambda>e. (fst e, mib (fst e))) es) smp =
           (case obj_get smp (ic_name iface) of
              None \<Rightarrow> smp
            | Some s \<Rightarrow> obj_set (ic_name iface) (apply_varbinds sc es (map (mib \<circ> fst) es) s) smp)"
  using assms
proof (induction es arbitrary: smp)
  case Nil
  then show ?case by (simp add: update_triv split: option.splits)
next
  case (Cons e es)
  have step: "apply_varbind_v1 M (fst e, mib (fst e)) smp =
                (case obj_get smp (ic_name iface) of
                   None \<Rightarrow> smp
                 | Some s \<Rightarrow> obj_set (ic_name iface) (apply_varbind sc (snd e) (mib (fst e)) s) smp)"
    using Cons.prems by (intro apply_varbind_v1_entry) auto
  show ?case
  proof (cases "obj_get smp (ic_name iface)")
    case None
    with step Cons show ?thesis by simp
  next
    case (Some s)
    with step Cons show ?thesis by (simp add: map_of_update_same update_last)
  qed
qed

lemma query_target_mib:
  assumes "oid_speed iface = None"
    "\<forall>e \<in> set (it_entries (snd (prepare_interface iface))).
       M (fst e) = Some \<lparr>om_iface = iface, om_direction = kind_direction (snd e)\<rparr>"
    "\<forall>oid. mib oid \<noteq> VbOther"
  shows "fold (apply_varbind_v1 M) (map (\<lambda>oid. (oid, mib oid)) (map fst (it_entries (snd (prepare_interface iface))))) smp
           = query_target (mib_agent mib) (snd (prepare_interface iface)) smp"
proof -
  let ?t = "snd (prepare_interface iface)"
  note E = prepare_interface_entries [OF assms(1)]
  have "\<forall>e \<in> set (it_entries ?t). M (fst e) = Some \<lparr>om_iface = iface, om_direction = kind_direction (snd e)\<rparr>
          \<and> snd e \<noteq> KindSpeed \<and> normalizeOid (fst e) = fst e \<and> mib (fst e) \<noteq> VbOther"
    using assms(2,3) E normalizeOid_sanitized by blast
  from fold_apply_varbind_v1_entries [OF this, of smp "speed_scale iface"]
  show ?thesis
    using E by (auto simp: query_target_def mib_agent_def comp_def split: option.splits)
qed

lemma fold_apply_varbind_v1_targets:
  assumes "speedless ifs"
    "\<forall>i \<in> set ifs. \<forall>e \<in> set (it_entries (snd (prepare_interface i))).
       M (fst e) = Some \<lparr>om_iface = i, om_direction = kind_direction (snd e)\<rparr>"
    "\<forall>oid. mib oid \<noteq> VbOther"
  shows "fold (apply_varbind_v1 M) (map (\<lambda>oid. (oid, mib oid)) (prepared_oids ifs)) smp =
           query_targets (mib_agent mib) (map (snd \<circ> prepare_interface) ifs) smp"
  using assms
proof (induction ifs arbitrary: smp)
  case (Cons iface ifs)
  have "fold (apply_varbind_v1 M) (map (\<lambda>oid. (oid, mib oid)) (map fst (it_entries (snd (prepare_interface iface))))) smp
          = query_target (mib_agent mib) (snd (prepare_interface iface)) smp"
    using Cons.prems by (intro query_target_mib) (auto simp: speedless_def)
  with Cons show ?case by (simp add: prepared_oids_def speedless_def)
qed (simp add: prepared_oids_def)

lemma prepared_regs_lookup:
  assumes "distinct (prepared_oids ifs)" "i \<in> set ifs" "e \<in> set (it_entries (snd (prepare_interface i)))"
  shows "set_all (prepared_regs ifs) m (fst e) = Some \<lparr>om_iface = i, om_direction = kind_direction (snd e)\<rparr>"
proof -
  have "(fst e, \<lparr>om_iface = i, om_direction = kind_direction (snd e)\<rparr>) \<in> set (prepared_regs ifs)"
    using assms(2,3) by (force simp: prepared_regs_def oid_regs_def)
  moreover have "distinct (map fst (prepared_regs ifs))"
    using assms(1) by (simp add: prepared_regs_keys)
  ultimately show ?thesis using set_all_distinct by fastforce
qed

text \<open>The older sampler polls a router as the current one does when its
  interfaces have no speed OID and no non-positive bandwidth, the OIDs it
  sends in its single GET are distinct, and the device answers every OID
  with a number or an error varbind.\<close>

theorem pollRouter_v1_equiv:
  assumes speed: "speedless (rc_interfaces router)"
    and oids: "distinct (fst (snd (fold prepare_interface_v1 (rc_interfaces router) ([], [], Map.empty, False))))"
    and mib: "\<forall>oid. mib oid \<noteq> VbOther"
  shows "pollRouter_v1 rid router (mib_agent_v1 mib) now cache = pollRouter rid router (mib_agent mib) now cache"
proof (cases "rc_interfaces router = []")
  case True
  then show ?thesis by (simp add: pollRouter_v1_def pollRouter_def)
next
  case False
  let ?ifs = "rc_interfaces router"
  let ?M = "set_all (prepared_regs ?ifs) Map.empty"
  have F: "fold prepare_interface_v1 ?ifs ([], [], Map.empty, False) =
             (fst (prepare_interfaces ?ifs [] []), prepared_oids ?ifs, ?M,
              list_ex (hasCounters \<circ> snd \<circ> prepare_interface) ?ifs)"
    using fold_prepare_interface_v1 [OF speed] by simp
  obtain smp ts where P: "prepare_interfaces ?ifs [] [] = (smp, ts)" by fastforce
  have ts: "ts = map (snd \<circ> prepare_interface) ?ifs"
    using prepare_interfaces_targets [of ?ifs "[]" "[]"] P by simp
  have d: "distinct (prepared_oids ?ifs)" using oids F by simp
  have "\<forall>i \<in> set ?ifs. \<forall>e \<in> set (it_entries (snd (prepare_interface i))).
          ?M (fst e) = Some \<lparr>om_iface = i, om_direction = kind_direction (snd e)\<rparr>"
    using prepared_regs_lookup [OF d] by blast
  from fold_apply_varbind_v1_targets [OF speed this mib, of smp]
  have Q: "fold (apply_varbind_v1 ?M) (map (\<lambda>oid. (oid, mib oid)) (prepared_oids ?ifs)) smp =
             query_targets (mib_agent mib) ts smp"
    using ts by simp
  show ?thesis
    using False F P ts Q by (simp add: pollRouter_v1_def pollRouter_def mib_agent_v1_def comp_def list_ex_iff)
qed

subsection \<open>The transport error branch\<close>

definition has_valid_oid :: "interface_config \<Rightarrow> bool" where
  "has_valid_oid iface \<longleftrightarrow> \<not> isl (sanitizeOid (oid_in iface)) \<or> \<not> isl (sanitizeOid (oid_out iface))"

lemma prepare_interface_v1_shape:
  "\<exists>s oids' m'. prepare_interface_v1 iface (smp, oids, m, v) =
     (obj_set (ic_name iface) s smp, oids', m', v \<or> has_valid_oid iface)"
  by (cases "sanitizeOid (oid_in iface)"; cases "sanitizeOid (oid_out iface)")
     (auto simp: prepare_interface_v1_def register_oid_def has_valid_oid_def)

lemma fold_prepare_interface_v1_keys:
  "fold prepare_interface_v1 ifs (smp, oids, m, v) = (smp', oids', m', v') \<Longrightarrow>
     set (map fst smp') = set (map fst smp) \<union> set (map ic_name ifs)
     \<and> (distinct (map fst smp) \<longrightarrow> distinct (map fst smp'))
     \<and> (v' \<longleftrightarrow> v \<or> list_ex has_valid_oid ifs)"
proof (induction ifs arbitrary: smp oids m v)
  case (Cons iface ifs)
  obtain s oids1 m1 where
    p: "prepare_interface_v1 iface (smp, oids, m, v) = (obj_set (ic_name iface) s smp, oids1, m1, v \<or> has_valid_oid iface)"
    using prepare_interface_v1_shape by blast
  from Cons.prems p have "fold prepare_interface_v1 ifs (obj_set (ic_name iface) s smp, oids1, m1, v \<or> has_valid_oid iface) = (smp', oids', m', v')"
    by simp
  from Cons.IH [OF this] show ?case
    by (auto simp: dom_update distinct_update)
qed simp

lemma fail_interface_keys: "map fst (fail_interface msg iface smp) = map fst smp"
  by (auto simp: fail_interface_def update_keys_present split: option.splits)

lemma fold_fail_interface_keys: "map fst (fold (fail_interface msg) ifs smp) = map fst smp"
  by (induction ifs arbitrary: smp) (simp_all add: fail_interface_keys)

lemma record_error_idem [simp]: "record_error e (record_error e s) = record_error e s"
  by (simp add: record_error_def)

lemma fail_interface_lookup:
  "map_of (fail_interface msg iface smp) k =
     (if k = ic_name iface then map_option (record_error msg) (map_of smp k) else map_of smp k)"
  by (auto simp: fail_interface_def map_of_update_same map_of_update_other split: option.splits)

lemma fold_fail_interface_lookup:
  "map_of (fold (fail_interface msg) ifs smp) k =
     (if k \<in> set (map ic_name ifs) then map_option (record_error msg) (map_of smp k) else map_of smp k)"
proof (induction ifs arbitrary: smp)
  case (Cons iface ifs)
  show ?case
    by (simp add: Cons.IH fail_interface_lookup option.map_comp comp_def)
qed simp

lemma distinct_values_lookup:
  "distinct (map fst xs) \<Longrightarrow> s \<in> set (map snd xs) \<Longrightarrow> \<exists>k. k \<in> set (map fst xs) \<and> map_of xs k = Some s"
  by (force simp: map_of_eq_Some_iff)

text \<open>A failed GET marks the router and every configured interface with the
  transport error and leaves the cache untouched.\<close>

text \<open>C8 (error): When the single GET of the older sampler fails (and the router has a valid OID), the router sample is error with the transport message, every interface sample carries that message with status error, every configured interface is present, and the cache is untouched.\<close>

theorem pollRouter_v1_transport_error:
  assumes valid: "list_ex has_valid_oid (rc_interfaces router)"
    and poll: "pollRouter_v1 rid router (\<lambda>_. Inl msg) now cache = (r, c)"
  shows "rs_status r = Error \<and> rs_error r = Some msg \<and> c = cache
         \<and> set (map fst (rs_interfaces r)) = set (map ic_name (rc_interfaces router))
         \<and> (\<forall>s \<in> set (map snd (rs_interfaces r)). im_error s = Some msg \<and> im_status s = Error)"
proof -
  let ?ifs = "rc_interfaces router"
  obtain smp oids m v where F: "fold prepare_interface_v1 ?ifs ([], [], Map.empty, False) = (smp, oids, m, v)"
    by (metis prod_cases4)
  note K = fold_prepare_interface_v1_keys [OF F]
  have ne: "?ifs \<noteq> []" using valid by auto
  have v: v using conjunct2 [OF conjunct2 [OF K]] valid by simp
  have r: "r = \<lparr>rs_status = Error, rs_interfaces = fold (fail_interface msg) ?ifs smp, rs_error = Some msg\<rparr>"
    and c: "c = cache"
    using poll F ne v by (simp_all add: pollRouter_v1_def)
  have keys: "map fst (rs_interfaces r) = map fst smp" using r by (simp add: fold_fail_interface_keys)
  have "im_error s = Some msg \<and> im_status s = Error" if sv: "s \<in> set (map snd (rs_interfaces r))" for s
  proof -
    have d: "distinct (map fst (rs_interfaces r))" using keys K by simp
    obtain k where k: "k \<in> set (map fst (rs_interfaces r))" and sk: "map_of (rs_interfaces r) k = Some s"
      using distinct_values_lookup [OF d sv] by blast
    have "k \<in> set (map ic_name ?ifs)" using k keys K by simp
    then have "map_of (rs_interfaces r) k = map_option (record_error msg) (map_of smp k)"
      using r fold_fail_interface_lookup [of msg ?ifs smp k] by simp
    then obtain s0 where "s = record_error msg s0" using sk by (cases "map_of smp k") auto
    then show ?thesis by (simp add: record_error_def)
  qed
  then show ?thesis using r c keys K by simp
qed

text \<open>\<open>pollRouters\<close> of the two versions agree on routers that meet those
  conditions, each router with its own device.\<close>

definition v1_compatible :: "router_config \<Rightarrow> bool" where
  "v1_compatible r \<longleftrightarrow> speedless (rc_interfaces r) \<and>
     distinct (fst (snd (fold prepare_interface_v1 (rc_interfaces r) ([], [], Map.empty, False))))"

lemma pollRouters_v1_mib:
  assumes "list_all (\<lambda>(rid, r). v1_compatible r) rs" and "\<forall>rid oid. mibs rid oid \<noteq> VbOther"
  shows "pollRouters_v1 (\<lambda>rid. mib_agent_v1 (mibs rid)) clock rs cache =
           pollRouters (\<lambda>rid. mib_agent (mibs rid)) clock rs cache"
  using assms
proof (induction rs arbitrary: cache)
  case (Cons entry rs)
  obtain rid r where e: "entry = (rid, r)" by fastforce
  with Cons.prems have "pollRouter_v1 rid r (mib_agent_v1 (mibs rid)) (clock rid) cache =
                          pollRouter rid r (mib_agent (mibs rid)) (clock rid) cache"
    by (intro pollRouter_v1_equiv) (auto simp: v1_compatible_def)
  with Cons e show ?case by (simp split: prod.splits)
qed simp

text \<open>C7 (equivalence): The older single-GET sampler of snmp.ts and the current per-interface sampler return the same snapshot and cache, for every router, when each router has no speed OID and no non-positive bandwidth, the OIDs of its single GET are distinct, and each device answers every OID with a number or an error varbind.\<close>

theorem pollRouters_v1_equiv:
  assumes "list_all (\<lambda>(rid, r). speedless (rc_interfaces r) \<and>
             distinct (fst (snd (fold prepare_interface_v1 (rc_interfaces r) ([], [], Map.empty, False))))) rs"
    and "\<forall>rid oid. mibs rid oid \<noteq> VbOther"
  shows "pollRouters_v1 (\<lambda>rid. mib_agent_v1 (mibs rid)) clock rs cache =
           pollRouters (\<lambda>rid. mib_agent (mibs rid)) clock rs cache"
  using assms by (intro pollRouters_v1_mib) (auto simp: v1_compatible_def list_all_iff)

subsection \<open>Two interfaces sharing an OID\<close>

definition ex_iface_b :: interface_config where
  "ex_iface_b = ex_iface\<lparr>ic_name := ''ge1'', oid_out := ''1.3''\<rparr>"

definition ex_router_shared :: router_config where
  "ex_router_shared = ex_router\<lparr>rc_interfaces := [ex_iface, ex_iface_b]\<rparr>"

lemmas sampler_v1_eval =
  pollRouter_v1_def prepare_interface_v1_def register_oid_def makeInterfaceSample_v1_def
  apply_varbind_v1_def normalizeOid_def parseOctets_def mib_agent_v1_def mib_agent_def

text \<open>Both interfaces of \<open>ex_router_shared\<close> name \<open>1.1\<close> as their input
  counter.  The older sampler registers \<open>1.1\<close> once, for the later interface,
  so the earlier one never receives its counter and reports status ok with no
  counter and rate 0; the current sampler gives each interface its counter.\<close>

text \<open>When two interfaces of a router name the same input OID, the older sampler registers the OID only for the later interface: the earlier one gets no counter and reports status ok, while the current sampler gives both interfaces their counter.\<close>

theorem pollRouter_v1_oid_collision:
  "inOctets (the (map_of (rs_interfaces (fst (pollRouter_v1 ''r1'' ex_router_shared
      (mib_agent_v1 (\<lambda>_. VbNumber 100)) 1000 Map.empty))) ''ge0'')) = None
   \<and> im_status (the (map_of (rs_interfaces (fst (pollRouter_v1 ''r1'' ex_router_shared
      (mib_agent_v1 (\<lambda>_. VbNumber 100)) 1000 Map.empty))) ''ge0'')) = Ok
   \<and> inOctets (the (map_of (rs_interfaces (fst (pollRouter ''r1'' ex_router_shared
      (mib_agent (\<lambda>_. VbNumber 100)) 1000 Map.empty))) ''ge0'')) = Some 100"
  by (simp add: sampler_v1_eval sampler_eval ex_router_shared_def ex_router_def ex_iface_b_def ex_iface_def)

subsection \<open>Witnesses\<close>

theorem pollRouters_v1_equiv_witness:
  "pollRouters_v1 (\<lambda>_. mib_agent_v1 (\<lambda>_. VbNumber 100)) (\<lambda>_. 1000) [(''r1'', ex_router)] Map.empty
     = pollRouters (\<lambda>_. mib_agent (\<lambda>_. VbNumber 100)) (\<lambda>_. 1000) [(''r1'', ex_router)] Map.empty"
proof -
  have "list_all (\<lambda>(rid, r). speedless (rc_interfaces r) \<and>
          distinct (fst (snd (fold prepare_interface_v1 (rc_interfaces r) ([], [], Map.empty, False)))))
          [(''r1'', ex_router)]"
    by (simp add: speedless_def unsized_or_positive_def sampler_v1_eval sampler_eval ex_router_def ex_iface_def)
  from pollRouters_v1_equiv [OF this, of "\<lambda>_ _. VbNumber 100" "\<lambda>_. 1000" Map.empty]
  show ?thesis by simp
qed

theorem pollRouter_v1_transport_error_witness:
  "rs_status (fst (pollRouter_v1 ''r1'' ex_router (\<lambda>_. Inl ''timeout'') 1000 Map.empty)) = Error
   \<and> rs_error (fst (pollRouter_v1 ''r1'' ex_router (\<lambda>_. Inl ''timeout'') 1000 Map.empty)) = Some ''timeout''
   \<and> list_all (\<lambda>s. im_error s = Some ''timeout'')
       (map snd (rs_interfaces (fst (pollRouter_v1 ''r1'' ex_router (\<lambda>_. Inl ''timeout'') 1000 Map.empty))))"
proof -
  have valid: "list_ex has_valid_oid (rc_interfaces ex_router)"
    by (simp add: has_valid_oid_def ex_router_def ex_iface_def sampler_eval)
  have poll: "pollRouter_v1 ''r1'' ex_router (\<lambda>_. Inl ''timeout'') 1000 Map.empty =
      (fst (pollRouter_v1 ''r1'' ex_router (\<lambda>_. Inl ''timeout'') 1000 Map.empty),
       snd (pollRouter_v1 ''r1'' ex_router (\<lambda>_. Inl ''timeout'') 1000 Map.empty))" by simp
  from pollRouter_v1_transport_error [OF valid poll] show ?thesis by (simp add: list_all_iff)
qed

end
