(* ===== verification/PollLoopV1.thy ===== *)
theory PollLoopV1
  imports Server SamplerV1
begin

text \<open>
  The older revision of the back end (\<open>src/src/backend.ts\<close>, lines 326--417):
  its server state, routes, WebSocket handler, poll loop and file watcher.
  It differs from the current revision (\<open>PollLoop\<close>, \<open>Server\<close>) in four
  ways: the loop polls with the older sampler of \<open>snmp.ts\<close>
  (\<open>pollRouters_v1\<close>), renders no PNG and keeps no image state; the watcher
  does not prune; the configuration comes from the older loader
  (\<open>loadRuntimeConfig_v1\<close>); and the frontend directory is served at the root
  ahead of every other route.  The older \<open>toRouterMetrics\<close> (lines 225--300)
  is the current one without \<open>?? 0\<close> after \<open>iface.maxBandwidth\<close>; the model
  resolves with the current resolver, so that for an interface declared without
  a bandwidth it publishes 0 where the older code publishes no
  \<open>maxBandwidth\<close> key.  Both readers of that field (\<open>getInterfaceCapacity\<close>
  and \<open>interfaceMetricCapacity\<close>) keep only positive capacities, so the two
  are read alike.

  The main lemma is a refinement: every run of the older server is matched,
  step for step, by a run of the current server whose configuration, payload,
  cache, schedule and broadcast log are the same, as long as the devices answer
  every OID, the OIDs of each router are distinct and both loaders accept the
  same files.
\<close>

subsection \<open>State, events and steps\<close>

text \<open>The module state: \<open>runtime.config\<close>, \<open>latestMetrics\<close>, the sampler's
  \<open>sampleCache\<close>, where the one \<open>pollLoop\<close> activation stands (never
  \<open>Saving\<close>: this loop saves nothing) and the broadcast log.\<close>

record server_state_v1 =
  sv1_config :: runtime_config
  sv1_latestMetrics :: "metrics_payload option"
  sv1_cache :: sample_cache
  sv1_phase :: loop_phase
  sv1_sent :: "server_message list"

text \<open>The events that resume the older code; a completed poll carries the
  answers of the single GET of each router.\<close>

datatype loop_event_v1 =
    TimerFires_v1
  | PollCompletes_v1 "ident \<Rightarrow> snmp_agent_v1" "ident \<Rightarrow> number" string
  | PollThrows_v1
  | ConfigChanged_v1 bool bool "raw_config option"

definition broadcast_v1 :: "server_message \<Rightarrow> server_state_v1 \<Rightarrow> server_state_v1" where
  "broadcast_v1 msg st = st\<lparr>sv1_sent := sv1_sent st @ [msg]\<rparr>"

definition schedule_v1 :: "server_state_v1 \<Rightarrow> server_state_v1" where
  "schedule_v1 st = st\<lparr>sv1_phase := Scheduled (rt_pollIntervalMs (sv1_config st))\<rparr>"

text \<open>\<open>pollLoop\<close> (lines 387--405): the payload is stored and broadcast and the
  \<open>finally\<close> reschedules at once.\<close>

definition poll_completed_v1 ::
  "(ident \<Rightarrow> snmp_agent_v1) \<Rightarrow> (ident \<Rightarrow> number) \<Rightarrow> string \<Rightarrow> router_config js_object \<Rightarrow> server_state_v1
     \<Rightarrow> server_state_v1" where
  "poll_completed_v1 agents clock timestamp pollConfig st =
     (let (snapshot, cache') = pollRouters_v1 agents clock pollConfig (sv1_cache st);
          payload = metrics_payload_of snapshot (rt_topology (sv1_config st)) timestamp
      in schedule_v1 (broadcast_v1 (MetricsMsg payload)
           (st\<lparr>sv1_cache := cache', sv1_latestMetrics := Some payload\<rparr>)))"

text \<open>The watcher (lines 409--417): reload and broadcast the topology, or log
  the error.\<close>

definition config_changed_v1 ::
  "string \<Rightarrow> string \<Rightarrow> bool \<Rightarrow> bool \<Rightarrow> raw_config option \<Rightarrow> server_state_v1 \<Rightarrow> server_state_v1" where
  "config_changed_v1 dataDir configPath dataDirExists exists parsed st =
     (case loadRuntimeConfig_v1 dataDir configPath dataDirExists exists parsed of
        Inl _ \<Rightarrow> st
      | Inr cfg \<Rightarrow> broadcast_v1 (TopologyMsg (rt_topology cfg)) (st\<lparr>sv1_config := cfg\<rparr>))"

fun loop_step_v1 :: "string \<Rightarrow> string \<Rightarrow> server_state_v1 \<Rightarrow> loop_event_v1 \<Rightarrow> server_state_v1 option" where
  "loop_step_v1 dataDir configPath st TimerFires_v1 =
     (case sv1_phase st of
        Scheduled _ \<Rightarrow> Some (st\<lparr>sv1_phase := Polling (rt_routerPollConfig (sv1_config st))\<rparr>)
      | _ \<Rightarrow> None)"
| "loop_step_v1 dataDir configPath st (PollCompletes_v1 agents clock ts) =
     (case sv1_phase st of Polling pc \<Rightarrow> Some (poll_completed_v1 agents clock ts pc st) | _ \<Rightarrow> None)"
| "loop_step_v1 dataDir configPath st PollThrows_v1 =
     (case sv1_phase st of Polling _ \<Rightarrow> Some (schedule_v1 st) | _ \<Rightarrow> None)"
| "loop_step_v1 dataDir configPath st (ConfigChanged_v1 dd ex parsed) =
     Some (config_changed_v1 dataDir configPath dd ex parsed st)"

text \<open>Start-up (lines 326--329, 407): load, then call \<open>pollLoop()\<close>.\<close>

definition server_start_v1 ::
  "string \<Rightarrow> string \<Rightarrow> bool \<Rightarrow> bool \<Rightarrow> raw_config option \<Rightarrow> server_state_v1 option" where
  "server_start_v1 dataDir configPath dataDirExists exists parsed =
     (case loadRuntimeConfig_v1 dataDir configPath dataDirExists exists parsed of
        Inl _ \<Rightarrow> None
      | Inr cfg \<Rightarrow> Some \<lparr>sv1_config = cfg, sv1_latestMetrics = None, sv1_cache = Map.empty,
                         sv1_phase = Polling (rt_routerPollConfig cfg), sv1_sent = []\<rparr>)"

fun run_v1 :: "string \<Rightarrow> string \<Rightarrow> server_state_v1 \<Rightarrow> loop_event_v1 list \<Rightarrow> server_state_v1 option" where
  "run_v1 dataDir configPath st [] = Some st"
| "run_v1 dataDir configPath st (ev # evs) =
     (case loop_step_v1 dataDir configPath st ev of
        None \<Rightarrow> None
      | Some st' \<Rightarrow> run_v1 dataDir configPath st' evs)"

subsection \<open>Connections and routes\<close>

definition on_connection_v1 :: "server_state_v1 \<Rightarrow> server_message list" where
  "on_connection_v1 st =
     TopologyMsg (rt_topology (sv1_config st)) #
     (case sv1_latestMetrics st of Some p \<Rightarrow> [MetricsMsg p] | None \<Rightarrow> [])"

text \<open>\<open>express.static("src/frontend")\<close> is registered first (line 333): a
  readable file under the directory answers before any route, a path ending in
  \<open>/\<close> naming its \<open>index.html\<close>.\<close>

definition static_file_v1 :: "string \<Rightarrow> string" where
  "static_file_v1 route =
     STATIC_ROOT @ (if route \<noteq> [] \<and> last route = CHR ''/'' then route @ ''index.html'' else route)"

definition http_get_v1 :: "(string \<Rightarrow> bool) \<Rightarrow> string \<Rightarrow> server_state_v1 \<Rightarrow> http_response" where
  "http_get_v1 readable route st =
     (if readable (static_file_v1 route) then SendFile (static_file_v1 route)
      else if route = BACKGROUND_ROUTE
      then (let bg = rt_backgroundPath (sv1_config st)
            in if readable bg then SendFile bg else TextStatus 404 ''Background not found'')
      else if route = ''/api/topology'' then JsonTopology (rt_topology (sv1_config st))
      else if route = ''/healthz'' then JsonHealth
      else if route = ''/api/metrics''
      then (case sv1_latestMetrics st of None \<Rightarrow> EmptyStatus 204 | Some p \<Rightarrow> JsonMetrics p)
      else NotFound route)"

subsection \<open>Refinement by the current server\<close>

text \<open>The configurations on which the two samplers agree
  (\<open>v1_compatible\<close>: no speed OID, no non-positive bandwidth, distinct OIDs
  in the single GET), and the older states whose configuration in force and
  whose poll in flight are of that kind.\<close>

definition cfg_compatible :: "runtime_config \<Rightarrow> bool" where
  "cfg_compatible cfg \<longleftrightarrow> list_all (\<lambda>(rid, r). v1_compatible r) (rt_routerPollConfig cfg)"

definition compatible_state :: "server_state_v1 \<Rightarrow> bool" where
  "compatible_state st \<longleftrightarrow> cfg_compatible (sv1_config st) \<and>
     (case sv1_phase st of
        Polling pc \<Rightarrow> list_all (\<lambda>(rid, r). v1_compatible r) pc
      | Scheduled _ \<Rightarrow> True
      | Saving \<Rightarrow> False)"

definition loads_compatible :: "bool \<Rightarrow> bool \<Rightarrow> raw_config option \<Rightarrow> bool" where
  "loads_compatible dd ex parsed =
     (case loadRuntimeConfig_v1 DATA_DIR CONFIG_PATH dd ex parsed of Inl _ \<Rightarrow> True | Inr cfg \<Rightarrow> cfg_compatible cfg)"

text \<open>Which events of the current server answer an event of the older one: the
  same timer, failure and reload (when both loaders read the file alike), and
  for a completed poll of devices that answer every OID, the same poll followed
  by the outcome of the snapshot, whatever it is.\<close>

inductive events_match :: "loop_event_v1 \<Rightarrow> loop_event list \<Rightarrow> bool" where
  match_timer: "events_match TimerFires_v1 [TimerFires]"
| match_poll: "\<forall>rid oid. mibs rid oid \<noteq> VbOther \<Longrightarrow>
    events_match (PollCompletes_v1 (\<lambda>rid. mib_agent_v1 (mibs rid)) clock ts)
      [PollCompletes (\<lambda>rid. mib_agent (mibs rid)) clock ts, SnapshotSaved img listing]"
| match_throws: "events_match PollThrows_v1 [PollThrows]"
| match_reload: "loadRuntimeConfig dd ex parsed = loadRuntimeConfig_v1 DATA_DIR CONFIG_PATH dd ex parsed \<Longrightarrow>
    loads_compatible dd ex parsed \<Longrightarrow> events_match (ConfigChanged_v1 dd ex parsed) [ConfigChanged dd ex parsed listing]"

text \<open>The older state a current state stands for: everything but the image
  fields, which the older server does not have.\<close>

definition serves_as_v1 :: "server_state_v1 \<Rightarrow> server_state \<Rightarrow> bool" where
  "serves_as_v1 st1 st \<longleftrightarrow>
     srv_config st = sv1_config st1 \<and> srv_latestMetrics st = sv1_latestMetrics st1 \<and>
     srv_cache st = sv1_cache st1 \<and> srv_phase st = sv1_phase st1 \<and> srv_sent st = sv1_sent st1"

lemma run_append: "run st (xs @ ys) = (case run st xs of None \<Rightarrow> None | Some st' \<Rightarrow> run st' ys)"
  by (induction xs arbitrary: st) (simp_all split: option.splits)

lemma snapshot_saved_fields [simp]:
  "srv_config (snapshot_saved p l st) = srv_config st"
  "srv_latestMetrics (snapshot_saved p l st) = srv_latestMetrics st"
  "srv_cache (snapshot_saved p l st) = srv_cache st"
  "srv_sent (snapshot_saved p l st) = srv_sent st"
  "srv_phase (snapshot_saved p l st) = Scheduled (rt_pollIntervalMs (srv_config st))"
  by (simp_all add: snapshot_saved_def schedule_def split: option.splits)

lemma poll_simulated:
  assumes rel: "serves_as_v1 st1 st" and ph: "sv1_phase st1 = Polling pc"
    and pc: "list_all (\<lambda>(rid, r). v1_compatible r) pc" and mibs: "\<forall>rid oid. mibs rid oid \<noteq> VbOther"
  shows "\<exists>st'. run st [PollCompletes (\<lambda>rid. mib_agent (mibs rid)) clock ts, SnapshotSaved img listing] = Some st'
           \<and> serves_as_v1 (poll_completed_v1 (\<lambda>rid. mib_agent_v1 (mibs rid)) clock ts pc st1) st'"
proof -
  have eq: "pollRouters_v1 (\<lambda>rid. mib_agent_v1 (mibs rid)) clock pc (sv1_cache st1) =
              pollRouters (\<lambda>rid. mib_agent (mibs rid)) clock pc (srv_cache st)"
    using pollRouters_v1_mib [OF pc mibs] rel by (simp add: serves_as_v1_def)
  show ?thesis
    using rel ph eq
    by (simp add: serves_as_v1_def poll_completed_v1_def poll_completed_def broadcast_v1_def broadcast_def
        schedule_v1_def Let_def split: prod.splits)
qed

lemma reload_simulated:
  assumes rel: "serves_as_v1 st1 st"
    and same: "loadRuntimeConfig dd ex parsed = loadRuntimeConfig_v1 DATA_DIR CONFIG_PATH dd ex parsed"
  shows "serves_as_v1 (config_changed_v1 DATA_DIR CONFIG_PATH dd ex parsed st1) (config_changed dd ex parsed listing st)"
  using rel same
  by (simp add: serves_as_v1_def config_changed_v1_def config_changed_def broadcast_v1_def broadcast_def
      split: sum.splits)

lemma reload_compatible:
  "compatible_state st1 \<Longrightarrow> loads_compatible dd ex parsed \<Longrightarrow>
     compatible_state (config_changed_v1 DATA_DIR CONFIG_PATH dd ex parsed st1)"
  by (simp add: compatible_state_def loads_compatible_def config_changed_v1_def broadcast_v1_def
      split: sum.splits)

lemma loop_step_v1_simulated:
  assumes rel: "serves_as_v1 st1 st" and inv: "compatible_state st1" and m: "events_match ev1 evs"
    and step: "loop_step_v1 DATA_DIR CONFIG_PATH st1 ev1 = Some st1'"
  shows "\<exists>st'. run st evs = Some st' \<and> serves_as_v1 st1' st' \<and> compatible_state st1'"
  using m
proof cases
  case match_timer
  then show ?thesis
    using rel inv step
    by (auto simp: serves_as_v1_def compatible_state_def cfg_compatible_def pollLoop_start_def
        split: loop_phase.splits)
next
  case (match_poll mibs clock ts img listing)
  then obtain pc where ph: "sv1_phase st1 = Polling pc"
    and st1': "st1' = poll_completed_v1 (\<lambda>rid. mib_agent_v1 (mibs rid)) clock ts pc st1"
    using step by (auto split: loop_phase.splits)
  have pc: "list_all (\<lambda>(rid, r). v1_compatible r) pc" using inv ph by (simp add: compatible_state_def)
  have "compatible_state st1'"
    using inv st1'
    by (simp add: compatible_state_def cfg_compatible_def poll_completed_v1_def schedule_v1_def broadcast_v1_def
        Let_def split: prod.splits)
  then show ?thesis using poll_simulated [OF rel ph pc match_poll(3)] match_poll st1' by auto
next
  case match_throws
  then show ?thesis
    using rel inv step
    by (auto simp: serves_as_v1_def compatible_state_def schedule_def schedule_v1_def split: loop_phase.splits)
next
  case (match_reload dd ex parsed listing)
  then show ?thesis
    using reload_simulated [OF rel match_reload(3)] reload_compatible [OF inv match_reload(4)] step by auto
qed

lemma run_v1_simulated:
  assumes "list_all2 events_match evs1 evss" "serves_as_v1 st1 st" "compatible_state st1"
    "run_v1 DATA_DIR CONFIG_PATH st1 evs1 = Some st1'"
  shows "\<exists>st'. run st (concat evss) = Some st' \<and> serves_as_v1 st1' st'"
  using assms
proof (induction evs1 evss arbitrary: st1 st rule: list_all2_induct)
  case (Cons ev1 evs1 evs evss)
  then obtain st1m where s1: "loop_step_v1 DATA_DIR CONFIG_PATH st1 ev1 = Some st1m"
    and r1: "run_v1 DATA_DIR CONFIG_PATH st1m evs1 = Some st1'"
    by (auto split: option.splits)
  obtain stm where "run st evs = Some stm" "serves_as_v1 st1m stm" "compatible_state st1m"
    using loop_step_v1_simulated [OF Cons.prems(1,2) Cons.hyps(1) s1] by blast
  then show ?case using Cons.IH [of st1m stm] r1 by (simp add: run_append)
qed simp

lemma server_start_simulated:
  assumes "server_start_v1 DATA_DIR CONFIG_PATH dd ex parsed = Some st1"
    and "loadRuntimeConfig dd ex parsed = loadRuntimeConfig_v1 DATA_DIR CONFIG_PATH dd ex parsed"
    and "loads_compatible dd ex parsed"
  shows "\<exists>st. server_start dd ex parsed listing = Some st \<and> serves_as_v1 st1 st \<and> compatible_state st1"
  using assms
  by (auto simp: server_start_v1_def server_start_def server_init_def serves_as_v1_def compatible_state_def
      loads_compatible_def cfg_compatible_def split: sum.splits)

text \<open>C16 (refinement): Every run of the older server (older loader, single-GET sampler, poll loop without PNG, watcher without pruning) is matched event for event by a run of the current server with the same configuration, latest payload, sample cache, schedule and broadcast log, when both loaders read the configuration alike, the OIDs of each router are distinct and the devices answer every OID.\<close>

theorem older_server_refined:
  assumes "server_start_v1 DATA_DIR CONFIG_PATH dd ex parsed = Some st1"
    and "loadRuntimeConfig dd ex parsed = loadRuntimeConfig_v1 DATA_DIR CONFIG_PATH dd ex parsed"
    and "loads_compatible dd ex parsed"
    and "list_all2 events_match evs1 evss"
    and "run_v1 DATA_DIR CONFIG_PATH st1 evs1 = Some st1'"
  shows "\<exists>st st'. server_start dd ex parsed listing = Some st \<and> run st (concat evss) = Some st' \<and>
           serves_as_v1 st1' st'"
proof -
  obtain st where "server_start dd ex parsed listing = Some st" "serves_as_v1 st1 st" "compatible_state st1"
    using server_start_simulated [OF assms(1-3)] by blast
  then show ?thesis using run_v1_simulated [OF assms(4) _ _ assms(5)] by blast
qed

text \<open>The API routes answer alike in corresponding states, unless the older
  server finds a file of that name in the frontend directory first.\<close>

lemma http_get_v1_api:
  assumes "serves_as_v1 st1 st" "route \<in> {BACKGROUND_ROUTE, ''/api/topology'', ''/healthz'', ''/api/metrics''}"
    and "\<not> readable (static_file_v1 route)"
  shows "http_get_v1 readable route st1 = http_get readable route st"
  using assms
  by (auto simp: http_get_v1_def http_get_def serves_as_v1_def api_metrics_def BACKGROUND_ROUTE_def
      split: option.splits)

text \<open>The root path changed meaning: the older server answers it with the
  live page, the current one with the latest PNG.\<close>

lemma http_get_root_changed:
  "readable (STATIC_ROOT @ ''/index.html'') \<Longrightarrow> http_get_v1 readable ''/'' st1 = SendFile (STATIC_ROOT @ ''/index.html'')"
  "http_get readable ''/'' st = sendLatestSnapshot readable st"
  by (simp_all add: http_get_v1_def static_file_v1_def http_get_def BACKGROUND_ROUTE_def)

subsection \<open>Example\<close>

text \<open>The two-router configuration of \<open>Config\<close>, polled once with devices
  answering 100 to every OID, then the timer.\<close>

lemma ex_start_v1: "server_start_v1 DATA_DIR CONFIG_PATH True True (Some ex_raw_config) =
  Some (the (server_start_v1 DATA_DIR CONFIG_PATH True True (Some ex_raw_config)))"
  by (simp add: server_start_v1_def loadRuntimeConfig_v1_def config_eval normaliseRouters_v1_def normalise_router_v1_def Let_def)

lemma ex_loads_compatible: "loads_compatible True True (Some ex_raw_config)"
  by (simp add: loads_compatible_def cfg_compatible_def v1_compatible_def speedless_def unsized_or_positive_def
     loadRuntimeConfig_v1_def config_eval normaliseRouters_v1_def normalise_router_v1_def Let_def sampler_v1_eval sampler_eval)

lemma ex_run_v1: "run_v1 DATA_DIR CONFIG_PATH (the (server_start_v1 DATA_DIR CONFIG_PATH True True (Some ex_raw_config)))
   [PollCompletes_v1 (\<lambda>rid. mib_agent_v1 ((\<lambda>_ _. VbNumber 100) rid)) (\<lambda>_. 1000) ''t'', TimerFires_v1] =
   Some (the (run_v1 DATA_DIR CONFIG_PATH (the (server_start_v1 DATA_DIR CONFIG_PATH True True (Some ex_raw_config)))
   [PollCompletes_v1 (\<lambda>rid. mib_agent_v1 ((\<lambda>_ _. VbNumber 100) rid)) (\<lambda>_. 1000) ''t'', TimerFires_v1]))"
  by (simp add: server_start_v1_def loadRuntimeConfig_v1_def config_eval normaliseRouters_v1_def normalise_router_v1_def Let_def
     poll_completed_v1_def schedule_v1_def broadcast_v1_def split: prod.splits)

theorem older_server_refined_witness:
  "\<exists>st st'. server_start True True (Some ex_raw_config) (False, []) = Some st \<and>
     run st [PollCompletes (\<lambda>rid. mib_agent ((\<lambda>_ _. VbNumber 100) rid)) (\<lambda>_. 1000) ''t'', SnapshotSaved None (False, []),
             TimerFires] = Some st' \<and>
     serves_as_v1 (the (run_v1 DATA_DIR CONFIG_PATH (the (server_start_v1 DATA_DIR CONFIG_PATH True True (Some ex_raw_config)))
       [PollCompletes_v1 (\<lambda>rid. mib_agent_v1 ((\<lambda>_ _. VbNumber 100) rid)) (\<lambda>_. 1000) ''t'', TimerFires_v1])) st'"
proof -
  have m: "list_all2 events_match
      [PollCompletes_v1 (\<lambda>rid. mib_agent_v1 ((\<lambda>_ _. VbNumber 100) rid)) (\<lambda>_. 1000) ''t'', TimerFires_v1]
      [[PollCompletes (\<lambda>rid. mib_agent ((\<lambda>_ _. VbNumber 100) rid)) (\<lambda>_. 1000) ''t'', SnapshotSaved None (False, [])],
       [TimerFires]]"
    by (simp add: match_poll match_timer)
  have same: "loadRuntimeConfig True True (Some ex_raw_config) = loadRuntimeConfig_v1 DATA_DIR CONFIG_PATH True True (Some ex_raw_config)"
    by (simp add: loadRuntimeConfig_v1_def config_eval normaliseRouters_v1_def normalise_router_v1_def Let_def
       resolveDataPath_def resolveDataPath_v1_def)
  from older_server_refined [OF ex_start_v1 same ex_loads_compatible m ex_run_v1, of "(False, [])"]
  show ?thesis by simp
qed


end
