(* ===== verification/Documentation.thy ===== *)
theory Documentation
  imports FrontendHud PollLoopV1
begin

text \<open>
  The Markdown documents of the repository (\<open>src/unnamed/part_001\<close> to
  \<open>part_003\<close>: the contributing guide and the READMEs) promise behaviour of
  the program.  This theory states those promises over the model: the
  configuration outlines they print (translated key by key into
  \<^typ>\<open>raw_config\<close> values), the snapshot file-name pattern, the Layout
  Mode workflow of copying the JSON snippet back into \<open>config.yaml\<close>, the
  fallback of a speed OID to the static bandwidth, and what the exported PNG
  contains.  Where the code keeps the promise the lemma proves it; where it
  does not, the lemma shows what the code does instead.
\<close>

subsection \<open>The configuration outlines\<close>

text \<open>The YAML outline of the READMEs.  Three copies exist: the current README
  (\<open>part_003\<close>, lines 73--115, with \<open>oid_speed_scale\<close>), the one of the
  contributing guide's companion (\<open>part_002\<close>, lines 72--113, without the
  scale) and the oldest README (\<open>part_003\<close>, lines 190--230, without
  \<open>oid_speed\<close>); they differ in the title and in the interface keys.  The
  arrows of the labels are their UTF-8 bytes.  \<open>ip: 10.0.0.1\<close> is a string
  to YAML.\<close>

definition RIGHT_ARROW :: string where "RIGHT_ARROW = [CHR 0xE2, CHR 0x86, CHR 0x92]"
definition LEFT_RIGHT_ARROW :: string where "LEFT_RIGHT_ARROW = [CHR 0xE2, CHR 0x86, CHR 0x94]"

definition readme_interface :: "string option \<Rightarrow> number option \<Rightarrow> raw_interface_config" where
  "readme_interface speed speedScale =
     \<lparr>ri_name = ''uplink_edge1'', ri_oid_in = ''.1.3.6.1.2.1.2.2.1.10.2'', ri_oid_out = ''.1.3.6.1.2.1.2.2.1.16.2'',
      ri_max_bandwidth = Some 1000000000, ri_oid_speed = speed, ri_oid_speed_scale = speedScale,
      ri_display_name = Some (''Core '' @ RIGHT_ARROW @ '' Edge 1'')\<rparr>"

definition readme_router :: "raw_interface_config \<Rightarrow> raw_router_config" where
  "readme_router iface =
     \<lparr>rr_ip = ''10.0.0.1'', rr_community = ''public'', rr_label = Some ''Core 1'',
      rr_position = Some \<lparr>rp_x = Some 450, rp_y = Some 450\<rparr>, rr_interfaces = Some [iface]\<rparr>"

definition readme_links :: "raw_link_config list" where
  "readme_links =
     [\<lparr>rl_id = Some ''core-edge1'', rl_from = ''core1'', rl_to = ''edge1'', rl_iface_from = ''uplink_edge1'',
       rl_iface_to = ''core_feed'', rl_label = Some (''Core '' @ LEFT_RIGHT_ARROW @ '' Edge 1''), rl_path = None\<rparr>,
      \<lparr>rl_id = Some ''core-edge2'', rl_from = ''core1'', rl_to = ''edge2'', rl_iface_from = ''uplink_edge2'',
       rl_iface_to = ''core_feed'', rl_label = Some (''Core '' @ LEFT_RIGHT_ARROW @ '' Edge 2''),
       rl_path = Some [Some \<lparr>rp_x = Some 780, rp_y = Some 560\<rparr>, Some \<lparr>rp_x = Some 920, rp_y = Some 640\<rparr>]\<rparr>]"

text \<open>The whole document: \<open>meta\<close>, \<open>map\<close>, \<open>routers\<close> and \<open>links\<close>.\<close>

definition readme_config :: "string \<Rightarrow> raw_interface_config \<Rightarrow> raw_config" where
  "readme_config metaTitle iface =
     \<lparr>cf_title = Some metaTitle, cf_poll_interval_ms = Some 5000, cf_background = Some ''background.png'',
      cf_size = Some \<lparr>rz_width = Some 1600, rz_height = Some 900\<rparr>,
      cf_routers = Some [(''core1'', readme_router iface)], cf_links = Some readme_links\<rparr>"

definition readme_config_current :: raw_config where
  "readme_config_current =
     readme_config ''My Weathermap'' (readme_interface (Some ''.1.3.6.1.2.1.2.2.1.5.2'') (Some 1000))"

definition readme_config_manage :: raw_config where
  "readme_config_manage =
     readme_config ''Sample Network Weathermap'' (readme_interface (Some ''.1.3.6.1.2.1.2.2.1.5.2'') None)"

definition readme_config_oldest :: raw_config where
  "readme_config_oldest = readme_config ''Sample Network Weathermap'' (readme_interface None None)"

subsection \<open>The snapshot file name\<close>

text \<open>The READMEs (\<open>part_002\<close> line 63, \<open>part_003\<close> line 53) give the name
  pattern \<open>yyyy-mm-dd-hh-mm-ss.png\<close>: a letter of the pattern stands for a
  decimal digit, every other character for itself.\<close>

definition SNAPSHOT_NAME_PATTERN :: string where
  "SNAPSHOT_NAME_PATTERN = ''yyyy-mm-dd-hh-mm-ss.png''"

fun matches_pattern :: "string \<Rightarrow> string \<Rightarrow> bool" where
  "matches_pattern [] cs = (cs = [])"
| "matches_pattern (p # ps) [] = False"
| "matches_pattern (p # ps) (c # cs) =
     ((if p \<in> set ''ymdhs'' then is_digit c else c = p) \<and> matches_pattern ps cs)"

subsection \<open>Layout Mode: the snippet pasted into the configuration\<close>

text \<open>"Copy the generated JSON snippet (bottom of the HUD) into
  \<open>config.yaml\<close> to persist coordinates" (\<open>part_002\<close> lines 148--149): every
  router the snippet names gets the snippet's position in the \<open>routers\<close>
  mapping, and nothing else changes.  \<open>moved_router\<close> and
  \<open>moved_config\<close> describe the expected outcome on the loaded topology.\<close>

definition paste_router :: "layout_entry js_object \<Rightarrow> ident \<times> raw_router_config \<Rightarrow> ident \<times> raw_router_config" where
  "paste_router snippet entry =
     (case entry of (rid, r) \<Rightarrow>
        (rid, case obj_get snippet rid of
                Some e \<Rightarrow> r\<lparr>rr_position := Some \<lparr>rp_x = Some (pos_x (le_position e)), rp_y = Some (pos_y (le_position e))\<rparr>\<rparr>
              | None \<Rightarrow> r))"

definition paste_layout :: "layout_entry js_object \<Rightarrow> raw_config \<Rightarrow> raw_config" where
  "paste_layout snippet raw = raw\<lparr>cf_routers := map_option (map (paste_router snippet)) (cf_routers raw)\<rparr>"

definition moved_router :: "layout_entry js_object \<Rightarrow> router_definition \<Rightarrow> router_definition" where
  "moved_router snippet d = (case obj_get snippet (rd_id d) of Some e \<Rightarrow> d\<lparr>rd_position := le_position e\<rparr> | None \<Rightarrow> d)"

definition moved_config :: "layout_entry js_object \<Rightarrow> runtime_config \<Rightarrow> runtime_config" where
  "moved_config snippet cfg =
     cfg\<lparr>rt_topology := (rt_topology cfg)\<lparr>routers := map (moved_router snippet) (routers (rt_topology cfg))\<rparr>\<rparr>"

subsection \<open>Examples\<close>

definition ex_speed_iface :: interface_config where
  "ex_speed_iface = ex_iface\<lparr>oid_speed := Some ''1.3''\<rparr>"

definition ex_speed_router_cfg :: router_config where
  "ex_speed_router_cfg = ex_router\<lparr>rc_interfaces := [ex_speed_iface]\<rparr>"

definition ex_dragged :: topology_definition where
  "ex_dragged = ex_speed_topology\<lparr>routers := [\<lparr>rd_id = ''r1'', rd_label = ''r1'',
     rd_position = \<lparr>pos_x = 10.25, pos_y = 20.5\<rparr>, rd_interfaces = []\<rparr>]\<rparr>"

subsection \<open>Lemmas\<close>

lemma is_digit_char_of [simp]: "is_digit (char_of (48 + n mod 10 :: nat))"
  by (simp add: is_digit_def of_char_of)

lemma rd_id_moved_router [simp]: "rd_id (moved_router snip d) = rd_id d"
  by (simp add: moved_router_def split: option.splits)

lemma normalise_router_paste:
  "normalise_router (paste_router snip e) =
     (case normalise_router e of Inl err \<Rightarrow> Inl err | Inr (rid, pc, d) \<Rightarrow> Inr (rid, pc, moved_router snip d))"
  by (cases e) (auto simp: normalise_router_def paste_router_def moved_router_def raw_position_def Let_def
      split: option.splits sum.splits)

lemma normaliseRouters_paste:
  "normaliseRouters (map (paste_router snip) rs) =
     (case normaliseRouters rs of Inl e \<Rightarrow> Inl e | Inr (pc, ds) \<Rightarrow> Inr (pc, map (moved_router snip) ds))"
proof -
  have "map_sum normalise_router (map (paste_router snip) rs) =
          (case map_sum normalise_router rs of Inl e \<Rightarrow> Inl e
           | Inr ys \<Rightarrow> Inr (map (\<lambda>(rid, pc, d). (rid, pc, moved_router snip d)) ys))"
    by (rule map_sum_map_Inr) (simp add: normalise_router_paste split: sum.splits prod.splits)
  moreover have "foldl (\<lambda>acc (rid, pc, d). obj_set rid pc acc) a (map (\<lambda>(rid, pc, d). (rid, pc, moved_router snip d)) ys) =
                   foldl (\<lambda>acc (rid, pc, d). obj_set rid pc acc) a ys" for a ys
    by (induction ys arbitrary: a) auto
  ultimately show ?thesis
    by (simp add: normaliseRouters_def comp_def case_prod_beta split: sum.splits)
qed

lemma obj_get_paste: "obj_get (map (paste_router snip) rs) k = map_option (\<lambda>r. snd (paste_router snip (k, r))) (obj_get rs k)"
  by (induction rs) (auto simp: paste_router_def split: option.splits)

lemma check_link_paste: "check_link (map (paste_router snip) rs) = check_link rs"
  by (rule ext) (simp add: check_link_def obj_get_paste paste_router_def split: option.splits)

lemma normaliseLinks_paste: "normaliseLinks ls (map (paste_router snip) rs) = normaliseLinks ls rs"
  unfolding normaliseLinks_def check_link_paste by (rule refl)

lemma loadRuntimeConfig_paste:
  "loadRuntimeConfig dd ex (Some (paste_layout snip raw)) =
     (case loadRuntimeConfig dd ex (Some raw) of Inl e \<Rightarrow> Inl e | Inr cfg \<Rightarrow> Inr (moved_config snip cfg))"
  by (auto simp: loadRuntimeConfig_def readConfigFile_def paste_layout_def normaliseRouters_paste normaliseLinks_paste
      moved_config_def comp_def paste_router_def case_prod_beta map_size_of_def Let_def split: option.splits sum.splits prod.splits)

lemma snapshot_labels_painted:
  "r \<in> set (routers t) \<Longrightarrow>
     \<exists>x y. FillText (rd_label r) x y \<in> set (snd (renderMapSnapshot lc mt il bg toLocal now t mets))"
  by (force simp: renderMapSnapshot_def drawRouter_def router_label_cmds_def Let_def)

subsection \<open>Properties\<close>

text \<open>The configuration outline printed in each README is rejected by the loader of its revision with the error that link core-edge1 references the unknown router edge1: the outline is not a loadable configuration.\<close>

theorem readme_outline_rejected:
  \<open>loadRuntimeConfig True True (Some readme_config_current) =
     Inl ''Link "core-edge1" references unknown router "edge1"'' \<and>
   loadRuntimeConfig True True (Some readme_config_manage) =
     Inl ''Link "core-edge1" references unknown router "edge1"'' \<and>
   loadRuntimeConfig_v1 DATA_DIR CONFIG_PATH True True (Some readme_config_oldest) =
     Inl ''Link "core-edge1" references unknown router "edge1"''\<close>
  by (simp add: readme_config_current_def readme_config_manage_def readme_config_oldest_def loadRuntimeConfig_def loadRuntimeConfig_v1_def readConfigFile_def readme_config_def readme_router_def
      readme_interface_def readme_links_def normaliseRouters_def normalise_router_def normalise_interface_def
      has_static_bandwidth_def trimmed_speed_oid_def normaliseRouters_v1_def normalise_router_v1_def
      normaliseLinks_def link_of_raw_def normalizePath_def check_link_def Let_def js_trim_def is_js_space_def)

text \<open>C37 (functional): For a local time within the ranges of the Date getters and a four-digit year, the snapshot file name matches the documented pattern yyyy-mm-dd-hh-mm-ss.png, each letter a decimal digit.\<close>

theorem snapshot_file_name_pattern:
  "getter_ranges d \<Longrightarrow> matches_pattern SNAPSHOT_NAME_PATTERN (snapshot_file_name d)"
  by (simp add: SNAPSHOT_NAME_PATTERN_def snapshot_file_name_def formatFileTimestamp_digits digits_fixed_4
      digits_fixed_2 del: digits_fixed.simps)

text \<open>C36 (roundtrip): Pasting the Layout Mode snippet of a page topology with distinct router ids into an accepted configuration, as the README describes, yields a configuration that loads, with the same poll configuration, links and router order, and every router named by the snippet at the position the page showed rounded by Math.round.\<close>

theorem layout_snippet_roundtrip:
  assumes load: "loadRuntimeConfig dd ex (Some raw) = Inr cfg"
    and ids: "distinct (map rd_id (routers t))"
  shows "\<exists>cfg'. loadRuntimeConfig dd ex (Some (paste_layout (the (layout_positions (Some t))) raw)) = Inr cfg' \<and>
           rt_routerPollConfig cfg' = rt_routerPollConfig cfg \<and> links (rt_topology cfg') = links (rt_topology cfg) \<and>
           map rd_id (routers (rt_topology cfg')) = map rd_id (routers (rt_topology cfg)) \<and>
           (\<forall>r \<in> set (routers (rt_topology cfg')). \<forall>r0 \<in> set (routers t). rd_id r0 = rd_id r \<longrightarrow>
              rd_position r = \<lparr>pos_x = js_round (pos_x (rd_position r0)), pos_y = js_round (pos_y (rd_position r0))\<rparr>)"
proof -
  let ?snip = "the (layout_positions (Some t))"
  have snip: "obj_get ?snip (rd_id r0) =
                Some \<lparr>le_position = \<lparr>pos_x = js_round (pos_x (rd_position r0)), pos_y = js_round (pos_y (rd_position r0))\<rparr>\<rparr>"
    if "r0 \<in> set (routers t)" for r0
    using foldl_obj_set_distinct [OF ids that] by (simp add: layout_positions_def)
  have "rd_position r = \<lparr>pos_x = js_round (pos_x (rd_position r0)), pos_y = js_round (pos_y (rd_position r0))\<rparr>"
    if r: "r \<in> set (routers (rt_topology (moved_config ?snip cfg)))" and r0: "r0 \<in> set (routers t)"
      and eq: "rd_id r0 = rd_id r" for r r0
  proof -
    obtain r1 where "r = moved_router ?snip r1" using r by (auto simp: moved_config_def)
    then show ?thesis using snip [OF r0] eq by (auto simp: moved_router_def split: option.splits)
  qed
  then have pos: "\<forall>r \<in> set (routers (rt_topology (moved_config ?snip cfg))). \<forall>r0 \<in> set (routers t). rd_id r0 = rd_id r \<longrightarrow>
              rd_position r = \<lparr>pos_x = js_round (pos_x (rd_position r0)), pos_y = js_round (pos_y (rd_position r0))\<rparr>"
    by blast
  have L: "loadRuntimeConfig dd ex (Some (paste_layout ?snip raw)) = Inr (moved_config ?snip cfg)"
    using load by (simp add: loadRuntimeConfig_paste)
  have "rt_routerPollConfig (moved_config ?snip cfg) = rt_routerPollConfig cfg"
    "links (rt_topology (moved_config ?snip cfg)) = links (rt_topology cfg)"
    "map rd_id (routers (rt_topology (moved_config ?snip cfg))) = map rd_id (routers (rt_topology cfg))"
    by (simp_all add: moved_config_def rd_id_moved_router comp_def)
  with L pos show ?thesis by blast
qed

text \<open>C35 (error): When the device answers the speed OID of an interface with an error varbind (the OID is missing), the interface keeps its static bandwidth, as the README promises, but carries the varbind error with status error, and so does the router: the documented fallback turns the interface red.\<close>

theorem speed_oid_error_fallback:
  assumes ifs: "rc_interfaces router = [iface]"
    and oin: "sanitizeOid (oid_in iface) = Inr oi" and oout: "sanitizeOid (oid_out iface) = Inr oo"
    and sp: "oid_speed iface = Some spd" "spd \<noteq> []" and osp: "sanitizeOid spd = Inr os"
    and bw: "max_bandwidth iface = Some b" "0 < b"
    and ans: "agent [oi, oo, os] = Inr [VbNumber x, VbNumber y, VbError msg]" and msg: "msg \<noteq> []"
  shows "\<exists>s. rs_interfaces (fst (pollRouter rid router agent now cache)) = [(ic_name iface, s)] \<and>
           maxBandwidth s = b \<and> im_error s = Some msg \<and> im_status s = Error \<and>
           rs_status (fst (pollRouter rid router agent now cache)) = Error"
  using assms
  by (simp add: pollRouter_def prepare_interface_def prepare_counter_def prepare_speed_def add_entry_def
      makeInterfaceSample_def query_target_def apply_varbind_def record_error_def finalize_interface_def
      finalize_sample_def has_error_def metricStatus_def sample_status_def combineStatuses_def combine_step_max Let_def
      split: prod.splits)

text \<open>C38 (safety): The exported PNG paints the label of every router of the topology and the map title, although the README says the image contains no topology details.\<close>

theorem snapshot_shows_topology:
  assumes "r \<in> set (routers t)"
  shows "(\<exists>x y. FillText (rd_label r) x y \<in> set (snd (renderMapSnapshot lc mt il bg toLocal now t mets))) \<and>
         (\<exists>x y. FillText (case title t of Some s \<Rightarrow> s | None \<Rightarrow> ''TS Weathermap'') x y
                  \<in> set (snd (renderMapSnapshot lc mt il bg toLocal now t mets)))"
  using snapshot_labels_painted [OF assms]
  by (auto simp: renderMapSnapshot_def drawLegendOverlay_def Let_def)

subsection \<open>Witnesses\<close>

theorem snapshot_file_name_pattern_witness:
  "getter_ranges ex_noon \<and> matches_pattern SNAPSHOT_NAME_PATTERN (snapshot_file_name ex_noon)"
proof -
  have r: "getter_ranges ex_noon" by (simp add: getter_ranges_def ex_noon_def)
  show ?thesis using snapshot_file_name_pattern [OF r] r by simp
qed

theorem layout_snippet_roundtrip_witness:
  "\<exists>cfg'. loadRuntimeConfig True True (Some (paste_layout (the (layout_positions (Some ex_dragged))) ex_raw_config)) = Inr cfg' \<and>
     map rd_position (filter (\<lambda>r. rd_id r = ''r1'') (routers (rt_topology cfg'))) = [\<lparr>pos_x = 10, pos_y = 21\<rparr>]"
proof -
  have ids: "distinct (map rd_id (routers ex_dragged))" by (simp add: ex_dragged_def)
  have r1: "map rd_id (routers (rt_topology (projr (loadRuntimeConfig True True (Some ex_raw_config))))) = [''r1'', ''r2'']"
    by (simp add: config_eval Let_def)
  have js: "js_round 10.25 = 10" "js_round 20.5 = 21" by (simp_all add: js_round_def)
  from layout_snippet_roundtrip [OF ex_load ids] obtain cfg' where
    L: "loadRuntimeConfig True True (Some (paste_layout (the (layout_positions (Some ex_dragged))) ex_raw_config)) = Inr cfg'"
    and ids': "map rd_id (routers (rt_topology cfg')) = [''r1'', ''r2'']"
    and pos: "\<forall>r \<in> set (routers (rt_topology cfg')). \<forall>r0 \<in> set (routers ex_dragged). rd_id r0 = rd_id r \<longrightarrow>
               rd_position r = \<lparr>pos_x = js_round (pos_x (rd_position r0)), pos_y = js_round (pos_y (rd_position r0))\<rparr>"
    using r1 by auto
  obtain a b where ab: "routers (rt_topology cfg') = [a, b]" "rd_id a = ''r1''" "rd_id b = ''r2''"
    using ids' by (auto simp: map_eq_Cons_conv)
  have "rd_position a = \<lparr>pos_x = 10, pos_y = 21\<rparr>"
    using pos ab js by (simp add: ex_dragged_def)
  then show ?thesis using L ab by simp
qed

theorem speed_oid_error_fallback_witness:
  "\<exists>s. rs_interfaces (fst (pollRouter ''r1'' ex_speed_router_cfg (\<lambda>_. Inr [VbNumber 1, VbNumber 2, VbError ''noSuchObject'']) 1000 Map.empty))
        = [(''ge0'', s)] \<and> maxBandwidth s = 1000 \<and> im_error s = Some ''noSuchObject'' \<and> im_status s = Error \<and>
     rs_status (fst (pollRouter ''r1'' ex_speed_router_cfg (\<lambda>_. Inr [VbNumber 1, VbNumber 2, VbError ''noSuchObject'']) 1000 Map.empty)) = Error"
proof -
  have o: "sanitizeOid ''1.1'' = Inr ''1.1''" "sanitizeOid ''1.2'' = Inr ''1.2''" "sanitizeOid ''1.3'' = Inr ''1.3''"
    by (simp_all add: sanitizeOid_def js_trim_def is_js_space_def all_digits_def is_digit_def)
  show ?thesis
    using speed_oid_error_fallback [of ex_speed_router_cfg ex_speed_iface "''1.1''" "''1.2''" "''1.3''" "''1.3''"
        1000 "\<lambda>_. Inr [VbNumber 1, VbNumber 2, VbError ''noSuchObject'']" 1 2 "''noSuchObject''" "''r1''" 1000 Map.empty] o
    by (simp add: ex_speed_router_cfg_def ex_speed_iface_def ex_iface_def ex_router_def)
qed

theorem snapshot_shows_topology_witness:
  "(\<exists>x y. FillText ''r1'' x y \<in> set (snd (renderMapSnapshot code_unit_compare (\<lambda>_. 30) (\<lambda>_. False) [] (\<lambda>_. ex_noon) ex_noon
                                   ex_speed_topology ex_speed_metrics))) \<and>
   (\<exists>x y. FillText ''TS Weathermap'' x y \<in> set (snd (renderMapSnapshot code_unit_compare (\<lambda>_. 30) (\<lambda>_. False) [] (\<lambda>_. ex_noon) ex_noon
                                   ex_speed_topology ex_speed_metrics)))"
proof -
  have r: "ex_speed_router ''r1'' ''ge0'' \<in> set (routers ex_speed_topology)" by (simp add: ex_speed_topology_def)
  show ?thesis
    using snapshot_shows_topology [OF r, of code_unit_compare "\<lambda>_. 30" "\<lambda>_. False" "[]" "\<lambda>_. ex_noon" ex_noon ex_speed_metrics]
    by (simp add: ex_speed_router_def ex_speed_topology_def)
qed

end
