(* ===== verification/Spec2Isabelle.thy ===== *)
theory Spec2Isabelle
  imports FrontendV2 Documentation
begin

text \<open>
  \<^bold>\<open>A verification library for ts-weathermap.\<close>

  ts-weathermap polls the octet counters of network interfaces over SNMP,
  turns them into rates and utilizations, and draws a map of routers and
  links coloured by utilization, both as a PNG on the server and live in the
  browser.  The back end (\<open>src/src/backend.ts\<close>) loads a YAML configuration,
  runs a poll loop that samples every router (the sampler, \<open>src/src/snmp.ts\<close>
  and its newer version \<open>src/unnamed/part_000\<close>), resolves the samples against
  the topology, publishes the payload over HTTP and WebSocket and renders a
  snapshot (\<open>src/src/map-renderer.ts\<close>).  The browser (\<open>src/src/frontend/main.ts\<close>)
  receives the topology and the payloads and draws the same map interactively,
  with a layout mode in which routers are dragged.  The files \<open>backend.ts\<close>
  and \<open>main.ts\<close> hold several revisions one after the other; the model
  follows the current one and says where it models an older one.

  \<^bold>\<open>Theories and the code they model.\<close>
  \<^item> \<open>WM_Prelude\<close>: the vocabulary.  A JavaScript number is an exact
    \<^typ>\<open>real\<close> (IEEE rounding and NaN are not modelled); a
    \<open>Record<string, T>\<close> is an association list updated in place
    (\<open>obj_get\<close>, \<open>obj_set\<close>); \<open>Math.hypot\<close>, \<open>Array.join\<close>, a stable
    \<open>Array.sort\<close> with a comparator (\<open>sort_by_cmp\<close>), and \<open>map_sum\<close>, the
    \<open>map\<close> whose callback may throw, with the lemmas all components share.
  \<^item> \<open>WM_Types\<close>: the shared types of \<open>shared/types.ts\<close> as records and
    datatypes, and the severity order of statuses.
  \<^item> \<open>Status\<close> and \<open>Sampler\<close>: \<open>metricStatus\<close>, \<open>combineStatuses\<close>,
    \<open>sanitizeOid\<close>, \<open>computeThroughput\<close> and \<open>pollRouter\<close> in its four
    phases.  The module's \<open>sampleCache\<close> is passed and returned; the SNMP
    session is an agent function from the OIDs of a GET to an error or the
    varbinds; \<open>Date.now()\<close> is an argument.  \<open>pollRouters\<close> runs the routers
    one after the other: each router's reads and writes of the cache happen in
    its own synchronous final loop, so the concurrent code has the same
    effect.
  \<^item> \<open>SamplerV1\<close>: the older \<open>pollRouter\<close> of \<open>snmp.ts\<close>, one GET
    for all OIDs with the varbinds matched through \<open>oidMap\<close> (a map from
    the normalised OID to the interface and direction).  It is proved to
    return what the current sampler returns when the OIDs of a router are
    distinct and the device answers every OID with a number or an error
    (\<open>mib_agent\<close>, \<open>mib_agent_v1\<close>: one device seen through either
    agent), and shown to lose a counter when two interfaces share an OID.
  \<^item> \<open>Resolver\<close>: \<open>toRouterMetrics\<close> and \<open>toLinkMetrics\<close>.
  \<^item> \<open>Config\<close>: \<open>readConfigFile\<close>, \<open>normaliseRouters\<close>,
    \<open>normalizePath\<close>, \<open>normaliseLinks\<close>, \<open>resolveDataPath\<close> and
    \<open>loadRuntimeConfig\<close>, and the older loader; each \<open>throw\<close> is an \<open>Inl\<close>.
    Whether files exist and what YAML parses to are arguments (js-yaml's
    rejection of a repeated router key included);
    \<open>path.basename\<close> and \<open>path.join\<close> follow Node's POSIX semantics.
    \<open>wf_runtime_config\<close> states what every loaded configuration satisfies.
  \<^item> \<open>Geometry\<close>: \<open>splitPathAtHalf\<close>, \<open>computeAutoPath\<close>,
    \<open>computeLinkPaths\<close>, \<open>capacityToWidth\<close>.  \<open>localeCompare\<close> is a
    comparator parameter (code-unit order in the examples).
  \<^item> \<open>Renderer\<close>: the offline renderer as the list of commands it issues to
    an abstract canvas (\<open>canvas_cmd\<close>, the drawing surface of the design),
    the background (image or gradient) and the timestamps of the legend and of
    the file name included; text width is the parameter \<open>measureText\<close>,
    whether the image loads is \<open>imageLoads\<close>, and the local time of a
    timestamp is \<open>toLocalTime\<close>.  Snapshot file names compare as their
    times do (\<open>formatFileTimestamp_order\<close>).
  \<^item> \<open>Frontend\<close>: the drawing code of the browser, each copy proved equal
    to the offline one or shown to differ (link capacities).
  \<^item> \<open>FrontendUI\<close>: the text helpers, canvas sizing, layout mode and
    message handling of the browser as a state machine \<open>ui_step\<close> over
    \<open>ui_state\<close> with reachability \<open>ui_reachable\<close>.
  \<^item> \<open>FrontendV2\<close>: the second copy of the page in \<open>main.ts\<close> (lines
    914--1772) where it differs from the first: capacities from the topology
    only, each link one stroke in the aggregate colour with its label at
    \<open>getPathMidpoint\<close>, metrics messages that rebuild nothing, and error
    lines of the side panel that are not escaped; its state machine
    \<open>ui_step_v2\<close> reuses the handlers that are the same text.
  \<^item> \<open>FrontendHud\<close>: what the side panel shows apart from its markup: the
    five most utilised links (\<open>linkRanking\<close>, proved to be the top five in
    order), the status of each router card and the layout snippet
    (\<open>layout_positions\<close>: each router id mapped to a one-field object
    \<open>{position: ...}\<close> with the rounded coordinates).
  \<^item> \<open>Retention\<close>: \<open>collectSnapshotFiles\<close> and \<open>pruneSnapshots\<close> over a
    directory listing given as an argument.
  \<^item> \<open>PollLoop\<close>: \<open>pollLoop\<close>, \<open>saveSnapshotImage\<close>, \<open>broadcast\<close> and the
    configuration reload as a step function \<open>loop_step\<close> over the events
    that resume the asynchronous code, with reachability \<open>reachable\<close>;
    each event carries what the code reads from outside (SNMP answers, the
    clock, the loader's inputs on a reload, the image directory).  Start-up
    (\<open>server_start\<close>) and every reload run the loader, so the configuration
    in force is well-formed in every reachable state; whatever the outcome
    of the poll or of the snapshot in flight, the loop's own events re-arm
    the timer and start the next poll (\<open>pollLoop_cycle_repolls\<close>); and,
    unlike what the README says, saving a snapshot unlinks every PNG beyond
    the 50 newest (\<open>snapshot_saved_prunes\<close>).
  \<^item> \<open>Server\<close>: the HTTP GET routes as a function of the path and the
    server state.
  \<^item> \<open>PollLoopV1\<close>: the older revision of the server (\<open>backend.ts\<close>
    lines 326--417: older sampler, no PNG, no pruning, static files at the root)
    as a step function \<open>loop_step_v1\<close>, and the refinement
    \<open>older_server_refined\<close>: each run of it is matched by a run of the
    current server with the same configuration, payload, cache, schedule and
    broadcast log (\<open>serves_as_v1\<close>), when the two loaders read the file alike,
    the OIDs of each router are distinct and the devices answer every OID.
  \<^item> \<open>Documentation\<close>: the promises of the Markdown documents
    (\<open>src/unnamed/part_001\<close> to \<open>part_003\<close>) stated over the model: the
    README configuration outlines as \<^typ>\<open>raw_config\<close> values (rejected by
    the loader: they link to undeclared routers), the snapshot file-name
    pattern, the Layout Mode workflow of pasting the snippet into the
    configuration (a round trip through \<open>layout_positions\<close> and
    \<open>loadRuntimeConfig\<close>), the speed-OID fallback (kept, but the interface
    is reported as an error) and what the PNG shows.
  \<^item> This theory: the properties that span the loader and the resolver.

  \<^bold>\<open>What the lemmas show.\<close>  For each component: its invariant and that
  every operation keeps it (the cache frame of \<open>pollRouter\<close>, the publication
  invariant of the poll loop, the cache and drag invariants of the browser);
  the result of each operation on every branch, errors included; equivalence
  of the copies in the browser with the offline code and refinement of the
  older loader and of the older server by the current ones; termination of the loops (structural
  recursion, or a \<open>function\<close> with a measure for the unit loop of
  \<open>formatThroughput\<close>); round trips (\<open>sanitizeOid\<close>, \<open>escapeHtml\<close>); and
  the bounds of widths and rates.  Each claim of the manifest is a theorem
  preceded by a text naming it, with a witness that applies it to a concrete
  input where it has hypotheses.  No loop of the model needs fuel: every
  recursion is over a list or measured.

  \<^bold>\<open>What is not modelled.\<close>  The SNMP transport, HTTP, WebSocket and file
  I/O (their results are arguments or events); the PNG encoding, the
  decoding of the background image and the time zone; the markup of \<open>renderHud\<close>, \<open>getLayoutSnippet\<close>'s
  \<open>JSON.stringify\<close>, \<open>updateSidebarVisibility\<close> and the clipboard; the number-to-string conversions,
  which are parameters; the compiled JavaScript
  at the end of \<open>main.ts\<close> (lines 1773--2491, generated from the second
  copy, whose behaviour \<open>FrontendV2\<close> models); the older
  \<open>toRouterMetrics\<close>, which differs from the current one only in publishing
  no \<open>maxBandwidth\<close> for an interface without one (see \<open>PollLoopV1\<close>);
  \<open>session.close()\<close> and the
  promise plumbing of the samplers, which do not change their results; the
  prose of the Markdown documents about Docker, npm and nginx, which
  describes the environment and not the program.
\<close>

section \<open>The loader and the resolver together\<close>

lemma endpoint_published:
  assumes "distinct (map rd_id (routers t))" "d \<in> set (routers t)" "n \<in> if_name ` set (rd_interfaces d)"
  shows "endpoint_metrics (toRouterMetrics snapshot t) (rd_id d) n \<noteq> None"
proof -
  have "obj_get (toRouterMetrics snapshot t) (rd_id d) = Some (router_entry snapshot d)"
    using assms(1,2) by (rule toRouterMetrics_entry)
  moreover have "n \<in> fst ` set (rm_interfaces (router_entry snapshot d))"
    using assms(3) by (simp add: router_entry_keys)
  ultimately show ?thesis
    by (simp add: endpoint_metrics_def map_of_eq_None_iff)
qed

text \<open>C12 (safety): For a configuration the loader accepts (router keys distinct) and any poll snapshot, every link the resolver publishes carries metrics for both of its endpoint interfaces: the referential integrity the resolver relies on is established by the loader.\<close>

theorem accepted_config_links_resolve:
  assumes "loadRuntimeConfig dd ex (Some raw) = Inr cfg" "cf_routers raw = Some rs" "distinct (map fst rs)"
  shows "\<forall>lm \<in> set (toLinkMetrics (toRouterMetrics snapshot (rt_topology cfg)) (links (rt_topology cfg))).
           forward lm \<noteq> None \<and> reverse lm \<noteq> None"
proof
  fix lm
  assume "lm \<in> set (toLinkMetrics (toRouterMetrics snapshot (rt_topology cfg)) (links (rt_topology cfg)))"
  then obtain l where l: "l \<in> set (links (rt_topology cfg))"
    and lm: "lm = link_entry (toRouterMetrics snapshot (rt_topology cfg)) l"
    by (auto simp: toLinkMetrics_def)
  note L = loadRuntimeConfig_links [OF assms]
  then obtain d1 d2 where "d1 \<in> set (routers (rt_topology cfg))" "rd_id d1 = ld_from l"
      "ld_ifaceFrom l \<in> if_name ` set (rd_interfaces d1)"
    and "d2 \<in> set (routers (rt_topology cfg))" "rd_id d2 = ld_to l"
      "ld_ifaceTo l \<in> if_name ` set (rd_interfaces d2)"
    using l by blast
  then show "forward lm \<noteq> None \<and> reverse lm \<noteq> None"
    using endpoint_published [of "rt_topology cfg"] L lm by (metis link_entry_endpoints)
qed

theorem accepted_config_links_resolve_witness:
  "list_all (\<lambda>lm. forward lm \<noteq> None \<and> reverse lm \<noteq> None)
     (toLinkMetrics (toRouterMetrics [] (rt_topology (projr (loadRuntimeConfig True True (Some ex_raw_config)))))
        (links (rt_topology (projr (loadRuntimeConfig True True (Some ex_raw_config))))))"
  using accepted_config_links_resolve [OF ex_load ex_raw_routers_ok] by (simp add: list_all_iff)

end
